(* ===== verification/Cxx_Prelude.thy ===== *)
theory Cxx_Prelude
  imports Main "HOL-Library.Word" "HOL-Library.Sublist"
begin

text \<open>
  The vocabulary every component shares: C++ outcomes (a value, a thrown exception, or
  undefined behaviour), computations over a mutable state, the operations of
  \<open>std::string\<close> and of fixed-width integers that the handlers use, and the loop
  combinator for the \<open>while\<close> loops that may run for ever.

  A \<open>std::string\<close> is a \<open>string\<close> (a list of 8-bit \<open>char\<close>), so a network buffer and a
  textual header have the same type, as they have in the code.
\<close>

named_theorems wp_simps \<open>computing the weakest precondition of a computation\<close>
named_theorems run_simps \<open>running a computation on a concrete state\<close>

section \<open>Outcomes\<close>

text \<open>
  The exceptions the sources throw, let escape or catch. \<open>CharPtr\<close> is
  \<open>throw "..."\<close>: it is not a \<open>std::exception\<close>, so \<open>catch (std::exception &)\<close> does
  not catch it.
\<close>

datatype exn =
    InvalidArgument string
  | OutOfRange string
  | LogicError string
  | BadAnyCast
  | RuntimeError string
  | StdException string
  | CharPtr string

fun is_std_exception :: "exn \<Rightarrow> bool" where
  "is_std_exception (CharPtr _) = False"
| "is_std_exception _ = True"

fun is_invalid_argument :: "exn \<Rightarrow> bool" where
  "is_invalid_argument (InvalidArgument _) = True"
| "is_invalid_argument _ = False"

fun is_logic_error :: "exn \<Rightarrow> bool" where
  "is_logic_error (InvalidArgument _) = True"
| "is_logic_error (OutOfRange _) = True"
| "is_logic_error (LogicError _) = True"
| "is_logic_error _ = False"

text \<open>\<open>what()\<close> of an exception.\<close>

fun exn_what :: "exn \<Rightarrow> string" where
  "exn_what (InvalidArgument s) = s"
| "exn_what (OutOfRange s) = s"
| "exn_what (LogicError s) = s"
| "exn_what BadAnyCast = ''bad any_cast''"
| "exn_what (RuntimeError s) = s"
| "exn_what (StdException s) = s"
| "exn_what (CharPtr s) = s"

lemma invalid_argument_is_logic_error: "is_invalid_argument e \<Longrightarrow> is_logic_error e"
  by (cases e) auto

lemma logic_error_is_std: "is_logic_error e \<Longrightarrow> is_std_exception e"
  by (cases e) auto

datatype ub =
    OutOfBounds           \<comment> \<open>a read past the end of a buffer\<close>
  | SignedOverflow        \<comment> \<open>overflow of a signed \<open>int\<close>\<close>
  | EndIterator           \<comment> \<open>a dereference of \<open>end()\<close>\<close>
  | UninitialisedPointer  \<comment> \<open>a use of a pointer that was never assigned\<close>
  | NullPointer
  | DanglingPointer       \<comment> \<open>a use of an object whose lifetime is over\<close>
  | DoubleFree
  | Uninitialised         \<comment> \<open>a read of memory that was never written\<close>

datatype failure = Thrown exn | Undefined ub

type_synonym 'a res = "failure + 'a"

definition bindR :: "'a res \<Rightarrow> ('a \<Rightarrow> 'b res) \<Rightarrow> 'b res" where
  "bindR m f = (case m of Inl e \<Rightarrow> Inl e | Inr a \<Rightarrow> f a)"

lemma bindR_simps [simp]:
  "bindR (Inl e) f = Inl e"
  "bindR (Inr a) f = f a"
  by (simp_all add: bindR_def)

lemma bindR_Inr: "bindR m f = Inr b \<longleftrightarrow> (\<exists>a. m = Inr a \<and> f a = Inr b)"
  by (cases m) auto

section \<open>Computations over a mutable state\<close>

text \<open>
  A computation maps the state to an outcome and the state it leaves behind. The state
  survives a throw: what the code did before the exception stays done.
\<close>

type_synonym ('s, 'a) cmd = "'s \<Rightarrow> 'a res \<times> 's"

definition retM :: "'a \<Rightarrow> ('s, 'a) cmd" where
  "retM a s = (Inr a, s)"

definition failM :: "failure \<Rightarrow> ('s, 'a) cmd" where
  "failM f s = (Inl f, s)"

definition bindM :: "('s, 'a) cmd \<Rightarrow> ('a \<Rightarrow> ('s, 'b) cmd) \<Rightarrow> ('s, 'b) cmd" where
  "bindM m f s = (case m s of (Inl e, s') \<Rightarrow> (Inl e, s') | (Inr a, s') \<Rightarrow> f a s')"

definition seqM :: "('s, 'a) cmd \<Rightarrow> ('s, 'b) cmd \<Rightarrow> ('s, 'b) cmd" where
  "seqM m k = bindM m (\<lambda>_. k)"

definition getM :: "('s \<Rightarrow> 'a) \<Rightarrow> ('s, 'a) cmd" where
  "getM f s = (Inr (f s), s)"

definition updM :: "('s \<Rightarrow> 's) \<Rightarrow> ('s, unit) cmd" where
  "updM f s = (Inr (), f s)"

definition resM :: "'a res \<Rightarrow> ('s, 'a) cmd" where
  "resM r s = (r, s)"

definition whenM :: "bool \<Rightarrow> ('s, unit) cmd \<Rightarrow> ('s, unit) cmd" where
  "whenM b m = (if b then m else retM ())"

text \<open>\<open>try { m } catch (std::exception &e) { h }\<close>: other failures pass through.\<close>

definition tryM :: "('s, 'a) cmd \<Rightarrow> (exn \<Rightarrow> ('s, 'a) cmd) \<Rightarrow> ('s, 'a) cmd" where
  "tryM m h s = (case m s of
      (Inl (Thrown e), s') \<Rightarrow> (if is_std_exception e then h e s' else (Inl (Thrown e), s'))
    | r \<Rightarrow> r)"

primrec forM :: "('a \<Rightarrow> ('s, unit) cmd) \<Rightarrow> 'a list \<Rightarrow> ('s, unit) cmd" where
  "forM f [] = retM ()"
| "forM f (x # xs) = seqM (f x) (forM f xs)"

text \<open>
  A loop whose body says whether to go round again. The budget \<open>n\<close> bounds the number of
  rounds looked at; the flag of the result is \<open>True\<close> when the loop was still running
  after \<open>n\<close> rounds, so a run that does not end is described by all its finite prefixes.
\<close>

primrec run_loop :: "nat \<Rightarrow> ('s, bool) cmd \<Rightarrow> ('s, bool) cmd" where
  "run_loop 0 body = retM True"
| "run_loop (Suc n) body = bindM body (\<lambda>again. if again then run_loop n body else retM False)"

subsection \<open>Weakest preconditions\<close>

definition wp :: "('s, 'a) cmd \<Rightarrow> ('a \<Rightarrow> 's \<Rightarrow> bool) \<Rightarrow> (failure \<Rightarrow> 's \<Rightarrow> bool) \<Rightarrow> 's \<Rightarrow> bool" where
  "wp m Q E s = (case m s of (Inl f, s') \<Rightarrow> E f s' | (Inr a, s') \<Rightarrow> Q a s')"

lemma wp_cases: "wp m Q E s \<longleftrightarrow> (\<forall>r s'. m s = (r, s') \<longrightarrow> (case r of Inl f \<Rightarrow> E f s' | Inr a \<Rightarrow> Q a s'))"
  by (cases "m s") (auto simp: wp_def split: sum.splits)

lemma wp_mono:
  assumes "wp m Q E s"
    and "\<And>a s'. Q a s' \<Longrightarrow> Q' a s'" and "\<And>f s'. E f s' \<Longrightarrow> E' f s'"
  shows "wp m Q' E' s"
  using assms by (auto simp: wp_def split: prod.splits sum.splits)

lemma wp_conj: "wp m Q E s \<Longrightarrow> wp m Q' E' s \<Longrightarrow> wp m (\<lambda>a s. Q a s \<and> Q' a s) (\<lambda>f s. E f s \<and> E' f s) s"
  by (auto simp: wp_def split: prod.splits sum.splits)

lemma wp_ret [wp_simps]: "wp (retM a) Q E s = Q a s"
  by (simp add: wp_def retM_def)

lemma wp_fail [wp_simps]: "wp (failM f) Q E s = E f s"
  by (simp add: wp_def failM_def)

lemma wp_bind [wp_simps]: "wp (bindM m f) Q E s = wp m (\<lambda>a. wp (f a) Q E) E s"
  by (auto simp: wp_def bindM_def split: prod.splits sum.splits)

lemma wp_seq [wp_simps]: "wp (seqM m k) Q E s = wp m (\<lambda>_. wp k Q E) E s"
  by (simp add: seqM_def wp_bind)

lemma wp_get [wp_simps]: "wp (getM f) Q E s = Q (f s) s"
  by (simp add: wp_def getM_def)

lemma wp_upd [wp_simps]: "wp (updM f) Q E s = Q () (f s)"
  by (simp add: wp_def updM_def)

lemma wp_res [wp_simps]: "wp (resM r) Q E s = (case r of Inl f \<Rightarrow> E f s | Inr a \<Rightarrow> Q a s)"
  by (simp add: wp_def resM_def)

lemma wp_when [wp_simps]: "wp (whenM b m) Q E s = (if b then wp m Q E s else Q () s)"
  by (simp add: whenM_def wp_ret)

lemma wp_if [wp_simps]: "wp (if b then m else k) Q E s = (if b then wp m Q E s else wp k Q E s)"
  by simp

lemma wp_try [wp_simps]:
  "wp (tryM m h) Q E s =
     wp m Q (\<lambda>f s'. case f of
        Thrown e \<Rightarrow> if is_std_exception e then wp (h e) Q E s' else E f s'
      | Undefined u \<Rightarrow> E f s') s"
  by (auto simp: wp_def tryM_def split: prod.splits sum.splits failure.splits)

subsection \<open>Generating verification conditions\<close>

text \<open>
  The same rules as introductions, one per construct, so that \<open>intro vcg\<close> walks through a
  computation and leaves one goal per path with the path's conditions as assumptions.
\<close>

named_theorems vcg \<open>introduction rules for weakest preconditions\<close>

definition escapes :: "failure \<Rightarrow> bool" where
  "escapes f \<longleftrightarrow> (case f of Thrown e \<Rightarrow> \<not> is_std_exception e | Undefined _ \<Rightarrow> True)"

definition on_fail ::
    "(exn \<Rightarrow> ('s, 'a) cmd) \<Rightarrow> ('a \<Rightarrow> 's \<Rightarrow> bool) \<Rightarrow> (failure \<Rightarrow> 's \<Rightarrow> bool) \<Rightarrow> failure \<Rightarrow> 's \<Rightarrow> bool" where
  "on_fail h Q E f s =
     (case f of Thrown e \<Rightarrow> if is_std_exception e then wp (h e) Q E s else E f s | Undefined u \<Rightarrow> E f s)"

lemma vcg_ret [vcg]: "Q a s \<Longrightarrow> wp (retM a) Q E s"
  by (simp add: wp_ret)

lemma vcg_fail [vcg]: "E f s \<Longrightarrow> wp (failM f) Q E s"
  by (simp add: wp_fail)

lemma vcg_bind [vcg]: "wp m (\<lambda>a. wp (f a) Q E) E s \<Longrightarrow> wp (bindM m f) Q E s"
  by (simp add: wp_bind)

lemma vcg_seq [vcg]: "wp m (\<lambda>_. wp k Q E) E s \<Longrightarrow> wp (seqM m k) Q E s"
  by (simp add: wp_seq)

lemma vcg_get [vcg]: "Q (f s) s \<Longrightarrow> wp (getM f) Q E s"
  by (simp add: wp_get)

lemma vcg_upd [vcg]: "Q () (f s) \<Longrightarrow> wp (updM f) Q E s"
  by (simp add: wp_upd)

lemma vcg_res [vcg]:
  "(\<And>a. r = Inr a \<Longrightarrow> Q a s) \<Longrightarrow> (\<And>f. r = Inl f \<Longrightarrow> E f s) \<Longrightarrow> wp (resM r) Q E s"
  by (cases r) (simp_all add: wp_res)

lemma vcg_when [vcg]: "(b \<Longrightarrow> wp m Q E s) \<Longrightarrow> (\<not> b \<Longrightarrow> Q () s) \<Longrightarrow> wp (whenM b m) Q E s"
  by (simp add: wp_when)

lemma vcg_if [vcg]: "(b \<Longrightarrow> wp m Q E s) \<Longrightarrow> (\<not> b \<Longrightarrow> wp k Q E s) \<Longrightarrow> wp (if b then m else k) Q E s"
  by simp

lemma vcg_try [vcg]: "wp m Q (on_fail h Q E) s \<Longrightarrow> wp (tryM m h) Q E s"
  unfolding wp_try on_fail_def by (rule wp_mono) (auto split: failure.splits)

lemma vcg_on_fail [vcg]:
  assumes "\<And>e. f = Thrown e \<Longrightarrow> is_std_exception e \<Longrightarrow> wp (h e) Q E s" and "escapes f \<Longrightarrow> E f s"
  shows "on_fail h Q E f s"
  using assms by (auto simp: on_fail_def escapes_def split: failure.split)

text \<open>Only the last computation of a sequence decides its result.\<close>

lemma wp_result_bind:
  assumes "\<And>a u. wp (f a) (\<lambda>r _. P r) (\<lambda>_ _. True) u"
  shows "wp (bindM m f) (\<lambda>r _. P r) (\<lambda>_ _. True) s"
  by (simp add: wp_bind wp_def [of m] assms split: prod.split sum.split)

lemma wp_result_ret: "P a \<Longrightarrow> wp (seqM m (retM a)) (\<lambda>r _. P r) (\<lambda>_ _. True) s"
  unfolding seqM_def by (rule wp_result_bind) (simp add: wp_ret)

text \<open>The loop rule: an invariant of the rounds that go on, a postcondition of the last one.\<close>

lemma wp_run_loop:
  assumes step: "\<And>s. I s \<Longrightarrow> wp body (\<lambda>again s'. if again then I s' else Q s') E s"
    and init: "I s"
  shows "wp (run_loop n body) (\<lambda>running s'. if running then I s' else Q s') E s"
  using init
proof (induction n arbitrary: s)
  case 0
  then show ?case by (simp add: wp_simps)
next
  case (Suc n)
  have "wp (if again then run_loop n body else retM False)
      (\<lambda>running s'. if running then I s' else Q s') E s'"
    if "if again then I s' else Q s'" for again s'
    using that Suc.IH by (cases again) (auto simp: wp_simps)
  with step [OF Suc.prems] show ?case
    unfolding run_loop.simps wp_bind by (blast intro: wp_mono)
qed

text \<open>The same with a measure of the state that goes down: the loop is over within its budget.\<close>

lemma wp_run_loop_ends:
  assumes step: "\<And>s. I s \<Longrightarrow> wp body (\<lambda>again s'. again \<longrightarrow> I s' \<and> \<mu> s' < (\<mu> s :: nat)) (\<lambda>_ _. True) s"
    and "I s" and "\<mu> s < n"
  shows "wp (run_loop n body) (\<lambda>running _. \<not> running) (\<lambda>_ _. True) s"
  using assms(2,3)
proof (induction n arbitrary: s)
  case 0
  then show ?case by simp
next
  case (Suc n)
  have "wp (if again then run_loop n body else retM False) (\<lambda>running _. \<not> running) (\<lambda>_ _. True) s'"
    if "again \<longrightarrow> I s' \<and> \<mu> s' < \<mu> s" for again s'
    using that Suc by (cases again) (auto simp: wp_ret)
  then show ?case
    unfolding run_loop.simps wp_bind by (intro wp_mono [OF step [OF Suc.prems(1)]]) auto
qed

lemma wp_forM:
  assumes step: "\<And>x s. x \<in> set xs \<Longrightarrow> I s \<Longrightarrow> wp (f x) (\<lambda>_. I) E s" and init: "I s"
  shows "wp (forM f xs) (\<lambda>_. I) E s"
  using step init
proof (induction xs arbitrary: s)
  case Nil
  then show ?case by (simp add: wp_simps)
next
  case (Cons x xs)
  have "wp (f x) (\<lambda>_. I) E s" using Cons.prems by simp
  moreover have "wp (forM f xs) (\<lambda>_. I) E s'" if "I s'" for s'
    using Cons.IH [OF _ that] Cons.prems(1) by simp
  ultimately have "wp (f x) (\<lambda>_. wp (forM f xs) (\<lambda>_. I) E) E s"
    by (blast intro: wp_mono)
  then show ?case by (simp add: wp_simps)
qed

lemmas cmd_defs = retM_def failM_def bindM_def seqM_def getM_def updM_def resM_def whenM_def tryM_def

declare cmd_defs [run_simps]

section \<open>std::string\<close>

text \<open>
  \<open>substr\<close> throws \<open>std::out_of_range\<close> when the start lies past the end and clamps the
  length. \<open>operator[]\<close> yields the terminating NUL at \<open>size()\<close> and is undefined
  beyond it; a negative \<open>int\<close> index converts to a huge \<open>size_t\<close>.
\<close>

abbreviation nul :: char where
  "nul \<equiv> CHR 0x00"

definition npos :: nat where
  "npos = 2 ^ 64 - 1"

definition std_substr :: "string \<Rightarrow> nat \<Rightarrow> nat \<Rightarrow> string res" where
  "std_substr s pos n =
     (if pos > length s then Inl (Thrown (OutOfRange ''basic_string::substr''))
      else Inr (take n (drop pos s)))"

definition std_index :: "string \<Rightarrow> int \<Rightarrow> char res" where
  "std_index s i =
     (if 0 \<le> i \<and> i < int (length s) then Inr (s ! nat i)
      else if i = int (length s) then Inr nul
      else Inl (Undefined OutOfBounds))"

definition std_find_char :: "string \<Rightarrow> char \<Rightarrow> nat \<Rightarrow> nat" where
  "std_find_char s c pos =
     (let k = pos + length (takeWhile (\<lambda>x. x \<noteq> c) (drop pos s))
      in if k < length s then k else npos)"

lemma std_index_Inr: "std_index s i = Inr c \<Longrightarrow> 0 \<le> i \<and> i \<le> int (length s)"
  by (auto simp: std_index_def split: if_splits)

lemma std_index_nat: "k < length s \<Longrightarrow> std_index s (int k) = Inr (s ! k)"
  by (simp add: std_index_def)

lemma std_index_append [simp]:
  "std_index (xs @ c # ys) (int (length xs)) = Inr c"
  by (simp add: std_index_def)

lemma std_find_char_first:
  assumes "c \<notin> set ys"
  shows "std_find_char (xs @ ys @ c # zs) c (length xs) = length xs + length ys"
proof -
  have "takeWhile (\<lambda>x. x \<noteq> c) (ys @ c # zs) = ys"
    using assms by (induction ys) auto
  then show ?thesis by (simp add: std_find_char_def)
qed

text \<open>\<open>std::to_string(int)\<close>.\<close>

fun decimal :: "nat \<Rightarrow> string" where
  "decimal n = (if n < 10 then [char_of (48 + n)] else decimal (n div 10) @ [char_of (48 + n mod 10)])"

declare decimal.simps [simp del]

definition std_to_string :: "int \<Rightarrow> string" where
  "std_to_string i = (if i < 0 then CHR ''-'' # decimal (nat (- i)) else decimal (nat i))"

section \<open>Fixed-width integers\<close>

text \<open>
  The conversion of an unsigned or wider value to a 32-bit \<open>int\<close> (modular since C++20, the
  standard the build file selects), and signed addition, whose overflow is undefined.
\<close>

definition to_int32 :: "int \<Rightarrow> int" where
  "to_int32 x = (x + 2 ^ 31) mod 2 ^ 32 - 2 ^ 31"

definition int_add :: "int \<Rightarrow> int \<Rightarrow> int res" where
  "int_add a b =
     (if - (2 ^ 31) \<le> a + b \<and> a + b < 2 ^ 31 then Inr (a + b) else Inl (Undefined SignedOverflow))"

lemma to_int32_id: "- (2 ^ 31) \<le> x \<Longrightarrow> x < 2 ^ 31 \<Longrightarrow> to_int32 x = x"
  by (simp add: to_int32_def)

lemma to_int32_range: "- (2 ^ 31) \<le> to_int32 x \<and> to_int32 x < 2 ^ 31"
  by (simp add: to_int32_def)

lemma int_add_Inr: "int_add a b = Inr c \<longleftrightarrow> c = a + b \<and> - (2 ^ 31) \<le> c \<and> c < 2 ^ 31"
  by (auto simp: int_add_def)

end
