(* ===== verification/Proxy_Runtime.thy ===== *)
theory Proxy_Runtime
  imports Cxx_Prelude
begin

text \<open>
  The runtime a proxy thread works in. Sockets, \<open>SocketSelect\<close>, the load balancer, the
  UUID generator and the clock are not part of the repository: they are the operations of
  an environment record over an arbitrary world \<open>'w\<close>, each of which may throw. What the
  thread does to the outside is recorded in a trace of events, appended to by the very
  operation that has the effect, so that a property of a pipeline is a property of its
  trace in every environment.

  \<open>LOG_INFO\<close>, \<open>LOG_ERROR\<close> and writes to \<open>std::cout\<close> are not recorded;
  \<open>LOG_QUERY\<close> and \<open>LOG_LATENCY\<close>, which are the proxy's product, are.
\<close>

section \<open>Sockets, events, execution context\<close>

datatype side = Client | Target

text \<open>The two sides can be enumerated, so that a predicate about both of them computes.\<close>

instantiation side :: enum
begin

definition "enum_side = [Client, Target]"

definition "enum_all_side P = (P Client \<and> P Target)"

definition "enum_ex_side P = (P Client \<or> P Target)"

instance proof
  have all: "(\<forall>d. P d) \<longleftrightarrow> P Client \<and> P Target" for P by (metis side.exhaust)
  show "(UNIV :: side set) = set enum_class.enum" by (auto simp: enum_side_def) (metis side.exhaust)
  show "distinct (enum_class.enum :: side list)" by (simp add: enum_side_def)
  show "enum_class.enum_all P \<longleftrightarrow> Ball UNIV P" for P :: "side \<Rightarrow> bool" by (simp add: enum_all_side_def all)
  show "enum_class.enum_ex P \<longleftrightarrow> Bex UNIV P" for P :: "side \<Rightarrow> bool" using all [of "\<lambda>d. \<not> P d"] by (auto simp: enum_ex_side_def)
qed

end

text \<open>
  A socket object: the plain one of a side, or the TLS object wrapped around the same
  descriptor (\<open>SSLSocket\<close>, \<open>CClientSSLSocket\<close>).
\<close>

datatype sock = Raw side | Tls side

fun side_of :: "sock \<Rightarrow> side" where
  "side_of (Raw d) = d"
| "side_of (Tls d) = d"

record endpoint =
  ipaddress :: string
  port :: int

datatype event =
    Recv sock string          \<comment> \<open>\<open>ReceiveBytes\<close> returned these bytes\<close>
  | RecvBlocked sock string   \<comment> \<open>\<open>RecvBlocking\<close> filled a buffer with these bytes\<close>
  | Sent sock string          \<comment> \<open>\<open>SendBytes\<close> returned normally\<close>
  | SendFailed sock string    \<comment> \<open>\<open>SendBytes\<close> threw\<close>
  | Opened sock
  | Closed sock
  | Deleted sock
  | Uuid string               \<comment> \<open>a correlation id was generated\<close>
  | LogQuery string string    \<comment> \<open>\<open>LOG_QUERY(correlation id, query)\<close>\<close>
  | LogLatency string int "endpoint option"

text \<open>\<open>std::any\<close> as the code uses it, and the \<open>EXECUTION_CONTEXT\<close> map.\<close>

datatype any = AnyEmpty | AnyString string | AnyU32 "32 word" | AnyTime int

type_synonym exec_context = "string \<rightharpoonup> any"

fun any_cast_string :: "any \<Rightarrow> string res" where
  "any_cast_string (AnyString s) = Inr s"
| "any_cast_string _ = Inl (Thrown BadAnyCast)"

fun any_cast_u32 :: "any \<Rightarrow> 32 word res" where
  "any_cast_u32 (AnyU32 n) = Inr n"
| "any_cast_u32 _ = Inl (Thrown BadAnyCast)"

fun any_cast_time :: "any \<Rightarrow> int res" where
  "any_cast_time (AnyTime t) = Inr t"
| "any_cast_time _ = Inl (Thrown BadAnyCast)"

record 'w thread =
  world :: 'w
  ctx :: exec_context
  trace :: "event list"

text \<open>The environment: every operation of the engine that a pipeline calls.\<close>

record 'w env =
  x_request_server :: "'w \<Rightarrow> (exn + endpoint) \<times> 'w"
  x_connect :: "sock \<Rightarrow> endpoint \<Rightarrow> 'w \<Rightarrow> (exn + unit) \<times> 'w"
  x_wrap_tls :: "sock \<Rightarrow> 'w \<Rightarrow> (exn + unit) \<times> 'w"
  x_set_read_timeout :: "sock \<Rightarrow> 'w \<Rightarrow> (exn + unit) \<times> 'w"
  x_set_keep_alive :: "sock \<Rightarrow> 'w \<Rightarrow> (exn + unit) \<times> 'w"
  x_select :: "sock \<Rightarrow> sock option \<Rightarrow> 'w \<Rightarrow> (exn + unit) \<times> 'w"
  x_readable :: "sock \<Rightarrow> 'w \<Rightarrow> (exn + bool) \<times> 'w"
  x_receive :: "sock \<Rightarrow> 'w \<Rightarrow> (exn + string) \<times> 'w"
  x_recv_blocking :: "sock \<Rightarrow> nat \<Rightarrow> 'w \<Rightarrow> (exn + (nat \<Rightarrow> char)) \<times> 'w"
  x_send :: "sock \<Rightarrow> string \<Rightarrow> 'w \<Rightarrow> (exn + unit) \<times> 'w"
  x_close :: "sock \<Rightarrow> 'w \<Rightarrow> (exn + unit) \<times> 'w"
  x_delete :: "sock \<Rightarrow> 'w \<Rightarrow> 'w"
  x_uuid :: "'w \<Rightarrow> (exn + string) \<times> 'w"
  x_now :: "'w \<Rightarrow> int \<times> 'w"

section \<open>Effects\<close>

definition extern :: "('w \<Rightarrow> (exn + 'a) \<times> 'w) \<Rightarrow> ('a \<Rightarrow> event list) \<Rightarrow> event list \<Rightarrow> ('w thread, 'a) cmd" where
  "extern f ok bad t = (case f (world t) of
      (Inl e, w) \<Rightarrow> (Inl (Thrown e), t\<lparr>world := w, trace := trace t @ bad\<rparr>)
    | (Inr a, w) \<Rightarrow> (Inr a, t\<lparr>world := w, trace := trace t @ ok a\<rparr>))"

definition emit :: "event \<Rightarrow> ('w thread, unit) cmd" where
  "emit e = updM (\<lambda>t. t\<lparr>trace := trace t @ [e]\<rparr>)"

definition request_server :: "'w env \<Rightarrow> ('w thread, endpoint) cmd" where
  "request_server env = extern (x_request_server env) (\<lambda>_. []) []"

definition connect :: "'w env \<Rightarrow> sock \<Rightarrow> endpoint \<Rightarrow> ('w thread, unit) cmd" where
  "connect env k ep = extern (x_connect env k ep) (\<lambda>_. [Opened k]) []"

definition wrap_tls :: "'w env \<Rightarrow> sock \<Rightarrow> ('w thread, unit) cmd" where
  "wrap_tls env k = extern (x_wrap_tls env k) (\<lambda>_. [Opened k]) []"

definition set_read_timeout :: "'w env \<Rightarrow> sock \<Rightarrow> ('w thread, unit) cmd" where
  "set_read_timeout env k = extern (x_set_read_timeout env k) (\<lambda>_. []) []"

definition set_keep_alive :: "'w env \<Rightarrow> sock \<Rightarrow> ('w thread, unit) cmd" where
  "set_keep_alive env k = extern (x_set_keep_alive env k) (\<lambda>_. []) []"

definition select :: "'w env \<Rightarrow> sock \<Rightarrow> sock option \<Rightarrow> ('w thread, unit) cmd" where
  "select env c t = extern (x_select env c t) (\<lambda>_. []) []"

definition readable :: "'w env \<Rightarrow> sock \<Rightarrow> ('w thread, bool) cmd" where
  "readable env k = extern (x_readable env k) (\<lambda>_. []) []"

definition receive_bytes :: "'w env \<Rightarrow> sock \<Rightarrow> ('w thread, string) cmd" where
  "receive_bytes env k = extern (x_receive env k) (\<lambda>b. [Recv k b]) []"

definition send_bytes :: "'w env \<Rightarrow> sock \<Rightarrow> string \<Rightarrow> ('w thread, unit) cmd" where
  "send_bytes env k b = extern (x_send env k b) (\<lambda>_. [Sent k b]) [SendFailed k b]"

text \<open>
  \<open>RecvBlocking(buf, n)\<close> and the contents of the \<open>n\<close>-byte buffer afterwards. Its
  return value is ignored everywhere, so the buffer is taken whole, whatever of it was
  filled.
\<close>

definition recv_blocking :: "'w env \<Rightarrow> sock \<Rightarrow> nat \<Rightarrow> ('w thread, string) cmd" where
  "recv_blocking env k n =
     bindM (extern (x_recv_blocking env k n) (\<lambda>buf. [RecvBlocked k (map buf [0..<n])]) [])
       (\<lambda>buf. retM (map buf [0..<n]))"

definition close_socket :: "'w env \<Rightarrow> sock \<Rightarrow> ('w thread, unit) cmd" where
  "close_socket env k = extern (x_close env k) (\<lambda>_. [Closed k]) []"

definition delete_socket :: "'w env \<Rightarrow> sock \<Rightarrow> ('w thread, unit) cmd" where
  "delete_socket env k = updM (\<lambda>t. t\<lparr>world := x_delete env k (world t), trace := trace t @ [Deleted k]\<rparr>)"

definition generate_uuid :: "'w env \<Rightarrow> ('w thread, string) cmd" where
  "generate_uuid env = extern (x_uuid env) (\<lambda>u. [Uuid u]) []"

definition now :: "'w env \<Rightarrow> ('w thread, int) cmd" where
  "now env t = (case x_now env (world t) of (i, w) \<Rightarrow> (Inr i, t\<lparr>world := w\<rparr>))"

definition log_query :: "string \<Rightarrow> string \<Rightarrow> ('w thread, unit) cmd" where
  "log_query c q = emit (LogQuery c q)"

text \<open>\<open>(*exec_context)[key]\<close>: a missing key is inserted with an empty \<open>std::any\<close>.\<close>

definition ctx_at :: "string \<Rightarrow> ('w thread, any) cmd" where
  "ctx_at k = bindM (getM ctx) (\<lambda>m. case m k of
      Some v \<Rightarrow> retM v
    | None \<Rightarrow> seqM (updM (\<lambda>t. t\<lparr>ctx := (ctx t)(k \<mapsto> AnyEmpty)\<rparr>)) (retM AnyEmpty))"

definition ctx_put :: "string \<Rightarrow> any \<Rightarrow> ('w thread, unit) cmd" where
  "ctx_put k v = updM (\<lambda>t. t\<lparr>ctx := (ctx t)(k \<mapsto> v)\<rparr>)"

subsection \<open>Weakest preconditions of the effects\<close>

lemma wp_extern [wp_simps]:
  "wp (extern f ok bad) Q E t = (case f (world t) of
      (Inl e, w) \<Rightarrow> E (Thrown e) (t\<lparr>world := w, trace := trace t @ bad\<rparr>)
    | (Inr a, w) \<Rightarrow> Q a (t\<lparr>world := w, trace := trace t @ ok a\<rparr>))"
  by (simp add: wp_def extern_def split: prod.splits sum.splits)

lemma wp_now [wp_simps]:
  "wp (now env) Q E t = (case x_now env (world t) of (i, w) \<Rightarrow> Q i (t\<lparr>world := w\<rparr>))"
  by (simp add: wp_def now_def split: prod.splits)

lemma wp_ctx_at [wp_simps]:
  "wp (ctx_at k) Q E t = (case ctx t k of
      Some v \<Rightarrow> Q v t
    | None \<Rightarrow> Q AnyEmpty (t\<lparr>ctx := (ctx t)(k \<mapsto> AnyEmpty)\<rparr>))"
  by (simp add: ctx_at_def wp_simps split: option.splits)

lemmas effect_defs = request_server_def connect_def wrap_tls_def set_read_timeout_def
  set_keep_alive_def select_def readable_def receive_bytes_def send_bytes_def
  recv_blocking_def close_socket_def delete_socket_def generate_uuid_def log_query_def
  emit_def ctx_put_def

lemmas effect_run_defs = effect_defs extern_def now_def ctx_at_def

text \<open>
  The same rules for a safety proof, where the environment may answer anything: one
  obligation per outcome, the new thread state known by its trace and context only. (Naming
  the state keeps the obligations small.)
\<close>

lemma vcg_extern [vcg]:
  assumes "\<And>e t'. trace t' = trace t @ bad \<Longrightarrow> ctx t' = ctx t \<Longrightarrow> E (Thrown e) t'"
    and "\<And>a t'. trace t' = trace t @ ok a \<Longrightarrow> ctx t' = ctx t \<Longrightarrow> Q a t'"
  shows "wp (extern f ok bad) Q E t"
  using assms by (simp add: wp_extern split: prod.splits sum.splits)

lemma vcg_now [vcg]:
  assumes "\<And>i t'. trace t' = trace t \<Longrightarrow> ctx t' = ctx t \<Longrightarrow> Q i t'"
  shows "wp (now env) Q E t"
  using assms by (simp add: wp_now split: prod.split)

lemma vcg_ctx_put [vcg]:
  assumes "\<And>t'. trace t' = trace t \<Longrightarrow> ctx t' = (ctx t)(k \<mapsto> v) \<Longrightarrow> Q () t'"
  shows "wp (ctx_put k v) Q E t"
  using assms by (simp add: ctx_put_def wp_upd)

lemma vcg_emit [vcg]:
  assumes "\<And>t'. trace t' = trace t @ [e] \<Longrightarrow> ctx t' = ctx t \<Longrightarrow> Q () t'"
  shows "wp (emit e) Q E t"
  using assms by (simp add: emit_def wp_upd)

lemma vcg_recv_blocking [vcg]:
  assumes "\<And>e t'. trace t' = trace t \<Longrightarrow> ctx t' = ctx t \<Longrightarrow> E (Thrown e) t'"
    and "\<And>b t'. length b = n \<Longrightarrow> trace t' = trace t @ [RecvBlocked k b] \<Longrightarrow> ctx t' = ctx t \<Longrightarrow> Q b t'"
  shows "wp (recv_blocking env k n) Q E t"
  unfolding recv_blocking_def wp_bind wp_ret by (rule vcg_extern) (auto intro: assms)

lemma vcg_delete_socket [vcg]:
  assumes "\<And>t'. trace t' = trace t @ [Deleted k] \<Longrightarrow> ctx t' = ctx t \<Longrightarrow> Q () t'"
  shows "wp (delete_socket env k) Q E t"
  using assms by (simp add: delete_socket_def wp_upd)

section \<open>Reading a trace\<close>

text \<open>The bytes received from, and successfully sent to, a side, in order.\<close>

fun received1 :: "side \<Rightarrow> event \<Rightarrow> string" where
  "received1 d (Recv k b) = (if side_of k = d then b else [])"
| "received1 d (RecvBlocked k b) = (if side_of k = d then b else [])"
| "received1 d _ = []"

fun sent1 :: "side \<Rightarrow> event \<Rightarrow> string" where
  "sent1 d (Sent k b) = (if side_of k = d then b else [])"
| "sent1 d _ = []"

definition received :: "side \<Rightarrow> event list \<Rightarrow> string" where
  "received d es = concat (map (received1 d) es)"

definition sent :: "side \<Rightarrow> event list \<Rightarrow> string" where
  "sent d es = concat (map (sent1 d) es)"

lemma received_simps [simp]:
  "received d [] = []"
  "received d (e # es) = received1 d e @ received d es"
  "received d (es @ fs) = received d es @ received d fs"
  by (simp_all add: received_def)

lemma sent_simps [simp]:
  "sent d [] = []"
  "sent d (e # es) = sent1 d e @ sent d es"
  "sent d (es @ fs) = sent d es @ sent d fs"
  by (simp_all add: sent_def)

text \<open>Correlation ids generated, and those a latency was logged for, in order.\<close>

fun generated1 :: "event \<Rightarrow> string list" where
  "generated1 (Uuid c) = [c]"
| "generated1 _ = []"

fun measured1 :: "event \<Rightarrow> string list" where
  "measured1 (LogLatency c _ _) = [c]"
| "measured1 _ = []"

definition generated :: "event list \<Rightarrow> string list" where
  "generated es = concat (map generated1 es)"

definition measured :: "event list \<Rightarrow> string list" where
  "measured es = concat (map measured1 es)"

lemma generated_simps [simp]:
  "generated [] = []"
  "generated (e # es) = generated1 e @ generated es"
  "generated (es @ fs) = generated es @ generated fs"
  by (simp_all add: generated_def)

lemma measured_simps [simp]:
  "measured [] = []"
  "measured (e # es) = measured1 e @ measured es"
  "measured (es @ fs) = measured es @ measured fs"
  by (simp_all add: measured_def)

text \<open>The correlation id in force after a trace, and: everything logged carries it.\<close>

fun current1 :: "string option \<Rightarrow> event \<Rightarrow> string option" where
  "current1 c (Uuid d) = Some d"
| "current1 c _ = c"

definition current :: "string option \<Rightarrow> event list \<Rightarrow> string option" where
  "current c es = foldl current1 c es"

fun tagged :: "string option \<Rightarrow> event list \<Rightarrow> bool" where
  "tagged c [] = True"
| "tagged c (LogQuery d q # es) = (c = Some d \<and> tagged c es)"
| "tagged c (LogLatency d i p # es) = (c = Some d \<and> tagged c es)"
| "tagged c (e # es) = tagged (current1 c e) es"

lemma current_simps [simp]:
  "current c [] = c"
  "current c (e # es) = current (current1 c e) es"
  "current c (es @ fs) = current (current c es) fs"
  by (simp_all add: current_def)

lemma tagged_append [simp]: "tagged c (es @ fs) = (tagged c es \<and> tagged (current c es) fs)"
  by (induction c es rule: tagged.induct) auto

text \<open>Socket lifetimes: no operation on a deleted object, no object deleted twice.\<close>

fun sock_of :: "event \<Rightarrow> sock option" where
  "sock_of (Recv k _) = Some k"
| "sock_of (RecvBlocked k _) = Some k"
| "sock_of (Sent k _) = Some k"
| "sock_of (SendFailed k _) = Some k"
| "sock_of (Opened k) = Some k"
| "sock_of (Closed k) = Some k"
| "sock_of (Deleted k) = Some k"
| "sock_of _ = None"

fun lifecycle :: "event \<Rightarrow> bool" where
  "lifecycle (Opened _) = True"
| "lifecycle (Closed _) = True"
| "lifecycle (Deleted _) = True"
| "lifecycle _ = False"

fun deletes :: "event \<Rightarrow> sock set" where
  "deletes (Deleted k) = {k}"
| "deletes _ = {}"

fun live :: "sock set \<Rightarrow> event list \<Rightarrow> bool" where
  "live D [] = True"
| "live D (e # es) = ((case sock_of e of None \<Rightarrow> True | Some k \<Rightarrow> k \<notin> D) \<and> live (D \<union> deletes e) es)"

definition deleted :: "event list \<Rightarrow> sock list" where
  "deleted es = concat (map (\<lambda>e. case e of Deleted k \<Rightarrow> [k] | _ \<Rightarrow> []) es)"

definition opened :: "event list \<Rightarrow> sock list" where
  "opened es = concat (map (\<lambda>e. case e of Opened k \<Rightarrow> [k] | _ \<Rightarrow> []) es)"

lemma deleted_simps [simp]:
  "deleted [] = []"
  "deleted (e # es) = (case e of Deleted k \<Rightarrow> [k] | _ \<Rightarrow> []) @ deleted es"
  "deleted (es @ fs) = deleted es @ deleted fs"
  by (simp_all add: deleted_def)

lemma opened_simps [simp]:
  "opened [] = []"
  "opened (e # es) = (case e of Opened k \<Rightarrow> [k] | _ \<Rightarrow> []) @ opened es"
  "opened (es @ fs) = opened es @ opened fs"
  by (simp_all add: opened_def)

lemma live_append: "live D (es @ fs) = (live D es \<and> live (D \<union> set (deleted es)) fs)"
proof (induction es arbitrary: D)
  case Nil
  then show ?case by simp
next
  case (Cons e es)
  then show ?case by (cases e) (auto simp: Un_assoc)
qed

lemma no_lifecycle_deleted: "\<forall>e \<in> set es. \<not> lifecycle e \<Longrightarrow> deleted es = [] \<and> opened es = []"
proof (induction es)
  case Nil
  then show ?case by simp
next
  case (Cons e es)
  then show ?case by (cases e) auto
qed

lemma no_lifecycle_live: "\<forall>e \<in> set es. \<not> lifecycle e \<Longrightarrow> live {} es"
proof (induction es)
  case Nil
  then show ?case by simp
next
  case (Cons e es)
  then show ?case by (cases e) auto
qed

section \<open>The handler interface\<close>

text \<open>
  \<open>CProxyHandler\<close>: what a pipeline calls. The contract of every handler of the
  repository: it leaves the sockets alone, logs queries only under the correlation id of
  the execution context, and keeps that entry of the context.
\<close>

record 'w proxy_handler =
  HandleUpstreamData :: "string \<Rightarrow> int \<Rightarrow> ('w thread, string) cmd"
  HandleDownStreamData :: "string \<Rightarrow> int \<Rightarrow> ('w thread, string) cmd"

definition correlation_of :: "exec_context \<Rightarrow> string option" where
  "correlation_of m = (case m ''correlation_id'' of Some (AnyString c) \<Rightarrow> Some c | _ \<Rightarrow> None)"

lemma correlation_of_put [simp]:
  "correlation_of (m(''correlation_id'' \<mapsto> AnyString c)) = Some c"
  "k \<noteq> ''correlation_id'' \<Longrightarrow> correlation_of (m(k \<mapsto> v)) = correlation_of m"
  by (simp_all add: correlation_of_def)

lemma correlation_of_empty [simp]: "correlation_of Map.empty = None"
  by (simp add: correlation_of_def)

definition only_queries :: "string option \<Rightarrow> event list \<Rightarrow> bool" where
  "only_queries c es \<longleftrightarrow> (\<forall>e \<in> set es. \<exists>d q. e = LogQuery d q \<and> c = Some d)"

definition handler_frame :: "'w thread \<Rightarrow> 'w thread \<Rightarrow> bool" where
  "handler_frame t t' \<longleftrightarrow>
     (\<exists>es. trace t' = trace t @ es \<and> only_queries (correlation_of (ctx t)) es)
     \<and> correlation_of (ctx t') = correlation_of (ctx t)"

lemma only_queries_simps [simp]:
  "only_queries c []"
  "only_queries c (LogQuery d q # es) \<longleftrightarrow> c = Some d \<and> only_queries c es"
  "only_queries c (es @ fs) \<longleftrightarrow> only_queries c es \<and> only_queries c fs"
  by (auto simp: only_queries_def)

lemma only_queries_quiet:
  assumes "only_queries c es"
  shows "received d es = []" "sent d es = []" "generated es = []" "measured es = []"
    "\<forall>e \<in> set es. \<not> lifecycle e" "current b es = b" "tagged c es"
  using assms
  by (induction es arbitrary: b) (auto simp: only_queries_def)

definition quiet :: "string option \<Rightarrow> event list \<Rightarrow> bool" where
  "quiet c es \<longleftrightarrow> (\<forall>d. received d es = []) \<and> (\<forall>d. sent d es = [])
     \<and> generated es = [] \<and> measured es = [] \<and> (\<forall>e \<in> set es. \<not> lifecycle e)
     \<and> (\<forall>b. current b es = b) \<and> tagged c es"

lemma only_queries_quietI: "only_queries c es \<Longrightarrow> quiet c es"
  by (simp add: quiet_def only_queries_quiet)

lemma handler_frame_refl [simp]: "handler_frame t t"
  by (simp add: handler_frame_def)

lemma handler_frame_trans: "handler_frame t u \<Longrightarrow> handler_frame u v \<Longrightarrow> handler_frame t v"
  by (auto simp: handler_frame_def)

subsection \<open>Proving the contract\<close>

lemma any_cast_string_Inr: "any_cast_string a = Inr c \<longleftrightarrow> a = AnyString c"
  by (cases a) auto

lemma handler_frame_log:
  assumes "ctx t ''correlation_id'' = Some (AnyString c)"
    and "trace t' = trace t @ [LogQuery c q]" and "ctx t' = ctx t"
  shows "handler_frame t t'"
  using assms by (simp add: handler_frame_def correlation_of_def)

lemma handler_frame_touch:
  assumes "ctx t k = None"
  shows "handler_frame t (t\<lparr>ctx := (ctx t)(k \<mapsto> AnyEmpty)\<rparr>)"
  using assms by (simp add: handler_frame_def correlation_of_def)

lemma wp_log_current:
  "wp (bindM (ctx_at ''correlation_id'') (\<lambda>a.
       bindM (resM (any_cast_string a)) (\<lambda>c.
       bindM (resM r) (\<lambda>q. log_query c q))))
     (\<lambda>_. handler_frame t) (\<lambda>_. handler_frame t) t"
  by (auto simp: wp_simps log_query_def emit_def any_cast_string_Inr
      intro: handler_frame_log handler_frame_touch split: sum.split option.split)

lemma wp_frame_bind:
  assumes "wp m (\<lambda>_. handler_frame t) (\<lambda>_. handler_frame t) t"
    and "\<And>a u. handler_frame t u \<Longrightarrow> wp (f a) (\<lambda>_. handler_frame u) (\<lambda>_. handler_frame u) u"
  shows "wp (bindM m f) (\<lambda>_. handler_frame t) (\<lambda>_. handler_frame t) t"
  unfolding wp_bind
  by (rule wp_mono [OF assms(1)])
    (auto intro!: wp_mono [OF assms(2)] intro: handler_frame_trans)

lemma wp_ctx_at_frame: "wp (ctx_at k) (\<lambda>_. handler_frame t) (\<lambda>_. handler_frame t) t"
  by (auto simp: wp_simps intro: handler_frame_touch split: option.split)

lemma wp_res_frame: "wp (resM r) (\<lambda>_. handler_frame t) (\<lambda>_. handler_frame t) t"
  by (simp add: wp_simps split: sum.split)

lemma ctx_at_present: "ctx t k = Some v \<Longrightarrow> ctx_at k t = (Inr v, t)"
  by (simp add: ctx_at_def cmd_defs)

subsection \<open>The interface\<close>

text \<open>The contract as an interface, and its strengthening for handlers that forward verbatim.\<close>

locale proxy_contract =
  fixes h :: "'w proxy_handler"
  assumes up_frame: "wp (HandleUpstreamData h b n) (\<lambda>_. handler_frame t) (\<lambda>_. handler_frame t) t"
    and down_frame: "wp (HandleDownStreamData h b n) (\<lambda>_. handler_frame t) (\<lambda>_. handler_frame t) t"

locale transparent_handler = proxy_contract +
  assumes up_same: "wp (HandleUpstreamData h b n) (\<lambda>r _. r = b) (\<lambda>_ _. True) t"
    and down_same: "wp (HandleDownStreamData h b n) (\<lambda>r _. r = b) (\<lambda>_ _. True) t"

context proxy_contract
begin

lemma up_quiet:
  assumes "\<And>r t' es. trace t' = trace t @ es \<Longrightarrow> quiet (correlation_of (ctx t)) es \<Longrightarrow>
      correlation_of (ctx t') = correlation_of (ctx t) \<Longrightarrow> Q r t'"
    and "\<And>f t' es. trace t' = trace t @ es \<Longrightarrow> quiet (correlation_of (ctx t)) es \<Longrightarrow>
      correlation_of (ctx t') = correlation_of (ctx t) \<Longrightarrow> E f t'"
  shows "wp (HandleUpstreamData h b n) Q E t"
  by (rule wp_mono [OF up_frame])
    (auto simp: handler_frame_def intro: assms only_queries_quietI)

lemma down_quiet:
  assumes "\<And>r t' es. trace t' = trace t @ es \<Longrightarrow> quiet (correlation_of (ctx t)) es \<Longrightarrow>
      correlation_of (ctx t') = correlation_of (ctx t) \<Longrightarrow> Q r t'"
    and "\<And>f t' es. trace t' = trace t @ es \<Longrightarrow> quiet (correlation_of (ctx t)) es \<Longrightarrow>
      correlation_of (ctx t') = correlation_of (ctx t) \<Longrightarrow> E f t'"
  shows "wp (HandleDownStreamData h b n) Q E t"
  by (rule wp_mono [OF down_frame])
    (auto simp: handler_frame_def intro: assms only_queries_quietI)

end

context transparent_handler
begin

lemma up_forward:
  assumes "\<And>t' es. trace t' = trace t @ es \<Longrightarrow> quiet (correlation_of (ctx t)) es \<Longrightarrow>
      correlation_of (ctx t') = correlation_of (ctx t) \<Longrightarrow> Q b t'"
    and "\<And>f t' es. trace t' = trace t @ es \<Longrightarrow> quiet (correlation_of (ctx t)) es \<Longrightarrow>
      correlation_of (ctx t') = correlation_of (ctx t) \<Longrightarrow> E f t'"
  shows "wp (HandleUpstreamData h b n) Q E t"
  by (rule wp_mono [OF wp_conj [OF up_same up_frame]])
    (auto simp: handler_frame_def intro: assms only_queries_quietI)

lemma down_forward:
  assumes "\<And>t' es. trace t' = trace t @ es \<Longrightarrow> quiet (correlation_of (ctx t)) es \<Longrightarrow>
      correlation_of (ctx t') = correlation_of (ctx t) \<Longrightarrow> Q b t'"
    and "\<And>f t' es. trace t' = trace t @ es \<Longrightarrow> quiet (correlation_of (ctx t)) es \<Longrightarrow>
      correlation_of (ctx t') = correlation_of (ctx t) \<Longrightarrow> E f t'"
  shows "wp (HandleDownStreamData h b n) Q E t"
  by (rule wp_mono [OF wp_conj [OF down_same down_frame]])
    (auto simp: handler_frame_def intro: assms only_queries_quietI)

end

section \<open>A concrete thread state, for examples\<close>

definition sample_thread :: "32 word \<Rightarrow> string \<Rightarrow> unit thread" where
  "sample_thread caps cid =
     \<lparr>world = (), ctx = [''capabilities'' \<mapsto> AnyU32 caps, ''correlation_id'' \<mapsto> AnyString cid], trace = []\<rparr>"

lemma sample_trace [simp]: "trace (sample_thread caps cid) = []"
  by (simp add: sample_thread_def)

end
