(* ===== verification/Relay.thy ===== *)
theory Relay
  imports Proxy_Runtime
begin

text \<open>
  What the proxy pipelines of \<open>src/pipeline-plugins\<close> share: the variables of a
  connection, the shape of a round of the relay loop, and the contracts of its two
  halves. A pipeline whose halves keep the contract inherits the theorems about the loop.
\<close>

section \<open>The variables of a connection\<close>

record 'w conn =
  thr :: "'w thread"
  client_socket :: sock
  target_socket :: sock
  target_endpoint :: endpoint
  correlation_id :: string
  start_time :: int

definition on_thread :: "('w thread, 'a) cmd \<Rightarrow> (('w, 'z) conn_scheme, 'a) cmd" where
  "on_thread m s = (case m (thr s) of (r, t) \<Rightarrow> (r, s\<lparr>thr := t\<rparr>))"

lemma wp_on_thread [wp_simps]:
  "wp (on_thread m) Q E s =
     wp m (\<lambda>a t. Q a (s\<lparr>thr := t\<rparr>)) (\<lambda>f t. E f (s\<lparr>thr := t\<rparr>)) (thr s)"
  by (simp add: wp_def on_thread_def split: prod.split sum.split)

lemma vcg_on_thread [vcg]:
  "wp m (\<lambda>a t. Q a (s\<lparr>thr := t\<rparr>)) (\<lambda>f t. E f (s\<lparr>thr := t\<rparr>)) (thr s) \<Longrightarrow> wp (on_thread m) Q E s"
  by (simp add: wp_on_thread)

abbreviation tr :: "('w, 'z) conn_scheme \<Rightarrow> event list" where
  "tr s \<equiv> trace (thr s)"

text \<open>
  \<open>correlation_id = UuidGenerator::generateUuid(); exec_context["correlation_id"] =
  correlation_id\<close>, and \<open>start = now()\<close>.
\<close>

definition new_correlation :: "'w env \<Rightarrow> (('w, 'z) conn_scheme, unit) cmd" where
  "new_correlation env =
     bindM (on_thread (generate_uuid env)) (\<lambda>u.
     seqM (updM (\<lambda>s. s\<lparr>correlation_id := u\<rparr>))
       (on_thread (ctx_put ''correlation_id'' (AnyString u))))"

definition stamp_start :: "'w env \<Rightarrow> (('w, 'z) conn_scheme, unit) cmd" where
  "stamp_start env = bindM (on_thread (now env)) (\<lambda>i. updM (\<lambda>s. s\<lparr>start_time := i\<rparr>))"

text \<open>\<open>LOG_LATENCY(correlation_id, (stop - start) "," endpoint)\<close>.\<close>

definition log_latency :: "int \<Rightarrow> (('w, 'z) conn_scheme, unit) cmd" where
  "log_latency stop = bindM (getM (\<lambda>s. LogLatency (correlation_id s) (stop - start_time s) (Some (target_endpoint s))))
     (\<lambda>e. on_thread (emit e))"

text \<open>\<open>exec_context["target_host"] = target_endpoint.ipaddress + ":" + std::to_string(port)\<close>.\<close>

definition put_target_host :: "(('w, 'z) conn_scheme, unit) cmd" where
  "put_target_host = bindM (getM target_endpoint) (\<lambda>ep.
     on_thread (ctx_put ''target_host'' (AnyString (ipaddress ep @ '':'' @ std_to_string (port ep)))))"

section \<open>A round of the loop\<close>

text \<open>
  \<open>try { SocketSelect sel(...); try { up } ...; try { down } ...; } catch (std::exception &e)
  { LOG_ERROR }\<close>: an exception of the select is logged and the loop goes on.
\<close>

definition relay_round ::
    "('s, unit) cmd \<Rightarrow> ('s, unit) cmd \<Rightarrow> ('s, unit) cmd \<Rightarrow> ('s \<Rightarrow> bool) \<Rightarrow> ('s, bool) cmd" where
  "relay_round sel up down alive =
     tryM (seqM sel (seqM up (seqM down (getM alive)))) (\<lambda>_. retM True)"

section \<open>The contracts of the halves\<close>

definition flow :: "side \<Rightarrow> side \<Rightarrow> event list \<Rightarrow> event list \<Rightarrow> bool \<Rightarrow> bool" where
  "flow src dst a b complete \<longleftrightarrow> (\<exists>es. b = a @ es
     \<and> received dst es = [] \<and> sent src es = []
     \<and> prefix (sent dst es) (received src es)
     \<and> (complete \<longrightarrow> sent dst es = received src es)
     \<and> (\<forall>e \<in> set es. \<not> lifecycle e))"

definition lossy_flow :: "side \<Rightarrow> side \<Rightarrow> event list \<Rightarrow> event list \<Rightarrow> bool" where
  "lossy_flow src dst a b \<longleftrightarrow> (\<exists>es. b = a @ es
     \<and> received dst es = [] \<and> sent src es = []
     \<and> subseq (sent dst es) (received src es)
     \<and> (\<forall>e \<in> set es. \<not> lifecycle e))"

text \<open>Everything received so far was sent on; what was sent is a prefix, a subsequence, of it.\<close>

definition balanced :: "event list \<Rightarrow> bool" where
  "balanced es \<longleftrightarrow> sent Target es = received Client es \<and> sent Client es = received Target es"

definition in_order :: "event list \<Rightarrow> bool" where
  "in_order es \<longleftrightarrow>
     prefix (sent Target es) (received Client es) \<and> prefix (sent Client es) (received Target es)"

definition no_forgery :: "event list \<Rightarrow> bool" where
  "no_forgery es \<longleftrightarrow>
     subseq (sent Target es) (received Client es) \<and> subseq (sent Client es) (received Target es)"

text \<open>Nothing was relayed yet.\<close>

definition untouched :: "event list \<Rightarrow> bool" where
  "untouched es \<longleftrightarrow> (\<forall>d. received d es = [] \<and> sent d es = [])"

lemma balanced_in_order: "balanced es \<Longrightarrow> in_order es"
  by (simp add: balanced_def in_order_def)

lemma in_order_no_forgery: "in_order es \<Longrightarrow> no_forgery es"
  by (simp add: in_order_def no_forgery_def prefix_imp_subseq)

lemma flow_lossy: "flow src dst a b c \<Longrightarrow> lossy_flow src dst a b"
  by (auto simp: flow_def lossy_flow_def dest: prefix_imp_subseq)

lemma flow_weaken: "flow src dst a b c \<Longrightarrow> flow src dst a b False"
  by (auto simp: flow_def)

definition extends :: "event list \<Rightarrow> event list \<Rightarrow> bool" where
  "extends a b \<longleftrightarrow> (\<exists>es. b = a @ es \<and> (\<forall>e \<in> set es. \<not> lifecycle e))"

lemma extends_refl [simp]: "extends a a"
  by (simp add: extends_def)

lemma extends_trans: "extends a b \<Longrightarrow> extends b c \<Longrightarrow> extends a c"
  by (auto simp: extends_def)

lemma lossy_extends: "lossy_flow src dst a b \<Longrightarrow> extends a b"
  by (auto simp: lossy_flow_def extends_def)

lemmas flow_extends = lossy_extends [OF flow_lossy]

lemma flow_both_balanced:
  assumes "flow Client Target a b True" and "flow Target Client b c True" and "balanced a"
  shows "balanced c"
  using assms by (auto simp: flow_def balanced_def)

lemma flow_both_in_order:
  assumes "flow Client Target a b x" and "flow Target Client b c y" and "balanced a"
  shows "in_order c"
  using assms by (auto simp: flow_def balanced_def in_order_def)

lemma flow_up_in_order:
  assumes "flow Client Target a b x" and "balanced a"
  shows "in_order b"
  using assms by (auto simp: flow_def balanced_def in_order_def)

lemma lossy_no_forgery:
  assumes "lossy_flow src dst a b" and "no_forgery a" and "src \<noteq> dst"
  shows "no_forgery b"
  using assms
  by (cases src; cases dst) (auto simp: lossy_flow_def no_forgery_def intro: list_emb_append_mono)

text \<open>
  Every pipeline: both halves keep the invariant, open or close no socket, never revive a
  connection given up, and let no \<open>std::exception\<close> escape.
\<close>

locale tunnel =
  fixes sel up down :: "('s, unit) cmd"
    and trc :: "'s \<Rightarrow> event list" and alive :: "'s \<Rightarrow> bool" and inv :: "'s \<Rightarrow> bool"
  assumes sel_law: "inv s \<Longrightarrow> alive s \<Longrightarrow>
      wp sel (\<lambda>_ s'. inv s' \<and> alive s' \<and> trc s' = trc s) (\<lambda>_ s'. inv s' \<and> alive s' \<and> trc s' = trc s) s"
    and up_law: "inv s \<Longrightarrow> alive s \<Longrightarrow>
      wp up (\<lambda>_ s'. inv s' \<and> extends (trc s) (trc s'))
        (\<lambda>f s'. escapes f \<and> extends (trc s) (trc s')) s"
    and down_law: "inv s \<Longrightarrow>
      wp down (\<lambda>_ s'. inv s' \<and> (alive s' \<longrightarrow> alive s) \<and> extends (trc s) (trc s'))
        (\<lambda>f s'. escapes f \<and> extends (trc s) (trc s')) s"
begin

text \<open>
  The rule for a round: a relation \<open>U\<close> that the upstream half establishes from the state at
  the start, and \<open>V\<close> that the downstream half establishes from there.
\<close>

lemma round_rule:
  assumes "inv s" and "alive s"
    and start: "V s True"
    and up: "\<And>u. inv u \<Longrightarrow> alive u \<Longrightarrow> trc u = trc s \<Longrightarrow> wp up (\<lambda>_ s'. U s') (\<lambda>_ s'. V s' False) u"
    and down: "\<And>u. inv u \<Longrightarrow> U u \<Longrightarrow> wp down (\<lambda>_ s'. V s' (alive s')) (\<lambda>_ s'. V s' False) u"
    and same: "\<And>u. trc u = trc s \<Longrightarrow> V u True \<and> V u False"
  shows "wp (relay_round sel up down alive)
     (\<lambda>again s'. inv s' \<and> (again \<longrightarrow> alive s') \<and> extends (trc s) (trc s') \<and> V s' again)
     (\<lambda>f s'. escapes f \<and> extends (trc s) (trc s') \<and> V s' False) s"
  (is "wp _ ?Q ?E s")
proof -
  have after_up: "wp (seqM down (getM alive)) ?Q ?E u"
    if u: "inv u" "U u" "extends (trc s) (trc u)" for u
    unfolding wp_seq wp_get
    by (rule wp_mono [OF wp_conj [OF down_law [OF u(1)] down [OF u(1,2)]]])
      (use u in \<open>auto intro: extends_trans\<close>)
  have after_sel: "wp (seqM up (seqM down (getM alive))) ?Q ?E u"
    if u: "inv u" "alive u" "trc u = trc s" for u
    unfolding wp_seq [of up]
    by (rule wp_mono [OF wp_conj [OF up_law [OF u(1,2)] up [OF u]]])
      (use u in \<open>auto intro: after_up\<close>)
  show ?thesis
    unfolding relay_round_def wp_try wp_seq [of sel]
    by (rule wp_mono [OF sel_law [OF assms(1,2)]])
      (auto simp: wp_ret escapes_def same intro!: wp_mono [OF after_sel] split: failure.splits)
qed

lemma loop_tunnel:
  assumes "inv s" and "alive s"
  shows "wp (run_loop n (relay_round sel up down alive))
     (\<lambda>_ s'. inv s' \<and> extends (trc s) (trc s')) (\<lambda>f s'. escapes f \<and> extends (trc s) (trc s')) s"
proof -
  let ?T = "\<lambda>u. extends (trc s) (trc u)"
  have round: "wp (relay_round sel up down alive)
      (\<lambda>again s'. if again then inv s' \<and> alive s' \<and> ?T s' else inv s' \<and> ?T s')
      (\<lambda>f s'. escapes f \<and> ?T s') u"
    if u: "inv u \<and> alive u \<and> ?T u" for u
    using u
    by (intro wp_mono [OF round_rule [where U = "\<lambda>_. True" and V = "\<lambda>_ _. True"]])
      (auto intro: extends_trans simp: wp_def split: prod.splits sum.splits)
  show ?thesis
    by (rule wp_mono [OF wp_run_loop [where I = "\<lambda>u. inv u \<and> alive u \<and> ?T u", OF round]])
      (use assms in \<open>auto split: if_splits\<close>)
qed

text \<open>The loop as a rule for the code around it.\<close>

lemma loop_tunnel_rule:
  assumes "inv s" and "alive s"
    and "\<And>b s'. inv s' \<Longrightarrow> extends (trc s) (trc s') \<Longrightarrow> Q b s'"
    and "\<And>f s'. escapes f \<Longrightarrow> extends (trc s) (trc s') \<Longrightarrow> E f s'"
  shows "wp (run_loop n (relay_round sel up down alive)) Q E s"
  by (rule wp_mono [OF loop_tunnel [OF assms(1,2)]]) (auto intro: assms(3,4))

end

text \<open>A pipeline that may drop what it could not pass on, but invents and reorders nothing.\<close>

locale lossy_relay = tunnel +
  assumes up_lossy: "inv s \<Longrightarrow> alive s \<Longrightarrow>
      wp up (\<lambda>_ s'. lossy_flow Client Target (trc s) (trc s'))
        (\<lambda>_ s'. lossy_flow Client Target (trc s) (trc s')) s"
    and down_lossy: "inv s \<Longrightarrow>
      wp down (\<lambda>_ s'. lossy_flow Target Client (trc s) (trc s'))
        (\<lambda>_ s'. lossy_flow Target Client (trc s) (trc s')) s"
begin

lemma loop_lossy:
  assumes "inv s" and "alive s" and "no_forgery (trc s)"
  shows "wp (run_loop n (relay_round sel up down alive))
     (\<lambda>_ s'. no_forgery (trc s')) (\<lambda>_ s'. no_forgery (trc s')) s"
proof -
  have round: "wp (relay_round sel up down alive)
      (\<lambda>again s'. if again then inv s' \<and> alive s' \<and> no_forgery (trc s') else no_forgery (trc s'))
      (\<lambda>f s'. no_forgery (trc s')) u"
    if u: "inv u \<and> alive u \<and> no_forgery (trc u)" for u
  proof -
    have "wp (relay_round sel up down alive)
       (\<lambda>again s'. inv s' \<and> (again \<longrightarrow> alive s') \<and> extends (trc u) (trc s') \<and> no_forgery (trc s'))
       (\<lambda>f s'. escapes f \<and> extends (trc u) (trc s') \<and> no_forgery (trc s')) u"
      by (rule round_rule [where U = "\<lambda>v. no_forgery (trc v)"])
        (use u in \<open>auto intro!: wp_mono [OF up_lossy] wp_mono [OF down_lossy] dest: lossy_no_forgery\<close>)
    then show ?thesis by (rule wp_mono) auto
  qed
  show ?thesis
    by (rule wp_mono [OF wp_run_loop [where I = "\<lambda>u. inv u \<and> alive u \<and> no_forgery (trc u)", OF round]])
      (use assms in \<open>auto split: if_splits\<close>)
qed

lemma loop_lossy_rule:
  assumes "inv s" and "alive s" and "no_forgery (trc s)"
    and "\<And>b s'. inv s' \<Longrightarrow> extends (trc s) (trc s') \<Longrightarrow> no_forgery (trc s') \<Longrightarrow> Q b s'"
    and "\<And>f s'. escapes f \<Longrightarrow> extends (trc s) (trc s') \<Longrightarrow> no_forgery (trc s') \<Longrightarrow> E f s'"
  shows "wp (run_loop n (relay_round sel up down alive)) Q E s"
  by (rule wp_mono [OF wp_conj [OF loop_tunnel [OF assms(1,2)] loop_lossy [OF assms(1-3)]]])
    (auto intro: assms(4,5))

end

text \<open>
  A pipeline that stops the loop as soon as a chunk could not be passed on loses nothing
  while it runs: at the start of every round each side has been sent exactly what the other
  side delivered.
\<close>

locale relay = tunnel +
  assumes up_flow: "inv s \<Longrightarrow> alive s \<Longrightarrow>
      wp up (\<lambda>_ s'. flow Client Target (trc s) (trc s') (alive s'))
        (\<lambda>_ s'. flow Client Target (trc s) (trc s') False) s"
    and down_flow: "inv s \<Longrightarrow>
      wp down (\<lambda>_ s'. flow Target Client (trc s) (trc s') (alive s'))
        (\<lambda>_ s'. flow Target Client (trc s) (trc s') False) s"

sublocale relay \<subseteq> lossy_relay
proof unfold_locales
  fix s
  show "inv s \<Longrightarrow> alive s \<Longrightarrow>
      wp up (\<lambda>_ s'. lossy_flow Client Target (trc s) (trc s'))
        (\<lambda>_ s'. lossy_flow Client Target (trc s) (trc s')) s"
    by (rule wp_mono [OF up_flow]) (auto dest: flow_lossy)
  show "inv s \<Longrightarrow>
      wp down (\<lambda>_ s'. lossy_flow Target Client (trc s) (trc s'))
        (\<lambda>_ s'. lossy_flow Target Client (trc s) (trc s')) s"
    by (rule wp_mono [OF down_flow]) (auto dest: flow_lossy)
qed

context relay
begin

lemma loop_flow:
  assumes "inv s" and "alive s" and "balanced (trc s)"
  shows "wp (run_loop n (relay_round sel up down alive))
     (\<lambda>running s'. in_order (trc s') \<and> (running \<longrightarrow> balanced (trc s')))
     (\<lambda>_ s'. in_order (trc s')) s"
proof -
  have round: "wp (relay_round sel up down alive)
      (\<lambda>again s'. if again then inv s' \<and> alive s' \<and> balanced (trc s') else in_order (trc s'))
      (\<lambda>f s'. in_order (trc s')) u"
    if u: "inv u \<and> alive u \<and> balanced (trc u)" for u
  proof -
    let ?V = "\<lambda>s' again. in_order (trc s') \<and> (again \<longrightarrow> balanced (trc s'))"
    have "wp (relay_round sel up down alive)
       (\<lambda>again s'. inv s' \<and> (again \<longrightarrow> alive s') \<and> extends (trc u) (trc s') \<and> ?V s' again)
       (\<lambda>f s'. escapes f \<and> extends (trc u) (trc s') \<and> ?V s' False) u"
    proof (rule round_rule [where U = "\<lambda>v. flow Client Target (trc u) (trc v) (alive v)"])
      fix v assume v: "inv v" "alive v" "trc v = trc u"
      then show "wp up (\<lambda>_ s'. flow Client Target (trc u) (trc s') (alive s')) (\<lambda>_ s'. ?V s' False) v"
        using u by (intro wp_mono [OF up_flow]) (auto intro: flow_up_in_order)
    next
      fix v assume v: "inv v" "flow Client Target (trc u) (trc v) (alive v)"
      have down: "wp down (\<lambda>_ s'. inv s' \<and> (alive s' \<longrightarrow> alive v) \<and> flow Target Client (trc v) (trc s') (alive s'))
          (\<lambda>_ s'. flow Target Client (trc v) (trc s') False) v"
        by (rule wp_mono [OF wp_conj [OF down_law [OF v(1)] down_flow [OF v(1)]]]) auto
      show "wp down (\<lambda>_ s'. ?V s' (alive s')) (\<lambda>_ s'. ?V s' False) v"
        by (rule wp_mono [OF down])
          (use u v in \<open>auto dest: flow_both_in_order intro: flow_both_balanced\<close>)
    qed (use u in \<open>auto dest: balanced_in_order\<close>)
    then show ?thesis by (rule wp_mono) auto
  qed
  show ?thesis
    by (rule wp_mono [OF wp_run_loop [where I = "\<lambda>u. inv u \<and> alive u \<and> balanced (trc u)", OF round]])
      (use assms in \<open>auto split: if_splits dest: balanced_in_order\<close>)
qed

lemma loop_flow_rule:
  assumes "inv s" and "alive s" and "balanced (trc s)"
    and "\<And>b s'. inv s' \<Longrightarrow> extends (trc s) (trc s') \<Longrightarrow> in_order (trc s') \<Longrightarrow>
      (b \<Longrightarrow> balanced (trc s')) \<Longrightarrow> Q b s'"
    and "\<And>f s'. escapes f \<Longrightarrow> extends (trc s) (trc s') \<Longrightarrow> in_order (trc s') \<Longrightarrow> E f s'"
  shows "wp (run_loop n (relay_round sel up down alive)) Q E s"
  by (rule wp_mono [OF wp_conj [OF loop_tunnel [OF assms(1,2)] loop_flow [OF assms(1-3)]]])
    (auto intro: assms(4,5))

end

section \<open>Loops that end\<close>

text \<open>
  A loop whose client runs dry: every round that goes on uses up something of the world.
\<close>

locale draining =
  fixes sel up down :: "('s, unit) cmd"
    and alive :: "'s \<Rightarrow> bool" and inv :: "'s \<Rightarrow> bool" and left_over :: "'s \<Rightarrow> nat"
  assumes sel_drains: "inv s \<Longrightarrow> alive s \<Longrightarrow>
      wp sel (\<lambda>_ s'. inv s' \<and> alive s' \<and> left_over s' \<le> left_over s) (\<lambda>_ _. False) s"
    and up_drains: "inv s \<Longrightarrow> alive s \<Longrightarrow>
      wp up (\<lambda>_ s'. inv s' \<and> (alive s' \<longrightarrow> left_over s' < left_over s)) (\<lambda>f _. escapes f) s"
    and down_drains: "inv s \<Longrightarrow>
      wp down (\<lambda>_ s'. inv s' \<and> (alive s' \<longrightarrow> alive s \<and> left_over s' \<le> left_over s)) (\<lambda>f _. escapes f) s"
begin

lemma round_drains:
  assumes "inv s" and "alive s"
  shows "wp (relay_round sel up down alive)
     (\<lambda>again s'. again \<longrightarrow> inv s' \<and> alive s' \<and> left_over s' < left_over s) (\<lambda>_ _. True) s"
    (is "wp _ ?Q _ s")
proof -
  have down: "wp (seqM down (getM alive)) ?Q (\<lambda>f _. escapes f) u"
    if "inv u" "alive u \<longrightarrow> left_over u < left_over s" for u
    unfolding wp_seq wp_get by (rule wp_mono [OF down_drains [OF that(1)]]) (use that in auto)
  have up: "wp (seqM up (seqM down (getM alive))) ?Q (\<lambda>f _. escapes f) u"
    if "inv u" "alive u" "left_over u \<le> left_over s" for u
    unfolding wp_seq [of up] by (rule wp_mono [OF up_drains [OF that(1,2)]]) (use that in \<open>auto intro!: down\<close>)
  show ?thesis
    unfolding relay_round_def wp_try wp_seq [of sel]
    by (rule wp_mono [OF sel_drains [OF assms]])
      (auto simp: escapes_def split: failure.splits intro!: wp_mono [OF up])
qed

lemma loop_returns:
  assumes "inv s" and "alive s" and "left_over s < n" and "\<And>s'. Q False s'"
  shows "wp (run_loop n (relay_round sel up down alive)) Q (\<lambda>_ _. True) s"
proof -
  have round: "wp (relay_round sel up down alive)
      (\<lambda>again s'. again \<longrightarrow> (inv s' \<and> alive s') \<and> left_over s' < left_over u) (\<lambda>_ _. True) u"
    if "inv u \<and> alive u" for u
    using that by (intro wp_mono [OF round_drains]) auto
  have "wp (run_loop n (relay_round sel up down alive)) (\<lambda>running _. \<not> running) (\<lambda>_ _. True) s"
    by (rule wp_run_loop_ends [where I = "\<lambda>u. inv u \<and> alive u" and \<mu> = left_over, OF round])
      (use assms(1-3) in auto)
  then show ?thesis by (rule wp_mono) (use assms(4) in auto)
qed

end

end
