(* ===== verification/Byte_Readers.thy ===== *)
theory Byte_Readers
  imports Cxx_Prelude
begin

text \<open>
  The byte readers of \<open>ProtocolHelper.h\<close>, which is not part of the repository: a parameter
  of every definition that calls them, with the promises their names make as predicates.
  \<open>readLEInt24\<close> yields a \<open>uint32_t\<close> built from three bytes: a 24-bit value that its callers
  widen.
\<close>

section \<open>The byte readers\<close>

record readers =
  readByte :: "string \<Rightarrow> int \<Rightarrow> 8 word res"
  readLEInt16 :: "string \<Rightarrow> int \<Rightarrow> 16 word res"
  readLEInt24 :: "string \<Rightarrow> int \<Rightarrow> 24 word res"
  readLEInt64 :: "string \<Rightarrow> int \<Rightarrow> 64 word res"
  readInt32 :: "string \<Rightarrow> int \<Rightarrow> 32 word res"
  readBEInt32 :: "string \<Rightarrow> int \<Rightarrow> 32 word res"
  readCString :: "string \<Rightarrow> int \<Rightarrow> string res"

text \<open>
  What the names promise: \<open>readLEIntN\<close> decodes little-endian bytes, \<open>readByte\<close> one byte,
  \<open>readCString\<close> stops at a NUL or at the end. Stated on in-range reads only.
\<close>

definition byte :: "char \<Rightarrow> nat" where
  "byte c = of_char c"

fun le_value :: "string \<Rightarrow> nat" where
  "le_value [] = 0"
| "le_value (c # cs) = byte c + 256 * le_value cs"

fun le_bytes :: "nat \<Rightarrow> nat \<Rightarrow> string" where
  "le_bytes 0 v = []"
| "le_bytes (Suc k) v = char_of v # le_bytes k (v div 256)"

lemma byte_char_of [simp]: "byte (char_of (n::nat)) = n mod 256"
  by (simp add: byte_def)

lemma byte_inject: "byte c = byte d \<longleftrightarrow> c = d"
  by (simp add: byte_def)

lemma byte_less [simp]: "byte c < 256"
  by (simp add: byte_def)

lemma length_le_bytes [simp]: "length (le_bytes k v) = k"
  by (induction k arbitrary: v) auto

lemma le_value_bytes: "le_value (le_bytes k v) = v mod 256 ^ k"
proof (induction k arbitrary: v)
  case 0
  then show ?case by simp
next
  case (Suc k)
  have "v mod 256 ^ Suc k = 256 * (v div 256 mod 256 ^ k) + v mod 256"
    by (simp add: mod_mult2_eq)
  with Suc show ?case by simp
qed

lemma le_value_bound: "le_value cs < 256 ^ length cs"
proof (induction cs)
  case (Cons c cs)
  have "byte c + 256 * le_value cs < 256 * (le_value cs + 1)"
    by (simp add: distrib_left)
  also have "\<dots> \<le> 256 * 256 ^ length cs"
    using Cons.IH by (intro mult_left_mono) auto
  finally show ?case by simp
qed simp

definition le_readers :: "readers \<Rightarrow> bool" where
  "le_readers R \<longleftrightarrow> (\<forall>b i. 0 \<le> i \<longrightarrow>
     (i + 1 \<le> int (length b) \<longrightarrow> readByte R b i = Inr (of_nat (byte (b ! nat i)))) \<and>
     (i + 2 \<le> int (length b) \<longrightarrow>
        readLEInt16 R b i = Inr (of_nat (le_value (take 2 (drop (nat i) b))))) \<and>
     (i + 3 \<le> int (length b) \<longrightarrow>
        readLEInt24 R b i = Inr (of_nat (le_value (take 3 (drop (nat i) b))))) \<and>
     (i + 8 \<le> int (length b) \<longrightarrow>
        readLEInt64 R b i = Inr (of_nat (le_value (take 8 (drop (nat i) b))))))"

definition cstring_reader :: "readers \<Rightarrow> bool" where
  "cstring_reader R \<longleftrightarrow> (\<forall>b i. 0 \<le> i \<longrightarrow> i \<le> int (length b) \<longrightarrow>
     readCString R b i = Inr (takeWhile (\<lambda>c. c \<noteq> nul) (drop (nat i) b)))"

text \<open>\<open>readInt32\<close> is little-endian too: the MySQL and the MongoDB code read their fields with it.\<close>

definition int32_reader :: "readers \<Rightarrow> bool" where
  "int32_reader R \<longleftrightarrow> (\<forall>b i. 0 \<le> i \<longrightarrow> i + 4 \<le> int (length b) \<longrightarrow>
     readInt32 R b i = Inr (of_nat (le_value (take 4 (drop (nat i) b)))))"

text \<open>Readers that keep these promises, and read zeros elsewhere.\<close>

definition sample_readers :: readers where
  "sample_readers =
     \<lparr>readByte = (\<lambda>b i. Inr (of_nat (le_value (take 1 (drop (nat i) b))))),
      readLEInt16 = (\<lambda>b i. Inr (of_nat (le_value (take 2 (drop (nat i) b))))),
      readLEInt24 = (\<lambda>b i. Inr (of_nat (le_value (take 3 (drop (nat i) b))))),
      readLEInt64 = (\<lambda>b i. Inr (of_nat (le_value (take 8 (drop (nat i) b))))),
      readInt32 = (\<lambda>b i. Inr (of_nat (le_value (take 4 (drop (nat i) b))))),
      readBEInt32 = (\<lambda>b i. Inr (of_nat (le_value (rev (take 4 (drop (nat i) b)))))),
      readCString = (\<lambda>b i. Inr (takeWhile (\<lambda>c. c \<noteq> nul) (drop (nat i) b)))\<rparr>"

lemma sample_le_readers: "le_readers sample_readers"
  by (auto simp: le_readers_def sample_readers_def take_Suc hd_drop_conv_nth)

lemma sample_cstring_reader: "cstring_reader sample_readers"
  by (simp add: cstring_reader_def sample_readers_def)

lemma sample_int32_reader: "int32_reader sample_readers"
  by (simp add: int32_reader_def sample_readers_def)

lemma int32_reader_at:
  "int32_reader R \<Longrightarrow> 0 \<le> i \<Longrightarrow> i + 4 \<le> int (length b) \<Longrightarrow>
     readInt32 R b i = Inr (of_nat (le_value (take 4 (drop (nat i) b))))"
  by (simp add: int32_reader_def)

lemma le_readers_at:
  assumes "le_readers R" and "0 \<le> i"
  shows "i + 1 \<le> int (length b) \<Longrightarrow> readByte R b i = Inr (of_nat (byte (b ! nat i)))"
    and "i + 2 \<le> int (length b) \<Longrightarrow>
      readLEInt16 R b i = Inr (of_nat (le_value (take 2 (drop (nat i) b))))"
    and "i + 3 \<le> int (length b) \<Longrightarrow>
      readLEInt24 R b i = Inr (of_nat (le_value (take 3 (drop (nat i) b))))"
    and "i + 8 \<le> int (length b) \<Longrightarrow>
      readLEInt64 R b i = Inr (of_nat (le_value (take 8 (drop (nat i) b))))"
  using assms by (simp_all add: le_readers_def)

lemma cstring_reader_at:
  "cstring_reader R \<Longrightarrow> 0 \<le> i \<Longrightarrow> i \<le> int (length b) \<Longrightarrow>
     readCString R b i = Inr (takeWhile (\<lambda>c. c \<noteq> nul) (drop (nat i) b))"
  by (simp add: cstring_reader_def)

section \<open>Reading at an offset\<close>

lemma nth_of_drop: "drop p b = ys \<Longrightarrow> k < length ys \<Longrightarrow> b ! (p + k) = ys ! k"
  by (metis drop_all length_greater_0_conv less_nat_zero_code nat_le_linear nth_drop list.size(3))

lemma length_of_drop: "drop p b = ys \<Longrightarrow> ys \<noteq> [] \<Longrightarrow> length b = p + length ys"
  by (metis drop_eq_Nil le_add_diff_inverse length_drop nat_le_linear)

lemma drop_of_drop: "drop p b = ys \<Longrightarrow> drop (p + k) b = drop k ys"
  by (metis drop_drop add.commute)

end
