(* ===== verification/Proxy_Pipelines.thy ===== *)
theory Proxy_Pipelines
  imports Relay
begin

text \<open>
  The stateless proxy pipelines of \<open>src/pipeline-plugins\<close>: \<open>DefaultProxyPipeline\<close>,
  \<open>ClickHousePipeline\<close>, \<open>PassthroughPipeline\<close>, \<open>ClickHouseTLSTerminatePipeline\<close>,
  \<open>ClickHouseTLSStartPipeline\<close> and \<open>ClickHouseTLSExchangePipeline\<close>. Each is its two
  halves, the loop, and the code around it.
\<close>

record 'w proxy = "'w conn" +
  data_sent :: bool
  still_connected :: bool

section \<open>Shared steps\<close>

definition disconnect :: "('w proxy, unit) cmd" where
  "disconnect = updM (\<lambda>s. s\<lparr>still_connected := False\<rparr>)"

text \<open>\<open>SocketSelect sel(client_socket, target_socket, ...); bool still_connected = true;\<close>\<close>

definition proxy_select :: "'w env \<Rightarrow> ('w proxy, unit) cmd" where
  "proxy_select env =
     bindM (getM client_socket) (\<lambda>c.
     bindM (getM target_socket) (\<lambda>t.
     seqM (on_thread (select env c (Some t)))
       (updM (\<lambda>s. s\<lparr>still_connected := True\<rparr>))))"

definition configure_sockets :: "'w env \<Rightarrow> (('w, 'z) conn_scheme, unit) cmd" where
  "configure_sockets env =
     bindM (getM client_socket) (\<lambda>c.
     bindM (getM target_socket) (\<lambda>t.
     seqM (on_thread (set_read_timeout env c))
     (seqM (on_thread (set_keep_alive env c))
     (seqM (on_thread (set_read_timeout env t))
       (on_thread (set_keep_alive env t))))))"

text \<open>\<open>loadBalancer->requestServer()\<close> and the end point built from it.\<close>

definition resolve_target :: "'w env \<Rightarrow> (('w, 'z) conn_scheme, unit) cmd" where
  "resolve_target env =
     bindM (on_thread (request_server env)) (\<lambda>ep. updM (\<lambda>s. s\<lparr>target_endpoint := ep\<rparr>))"

definition open_target :: "'w env \<Rightarrow> (('w, 'z) conn_scheme, unit) cmd" where
  "open_target env =
     bindM (getM target_socket) (\<lambda>t.
     bindM (getM target_endpoint) (\<lambda>ep. on_thread (connect env t ep)))"

text \<open>
  \<open>try { new CClientSocket } catch { client_socket->Close(); delete client_socket; return }\<close>:
  whether the connection was made.
\<close>

definition open_target_or_close :: "'w env \<Rightarrow> (('w, 'z) conn_scheme, bool) cmd" where
  "open_target_or_close env =
     tryM (seqM (open_target env) (retM True))
       (\<lambda>_. bindM (getM client_socket) (\<lambda>c.
          seqM (on_thread (close_socket env c))
          (seqM (on_thread (delete_socket env c)) (retM False))))"

definition delete_client :: "'w env \<Rightarrow> (('w, 'z) conn_scheme, unit) cmd" where
  "delete_client env = bindM (getM client_socket) (\<lambda>c. on_thread (delete_socket env c))"

definition delete_target :: "'w env \<Rightarrow> (('w, 'z) conn_scheme, unit) cmd" where
  "delete_target env = bindM (getM target_socket) (\<lambda>t. on_thread (delete_socket env t))"

text \<open>The thread as it starts: the client's socket is open, nothing else has happened.\<close>

definition initial_thread :: "'w \<Rightarrow> 'w thread" where
  "initial_thread w = \<lparr>world = w, ctx = Map.empty, trace = []\<rparr>"

definition initial_proxy :: "sock \<Rightarrow> sock \<Rightarrow> 'w \<Rightarrow> 'w proxy" where
  "initial_proxy c t w =
     \<lparr>thr = initial_thread w, client_socket = c, target_socket = t,
      target_endpoint = \<lparr>ipaddress = [], port = 0\<rparr>, correlation_id = [], start_time = 0,
      data_sent = False, still_connected = True\<rparr>"

text \<open>
  The result of a pipeline: \<open>True\<close> when it was still in its loop after the given number of
  rounds, \<open>False\<close> when it returned. A pipeline with no handler returns at once.
\<close>

section \<open>DefaultProxyPipeline\<close>

definition DefaultProxyPipeline_upstream :: "'w env \<Rightarrow> 'w proxy_handler \<Rightarrow> ('w proxy, unit) cmd" where
  "DefaultProxyPipeline_upstream env h =
     bindM (getM client_socket) (\<lambda>client_socket.
     bindM (getM target_socket) (\<lambda>target_socket.
     tryM
       (bindM (on_thread (readable env client_socket)) (\<lambda>r. whenM r
         (bindM (on_thread (receive_bytes env client_socket)) (\<lambda>bytes. seqM
           (whenM (bytes \<noteq> [])
             (seqM (bindM (getM data_sent) (\<lambda>d. whenM (\<not> d) (new_correlation env)))
             (seqM (stamp_start env)
             (bindM (on_thread (HandleUpstreamData h bytes (int (length bytes)))) (\<lambda>response.
             (seqM (on_thread (send_bytes env target_socket response))
               (updM (\<lambda>s. s\<lparr>data_sent := True\<rparr>))))))))
           (whenM (bytes = []) disconnect)))))
       (\<lambda>_. disconnect)))"

definition DefaultProxyPipeline_downstream :: "'w env \<Rightarrow> 'w proxy_handler \<Rightarrow> ('w proxy, unit) cmd" where
  "DefaultProxyPipeline_downstream env h =
     bindM (getM client_socket) (\<lambda>client_socket.
     bindM (getM target_socket) (\<lambda>target_socket.
     tryM
       (bindM (on_thread (readable env target_socket)) (\<lambda>r. whenM r
         (bindM (on_thread (receive_bytes env target_socket)) (\<lambda>bytes. seqM
           (whenM (bytes \<noteq> [])
             (bindM (on_thread (now env)) (\<lambda>stop.
              seqM (bindM (getM data_sent) (\<lambda>d. whenM d
                (seqM (log_latency stop) (updM (\<lambda>s. s\<lparr>data_sent := False\<rparr>)))))
             (seqM (on_thread (ctx_put ''request_stop_time'' (AnyTime stop)))
             (seqM (put_target_host)
             (bindM (on_thread (HandleDownStreamData h bytes (int (length bytes)))) (\<lambda>response.
               on_thread (send_bytes env client_socket response))))))))
           (whenM (bytes = []) disconnect)))))
       (\<lambda>_. disconnect)))"


definition DefaultProxyPipeline ::
    "'w env \<Rightarrow> 'w proxy_handler option \<Rightarrow> nat \<Rightarrow> ('w proxy, bool) cmd" where
  "DefaultProxyPipeline env handler rounds =
     (case handler of None \<Rightarrow> retM False | Some h \<Rightarrow>
       seqM (resolve_target env)
       (bindM (open_target_or_close env) (\<lambda>connected.
          if \<not> connected then retM False
          else
            seqM (configure_sockets env)
            (seqM (stamp_start env)
            (bindM (run_loop rounds (relay_round (proxy_select env) (DefaultProxyPipeline_upstream env h)
                (DefaultProxyPipeline_downstream env h) still_connected)) (\<lambda>running.
              if running then retM True
              else seqM (delete_client env) (seqM (delete_target env) (retM False))))))))"

section \<open>ClickHousePipeline\<close>

text \<open>The same code as the default pipeline but for its log lines.\<close>

definition ClickHousePipeline_upstream :: "'w env \<Rightarrow> 'w proxy_handler \<Rightarrow> ('w proxy, unit) cmd" where
  "ClickHousePipeline_upstream env h =
     bindM (getM client_socket) (\<lambda>client_socket.
     bindM (getM target_socket) (\<lambda>target_socket.
     tryM
       (bindM (on_thread (readable env client_socket)) (\<lambda>r. whenM r
         (bindM (on_thread (receive_bytes env client_socket)) (\<lambda>bytes. seqM
           (whenM (bytes \<noteq> [])
             (seqM (bindM (getM data_sent) (\<lambda>d. whenM (\<not> d) (new_correlation env)))
             (seqM (stamp_start env)
             (bindM (on_thread (HandleUpstreamData h bytes (int (length bytes)))) (\<lambda>response.
             (seqM (on_thread (send_bytes env target_socket response))
               (updM (\<lambda>s. s\<lparr>data_sent := True\<rparr>))))))))
           (whenM (bytes = []) disconnect)))))
       (\<lambda>_. disconnect)))"

definition ClickHousePipeline_downstream :: "'w env \<Rightarrow> 'w proxy_handler \<Rightarrow> ('w proxy, unit) cmd" where
  "ClickHousePipeline_downstream env h =
     bindM (getM client_socket) (\<lambda>client_socket.
     bindM (getM target_socket) (\<lambda>target_socket.
     tryM
       (bindM (on_thread (readable env target_socket)) (\<lambda>r. whenM r
         (bindM (on_thread (receive_bytes env target_socket)) (\<lambda>bytes. seqM
           (whenM (bytes \<noteq> [])
             (bindM (on_thread (now env)) (\<lambda>stop.
              seqM (bindM (getM data_sent) (\<lambda>d. whenM d
                (seqM (log_latency stop) (updM (\<lambda>s. s\<lparr>data_sent := False\<rparr>)))))
             (seqM (on_thread (ctx_put ''request_stop_time'' (AnyTime stop)))
             (seqM (put_target_host)
             (bindM (on_thread (HandleDownStreamData h bytes (int (length bytes)))) (\<lambda>response.
               on_thread (send_bytes env client_socket response))))))))
           (whenM (bytes = []) disconnect)))))
       (\<lambda>_. disconnect)))"


definition ClickHousePipeline ::
    "'w env \<Rightarrow> 'w proxy_handler option \<Rightarrow> nat \<Rightarrow> ('w proxy, bool) cmd" where
  "ClickHousePipeline env handler rounds =
     (case handler of None \<Rightarrow> retM False | Some h \<Rightarrow>
       seqM (resolve_target env)
       (bindM (open_target_or_close env) (\<lambda>connected.
          if \<not> connected then retM False
          else
            seqM (configure_sockets env)
            (seqM (stamp_start env)
            (bindM (run_loop rounds (relay_round (proxy_select env) (ClickHousePipeline_upstream env h)
                (ClickHousePipeline_downstream env h) still_connected)) (\<lambda>running.
              if running then retM True
              else seqM (delete_client env) (seqM (delete_target env) (retM False))))))))"

section \<open>PassthroughPipeline\<close>

text \<open>No handler is called. The answer is sent on even when it is empty.\<close>

definition PassthroughPipeline_upstream :: "'w env \<Rightarrow> ('w proxy, unit) cmd" where
  "PassthroughPipeline_upstream env =
     bindM (getM client_socket) (\<lambda>client_socket.
     bindM (getM target_socket) (\<lambda>target_socket.
     tryM
       (bindM (on_thread (readable env client_socket)) (\<lambda>r. whenM r
         (bindM (on_thread (receive_bytes env client_socket)) (\<lambda>bytes. seqM
           (whenM (bytes \<noteq> []) (on_thread (send_bytes env target_socket bytes)))
           (whenM (bytes = []) disconnect)))))
       (\<lambda>_. disconnect)))"

definition PassthroughPipeline_downstream :: "'w env \<Rightarrow> ('w proxy, unit) cmd" where
  "PassthroughPipeline_downstream env =
     bindM (getM client_socket) (\<lambda>client_socket.
     bindM (getM target_socket) (\<lambda>target_socket.
     tryM
       (bindM (on_thread (readable env target_socket)) (\<lambda>r. whenM r
         (bindM (on_thread (receive_bytes env target_socket)) (\<lambda>bytes. seqM
           (on_thread (send_bytes env client_socket bytes))
           (whenM (bytes = []) disconnect)))))
       (\<lambda>_. disconnect)))"

definition PassthroughPipeline ::
    "'w env \<Rightarrow> 'w proxy_handler option \<Rightarrow> nat \<Rightarrow> ('w proxy, bool) cmd" where
  "PassthroughPipeline env handler rounds =
     bindM (on_thread (generate_uuid env)) (\<lambda>u.
     seqM (updM (\<lambda>s. s\<lparr>correlation_id := u\<rparr>))
     (case handler of None \<Rightarrow> retM False | Some h \<Rightarrow>
       seqM (resolve_target env)
       (bindM (open_target_or_close env) (\<lambda>connected.
          if \<not> connected then retM False
          else
            seqM (on_thread (ctx_put ''correlation_id'' (AnyString u)))
            (seqM (configure_sockets env)
            (seqM (stamp_start env)
            (bindM (run_loop rounds (relay_round (proxy_select env) (PassthroughPipeline_upstream env)
                (PassthroughPipeline_downstream env) still_connected)) (\<lambda>running.
              if running then retM True
              else
                bindM (on_thread (now env)) (\<lambda>stop.
                bindM (getM (\<lambda>s. LogLatency (correlation_id s) (stop - start_time s) None)) (\<lambda>e.
                seqM (on_thread (emit e))
                (seqM (delete_client env) (seqM (delete_target env) (retM False)))))))))))))"

section \<open>ClickHouseTLSTerminatePipeline\<close>

text \<open>
  The client's descriptor is wrapped in a TLS socket. The handler is called even for the
  empty chunk that ends the connection, and an exception is only logged.
\<close>

definition ClickHouseTLSTerminatePipeline_upstream :: "'w env \<Rightarrow> 'w proxy_handler \<Rightarrow> ('w proxy, unit) cmd" where
  "ClickHouseTLSTerminatePipeline_upstream env h =
     bindM (getM client_socket) (\<lambda>client_socket.
     bindM (getM target_socket) (\<lambda>target_socket.
     tryM
       (bindM (on_thread (readable env client_socket)) (\<lambda>r. whenM r
         (bindM (on_thread (receive_bytes env client_socket)) (\<lambda>bytes.
          bindM (on_thread (HandleUpstreamData h bytes (int (length bytes)))) (\<lambda>response.
          seqM (on_thread (send_bytes env target_socket response))
            (whenM (bytes = []) disconnect))))))
       (\<lambda>_. retM ())))"

definition ClickHouseTLSTerminatePipeline_downstream :: "'w env \<Rightarrow> 'w proxy_handler \<Rightarrow> ('w proxy, unit) cmd" where
  "ClickHouseTLSTerminatePipeline_downstream env h =
     bindM (getM client_socket) (\<lambda>client_socket.
     bindM (getM target_socket) (\<lambda>target_socket.
     tryM
       (bindM (on_thread (readable env target_socket)) (\<lambda>r. whenM r
         (bindM (on_thread (receive_bytes env target_socket)) (\<lambda>bytes.
          bindM (on_thread (HandleDownStreamData h bytes (int (length bytes)))) (\<lambda>response.
          seqM (on_thread (send_bytes env client_socket response))
            (whenM (bytes = []) disconnect))))))
       (\<lambda>_. retM ())))"

definition wrap_client_tls :: "'w env \<Rightarrow> (('w, 'z) conn_scheme, unit) cmd" where
  "wrap_client_tls env =
     bindM (getM (\<lambda>s. Tls (side_of (client_socket s)))) (\<lambda>k.
     seqM (on_thread (wrap_tls env k)) (updM (\<lambda>s. s\<lparr>client_socket := k\<rparr>)))"

definition ClickHouseTLSTerminatePipeline ::
    "'w env \<Rightarrow> 'w proxy_handler option \<Rightarrow> nat \<Rightarrow> ('w proxy, bool) cmd" where
  "ClickHouseTLSTerminatePipeline env handler rounds =
     (case handler of None \<Rightarrow> retM False | Some h \<Rightarrow>
       seqM (resolve_target env)
       (seqM (wrap_client_tls env)
       (seqM (open_target env)
       (seqM (configure_sockets env)
       (bindM (run_loop rounds (relay_round (proxy_select env)
           (ClickHouseTLSTerminatePipeline_upstream env h)
           (ClickHouseTLSTerminatePipeline_downstream env h) still_connected)) (\<lambda>running.
         if running then retM True
         else seqM (delete_client env) (seqM (delete_target env) (retM False))))))))"

section \<open>ClickHouseTLSStartPipeline\<close>

definition ClickHouseTLSStartPipeline_upstream :: "'w env \<Rightarrow> 'w proxy_handler \<Rightarrow> ('w proxy, unit) cmd" where
  "ClickHouseTLSStartPipeline_upstream env h =
     bindM (getM client_socket) (\<lambda>client_socket.
     bindM (getM target_socket) (\<lambda>target_socket.
     tryM
       (bindM (on_thread (readable env client_socket)) (\<lambda>r. whenM r
         (bindM (on_thread (receive_bytes env client_socket)) (\<lambda>bytes.
          bindM (on_thread (HandleUpstreamData h bytes (int (length bytes)))) (\<lambda>response.
          seqM (on_thread (send_bytes env target_socket response))
            (whenM (bytes = []) disconnect))))))
       (\<lambda>_. retM ())))"

definition ClickHouseTLSStartPipeline_downstream :: "'w env \<Rightarrow> 'w proxy_handler \<Rightarrow> ('w proxy, unit) cmd" where
  "ClickHouseTLSStartPipeline_downstream env h =
     bindM (getM client_socket) (\<lambda>client_socket.
     bindM (getM target_socket) (\<lambda>target_socket.
     tryM
       (bindM (on_thread (readable env target_socket)) (\<lambda>r. whenM r
         (bindM (on_thread (receive_bytes env target_socket)) (\<lambda>bytes.
          bindM (on_thread (HandleDownStreamData h bytes (int (length bytes)))) (\<lambda>response.
          seqM (on_thread (send_bytes env client_socket response))
            (whenM (bytes = []) disconnect))))))
       (\<lambda>_. retM ())))"

text \<open>The target socket of this pipeline is a \<open>CClientSSLSocket\<close>: \<open>Tls Target\<close>.\<close>

definition ClickHouseTLSStartPipeline ::
    "'w env \<Rightarrow> 'w proxy_handler option \<Rightarrow> nat \<Rightarrow> ('w proxy, bool) cmd" where
  "ClickHouseTLSStartPipeline env handler rounds =
     (case handler of None \<Rightarrow> retM False | Some h \<Rightarrow>
       seqM (resolve_target env)
       (seqM (updM (\<lambda>s. s\<lparr>target_socket := Tls Target\<rparr>))
       (seqM (open_target env)
       (seqM (configure_sockets env)
       (bindM (run_loop rounds (relay_round (proxy_select env)
           (ClickHouseTLSStartPipeline_upstream env h)
           (ClickHouseTLSStartPipeline_downstream env h) still_connected)) (\<lambda>running.
         if running then retM True
         else seqM (delete_client env) (seqM (delete_target env) (retM False))))))))"

section \<open>ClickHouseTLSExchangePipeline\<close>

text \<open>
  As the default pipeline, between two TLS sockets; but an exception is only logged, and the
  sockets are deleted in the other order.
\<close>

definition ClickHouseTLSExchangePipeline_upstream :: "'w env \<Rightarrow> 'w proxy_handler \<Rightarrow> ('w proxy, unit) cmd" where
  "ClickHouseTLSExchangePipeline_upstream env h =
     bindM (getM client_socket) (\<lambda>client_socket.
     bindM (getM target_socket) (\<lambda>target_socket.
     tryM
       (bindM (on_thread (readable env client_socket)) (\<lambda>r. whenM r
         (bindM (on_thread (receive_bytes env client_socket)) (\<lambda>bytes. seqM
           (whenM (bytes \<noteq> [])
             (seqM (bindM (getM data_sent) (\<lambda>d. whenM (\<not> d) (new_correlation env)))
             (seqM (stamp_start env)
             (bindM (on_thread (HandleUpstreamData h bytes (int (length bytes)))) (\<lambda>response.
             (seqM (on_thread (send_bytes env target_socket response))
               (updM (\<lambda>s. s\<lparr>data_sent := True\<rparr>))))))))
           (whenM (bytes = []) disconnect)))))
       (\<lambda>_. retM ())))"

definition ClickHouseTLSExchangePipeline_downstream :: "'w env \<Rightarrow> 'w proxy_handler \<Rightarrow> ('w proxy, unit) cmd" where
  "ClickHouseTLSExchangePipeline_downstream env h =
     bindM (getM client_socket) (\<lambda>client_socket.
     bindM (getM target_socket) (\<lambda>target_socket.
     tryM
       (bindM (on_thread (readable env target_socket)) (\<lambda>r. whenM r
         (bindM (on_thread (receive_bytes env target_socket)) (\<lambda>bytes. seqM
           (whenM (bytes \<noteq> [])
             (bindM (on_thread (now env)) (\<lambda>stop.
              seqM (bindM (getM data_sent) (\<lambda>d. whenM d
                (seqM (log_latency stop) (updM (\<lambda>s. s\<lparr>data_sent := False\<rparr>)))))
             (seqM (on_thread (ctx_put ''request_stop_time'' (AnyTime stop)))
             (seqM (put_target_host)
             (bindM (on_thread (HandleDownStreamData h bytes (int (length bytes)))) (\<lambda>response.
               on_thread (send_bytes env client_socket response))))))))
           (whenM (bytes = []) disconnect)))))
       (\<lambda>_. retM ())))"


definition ClickHouseTLSExchangePipeline ::
    "'w env \<Rightarrow> 'w proxy_handler option \<Rightarrow> nat \<Rightarrow> ('w proxy, bool) cmd" where
  "ClickHouseTLSExchangePipeline env handler rounds =
     (case handler of None \<Rightarrow> retM False | Some h \<Rightarrow>
       seqM (resolve_target env)
       (seqM (wrap_client_tls env)
       (seqM (updM (\<lambda>s. s\<lparr>target_socket := Tls Target\<rparr>))
       (seqM (open_target env)
       (seqM (configure_sockets env)
       (seqM (stamp_start env)
       (bindM (run_loop rounds (relay_round (proxy_select env)
           (ClickHouseTLSExchangePipeline_upstream env h)
           (ClickHouseTLSExchangePipeline_downstream env h) still_connected)) (\<lambda>running.
         if running then retM True
         else seqM (delete_target env) (seqM (delete_client env) (retM False))))))))))"

end
