(* ===== verification/Session_Pipelines.thy ===== *)
theory Session_Pipelines
  imports Relay Byte_Readers Proxy_Pipelines
begin

unbundle bit_operations_syntax

text \<open>
  The two pipelines with a handshake, \<open>MySQLPipeline\<close> and \<open>PostgreSQLPipeline\<close>: the
  handshake may replace both sockets by TLS sockets around the same descriptors, after which
  the relay loop runs on the new ones.
\<close>

record 'w session = "'w conn" +
  latency_logged :: bool
  has_error :: bool

section \<open>Shared steps\<close>

definition give_up :: "('w session, unit) cmd" where
  "give_up = updM (\<lambda>s. s\<lparr>has_error := True\<rparr>)"

text \<open>\<open>SocketSelect sel(conn.client_socket, conn.target_socket, NonBlockingSocket);\<close>\<close>

definition session_select :: "'w env \<Rightarrow> ('w session, unit) cmd" where
  "session_select env =
     bindM (getM client_socket) (\<lambda>c.
     bindM (getM target_socket) (\<lambda>t. on_thread (select env c (Some t))))"

text \<open>
  \<open>conn->client_socket = new SSLSocket(conn->client_socket->GetSocket())\<close>, and the same
  for the target.
\<close>

definition wrap_target_tls :: "'w env \<Rightarrow> (('w, 'z) conn_scheme, unit) cmd" where
  "wrap_target_tls env =
     bindM (getM (\<lambda>s. Tls (side_of (target_socket s)))) (\<lambda>k.
     seqM (on_thread (wrap_tls env k)) (updM (\<lambda>s. s\<lparr>target_socket := k\<rparr>)))"

definition start_request :: "'w env \<Rightarrow> ('w session, unit) cmd" where
  "start_request env =
     bindM (getM latency_logged) (\<lambda>l. whenM l
       (seqM (new_correlation env) (updM (\<lambda>s. s\<lparr>latency_logged := False\<rparr>))))"

definition finish_request :: "'w env \<Rightarrow> ('w session, unit) cmd" where
  "finish_request env =
     bindM (getM latency_logged) (\<lambda>l. whenM (\<not> l)
       (bindM (on_thread (now env)) (\<lambda>stop.
        seqM (log_latency stop) (updM (\<lambda>s. s\<lparr>latency_logged := True\<rparr>)))))"

text \<open>
  \<open>delete conn.client_socket; if (original_client_socket != conn.client_socket) delete
  original_client_socket;\<close>, then the same for the target.
\<close>

definition delete_sockets :: "'w env \<Rightarrow> sock \<Rightarrow> sock \<Rightarrow> ('w session, unit) cmd" where
  "delete_sockets env original_client_socket original_target_socket =
     bindM (getM client_socket) (\<lambda>c.
     bindM (getM target_socket) (\<lambda>t.
     seqM (on_thread (delete_socket env c))
     (seqM (whenM (original_client_socket \<noteq> c) (on_thread (delete_socket env original_client_socket)))
     (seqM (on_thread (delete_socket env t))
       (whenM (original_target_socket \<noteq> t) (on_thread (delete_socket env original_target_socket)))))))"

definition initial_session :: "sock \<Rightarrow> sock \<Rightarrow> 'w \<Rightarrow> 'w session" where
  "initial_session c t w =
     \<lparr>thr = initial_thread w, client_socket = c, target_socket = t,
      target_endpoint = \<lparr>ipaddress = [], port = 0\<rparr>, correlation_id = [], start_time = 0,
      latency_logged = True, has_error = False\<rparr>"

section \<open>MySQL packets\<close>

definition read_packet :: "'w env \<Rightarrow> readers \<Rightarrow> sock \<Rightarrow> ('w thread, string) cmd" where
  "read_packet env R k =
     bindM (recv_blocking env k 4) (\<lambda>buffer.
     bindM (resM (readLEInt24 R buffer 0)) (\<lambda>payload_length.
     bindM (recv_blocking env k (unat payload_length)) (\<lambda>payload.
       retM (buffer @ payload))))"

definition write_packet :: "'w env \<Rightarrow> sock \<Rightarrow> string \<Rightarrow> ('w thread, unit) cmd" where
  "write_packet env k packet = send_bytes env k packet"

text \<open>
  The loop of \<open>extract_packets\<close>. \<open>pos\<close> is an \<open>int\<close>: \<open>pos += 4\<close> is signed, while
  \<open>pos += packet_length\<close> adds 32-bit unsigned numbers and converts back. A \<open>pos\<close> that
  became negative is a start past the end of any string for \<open>substr\<close>.
\<close>

definition substr_at :: "string \<Rightarrow> int \<Rightarrow> nat \<Rightarrow> string res" where
  "substr_at b pos n =
     (if pos < 0 then Inl (Thrown (OutOfRange ''basic_string::substr'')) else std_substr b (nat pos) n)"

definition add_u32 :: "int \<Rightarrow> 32 word \<Rightarrow> int" where
  "add_u32 pos n = to_int32 (uint (of_int pos + n))"

text \<open>One step forward: the position grows past the packet, or wraps to a negative one.\<close>

lemma add_u32_uint:
  assumes "0 \<le> pos" and "pos < 2 ^ 31"
  shows "uint (of_int pos + ucast (v :: 24 word) :: 32 word) = pos + uint v"
proof -
  have v: "uint v < 2 ^ 24" "0 \<le> uint v" using uint_lt2p [of v] by simp_all
  have ucast: "uint (ucast v :: 32 word) = uint v"
    using v by (simp add: unsigned_ucast_eq take_bit_int_eq_self)
  show ?thesis using assms v by (simp add: uint_word_ariths ucast uint_word_of_int)
qed

lemma add_u32_step:
  assumes "0 \<le> pos" and "int_add pos 4 = Inr pos'"
  shows "add_u32 pos' (ucast (v :: 24 word)) = pos + 4 + uint v \<or> add_u32 pos' (ucast v) < 0"
proof -
  have pos': "pos' = pos + 4" "pos + 4 < 2 ^ 31" using assms(2) by (auto simp: int_add_Inr)
  have v: "uint v < 2 ^ 24" "0 \<le> uint v" using uint_lt2p [of v] by simp_all
  have eq: "uint (of_int pos' + (ucast v :: 32 word)) = pos + 4 + uint v"
    using add_u32_uint [of pos' v] pos' assms(1) by simp
  show ?thesis
  proof (cases "pos + 4 + uint v < 2 ^ 31")
    case True
    then show ?thesis using assms(1) v by (simp add: add_u32_def eq to_int32_id)
  next
    case False
    have "(pos + 4 + uint v + 2 ^ 31) mod 2 ^ 32 = (pos + 4 + uint v + 2 ^ 31 - 2 ^ 32) mod 2 ^ 32"
      by (rule minus_mod_self2 [symmetric])
    with False have wrapped: "(pos + 4 + uint v + 2 ^ 31) mod 2 ^ 32 = pos + 4 + uint v + 2 ^ 31 - 2 ^ 32"
      using pos' v by (simp add: mod_pos_pos_trivial)
    show ?thesis using pos' v unfolding add_u32_def eq to_int32_def wrapped by simp
  qed
qed


function packets_from :: "readers \<Rightarrow> string \<Rightarrow> int \<Rightarrow> int \<Rightarrow> string list res" where
  "packets_from R buffer buffer_length pos =
     (if pos < buffer_length then
        (case readLEInt24 R buffer pos of Inl e \<Rightarrow> Inl e | Inr v \<Rightarrow>
         let packet_length = (ucast v :: 32 word) in
         (case substr_at buffer pos (unat (packet_length + 4)) of Inl e \<Rightarrow> Inl e | Inr packet \<Rightarrow>
          (case int_add pos 4 of Inl e \<Rightarrow> Inl e | Inr pos' \<Rightarrow>
             bindR (packets_from R buffer buffer_length (add_u32 pos' packet_length))
               (\<lambda>packets. Inr (packet # packets)))))
      else Inr [])"
  by pat_completeness auto
termination
proof (relation "measure (\<lambda>(R, b, n, pos). if pos < 0 then 0 else nat (n - pos) + 1)", goal_cases)
  case (2 R b n pos v l p q)
  then have "0 \<le> pos" by (auto simp: substr_at_def split: if_splits)
  with 2 add_u32_step [of pos q v] show ?case by (auto simp: add_pos_nonneg)
qed simp

declare packets_from.simps [simp del]

definition extract_packets :: "readers \<Rightarrow> string \<Rightarrow> int \<Rightarrow> string list res" where
  "extract_packets R buffer buffer_length = packets_from R buffer buffer_length 0"

lemma packet_span: "unat (ucast (v :: 24 word) + 4 :: 32 word) = unat v + 4"
proof -
  have v: "unat v < 2 ^ 24" using unsigned_less [of v] by simp
  have "unat (ucast v :: 32 word) = unat v"
    using v by (simp add: unsigned_ucast_eq take_bit_nat_eq_self)
  then show ?thesis using v by (simp add: unat_word_ariths)
qed

lemma packets_from_concat:
  assumes "packets_from R b n pos = Inr ps" and "0 \<le> pos" and "n = int (length b)"
  shows "concat ps = drop (nat pos) b"
  using assms
proof (induction R b n pos arbitrary: ps rule: packets_from.induct)
  case (1 R b n pos)
  show ?case
  proof (cases "pos < n")
    case False
    with "1.prems"(1) have "ps = []" by (simp add: packets_from.simps [of R b n pos])
    with False "1.prems"(3) show ?thesis by simp
  next
    case True
    then obtain v p pos' qs where v: "readLEInt24 R b pos = Inr v"
      and p: "substr_at b pos (unat (ucast v + 4 :: 32 word)) = Inr p"
      and pos': "int_add pos 4 = Inr pos'"
      and qs: "packets_from R b n (add_u32 pos' (ucast v)) = Inr qs"
      and ps: "ps = p # qs"
      using "1.prems"(1) by (auto simp: packets_from.simps [of R b n pos] bindR_Inr Let_def split: sum.splits)
    let ?next = "add_u32 pos' (ucast v)"
    have step: "?next = pos + 4 + uint v"
    proof (rule ccontr)
      assume "?next \<noteq> pos + 4 + uint v"
      then have neg: "?next < 0" using add_u32_step [OF "1.prems"(2) pos', of v] by simp
      then have "?next < n" using "1.prems"(3) by simp
      with qs neg show False
        by (auto simp: packets_from.simps [of R b n ?next] substr_at_def Let_def split: sum.splits)
    qed
    have nxt: "nat (pos + 4 + uint v) = (unat v + 4) + nat pos"
      using "1.prems"(2) unsigned_greater_eq [of v] by (simp add: nat_add_distrib flip: nat_uint_eq)
    have "concat qs = drop (nat (pos + 4 + uint v)) b"
      using "1.IH" [OF True v refl p pos' qs] "1.prems" by (simp add: step)
    then have "concat qs = drop (unat v + 4) (drop (nat pos) b)"
      unfolding nxt drop_drop .
    moreover have "p = take (unat v + 4) (drop (nat pos) b)"
      using p "1.prems"(2) packet_span [of v]
      by (simp add: substr_at_def std_substr_def split: if_splits)
    ultimately show ?thesis by (simp only: ps concat.simps append_take_drop_id)
  qed
qed

lemma extract_packets_concat: "extract_packets R b (int (length b)) = Inr ps \<Longrightarrow> concat ps = b"
  unfolding extract_packets_def by (drule packets_from_concat) simp_all

text \<open>A packet on the wire: three bytes of length, a sequence number, the payload.\<close>

definition frame :: "char \<times> string \<Rightarrow> string" where
  "frame = (\<lambda>(number, payload). le_bytes 3 (length payload) @ number # payload)"

lemma length_frame: "length (frame p) = length (snd p) + 4"
  by (cases p) (simp add: frame_def)

lemma packets_from_frames:
  assumes "le_readers R" and "\<forall>p \<in> set ps. length (snd p) < 2 ^ 24"
    and "length (pre @ concat (map frame ps)) < 2 ^ 31"
  shows "packets_from R (pre @ concat (map frame ps)) (int (length (pre @ concat (map frame ps))))
     (int (length pre)) = Inr (map frame ps)"
  using assms(2,3)
proof (induction ps arbitrary: pre)
  case Nil
  then show ?case by (simp add: packets_from.simps)
next
  case (Cons p ps)
  let ?rest = "concat (map frame ps)"
  let ?b = "pre @ frame p @ ?rest" and ?i = "int (length pre)"
  let ?v = "of_nat (length (snd p)) :: 24 word"
  have short: "length (snd p) < 2 ^ 24" using Cons.prems by simp
  have total: "length pre + (length (snd p) + 4) + length ?rest < 2 ^ 31"
    using Cons.prems(2) by (simp add: length_frame)
  have unat_v: "unat ?v = length (snd p)" using short by (simp add: unsigned_of_nat take_bit_nat_eq_self)
  have read: "readLEInt24 R ?b ?i = Inr ?v"
  proof -
    have "take 3 (frame p @ ?rest) = le_bytes 3 (length (snd p))"
      by (cases p) (simp add: frame_def)
    then show ?thesis
      using le_readers_at(3) [OF assms(1), of ?i ?b] short by (simp add: length_frame le_value_bytes)
  qed
  have sub: "substr_at ?b ?i (unat (ucast ?v + 4 :: 32 word)) = Inr (frame p)"
    unfolding packet_span unat_v by (simp add: substr_at_def std_substr_def length_frame)
  have four: "int_add ?i 4 = Inr (?i + 4)" using total by (simp add: int_add_def)
  have next_pos: "add_u32 (?i + 4) (ucast ?v) = int (length (pre @ frame p))"
  proof -
    have "uint (of_int (?i + 4) + (ucast ?v :: 32 word)) = ?i + 4 + int (length (snd p))"
      using add_u32_uint [of "?i + 4" ?v] total short
      by (simp add: unsigned_of_nat take_bit_nat_eq_self)
    then show ?thesis unfolding add_u32_def using total by (simp add: to_int32_id length_frame)
  qed
  have "packets_from R ?b (int (length ?b)) (int (length (pre @ frame p))) = Inr (map frame ps)"
    using Cons.IH [of "pre @ frame p"] Cons.prems by simp
  moreover have "?i < int (length ?b)" by (simp add: length_frame)
  ultimately show ?case
    by (simp add: packets_from.simps [of R ?b _ ?i] read sub four next_pos Let_def)
qed

section \<open>MySQLPipeline\<close>

definition CLIENT_PROTOCOL_41 :: "32 word" where
  "CLIENT_PROTOCOL_41 = push_bit 9 1"

definition CLIENT_SSL :: "32 word" where
  "CLIENT_SSL = push_bit 11 1"

text \<open>The result is the handshake's status, 0 for success.\<close>

definition MySQLHandshake :: "'w env \<Rightarrow> readers \<Rightarrow> ('w session, int) cmd" where
  "MySQLHandshake env R =
     bindM (getM target_socket) (\<lambda>target_socket'.
     bindM (on_thread (read_packet env R target_socket')) (\<lambda>packet.
     bindM (getM client_socket) (\<lambda>client_socket'.
     seqM (on_thread (write_packet env client_socket' packet))
     (bindM (on_thread (read_packet env R client_socket')) (\<lambda>packet.
     bindM (resM (readInt32 R packet 4)) (\<lambda>capabilities.
       if capabilities AND CLIENT_PROTOCOL_41 = 0 then retM (- 1)
       else
         seqM (on_thread (write_packet env target_socket' packet))
         (seqM (on_thread (ctx_put ''capabilities'' (AnyU32 capabilities)))
         (seqM
           (whenM (capabilities AND CLIENT_SSL \<noteq> 0)
             (seqM (wrap_client_tls env)
             (seqM (wrap_target_tls env)
             (bindM (getM client_socket) (\<lambda>c.
              bindM (on_thread (read_packet env R c)) (\<lambda>packet.
              bindM (getM target_socket) (\<lambda>t.
                on_thread (write_packet env t packet))))))))
         (bindM (getM target_socket) (\<lambda>t.
          bindM (on_thread (read_packet env R t)) (\<lambda>packet.
          bindM (getM client_socket) (\<lambda>c.
          seqM (on_thread (write_packet env c packet)) (retM 0)))))))))))))"

text \<open>\<open>for (packet : extract_packets(...)) target_socket->SendBytes(HandleUpstreamData(packet))\<close>.\<close>

definition send_packets :: "'w env \<Rightarrow> 'w proxy_handler \<Rightarrow> sock \<Rightarrow> string list \<Rightarrow> ('w thread, unit) cmd" where
  "send_packets env h k packets =
     forM (\<lambda>packet. bindM (HandleUpstreamData h packet (int (length packet)))
       (\<lambda>response. send_bytes env k response)) packets"

definition MySQLPipeline_upstream :: "'w env \<Rightarrow> readers \<Rightarrow> 'w proxy_handler \<Rightarrow> ('w session, unit) cmd" where
  "MySQLPipeline_upstream env R h =
     bindM (getM client_socket) (\<lambda>client_socket.
     bindM (getM target_socket) (\<lambda>target_socket.
     tryM
       (bindM (on_thread (readable env client_socket)) (\<lambda>r. whenM r
         (bindM (on_thread (receive_bytes env client_socket)) (\<lambda>bytes. seqM
           (whenM (bytes \<noteq> [])
             (seqM (start_request env)
             (seqM (stamp_start env)
             (bindM (resM (extract_packets R bytes (int (length bytes)))) (\<lambda>packets.
               on_thread (send_packets env h target_socket packets))))))
           (whenM (bytes = []) give_up)))))
       (\<lambda>_. give_up)))"

definition MySQLPipeline_downstream :: "'w env \<Rightarrow> 'w proxy_handler \<Rightarrow> ('w session, unit) cmd" where
  "MySQLPipeline_downstream env h =
     bindM (getM client_socket) (\<lambda>client_socket.
     bindM (getM target_socket) (\<lambda>target_socket.
     tryM
       (bindM (on_thread (readable env target_socket)) (\<lambda>r. whenM r
         (bindM (on_thread (receive_bytes env target_socket)) (\<lambda>bytes. seqM
           (whenM (bytes \<noteq> [])
             (seqM (finish_request env)
             (bindM (on_thread (HandleDownStreamData h bytes (int (length bytes)))) (\<lambda>response.
               on_thread (send_bytes env client_socket response)))))
           (whenM (bytes = []) give_up)))))
       (\<lambda>_. give_up)))"

definition MySQLPipeline ::
    "'w env \<Rightarrow> readers \<Rightarrow> 'w proxy_handler option \<Rightarrow> nat \<Rightarrow> ('w session, bool) cmd" where
  "MySQLPipeline env R handler rounds =
     (case handler of None \<Rightarrow> retM False | Some h \<Rightarrow>
       seqM (resolve_target env)
       (bindM (getM client_socket) (\<lambda>original_client_socket.
        bindM (getM target_socket) (\<lambda>original_target_socket.
        seqM (open_target env)
        (seqM put_target_host
        (seqM (stamp_start env)
        (seqM (configure_sockets env)
        (seqM (tryM (bindM (MySQLHandshake env R) (\<lambda>status. whenM (status \<noteq> 0) give_up)) (\<lambda>_. give_up))
        (bindM (getM has_error) (\<lambda>failed.
         bindM (if failed then retM False
                else run_loop rounds (relay_round (session_select env) (MySQLPipeline_upstream env R h)
                  (MySQLPipeline_downstream env h) (\<lambda>s. \<not> has_error s))) (\<lambda>running.
         if running then retM True
         else seqM (delete_sockets env original_client_socket original_target_socket) (retM False))))))))))))"

section \<open>PostgreSQLPipeline\<close>

definition read_bytes :: "'w env \<Rightarrow> sock \<Rightarrow> nat \<Rightarrow> ('w thread, string) cmd" where
  "read_bytes env k n = recv_blocking env k n"

definition write_bytes :: "'w env \<Rightarrow> sock \<Rightarrow> string \<Rightarrow> ('w thread, unit) cmd" where
  "write_bytes env k bytes = send_bytes env k bytes"

definition RequestCodeSSL :: "32 word" where
  "RequestCodeSSL = 80877103"

definition RequestCodeGSSENC :: "32 word" where
  "RequestCodeGSSENC = 80877104"

definition handle_ssl_request :: "'w env \<Rightarrow> ('w session, unit) cmd" where
  "handle_ssl_request env =
     bindM (getM target_socket) (\<lambda>t.
     bindM (getM client_socket) (\<lambda>c.
     bindM (on_thread (recv_blocking env t 1)) (\<lambda>server_resp.
     seqM (on_thread (send_bytes env c server_resp))
       (whenM (server_resp = ''S'') (seqM (wrap_client_tls env) (wrap_target_tls env))))))"

text \<open>The message that follows the SSL negotiation: its length is forwarded, its body returned.\<close>

definition read_startup_message :: "'w env \<Rightarrow> readers \<Rightarrow> ('w session, string) cmd" where
  "read_startup_message env R =
     bindM (getM client_socket) (\<lambda>c.
     bindM (on_thread (read_bytes env c 4)) (\<lambda>packet_length_bytes.
     bindM (resM (readBEInt32 R packet_length_bytes 0)) (\<lambda>packet_length.
     bindM (on_thread (read_bytes env c (unat (packet_length - 4)))) (\<lambda>message_body_bytes.
     bindM (getM target_socket) (\<lambda>t.
     seqM (on_thread (write_bytes env t packet_length_bytes)) (retM message_body_bytes))))))"

definition PostgreSQLHandshake :: "'w env \<Rightarrow> readers \<Rightarrow> ('w session, int) cmd" where
  "PostgreSQLHandshake env R =
     bindM (getM client_socket) (\<lambda>c.
     bindM (getM target_socket) (\<lambda>t.
     bindM (on_thread (read_bytes env c 4)) (\<lambda>packet_length_bytes.
     seqM (on_thread (write_bytes env t packet_length_bytes))
     (bindM (resM (readBEInt32 R packet_length_bytes 0)) (\<lambda>packet_length.
      let packet_body_length = unat (packet_length - 4) in
      if packet_length = 16 then
        bindM (on_thread (read_bytes env c packet_body_length)) (\<lambda>message_body_bytes.
        seqM (on_thread (write_bytes env t message_body_bytes)) (retM 0))
      else
        bindM
          (if packet_length = 8 then
             bindM (on_thread (read_bytes env c packet_body_length)) (\<lambda>message_body_bytes.
             seqM (on_thread (write_bytes env t message_body_bytes))
             (bindM (resM (readBEInt32 R message_body_bytes 0)) (\<lambda>message_code.
              seqM
                (if message_code = RequestCodeSSL then handle_ssl_request env
                 else if message_code = RequestCodeGSSENC then failM (Thrown (CharPtr ''Not Implemented''))
                 else retM ())
                (read_startup_message env R))))
           else retM [])
          (\<lambda>message_body_bytes.
           bindM (getM target_socket) (\<lambda>t.
           seqM (on_thread (write_bytes env t message_body_bytes)) (retM 0))))))))"

definition PostgreSQLPipeline_upstream :: "'w env \<Rightarrow> 'w proxy_handler \<Rightarrow> ('w session, unit) cmd" where
  "PostgreSQLPipeline_upstream env h =
     bindM (getM client_socket) (\<lambda>client_socket.
     bindM (getM target_socket) (\<lambda>target_socket.
     tryM
       (bindM (on_thread (readable env client_socket)) (\<lambda>r. whenM r
         (bindM (on_thread (receive_bytes env client_socket)) (\<lambda>bytes. seqM
           (whenM (bytes \<noteq> [])
             (seqM (start_request env)
             (seqM (stamp_start env)
             (bindM (on_thread (HandleUpstreamData h bytes (int (length bytes)))) (\<lambda>response.
               on_thread (send_bytes env target_socket response))))))
           (whenM (bytes = []) give_up)))))
       (\<lambda>_. give_up)))"

text \<open>The downstream half is the same code as that of the MySQL pipeline.\<close>

definition PostgreSQLPipeline_downstream :: "'w env \<Rightarrow> 'w proxy_handler \<Rightarrow> ('w session, unit) cmd" where
  "PostgreSQLPipeline_downstream env h =
     bindM (getM client_socket) (\<lambda>client_socket.
     bindM (getM target_socket) (\<lambda>target_socket.
     tryM
       (bindM (on_thread (readable env target_socket)) (\<lambda>r. whenM r
         (bindM (on_thread (receive_bytes env target_socket)) (\<lambda>bytes. seqM
           (whenM (bytes \<noteq> [])
             (seqM (finish_request env)
             (bindM (on_thread (HandleDownStreamData h bytes (int (length bytes)))) (\<lambda>response.
               on_thread (send_bytes env client_socket response)))))
           (whenM (bytes = []) give_up)))))
       (\<lambda>_. give_up)))"

definition PostgreSQLPipeline ::
    "'w env \<Rightarrow> readers \<Rightarrow> 'w proxy_handler option \<Rightarrow> nat \<Rightarrow> ('w session, bool) cmd" where
  "PostgreSQLPipeline env R handler rounds =
     (case handler of None \<Rightarrow> retM False | Some h \<Rightarrow>
       seqM (resolve_target env)
       (bindM (getM client_socket) (\<lambda>original_client_socket.
        bindM (getM target_socket) (\<lambda>original_target_socket.
        seqM (open_target env)
        (seqM put_target_host
        (seqM (stamp_start env)
        (seqM (configure_sockets env)
        (seqM (tryM (bindM (PostgreSQLHandshake env R) (\<lambda>status. whenM (status \<noteq> 0) give_up)) (\<lambda>_. give_up))
        (bindM (getM has_error) (\<lambda>failed.
         bindM (if failed then retM False
                else run_loop rounds (relay_round (session_select env) (PostgreSQLPipeline_upstream env h)
                  (PostgreSQLPipeline_downstream env h) (\<lambda>s. \<not> has_error s))) (\<lambda>running.
         if running then retM True
         else seqM (delete_sockets env original_client_socket original_target_socket) (retM False))))))))))))"

end
