(* ===== verification/Proxy_Flow.thy ===== *)
theory Proxy_Flow
  imports Proxy_Pipelines
begin

text \<open>
  The halves of the proxy pipelines keep the contracts of \<open>Relay\<close>: the invariants for
  every handler that keeps the handler contract, the flow laws for handlers that forward
  verbatim.
\<close>

section \<open>The invariants\<close>

text \<open>Which socket objects the loop works on; it never changes them.\<close>

definition wired :: "sock \<Rightarrow> sock \<Rightarrow> ('w, 'z) conn_scheme \<Rightarrow> bool" where
  "wired c t s \<longleftrightarrow> client_socket s = c \<and> target_socket s = t \<and> side_of c = Client \<and> side_of t = Target"

text \<open>The execution context holds the id generated last, and every log line carries it.\<close>

definition context_ok :: "('w, 'z) conn_scheme \<Rightarrow> bool" where
  "context_ok s \<longleftrightarrow> correlation_of (ctx (thr s)) = current None (tr s) \<and> tagged None (tr s)"

text \<open>
  One latency per request: the ids measured are the ids generated, in order, but for the
  request in flight (or one that failed, after which the loop ends).
\<close>

definition accounted :: "'w proxy \<Rightarrow> bool" where
  "accounted s \<longleftrightarrow>
     (if data_sent s then current None (tr s) = Some (correlation_id s) \<and>
        generated (tr s) = measured (tr s) @ [correlation_id s]
      else generated (tr s) = measured (tr s) \<or>
        \<not> still_connected s \<and> (\<exists>u. generated (tr s) = measured (tr s) @ [u]))"

text \<open>Where a failed request does not end the loop, some generated ids are never measured.\<close>

definition accounted_lossy :: "'w proxy \<Rightarrow> bool" where
  "accounted_lossy s \<longleftrightarrow>
     (if data_sent s then current None (tr s) = Some (correlation_id s) \<and>
        subseq (measured (tr s) @ [correlation_id s]) (generated (tr s))
      else subseq (measured (tr s)) (generated (tr s)))"

definition proxy_inv :: "sock \<Rightarrow> sock \<Rightarrow> 'w proxy \<Rightarrow> bool" where
  "proxy_inv c t s \<longleftrightarrow> wired c t s \<and> context_ok s \<and> accounted s"

definition exchange_inv :: "sock \<Rightarrow> sock \<Rightarrow> 'w proxy \<Rightarrow> bool" where
  "exchange_inv c t s \<longleftrightarrow> wired c t s \<and> context_ok s \<and> accounted_lossy s"

text \<open>The pipelines that never generate an id.\<close>

definition untracked_inv :: "sock \<Rightarrow> sock \<Rightarrow> 'w proxy \<Rightarrow> bool" where
  "untracked_inv c t s \<longleftrightarrow> wired c t s \<and> context_ok s \<and> generated (tr s) = [] \<and> measured (tr s) = []
     \<and> current None (tr s) = None"

definition passthrough_inv :: "sock \<Rightarrow> sock \<Rightarrow> 'w proxy \<Rightarrow> bool" where
  "passthrough_inv c t s \<longleftrightarrow> wired c t s \<and> context_ok s \<and> current None (tr s) = Some (correlation_id s)
     \<and> generated (tr s) = [correlation_id s] \<and> measured (tr s) = []"

lemmas inv_defs = wired_def context_ok_def accounted_def accounted_lossy_def proxy_inv_def
  exchange_inv_def untracked_inv_def passthrough_inv_def

lemmas half_effects = readable_def receive_bytes_def send_bytes_def new_correlation_def
  generate_uuid_def stamp_start_def disconnect_def log_latency_def put_target_host_def

lemma subseq_snoc: "subseq xs ys \<Longrightarrow> subseq (xs @ [x]) (ys @ [x])"
  by (rule list_emb_append_mono) auto

lemma subseq_snoc_right: "subseq xs ys \<Longrightarrow> subseq xs (ys @ [y])"
  by (rule list_emb_append_mono [of _ _ _ "[]" "[y]", simplified])

lemma subseq_snocD: "subseq (xs @ [x]) ys \<Longrightarrow> subseq xs ys"
  by (rule subseq_order.order_trans [OF subseq_snoc_right [OF subseq_order.order_refl]])

lemma proxy_select_keeps:
  assumes "\<And>t. trace t = tr s \<Longrightarrow> ctx t = ctx (thr s) \<Longrightarrow> I (s\<lparr>thr := t\<rparr>)" and "still_connected s"
  shows "wp (proxy_select env)
     (\<lambda>_ s'. I s' \<and> still_connected s' \<and> tr s' = tr s)
     (\<lambda>_ s'. I s' \<and> still_connected s' \<and> tr s' = tr s) s"
proof -
  have same: "s\<lparr>thr := t, still_connected := True\<rparr> = s\<lparr>thr := t\<rparr>" for t
    using assms(2) by (cases s) simp
  show ?thesis unfolding proxy_select_def select_def
    by (intro vcg) (simp_all add: same assms)
qed

section \<open>The invariants are kept\<close>

context proxy_contract
begin

lemma default_up_inv:
  assumes "proxy_inv c t s" and "still_connected s"
  shows "wp (DefaultProxyPipeline_upstream env h)
     (\<lambda>_ s'. proxy_inv c t s' \<and> extends (tr s) (tr s')) (\<lambda>f s'. escapes f \<and> extends (tr s) (tr s')) s"
  using assms unfolding DefaultProxyPipeline_upstream_def half_effects
  by (intro vcg up_quiet) (simp_all add: inv_defs extends_def quiet_def subseq_snoc subseq_snoc_right, (auto split: if_splits)?)

lemma default_down_inv:
  assumes "proxy_inv c t s"
  shows "wp (DefaultProxyPipeline_downstream env h)
     (\<lambda>_ s'. proxy_inv c t s' \<and> (still_connected s' \<longrightarrow> still_connected s) \<and> extends (tr s) (tr s'))
     (\<lambda>f s'. escapes f \<and> extends (tr s) (tr s')) s"
  using assms unfolding DefaultProxyPipeline_downstream_def half_effects
  by (intro vcg down_quiet) (simp_all add: inv_defs extends_def quiet_def subseq_snoc subseq_snoc_right, (auto split: if_splits)?)

lemma terminate_up_inv:
  assumes "untracked_inv c t s" and "still_connected s"
  shows "wp (ClickHouseTLSTerminatePipeline_upstream env h)
     (\<lambda>_ s'. untracked_inv c t s' \<and> extends (tr s) (tr s')) (\<lambda>f s'. escapes f \<and> extends (tr s) (tr s')) s"
  using assms unfolding ClickHouseTLSTerminatePipeline_upstream_def half_effects
  by (intro vcg up_quiet) (simp_all add: inv_defs extends_def quiet_def subseq_snoc subseq_snoc_right, (auto split: if_splits)?)

lemma terminate_down_inv:
  assumes "untracked_inv c t s"
  shows "wp (ClickHouseTLSTerminatePipeline_downstream env h)
     (\<lambda>_ s'. untracked_inv c t s' \<and> (still_connected s' \<longrightarrow> still_connected s) \<and> extends (tr s) (tr s'))
     (\<lambda>f s'. escapes f \<and> extends (tr s) (tr s')) s"
  using assms unfolding ClickHouseTLSTerminatePipeline_downstream_def half_effects
  by (intro vcg down_quiet) (simp_all add: inv_defs extends_def quiet_def subseq_snoc subseq_snoc_right, (auto split: if_splits)?)

lemma exchange_up_inv:
  assumes "exchange_inv c t s" and "still_connected s"
  shows "wp (ClickHouseTLSExchangePipeline_upstream env h)
     (\<lambda>_ s'. exchange_inv c t s' \<and> extends (tr s) (tr s')) (\<lambda>f s'. escapes f \<and> extends (tr s) (tr s')) s"
  using assms unfolding ClickHouseTLSExchangePipeline_upstream_def half_effects
  by (intro vcg up_quiet) (simp_all add: inv_defs extends_def quiet_def subseq_snoc subseq_snoc_right, (auto split: if_splits)?)

lemma exchange_down_inv:
  assumes "exchange_inv c t s"
  shows "wp (ClickHouseTLSExchangePipeline_downstream env h)
     (\<lambda>_ s'. exchange_inv c t s' \<and> (still_connected s' \<longrightarrow> still_connected s) \<and> extends (tr s) (tr s'))
     (\<lambda>f s'. escapes f \<and> extends (tr s) (tr s')) s"
  using assms unfolding ClickHouseTLSExchangePipeline_downstream_def half_effects
  by (intro vcg down_quiet) (simp_all add: inv_defs extends_def quiet_def subseq_snoc subseq_snoc_right, (auto split: if_splits)?)

end

text \<open>The halves shared between pipelines: the code is the same but for its log lines.\<close>

lemma clickhouse_halves:
  "ClickHousePipeline_upstream = DefaultProxyPipeline_upstream"
  "ClickHousePipeline_downstream = DefaultProxyPipeline_downstream"
  by (intro ext, simp add: ClickHousePipeline_upstream_def DefaultProxyPipeline_upstream_def
      ClickHousePipeline_downstream_def DefaultProxyPipeline_downstream_def)+

lemma tls_start_halves:
  "ClickHouseTLSStartPipeline_upstream = ClickHouseTLSTerminatePipeline_upstream"
  "ClickHouseTLSStartPipeline_downstream = ClickHouseTLSTerminatePipeline_downstream"
  by (intro ext, simp add: ClickHouseTLSStartPipeline_upstream_def ClickHouseTLSTerminatePipeline_upstream_def
      ClickHouseTLSStartPipeline_downstream_def ClickHouseTLSTerminatePipeline_downstream_def)+

lemma passthrough_up_inv:
  assumes "passthrough_inv c t s" and "still_connected s"
  shows "wp (PassthroughPipeline_upstream env)
     (\<lambda>_ s'. passthrough_inv c t s' \<and> extends (tr s) (tr s')) (\<lambda>f s'. escapes f \<and> extends (tr s) (tr s')) s"
  using assms unfolding PassthroughPipeline_upstream_def half_effects
  by (intro vcg) (simp_all add: inv_defs extends_def)

lemma passthrough_down_inv:
  assumes "passthrough_inv c t s"
  shows "wp (PassthroughPipeline_downstream env)
     (\<lambda>_ s'. passthrough_inv c t s' \<and> (still_connected s' \<longrightarrow> still_connected s) \<and> extends (tr s) (tr s'))
     (\<lambda>f s'. escapes f \<and> extends (tr s) (tr s')) s"
  using assms unfolding PassthroughPipeline_downstream_def half_effects
  by (intro vcg) (simp_all add: inv_defs extends_def)

section \<open>The flow laws\<close>

lemma passthrough_up_flow:
  assumes "passthrough_inv c t s" and "still_connected s"
  shows "wp (PassthroughPipeline_upstream env)
     (\<lambda>_ s'. flow Client Target (tr s) (tr s') (still_connected s'))
     (\<lambda>_ s'. flow Client Target (tr s) (tr s') False) s"
  using assms unfolding PassthroughPipeline_upstream_def half_effects
  by (intro vcg) (simp_all add: inv_defs flow_def)

lemma passthrough_down_flow:
  assumes "passthrough_inv c t s"
  shows "wp (PassthroughPipeline_downstream env)
     (\<lambda>_ s'. flow Target Client (tr s) (tr s') (still_connected s'))
     (\<lambda>_ s'. flow Target Client (tr s) (tr s') False) s"
  using assms unfolding PassthroughPipeline_downstream_def half_effects
  by (intro vcg) (simp_all add: inv_defs flow_def)

context transparent_handler
begin

lemma default_up_flow:
  assumes "proxy_inv c t s" and "still_connected s"
  shows "wp (DefaultProxyPipeline_upstream env h)
     (\<lambda>_ s'. flow Client Target (tr s) (tr s') (still_connected s'))
     (\<lambda>_ s'. flow Client Target (tr s) (tr s') False) s"
  using assms unfolding DefaultProxyPipeline_upstream_def half_effects
  by (intro vcg up_forward) (simp_all add: inv_defs flow_def quiet_def)

lemma default_down_flow:
  assumes "proxy_inv c t s"
  shows "wp (DefaultProxyPipeline_downstream env h)
     (\<lambda>_ s'. flow Target Client (tr s) (tr s') (still_connected s'))
     (\<lambda>_ s'. flow Target Client (tr s) (tr s') False) s"
  using assms unfolding DefaultProxyPipeline_downstream_def half_effects
  by (intro vcg down_forward) (simp_all add: inv_defs flow_def quiet_def)

lemma terminate_up_lossy:
  assumes "untracked_inv c t s" and "still_connected s"
  shows "wp (ClickHouseTLSTerminatePipeline_upstream env h)
     (\<lambda>_ s'. lossy_flow Client Target (tr s) (tr s'))
     (\<lambda>_ s'. lossy_flow Client Target (tr s) (tr s')) s"
  using assms unfolding ClickHouseTLSTerminatePipeline_upstream_def half_effects
  by (intro vcg up_forward) (simp_all add: inv_defs lossy_flow_def quiet_def)

lemma terminate_down_lossy:
  assumes "untracked_inv c t s"
  shows "wp (ClickHouseTLSTerminatePipeline_downstream env h)
     (\<lambda>_ s'. lossy_flow Target Client (tr s) (tr s'))
     (\<lambda>_ s'. lossy_flow Target Client (tr s) (tr s')) s"
  using assms unfolding ClickHouseTLSTerminatePipeline_downstream_def half_effects
  by (intro vcg down_forward) (simp_all add: inv_defs lossy_flow_def quiet_def)

lemma exchange_up_lossy:
  assumes "exchange_inv c t s" and "still_connected s"
  shows "wp (ClickHouseTLSExchangePipeline_upstream env h)
     (\<lambda>_ s'. lossy_flow Client Target (tr s) (tr s'))
     (\<lambda>_ s'. lossy_flow Client Target (tr s) (tr s')) s"
  using assms unfolding ClickHouseTLSExchangePipeline_upstream_def half_effects
  by (intro vcg up_forward) (simp_all add: inv_defs lossy_flow_def quiet_def)

lemma exchange_down_lossy:
  assumes "exchange_inv c t s"
  shows "wp (ClickHouseTLSExchangePipeline_downstream env h)
     (\<lambda>_ s'. lossy_flow Target Client (tr s) (tr s'))
     (\<lambda>_ s'. lossy_flow Target Client (tr s) (tr s')) s"
  using assms unfolding ClickHouseTLSExchangePipeline_downstream_def half_effects
  by (intro vcg down_forward) (simp_all add: inv_defs lossy_flow_def quiet_def)

end

section \<open>The pipelines as tunnels and relays\<close>

sublocale proxy_contract \<subseteq> dflt: tunnel "proxy_select env" "DefaultProxyPipeline_upstream env h"
    "DefaultProxyPipeline_downstream env h" tr still_connected "proxy_inv c t" for env c t
  by unfold_locales
    (rule default_up_inv default_down_inv proxy_select_keeps; (assumption | (simp add: inv_defs; fail) | (auto simp: inv_defs; fail)))+

sublocale proxy_contract \<subseteq> terminate: tunnel "proxy_select env" "ClickHouseTLSTerminatePipeline_upstream env h"
    "ClickHouseTLSTerminatePipeline_downstream env h" tr still_connected "untracked_inv c t" for env c t
  by unfold_locales
    (rule terminate_up_inv terminate_down_inv proxy_select_keeps; (assumption | (simp add: inv_defs; fail) | (auto simp: inv_defs; fail)))+

sublocale proxy_contract \<subseteq> exchange: tunnel "proxy_select env" "ClickHouseTLSExchangePipeline_upstream env h"
    "ClickHouseTLSExchangePipeline_downstream env h" tr still_connected "exchange_inv c t" for env c t
  by unfold_locales
    (rule exchange_up_inv exchange_down_inv proxy_select_keeps; (assumption | (simp add: inv_defs; fail) | (auto simp: inv_defs; fail)))+

sublocale transparent_handler \<subseteq> dflt: relay "proxy_select env" "DefaultProxyPipeline_upstream env h"
    "DefaultProxyPipeline_downstream env h" tr still_connected "proxy_inv c t" for env c t
  by unfold_locales (rule default_up_flow default_down_flow; assumption)+

sublocale transparent_handler \<subseteq> terminate: lossy_relay "proxy_select env" "ClickHouseTLSTerminatePipeline_upstream env h"
    "ClickHouseTLSTerminatePipeline_downstream env h" tr still_connected "untracked_inv c t" for env c t
  by unfold_locales (rule terminate_up_lossy terminate_down_lossy; assumption)+

sublocale transparent_handler \<subseteq> exchange: lossy_relay "proxy_select env" "ClickHouseTLSExchangePipeline_upstream env h"
    "ClickHouseTLSExchangePipeline_downstream env h" tr still_connected "exchange_inv c t" for env c t
  by unfold_locales (rule exchange_up_lossy exchange_down_lossy; assumption)+

interpretation passthrough: relay "proxy_select env" "PassthroughPipeline_upstream env"
    "PassthroughPipeline_downstream env" tr still_connected "passthrough_inv c t" for env c t
  by unfold_locales
    (rule passthrough_up_inv passthrough_down_inv passthrough_up_flow passthrough_down_flow
      proxy_select_keeps; (assumption | (simp add: inv_defs; fail) | (auto simp: inv_defs; fail)))+

end
