(* ===== verification/Session_Flow.thy ===== *)
theory Session_Flow
  imports Session_Pipelines Proxy_Flow
begin

text \<open>
  The pipelines with a handshake keep the contracts of \<open>Relay\<close>: the handshakes hand over
  balanced streams, the halves of the loops keep the invariant and pass everything on.
\<close>

section \<open>The handshakes\<close>

text \<open>
  During a handshake: the sockets are the plain ones, or TLS objects that were opened; no
  correlation id exists yet.
\<close>

definition shaking :: "'w session \<Rightarrow> bool" where
  "shaking s \<longleftrightarrow>
     (client_socket s, target_socket s, opened (tr s)) \<in>
       {(Raw Client, Raw Target, [Raw Target]), (Tls Client, Raw Target, [Raw Target, Tls Client]),
        (Tls Client, Tls Target, [Raw Target, Tls Client, Tls Target])}
     \<and> deleted (tr s) = [] \<and> live {} (tr s)
     \<and> correlation_of (ctx (thr s)) = None \<and> current None (tr s) = None \<and> tagged None (tr s)
     \<and> generated (tr s) = [] \<and> measured (tr s) = [] \<and> latency_logged s \<and> \<not> has_error s"

lemmas handshake_effects = read_packet_def write_packet_def send_bytes_def
  wrap_client_tls_def wrap_target_tls_def wrap_tls_def read_bytes_def write_bytes_def
  handle_ssl_request_def read_startup_message_def

definition at_start :: "'w session \<Rightarrow> bool" where
  "at_start s \<longleftrightarrow> client_socket s = Raw Client \<and> target_socket s = Raw Target
     \<and> tr s = [Opened (Raw Target)] \<and> correlation_of (ctx (thr s)) = None
     \<and> latency_logged s \<and> \<not> has_error s"

lemma mysql_handshake:
  assumes "at_start s"
  shows "wp (MySQLHandshake env R)
     (\<lambda>r s'. shaking s' \<and> in_order (tr s') \<and> (r = 0 \<longrightarrow> balanced (tr s')))
     (\<lambda>f s'. shaking s' \<and> in_order (tr s')) s"
  using assms unfolding MySQLHandshake_def handshake_effects
  by (intro vcg) (simp_all add: at_start_def shaking_def in_order_def balanced_def)

lemma postgresql_handshake:
  assumes "at_start s"
  shows "wp (PostgreSQLHandshake env R)
     (\<lambda>r s'. shaking s' \<and> in_order (tr s') \<and> (r = 0 \<longrightarrow> balanced (tr s')))
     (\<lambda>f s'. shaking s' \<and> in_order (tr s')) s"
  using assms unfolding PostgreSQLHandshake_def handshake_effects Let_def
  by (intro vcg) (simp_all add: at_start_def shaking_def in_order_def balanced_def)

section \<open>The invariant of the loops\<close>

definition session_accounted :: "'w session \<Rightarrow> bool" where
  "session_accounted s \<longleftrightarrow>
     (if latency_logged s then generated (tr s) = measured (tr s)
      else current None (tr s) = Some (correlation_id s) \<and>
        generated (tr s) = measured (tr s) @ [correlation_id s])"

definition session_inv :: "sock \<Rightarrow> sock \<Rightarrow> 'w session \<Rightarrow> bool" where
  "session_inv c t s \<longleftrightarrow> wired c t s \<and> context_ok s \<and> session_accounted s"

lemmas session_defs = session_inv_def wired_def context_ok_def session_accounted_def

lemmas session_effects = readable_def receive_bytes_def send_bytes_def start_request_def
  finish_request_def new_correlation_def generate_uuid_def stamp_start_def give_up_def log_latency_def

lemma shaking_inv: "shaking s \<Longrightarrow> session_inv (client_socket s) (target_socket s) s"
  by (auto simp: shaking_def session_defs)

subsection \<open>Forwarding the packets of a chunk\<close>

text \<open>Events that send to one side only and log only under the id in force.\<close>

definition relayed :: "side \<Rightarrow> string option \<Rightarrow> event list \<Rightarrow> bool" where
  "relayed dst c es \<longleftrightarrow> (\<forall>d. received d es = []) \<and> (\<forall>d. d \<noteq> dst \<longrightarrow> sent d es = [])
     \<and> generated es = [] \<and> measured es = [] \<and> (\<forall>e \<in> set es. \<not> lifecycle e)
     \<and> (\<forall>b. current b es = b) \<and> tagged c es"

lemma send_packets_simps:
  "send_packets env h k [] = retM ()"
  "send_packets env h k (p # ps) =
     seqM (bindM (HandleUpstreamData h p (int (length p))) (send_bytes env k)) (send_packets env h k ps)"
  by (simp_all add: send_packets_def)

lemma relayed_nil [simp]: "relayed dst c []"
  by (simp add: relayed_def)

lemma relayed_append: "relayed dst c es \<Longrightarrow> relayed dst c fs \<Longrightarrow> relayed dst c (es @ fs)"
  by (auto simp: relayed_def)

lemma relayed_send:
  "quiet c es \<Longrightarrow> relayed (side_of k) c (es @ [Sent k b])"
  "quiet c es \<Longrightarrow> relayed (side_of k) c (es @ [SendFailed k b])"
  by (auto simp: relayed_def quiet_def)

lemma quiet_relayed: "quiet c es \<Longrightarrow> relayed dst c es"
  by (simp add: relayed_def quiet_def)

definition packets_sent :: "side \<Rightarrow> 'w thread \<Rightarrow> 'w thread \<Rightarrow> bool" where
  "packets_sent dst t t' \<longleftrightarrow> (\<exists>es. trace t' = trace t @ es \<and> relayed dst (correlation_of (ctx t)) es)
     \<and> correlation_of (ctx t') = correlation_of (ctx t)"

lemma packets_sent_trans: "packets_sent dst t u \<Longrightarrow> packets_sent dst u v \<Longrightarrow> packets_sent dst t v"
  by (auto simp: packets_sent_def intro: relayed_append)

context proxy_contract
begin

lemma send_packets_frame:
  "wp (send_packets env h k ps) (\<lambda>_. packets_sent (side_of k) t) (\<lambda>_. packets_sent (side_of k) t) t"
  unfolding send_packets_def
proof (rule wp_forM)
  show "packets_sent (side_of k) t t" by (simp add: packets_sent_def)
  fix u :: "'w thread" and p
  assume u: "packets_sent (side_of k) t u"
  have "wp (bindM (HandleUpstreamData h p (int (length p))) (\<lambda>response. send_bytes env k response))
      (\<lambda>_. packets_sent (side_of k) u) (\<lambda>_. packets_sent (side_of k) u) u"
    unfolding send_bytes_def
    by (intro vcg up_quiet) (auto simp: packets_sent_def intro: relayed_send quiet_relayed)
  then show "wp (bindM (HandleUpstreamData h p (int (length p))) (\<lambda>response. send_bytes env k response))
      (\<lambda>_. packets_sent (side_of k) t) (\<lambda>_. packets_sent (side_of k) t) u"
    by (rule wp_mono) (blast intro: packets_sent_trans [OF u])+
qed

lemma send_packets_rule:
  assumes "\<And>t' es. trace t' = trace t @ es \<Longrightarrow> relayed (side_of k) (correlation_of (ctx t)) es \<Longrightarrow>
      correlation_of (ctx t') = correlation_of (ctx t) \<Longrightarrow> Q () t'"
    and "\<And>f t' es. trace t' = trace t @ es \<Longrightarrow> relayed (side_of k) (correlation_of (ctx t)) es \<Longrightarrow>
      correlation_of (ctx t') = correlation_of (ctx t) \<Longrightarrow> E f t'"
  shows "wp (send_packets env h k ps) Q E t"
  by (rule wp_mono [OF send_packets_frame]) (auto simp: packets_sent_def intro: assms)

lemma mysql_up_inv:
  assumes "session_inv c t s" and "\<not> has_error s"
  shows "wp (MySQLPipeline_upstream env R h)
     (\<lambda>_ s'. session_inv c t s' \<and> extends (tr s) (tr s')) (\<lambda>f s'. escapes f \<and> extends (tr s) (tr s')) s"
  using assms unfolding MySQLPipeline_upstream_def session_effects
  by (intro vcg send_packets_rule)
    (simp_all add: session_defs extends_def relayed_def, (auto split: if_splits)?)

lemma postgresql_up_inv:
  assumes "session_inv c t s" and "\<not> has_error s"
  shows "wp (PostgreSQLPipeline_upstream env h)
     (\<lambda>_ s'. session_inv c t s' \<and> extends (tr s) (tr s')) (\<lambda>f s'. escapes f \<and> extends (tr s) (tr s')) s"
  using assms unfolding PostgreSQLPipeline_upstream_def session_effects
  by (intro vcg up_quiet)
    (simp_all add: session_defs extends_def quiet_def, (auto split: if_splits)?)

lemma mysql_down_inv:
  assumes "session_inv c t s"
  shows "wp (MySQLPipeline_downstream env h)
     (\<lambda>_ s'. session_inv c t s' \<and> (\<not> has_error s' \<longrightarrow> \<not> has_error s) \<and> extends (tr s) (tr s'))
     (\<lambda>f s'. escapes f \<and> extends (tr s) (tr s')) s"
  using assms unfolding MySQLPipeline_downstream_def session_effects
  by (intro vcg down_quiet)
    (simp_all add: session_defs extends_def quiet_def, (auto split: if_splits)?)

end

lemma session_downstream_halves: "PostgreSQLPipeline_downstream = MySQLPipeline_downstream"
  by (intro ext) (simp add: PostgreSQLPipeline_downstream_def MySQLPipeline_downstream_def)

lemma session_select_keeps:
  assumes "session_inv c t s" and "\<not> has_error s"
  shows "wp (session_select env)
     (\<lambda>_ s'. session_inv c t s' \<and> \<not> has_error s' \<and> tr s' = tr s)
     (\<lambda>_ s'. session_inv c t s' \<and> \<not> has_error s' \<and> tr s' = tr s) s"
  using assms unfolding session_select_def select_def
  by (intro vcg) (simp_all add: session_defs)

context transparent_handler
begin

lemma send_packets_all:
  assumes "\<And>t' es. trace t' = trace t @ es \<Longrightarrow> relayed (side_of k) (correlation_of (ctx t)) es \<Longrightarrow>
      correlation_of (ctx t') = correlation_of (ctx t) \<Longrightarrow> sent (side_of k) es = concat ps \<Longrightarrow> Q () t'"
    and "\<And>f t' es. trace t' = trace t @ es \<Longrightarrow> relayed (side_of k) (correlation_of (ctx t)) es \<Longrightarrow>
      correlation_of (ctx t') = correlation_of (ctx t) \<Longrightarrow> prefix (sent (side_of k) es) (concat ps) \<Longrightarrow> E f t'"
  shows "wp (send_packets env h k ps) Q E t"
  using assms
proof (induction ps arbitrary: t)
  case Nil
  from Nil(1) [of t "[]"] show ?case by (simp add: send_packets_def wp_ret)
next
  case (Cons p ps)
  have rest: "wp (send_packets env h k ps) Q E u"
    if u: "trace u = trace t @ es @ [Sent k p]" "quiet (correlation_of (ctx t)) es"
      "correlation_of (ctx u) = correlation_of (ctx t)" for u es
  proof (rule Cons.IH)
    note r = relayed_append [OF relayed_send(1) [OF u(2), of k p]]
    have s: "sent (side_of k) es = []" using u(2) by (simp add: quiet_def)
    fix t' :: "'a thread" and fs
    assume t': "trace t' = trace u @ fs" "relayed (side_of k) (correlation_of (ctx u)) fs"
      "correlation_of (ctx t') = correlation_of (ctx u)"
    show "sent (side_of k) fs = concat ps \<Longrightarrow> Q () t'"
      using t' u s by (intro Cons.prems(1) [OF _ r]) auto
    show "prefix (sent (side_of k) fs) (concat ps) \<Longrightarrow> E f t'" for f
      using t' u s by (intro Cons.prems(2) [OF _ r]) auto
  qed
  have fail: "E f u" if "trace u = trace t @ es @ fs" "quiet (correlation_of (ctx t)) es"
      "correlation_of (ctx u) = correlation_of (ctx t)" "fs = [] \<or> fs = [SendFailed k p]" for f u es fs
    using that by (intro Cons.prems(2) [of u "es @ fs"])
      (auto simp: quiet_def relayed_def)
  note fail_first = fail [where fs = "[]", simplified]
  show ?case
    unfolding send_packets_simps send_bytes_def
    by (intro vcg up_forward) (auto intro: rest fail fail_first)
qed

lemma mysql_up_flow:
  assumes "session_inv c t s" and "\<not> has_error s"
  shows "wp (MySQLPipeline_upstream env R h)
     (\<lambda>_ s'. flow Client Target (tr s) (tr s') (\<not> has_error s'))
     (\<lambda>_ s'. flow Client Target (tr s) (tr s') False) s"
  using assms unfolding MySQLPipeline_upstream_def session_effects
  by (intro vcg send_packets_all)
    (simp_all add: session_defs flow_def relayed_def extract_packets_concat)

lemma mysql_down_flow:
  assumes "session_inv c t s"
  shows "wp (MySQLPipeline_downstream env h)
     (\<lambda>_ s'. flow Target Client (tr s) (tr s') (\<not> has_error s'))
     (\<lambda>_ s'. flow Target Client (tr s) (tr s') False) s"
  using assms unfolding MySQLPipeline_downstream_def session_effects
  by (intro vcg down_forward) (simp_all add: session_defs flow_def quiet_def)

lemma postgresql_up_flow:
  assumes "session_inv c t s" and "\<not> has_error s"
  shows "wp (PostgreSQLPipeline_upstream env h)
     (\<lambda>_ s'. flow Client Target (tr s) (tr s') (\<not> has_error s'))
     (\<lambda>_ s'. flow Client Target (tr s) (tr s') False) s"
  using assms unfolding PostgreSQLPipeline_upstream_def session_effects
  by (intro vcg up_forward) (simp_all add: session_defs flow_def quiet_def)

end

section \<open>The loops as tunnels and relays\<close>

sublocale proxy_contract \<subseteq> mysql_loop: tunnel "session_select env" "MySQLPipeline_upstream env R h"
    "MySQLPipeline_downstream env h" tr "\<lambda>s. \<not> has_error s" "session_inv c t" for env R c t
  by unfold_locales (rule mysql_up_inv mysql_down_inv session_select_keeps; assumption)+

sublocale proxy_contract \<subseteq> postgresql_loop: tunnel "session_select env" "PostgreSQLPipeline_upstream env h"
    "PostgreSQLPipeline_downstream env h" tr "\<lambda>s. \<not> has_error s" "session_inv c t" for env c t
  unfolding session_downstream_halves
  by unfold_locales (rule postgresql_up_inv mysql_down_inv session_select_keeps; assumption)+

sublocale transparent_handler \<subseteq> mysql_loop: relay "session_select env" "MySQLPipeline_upstream env R h"
    "MySQLPipeline_downstream env h" tr "\<lambda>s. \<not> has_error s" "session_inv c t" for env R c t
  by unfold_locales (rule mysql_up_flow mysql_down_flow; assumption)+

sublocale transparent_handler \<subseteq> postgresql_loop: relay "session_select env" "PostgreSQLPipeline_upstream env h"
    "PostgreSQLPipeline_downstream env h" tr "\<lambda>s. \<not> has_error s" "session_inv c t" for env c t
  by unfold_locales
    (unfold session_downstream_halves, (rule postgresql_up_flow mysql_down_flow; assumption)+)

end
