(* ===== verification/Scripted_World.thy ===== *)
theory Scripted_World
  imports Proxy_Runtime
begin

text \<open>
  A world for examples: the chunks each side will still deliver. The client hangs up after
  its last chunk (an empty read); the target becomes unreadable. Sends succeed.
\<close>

type_synonym script = "string list \<times> string list"

fun scripted_receive :: "sock \<Rightarrow> script \<Rightarrow> (exn + string) \<times> script" where
  "scripted_receive k (cs, ts) = (case side_of k of
      Client \<Rightarrow> (case cs of [] \<Rightarrow> (Inr [], ([], ts)) | c # cs' \<Rightarrow> (Inr c, (cs', ts)))
    | Target \<Rightarrow> (case ts of [] \<Rightarrow> (Inr [], (cs, [])) | t # ts' \<Rightarrow> (Inr t, (cs, ts'))))"

definition scripted :: "script env" where
  "scripted = \<lparr>
     x_request_server = (\<lambda>w. (Inr \<lparr>ipaddress = ''db'', port = 9000\<rparr>, w)),
     x_connect = (\<lambda>k ep w. (Inr (), w)),
     x_wrap_tls = (\<lambda>k w. (Inr (), w)),
     x_set_read_timeout = (\<lambda>k w. (Inr (), w)),
     x_set_keep_alive = (\<lambda>k w. (Inr (), w)),
     x_select = (\<lambda>k t w. (Inr (), w)),
     x_readable = (\<lambda>k w. (Inr (side_of k = Client \<or> snd w \<noteq> []), w)),
     x_receive = scripted_receive,
     x_recv_blocking = (\<lambda>k n w. (Inr (\<lambda>_. nul), w)),
     x_send = (\<lambda>k b w. (Inr (), w)),
     x_close = (\<lambda>k w. (Inr (), w)),
     x_delete = (\<lambda>k w. w),
     x_uuid = (\<lambda>w. (Inr ''u'', w)),
     x_now = (\<lambda>w. (0, w))\<rparr>"

end
