(* ===== verification/Other_Handlers.thy ===== *)
theory Other_Handlers
  imports Proxy_Runtime Byte_Readers
begin

text \<open>
  The remaining proxy handlers: \<open>BaseProxyHandler\<close>, \<open>CMongoDBHandler\<close>,
  \<open>CHttpHandler\<close>, \<open>CHttpsHandler\<close>, \<open>CSnowflakeHttpHandler\<close>, \<open>GzipHandler\<close> and
  \<open>CHWirePTHandler\<close>. The HTTP message class, the JSON and BSON library, gzip and the
  ClickHouse packet parser are external: records of operations.
\<close>

section \<open>External libraries\<close>

text \<open>\<open>simple_http_server::HttpRequest\<close> and its operations.\<close>

record 'q http =
  string_to_request :: "string \<Rightarrow> exn + 'q"
  request_to_string :: "'q \<Rightarrow> string"
  empty_request :: 'q
  get_header :: "'q \<Rightarrow> string \<Rightarrow> string"
  set_header :: "'q \<Rightarrow> string \<Rightarrow> string \<Rightarrow> 'q"
  request_content :: "'q \<Rightarrow> string"

record gzip =
  gzip_compress :: "string \<Rightarrow> exn + string"
  gzip_decompress :: "string \<Rightarrow> exn + string"

text \<open>\<open>nlohmann::json\<close>: parsing, indexing, and the conversions used.\<close>

record 'j json =
  json_parse :: "string \<Rightarrow> exn + 'j"
  from_bson :: "string \<Rightarrow> exn + 'j"
  json_contains :: "'j \<Rightarrow> string \<Rightarrow> bool"
  json_at :: "'j \<Rightarrow> string \<Rightarrow> exn + 'j"
  json_is_null :: "'j \<Rightarrow> bool"
  json_string :: "'j \<Rightarrow> exn + string"
  json_dump :: "'j \<Rightarrow> exn + string"

definition lib :: "exn + 'a \<Rightarrow> ('s, 'a) cmd" where
  "lib r = resM (case r of Inl e \<Rightarrow> Inl (Thrown e) | Inr a \<Rightarrow> Inr a)"

text \<open>A signed length passed where a \<open>size_t\<close> is expected.\<close>

definition as_size :: "int \<Rightarrow> nat" where
  "as_size n = unat (of_int n :: 64 word)"

lemma as_size_length: "length b < 2 ^ 64 \<Longrightarrow> as_size (int (length b)) = length b"
  by (simp add: as_size_def unat_of_nat take_bit_nat_eq_self)

section \<open>BaseProxyHandler\<close>

definition BaseProxyHandler_HandleUpstreamData :: "string \<Rightarrow> int \<Rightarrow> ('w thread, string) cmd" where
  "BaseProxyHandler_HandleUpstreamData buffer buffer_length = retM buffer"

definition BaseProxyHandler_HandleDownStreamData :: "string \<Rightarrow> int \<Rightarrow> ('w thread, string) cmd" where
  "BaseProxyHandler_HandleDownStreamData buffer buffer_length = retM buffer"

definition BaseProxyHandler :: "'w proxy_handler" where
  "BaseProxyHandler =
     \<lparr>HandleUpstreamData = BaseProxyHandler_HandleUpstreamData,
      HandleDownStreamData = BaseProxyHandler_HandleDownStreamData\<rparr>"

interpretation base: transparent_handler BaseProxyHandler
  by unfold_locales
    (simp_all add: BaseProxyHandler_def BaseProxyHandler_HandleUpstreamData_def
      BaseProxyHandler_HandleDownStreamData_def wp_ret)

section \<open>CMongoDBHandler\<close>

definition OP_MSG :: "32 word" where
  "OP_MSG = 2013"

definition mongo_log_body :: "'j json \<Rightarrow> readers \<Rightarrow> string \<Rightarrow> string \<Rightarrow> ('w thread, unit) cmd" where
  "mongo_log_body J R buffer query_correlation_id =
     bindM (resM (readInt32 R buffer 21)) (\<lambda>bodySize.
     tryM
       (bindM (resM (std_substr buffer 21 npos)) (\<lambda>bson_string.
        bindM (resM (std_substr buffer 21 (unat bodySize))) (\<lambda>body.
        bindM (lib (from_bson J body)) (\<lambda>object_json.
        whenM (json_contains J object_json ''find'' \<or> json_contains J object_json ''insert''
            \<or> json_contains J object_json ''drop'')
          (bindM (lib (json_dump J object_json)) (\<lambda>q. log_query query_correlation_id q))))))
       (\<lambda>_. retM ()))"

definition CMongoDBHandler_HandleUpstreamData ::
    "'j json \<Rightarrow> readers \<Rightarrow> string \<Rightarrow> int \<Rightarrow> ('w thread, string) cmd" where
  "CMongoDBHandler_HandleUpstreamData J R buffer buffer_length =
     bindM (ctx_at ''correlation_id'') (\<lambda>a.
     bindM (resM (any_cast_string a)) (\<lambda>query_correlation_id.
     bindM (resM (readInt32 R buffer 0)) (\<lambda>messageLength.
     bindM (resM (readInt32 R buffer 4)) (\<lambda>requestID.
     bindM (resM (readInt32 R buffer 8)) (\<lambda>responseTo.
     bindM (resM (readInt32 R buffer 12)) (\<lambda>opCode.
     seqM
       (whenM (opCode = OP_MSG)
         (bindM (resM (readInt32 R buffer 16)) (\<lambda>flagBits.
          bindM (resM (std_index buffer 20)) (\<lambda>kind.
            whenM (kind = nul) (mongo_log_body J R buffer query_correlation_id)))))
       (retM buffer)))))))"

definition CMongoDBHandler_HandleDownStreamData :: "string \<Rightarrow> int \<Rightarrow> ('w thread, string) cmd" where
  "CMongoDBHandler_HandleDownStreamData buffer buffer_length = retM buffer"

definition CMongoDBHandler :: "'j json \<Rightarrow> readers \<Rightarrow> 'w proxy_handler" where
  "CMongoDBHandler J R =
     \<lparr>HandleUpstreamData = CMongoDBHandler_HandleUpstreamData J R,
      HandleDownStreamData = CMongoDBHandler_HandleDownStreamData\<rparr>"

lemma vcg_lib [vcg]:
  "(\<And>a. Q a s) \<Longrightarrow> (\<And>e. E (Thrown e) s) \<Longrightarrow> wp (lib r) Q E s"
  by (simp add: lib_def wp_res split: sum.split)

lemma vcg_ctx_at [vcg]:
  "(\<And>v. ctx t k = Some v \<Longrightarrow> Q v t) \<Longrightarrow>
   (ctx t k = None \<Longrightarrow> Q AnyEmpty (t\<lparr>ctx := (ctx t)(k \<mapsto> AnyEmpty)\<rparr>)) \<Longrightarrow> wp (ctx_at k) Q E t"
  by (simp add: wp_ctx_at split: option.split)

lemma mongo_up_frame:
  "wp (CMongoDBHandler_HandleUpstreamData J R b n) (\<lambda>_. handler_frame t) (\<lambda>_. handler_frame t) t"
  unfolding CMongoDBHandler_HandleUpstreamData_def mongo_log_body_def log_query_def
  by (intro vcg) (auto simp: any_cast_string_Inr intro: handler_frame_log handler_frame_touch)

lemma mongo_up_same:
  "wp (CMongoDBHandler_HandleUpstreamData J R b n) (\<lambda>r _. r = b) (\<lambda>_ _. True) t"
  unfolding CMongoDBHandler_HandleUpstreamData_def
  by (intro wp_result_bind wp_result_ret refl)

interpretation mongo: transparent_handler "CMongoDBHandler J R"
  by unfold_locales
    (auto simp: CMongoDBHandler_def CMongoDBHandler_HandleDownStreamData_def wp_ret
      intro: mongo_up_frame mongo_up_same)


section \<open>CHttpHandler\<close>

text \<open>What both HTTP handlers log: the content, decompressed when it is gzip.\<close>

definition CHttpHandler_HandleUpstreamData ::
    "'q http \<Rightarrow> gzip \<Rightarrow> string \<Rightarrow> int \<Rightarrow> ('w thread, string) cmd" where
  "CHttpHandler_HandleUpstreamData H Z buffer buffer_length =
     bindM (ctx_at ''correlation_id'') (\<lambda>a.
     bindM (resM (any_cast_string a)) (\<lambda>correlation_id.
     bindM
       (if buffer \<noteq> [] then
          bindM (resM (std_substr buffer 0 (as_size buffer_length))) (\<lambda>request_string.
          bindM (lib (string_to_request H request_string)) (\<lambda>request.
          seqM
            (if get_header H request ''Content-Encoding'' = ''gzip'' then
               bindM (lib (gzip_decompress Z (request_content H request))) (\<lambda>decompressed_data.
                 log_query correlation_id decompressed_data)
             else log_query correlation_id (request_content H request))
            (retM request)))
        else retM (empty_request H))
       (\<lambda>request. retM (request_to_string H request))))"

definition CHttpHandler_HandleDownStreamData :: "string \<Rightarrow> int \<Rightarrow> ('w thread, string) cmd" where
  "CHttpHandler_HandleDownStreamData buffer buffer_length = retM buffer"

definition CHttpHandler :: "'q http \<Rightarrow> gzip \<Rightarrow> 'w proxy_handler" where
  "CHttpHandler H Z =
     \<lparr>HandleUpstreamData = CHttpHandler_HandleUpstreamData H Z,
      HandleDownStreamData = CHttpHandler_HandleDownStreamData\<rparr>"

interpretation http: proxy_contract "CHttpHandler H Z"
proof unfold_locales
  fix b n and t :: "'w thread"
  show "wp (HandleUpstreamData (CHttpHandler H Z) b n) (\<lambda>_. handler_frame t) (\<lambda>_. handler_frame t) t"
    unfolding CHttpHandler_def CHttpHandler_HandleUpstreamData_def log_query_def
      proxy_handler.select_convs
    by (intro vcg) (auto simp: any_cast_string_Inr intro: handler_frame_log handler_frame_touch)
  show "wp (HandleDownStreamData (CHttpHandler H Z) b n) (\<lambda>_. handler_frame t) (\<lambda>_. handler_frame t) t"
    by (simp add: CHttpHandler_def CHttpHandler_HandleDownStreamData_def wp_ret)
qed

section \<open>CHttpsHandler\<close>

definition CHttpsHandler_HandleUpstreamData :: "'q http \<Rightarrow> string \<Rightarrow> int \<Rightarrow> ('w thread, string) cmd" where
  "CHttpsHandler_HandleUpstreamData H buffer buffer_length =
     bindM (resM (std_substr buffer 0 (as_size buffer_length))) (\<lambda>request_string.
     bindM (lib (string_to_request H request_string)) (\<lambda>request. retM buffer))"

definition CHttpsHandler_HandleDownStreamData :: "string \<Rightarrow> int \<Rightarrow> ('w thread, string) cmd" where
  "CHttpsHandler_HandleDownStreamData buffer buffer_length = retM buffer"

definition CHttpsHandler :: "'q http \<Rightarrow> 'w proxy_handler" where
  "CHttpsHandler H =
     \<lparr>HandleUpstreamData = CHttpsHandler_HandleUpstreamData H,
      HandleDownStreamData = CHttpsHandler_HandleDownStreamData\<rparr>"

interpretation https: transparent_handler "CHttpsHandler H"
proof unfold_locales
  fix b n and t :: "'w thread"
  show "wp (HandleUpstreamData (CHttpsHandler H) b n) (\<lambda>_. handler_frame t) (\<lambda>_. handler_frame t) t"
    unfolding CHttpsHandler_def CHttpsHandler_HandleUpstreamData_def proxy_handler.select_convs
    by (intro vcg) auto
  show "wp (HandleDownStreamData (CHttpsHandler H) b n) (\<lambda>_. handler_frame t) (\<lambda>_. handler_frame t) t"
    by (simp add: CHttpsHandler_def CHttpsHandler_HandleDownStreamData_def wp_ret)
  show "wp (HandleUpstreamData (CHttpsHandler H) b n) (\<lambda>r _. r = b) (\<lambda>_ _. True) t"
    unfolding CHttpsHandler_def CHttpsHandler_HandleUpstreamData_def proxy_handler.select_convs
    by (intro vcg) auto
  show "wp (HandleDownStreamData (CHttpsHandler H) b n) (\<lambda>r _. r = b) (\<lambda>_ _. True) t"
    by (simp add: CHttpsHandler_def CHttpsHandler_HandleDownStreamData_def wp_ret)
qed

section \<open>CSnowflakeHttpHandler\<close>

definition snowflake_host :: string where
  "snowflake_host = ''ip24827.ap-southeast-1.snowflakecomputing.com''"

text \<open>\<open>body["sqlText"] != nullptr ? body["sqlText"] : ""\<close>.\<close>

definition snowflake_sql :: "'j json \<Rightarrow> string \<Rightarrow> ('w thread, string) cmd" where
  "snowflake_sql J decompressed_data =
     bindM (lib (json_parse J decompressed_data)) (\<lambda>body.
     bindM (lib (json_at J body ''sqlText'')) (\<lambda>v.
       if \<not> json_is_null J v then lib (json_string J v) else retM []))"

definition CSnowflakeHttpHandler_HandleUpstreamData ::
    "'q http \<Rightarrow> gzip \<Rightarrow> 'j json \<Rightarrow> string \<Rightarrow> int \<Rightarrow> ('w thread, string) cmd" where
  "CSnowflakeHttpHandler_HandleUpstreamData H Z J buffer buffer_length =
     bindM (ctx_at ''correlation_id'') (\<lambda>a.
     bindM (resM (any_cast_string a)) (\<lambda>correlation_id.
     bindM
       (if buffer \<noteq> [] then
          bindM (resM (std_substr buffer 0 (as_size buffer_length))) (\<lambda>request_string.
          bindM (lib (string_to_request H request_string)) (\<lambda>request.
          let request = set_header H request ''Host'' snowflake_host in
          seqM
            (if get_header H request ''Content-Encoding'' = ''gzip'' then
               bindM (lib (gzip_decompress Z (request_content H request))) (\<lambda>decompressed_data.
               bindM (snowflake_sql J decompressed_data) (\<lambda>sqlText.
                 whenM (sqlText \<noteq> []) (log_query correlation_id sqlText)))
             else log_query correlation_id (request_content H request))
            (retM request)))
        else retM (empty_request H))
       (\<lambda>request. retM (request_to_string H request))))"

definition CSnowflakeHttpHandler_HandleDownStreamData :: "string \<Rightarrow> int \<Rightarrow> ('w thread, string) cmd" where
  "CSnowflakeHttpHandler_HandleDownStreamData buffer buffer_length = retM buffer"

definition CSnowflakeHttpHandler :: "'q http \<Rightarrow> gzip \<Rightarrow> 'j json \<Rightarrow> 'w proxy_handler" where
  "CSnowflakeHttpHandler H Z J =
     \<lparr>HandleUpstreamData = CSnowflakeHttpHandler_HandleUpstreamData H Z J,
      HandleDownStreamData = CSnowflakeHttpHandler_HandleDownStreamData\<rparr>"

interpretation snowflake: proxy_contract "CSnowflakeHttpHandler H Z J"
proof unfold_locales
  fix b n and t :: "'w thread"
  show "wp (HandleUpstreamData (CSnowflakeHttpHandler H Z J) b n) (\<lambda>_. handler_frame t) (\<lambda>_. handler_frame t) t"
    unfolding CSnowflakeHttpHandler_def CSnowflakeHttpHandler_HandleUpstreamData_def log_query_def
      snowflake_sql_def proxy_handler.select_convs Let_def
    by (intro vcg) (auto simp: any_cast_string_Inr intro: handler_frame_log handler_frame_touch)
  show "wp (HandleDownStreamData (CSnowflakeHttpHandler H Z J) b n) (\<lambda>_. handler_frame t) (\<lambda>_. handler_frame t) t"
    by (simp add: CSnowflakeHttpHandler_def CSnowflakeHttpHandler_HandleDownStreamData_def wp_ret)
qed

section \<open>GzipHandler\<close>

text \<open>
  Upstream the data are compressed and decompressed again. Downstream the code calls
  \<open>result.assign(buffer, buffer_length)\<close>: with a string as first argument the second one is
  a start position, so the result is \<open>buffer.substr(buffer_length)\<close>.
\<close>

definition GzipHandler_HandleUpstreamData :: "gzip \<Rightarrow> string \<Rightarrow> int \<Rightarrow> ('w thread, string) cmd" where
  "GzipHandler_HandleUpstreamData Z buffer buffer_length =
     bindM (resM (if as_size buffer_length \<le> length buffer + 1
                  then Inr (take (as_size buffer_length) (buffer @ [nul]))
                  else Inl (Undefined OutOfBounds))) (\<lambda>data.
     bindM (lib (gzip_compress Z data)) (\<lambda>compressed_data.
       lib (gzip_decompress Z compressed_data)))"

definition GzipHandler_HandleDownStreamData :: "string \<Rightarrow> int \<Rightarrow> ('w thread, string) cmd" where
  "GzipHandler_HandleDownStreamData buffer buffer_length =
     resM (std_substr buffer (as_size buffer_length) npos)"

definition GzipHandler :: "gzip \<Rightarrow> 'w proxy_handler" where
  "GzipHandler Z =
     \<lparr>HandleUpstreamData = GzipHandler_HandleUpstreamData Z,
      HandleDownStreamData = GzipHandler_HandleDownStreamData\<rparr>"

interpretation gzip: proxy_contract "GzipHandler Z"
  by unfold_locales
    (auto simp: GzipHandler_def GzipHandler_HandleUpstreamData_def GzipHandler_HandleDownStreamData_def
      wp_res intro!: vcg)


section \<open>CHWirePTHandler\<close>

text \<open>
  The packet parser \<open>CHWirePTParser\<close> and \<open>readVarUInt\<close> are external: the value read and
  the buffer after it, and two operations on the thread.
\<close>

record 'w wire_parser =
  readVarUInt :: "string \<Rightarrow> (64 word \<times> string) res"
  parseClientHello :: "string \<Rightarrow> int \<Rightarrow> ('w thread, unit) cmd"
  parseClientQuery :: "string \<Rightarrow> int \<Rightarrow> ('w thread, unit) cmd"

definition CHWirePTHandler_HandleUpstreamData ::
    "'w env \<Rightarrow> 'w wire_parser \<Rightarrow> string \<Rightarrow> int \<Rightarrow> ('w thread, string) cmd" where
  "CHWirePTHandler_HandleUpstreamData env P buffer buffer_length =
     bindM (resM (readVarUInt P buffer)) (\<lambda>(packet_type, temp).
     seqM
       (if packet_type = 0 then parseClientHello P temp buffer_length
        else if packet_type = 1 then
          bindM (ctx_at ''correlation_id'') (\<lambda>a.
          seqM (ctx_put ''query_correlation_id'' a)
          (bindM (now env) (\<lambda>i.
          seqM (ctx_put ''query_start_time'' (AnyTime i))
            (parseClientQuery P temp buffer_length))))
        else retM ())
       (retM buffer))"

definition CHWirePTHandler_HandleDownStreamData ::
    "'w wire_parser \<Rightarrow> string \<Rightarrow> int \<Rightarrow> ('w thread, string) cmd" where
  "CHWirePTHandler_HandleDownStreamData P buffer buffer_length =
     bindM (resM (readVarUInt P buffer)) (\<lambda>(packet_type, temp).
     seqM
       (whenM (packet_type = 5)
         (bindM (ctx_at ''query_correlation_id'') (\<lambda>a.
          bindM (resM (any_cast_string a)) (\<lambda>query_correlation_id.
          bindM (ctx_at ''query_start_time'') (\<lambda>a.
          bindM (resM (any_cast_time a)) (\<lambda>query_start_time.
          bindM (ctx_at ''request_stop_time'') (\<lambda>a.
          bindM (resM (any_cast_time a)) (\<lambda>query_end_time.
          bindM (ctx_at ''target_host'') (\<lambda>a.
          bindM (resM (any_cast_string a)) (\<lambda>target_host. retM ()))))))))))
       (retM buffer))"

definition CHWirePTHandler :: "'w env \<Rightarrow> 'w wire_parser \<Rightarrow> 'w proxy_handler" where
  "CHWirePTHandler env P =
     \<lparr>HandleUpstreamData = CHWirePTHandler_HandleUpstreamData env P,
      HandleDownStreamData = CHWirePTHandler_HandleDownStreamData P\<rparr>"

definition parser_frame :: "'w wire_parser \<Rightarrow> bool" where
  "parser_frame P \<longleftrightarrow> (\<forall>b n t.
     wp (parseClientHello P b n) (\<lambda>_. handler_frame t) (\<lambda>_. handler_frame t) t \<and>
     wp (parseClientQuery P b n) (\<lambda>_. handler_frame t) (\<lambda>_. handler_frame t) t)"

lemma wp_ctx_put_frame:
  "k \<noteq> ''correlation_id'' \<Longrightarrow> wp (ctx_put k v) (\<lambda>_. handler_frame t) (\<lambda>_. handler_frame t) t"
  by (simp add: ctx_put_def wp_upd handler_frame_def)

lemma wp_now_frame: "wp (now env) (\<lambda>_. handler_frame t) (\<lambda>_. handler_frame t) t"
  by (simp add: wp_now handler_frame_def split: prod.split)

lemma wp_ret_frame: "wp (retM a) (\<lambda>_. handler_frame t) (\<lambda>_. handler_frame t) t"
  by (simp add: wp_ret)

lemma wp_if_frame:
  assumes "wp m (\<lambda>_. handler_frame t) (\<lambda>_. handler_frame t) t"
    and "wp k (\<lambda>_. handler_frame t) (\<lambda>_. handler_frame t) t"
  shows "wp (if b then m else k) (\<lambda>_. handler_frame t) (\<lambda>_. handler_frame t) t"
  using assms by simp

lemmas frame_rules = wp_frame_bind wp_ctx_at_frame wp_res_frame wp_ctx_put_frame wp_now_frame
  wp_ret_frame wp_if_frame

text \<open>With a parser that keeps to its buffer and the context, the handler forwards verbatim.\<close>

lemma clickhouse_transparent:
  assumes "parser_frame P"
  shows "transparent_handler (CHWirePTHandler env P)"
proof unfold_locales
  fix b n and t :: "'a thread"
  show "wp (HandleUpstreamData (CHWirePTHandler env P) b n) (\<lambda>_. handler_frame t) (\<lambda>_. handler_frame t) t"
    using assms
    unfolding CHWirePTHandler_def CHWirePTHandler_HandleUpstreamData_def proxy_handler.select_convs
      seqM_def parser_frame_def split_def
    by (intro frame_rules) auto
  show "wp (HandleDownStreamData (CHWirePTHandler env P) b n) (\<lambda>_. handler_frame t) (\<lambda>_. handler_frame t) t"
    unfolding CHWirePTHandler_def CHWirePTHandler_HandleDownStreamData_def proxy_handler.select_convs
      seqM_def split_def whenM_def
    by (intro frame_rules)
  show "wp (HandleUpstreamData (CHWirePTHandler env P) b n) (\<lambda>r _. r = b) (\<lambda>_ _. True) t"
    unfolding CHWirePTHandler_def CHWirePTHandler_HandleUpstreamData_def proxy_handler.select_convs
      split_def
    by (intro wp_result_bind wp_result_ret refl)
  show "wp (HandleDownStreamData (CHWirePTHandler env P) b n) (\<lambda>r _. r = b) (\<lambda>_ _. True) t"
    unfolding CHWirePTHandler_def CHWirePTHandler_HandleDownStreamData_def proxy_handler.select_convs
      split_def
    by (intro wp_result_bind wp_result_ret refl)
qed


section \<open>What the handlers do\<close>

lemma lib_run [run_simps]: "lib r s = (case r of Inl e \<Rightarrow> (Inl (Thrown e), s) | Inr a \<Rightarrow> (Inr a, s))"
  by (simp add: lib_def resM_def split: sum.split)

lemma log_query_run [run_simps]: "log_query c q t = (Inr (), t\<lparr>trace := trace t @ [LogQuery c q]\<rparr>)"
  by (simp add: log_query_def emit_def updM_def)

text \<open>\<open>GzipHandler\<close> passes nothing downstream: whatever the target answers, the bytes
  handed to the client are empty.\<close>

theorem gzip_downstream_empty:
  assumes "length b < 2 ^ 64"
  shows "GzipHandler_HandleDownStreamData b (int (length b)) t = (Inr [], t)"
  using assms
  by (simp add: GzipHandler_HandleDownStreamData_def as_size_length std_substr_def resM_def)

theorem gzip_downstream_empty_witness:
  "GzipHandler_HandleDownStreamData ''HTTP/1.1 200 OK'' (int (length ''HTTP/1.1 200 OK'')) (sample_thread 0 ''id'')
     = (Inr [], sample_thread 0 ''id'')"
  using gzip_downstream_empty [of "''HTTP/1.1 200 OK''" "sample_thread 0 ''id''"] by simp

definition sample_gzip :: gzip where
  "sample_gzip = \<lparr>gzip_compress = (\<lambda>s. Inr (CHR ''z'' # s)), gzip_decompress = (\<lambda>s. Inr (tl s))\<rparr>"

text \<open>Upstream \<open>GzipHandler\<close> is the identity, when decompression inverts compression.\<close>

theorem gzip_upstream_identity:
  assumes "length b < 2 ^ 64"
    and "\<And>s. \<exists>z. gzip_compress Z s = Inr z \<and> gzip_decompress Z z = Inr s"
  shows "GzipHandler_HandleUpstreamData Z b (int (length b)) t = (Inr b, t)"
proof -
  obtain z where "gzip_compress Z b = Inr z" "gzip_decompress Z z = Inr b"
    using assms(2) by blast
  then show ?thesis
    using assms(1) by (simp add: GzipHandler_HandleUpstreamData_def as_size_length run_simps)
qed

theorem gzip_upstream_identity_witness:
  "GzipHandler_HandleUpstreamData sample_gzip ''SELECT 1'' (int (length ''SELECT 1'')) (sample_thread 0 ''id'')
     = (Inr ''SELECT 1'', sample_thread 0 ''id'')"
  using gzip_upstream_identity [of "''SELECT 1''" sample_gzip "sample_thread 0 ''id''"]
  by (simp add: sample_gzip_def)

text \<open>
  A message as far as \<open>CMongoDBHandler\<close> looks into it: its 16-byte header, and of an \<open>OP_MSG\<close> the
  flags, the kind of the first section and, for a body, the length field of the document. The
  document itself may be anything.
\<close>

definition message_head :: "string \<Rightarrow> bool" where
  "message_head b \<longleftrightarrow> 16 \<le> length b
     \<and> (of_nat (le_value (take 4 (drop 12 b))) = OP_MSG \<longrightarrow> 21 \<le> length b \<and> (b ! 20 = nul \<longrightarrow> 25 \<le> length b))"

lemma mongo_log_body_returns:
  assumes "readInt32 R b 21 = Inr v" and "20 \<le> length b"
    and "\<And>s e. from_bson J s = Inl e \<Longrightarrow> is_std_exception e"
    and "\<And>j e. json_dump J j = Inl e \<Longrightarrow> is_std_exception e"
  shows "\<exists>t'. mongo_log_body J R b cid t = (Inr (), t')"
proof -
  have "fst (mongo_log_body J R b cid t) = Inr ()"
    using assms(2-4)
    by (auto simp: mongo_log_body_def assms(1) run_simps std_substr_def split: sum.split)
  then show ?thesis by (cases "mongo_log_body J R b cid t") auto
qed

lemma mongo_forwards:
  assumes "ctx t ''correlation_id'' = Some (AnyString cid)" and "message_head b" and R: "int32_reader R"
    and "\<And>s e. from_bson J s = Inl e \<Longrightarrow> is_std_exception e"
    and "\<And>j e. json_dump J j = Inl e \<Longrightarrow> is_std_exception e"
  shows "fst (CMongoDBHandler_HandleUpstreamData J R b n t) = Inr b"
proof -
  have head: "16 \<le> length b" using assms(2) by (simp add: message_head_def)
  note read = int32_reader_at [OF R, of 0 b] int32_reader_at [OF R, of 4 b] int32_reader_at [OF R, of 8 b]
    int32_reader_at [OF R, of 12 b]
  show ?thesis
  proof (cases "(of_nat (le_value (take 4 (drop 12 b))) :: 32 word) = OP_MSG")
    case True
    with assms(2) have len: "21 \<le> length b" by (simp add: message_head_def)
    then have k: "std_index b 20 = Inr (b ! 20)" by (simp add: std_index_def)
    show ?thesis
    proof (cases "b ! 20 = nul")
      case nul: True
      with assms(2) True have "25 \<le> length b" by (simp add: message_head_def)
      then obtain v where v: "readInt32 R b 21 = Inr v" using int32_reader_at [OF R, of 21 b] by simp
      have "20 \<le> length b" using len by simp
      then have "\<exists>t'. mongo_log_body J R b cid t = (Inr (), t')"
        by (rule mongo_log_body_returns [OF v]) (fact assms(4), fact assms(5))
      then obtain t' where "mongo_log_body J R b cid t = (Inr (), t')" by blast
      with True nul head len k show ?thesis
        by (simp add: CMongoDBHandler_HandleUpstreamData_def read int32_reader_at [OF R, of 16 b]
            ctx_at_present [OF assms(1)] cmd_defs)
    next
      case False
      with True head len k show ?thesis
        by (simp add: CMongoDBHandler_HandleUpstreamData_def read int32_reader_at [OF R, of 16 b]
            ctx_at_present [OF assms(1)] cmd_defs)
    qed
  next
    case False
    with head show ?thesis
      by (simp add: CMongoDBHandler_HandleUpstreamData_def read ctx_at_present [OF assms(1)] cmd_defs)
  qed
qed

text \<open>C34: A malformed BSON body never disturbs the traffic: with a request in flight,
  \<open>CMongoDBHandler\<close> forwards unchanged every message whose fixed head is complete, whatever the
  document in it and whatever (standard) exceptions the BSON library throws on it.\<close>

theorem mongo_always_forwards:
  assumes "ctx t ''correlation_id'' = Some (AnyString cid)" and "message_head b" and "int32_reader R"
    and "\<And>s e. from_bson J s = Inl e \<Longrightarrow> is_std_exception e"
    and "\<And>j e. json_dump J j = Inl e \<Longrightarrow> is_std_exception e"
  shows "fst (CMongoDBHandler_HandleUpstreamData J R b n t) = Inr b"
  by (rule mongo_forwards [OF assms])

definition sample_json :: "string json" where
  "sample_json = \<lparr>json_parse = Inr, from_bson = (\<lambda>s. if s = [] then Inl (StdException ''bson'') else Inr s),
     json_contains = (\<lambda>j k. True), json_at = (\<lambda>j k. Inr j), json_is_null = (\<lambda>j. False),
     json_string = Inr, json_dump = Inr\<rparr>"

text \<open>An \<open>OP_MSG\<close> with an empty document, on which the library of the example throws.\<close>

definition sample_message :: string where
  "sample_message = replicate 12 nul @ [CHR 0xDD, CHR 0x07] @ replicate 11 nul"

theorem mongo_always_forwards_witness:
  "fst (CMongoDBHandler_HandleUpstreamData sample_json sample_readers sample_message 25 (sample_thread 0 ''id''))
     = Inr sample_message"
proof (rule mongo_always_forwards [where cid = "''id''"])
  show "message_head sample_message" by code_simp
qed (auto simp: sample_thread_def sample_int32_reader sample_json_def split: if_splits)

lemma fst_bind_fail: "fst (m t) = Inl f \<Longrightarrow> fst (bindM m k t) = Inl f"
  by (cases "m t") (simp add: bindM_def)

lemma fetch_string:
  "ctx t k = Some (AnyString c) \<Longrightarrow>
     bindM (ctx_at k) (\<lambda>a. bindM (resM (any_cast_string a)) f) t = f c t"
  "\<nexists>c. ctx t k = Some (AnyString c) \<Longrightarrow>
     fst (bindM (ctx_at k) (\<lambda>a. bindM (resM (any_cast_string a)) f) t) = Inl (Thrown BadAnyCast)"
proof -
  show "ctx t k = Some (AnyString c) \<Longrightarrow>
     bindM (ctx_at k) (\<lambda>a. bindM (resM (any_cast_string a)) f) t = f c t"
    by (simp add: ctx_at_present cmd_defs)
  assume none: "\<nexists>c. ctx t k = Some (AnyString c)"
  show "fst (bindM (ctx_at k) (\<lambda>a. bindM (resM (any_cast_string a)) f) t) = Inl (Thrown BadAnyCast)"
  proof (cases "ctx t k")
    case (Some a)
    with none show ?thesis by (cases a) (simp_all add: ctx_at_def cmd_defs)
  qed (simp add: ctx_at_def cmd_defs)
qed

lemma fetch_time:
  "ctx t k = Some (AnyTime i) \<Longrightarrow>
     bindM (ctx_at k) (\<lambda>a. bindM (resM (any_cast_time a)) f) t = f i t"
  "\<nexists>i. ctx t k = Some (AnyTime i) \<Longrightarrow>
     fst (bindM (ctx_at k) (\<lambda>a. bindM (resM (any_cast_time a)) f) t) = Inl (Thrown BadAnyCast)"
proof -
  show "ctx t k = Some (AnyTime i) \<Longrightarrow>
     bindM (ctx_at k) (\<lambda>a. bindM (resM (any_cast_time a)) f) t = f i t"
    by (simp add: ctx_at_present cmd_defs)
  assume none: "\<nexists>i. ctx t k = Some (AnyTime i)"
  show "fst (bindM (ctx_at k) (\<lambda>a. bindM (resM (any_cast_time a)) f) t) = Inl (Thrown BadAnyCast)"
  proof (cases "ctx t k")
    case (Some a)
    with none show ?thesis by (cases a) (simp_all add: ctx_at_def cmd_defs)
  qed (simp add: ctx_at_def cmd_defs)
qed

text \<open>C33: The end-of-stream packet of a ClickHouse server (type 5) is forwarded exactly when the
  execution context holds the query's id, its start and stop time and the target host with
  their types; otherwise \<open>CHWirePTHandler\<close> throws \<open>std::bad_any_cast\<close> and the packet is lost
  to the caller.\<close>

theorem clickhouse_end_of_stream:
  assumes "readVarUInt P b = Inr (5, rest)"
  shows "fst (CHWirePTHandler_HandleDownStreamData P b n t) =
    (if (\<exists>c. ctx t ''query_correlation_id'' = Some (AnyString c)) \<and>
        (\<exists>i. ctx t ''query_start_time'' = Some (AnyTime i)) \<and>
        (\<exists>i. ctx t ''request_stop_time'' = Some (AnyTime i)) \<and>
        (\<exists>c. ctx t ''target_host'' = Some (AnyString c))
     then Inr b else Inl (Thrown BadAnyCast))"
proof -
  let ?s1 = "\<exists>c. ctx t ''query_correlation_id'' = Some (AnyString c)"
  let ?s2 = "\<exists>i. ctx t ''query_start_time'' = Some (AnyTime i)"
  let ?s3 = "\<exists>i. ctx t ''request_stop_time'' = Some (AnyTime i)"
  let ?s4 = "\<exists>c. ctx t ''target_host'' = Some (AnyString c)"
  note run = CHWirePTHandler_HandleDownStreamData_def seqM_def whenM_def fetch_string(1) fetch_time(1)
  note head = bindM_def [of "resM _"] resM_def assms
  consider "\<not> ?s1" | "?s1" "\<not> ?s2" | "?s1" "?s2" "\<not> ?s3" | "?s1" "?s2" "?s3" "\<not> ?s4"
    | "?s1" "?s2" "?s3" "?s4" by blast
  then show ?thesis
  proof cases
    case 5
    then show ?thesis
      by (auto simp: CHWirePTHandler_HandleDownStreamData_def assms ctx_at_present cmd_defs)
  qed (auto simp: run head fst_bind_fail fetch_string(2) fetch_time(2))
qed

definition sample_parser :: "'w wire_parser" where
  "sample_parser = \<lparr>readVarUInt = (\<lambda>b. if b = [] then Inl (Undefined OutOfBounds) else Inr (of_nat (byte (hd b)), tl b)),
     parseClientHello = (\<lambda>_ _. retM ()), parseClientQuery = (\<lambda>_ _. retM ())\<rparr>"

lemma sample_parser_frame: "parser_frame sample_parser"
  by (simp add: parser_frame_def sample_parser_def wp_ret)

theorem clickhouse_end_of_stream_witness:
  "fst (CHWirePTHandler_HandleDownStreamData sample_parser [CHR 0x05] 1 (sample_thread 0 ''id''))
     = Inl (Thrown BadAnyCast)"
proof -
  have "readVarUInt (sample_parser :: unit wire_parser) [CHR 0x05] = Inr (5, [])"
    by (simp add: sample_parser_def byte_def)
  from clickhouse_end_of_stream [OF this, of 1 "sample_thread 0 ''id''"]
  show ?thesis by (simp add: sample_thread_def)
qed

text \<open>A non-empty request of a session is re-serialised by \<open>CSnowflakeHttpHandler\<close> with its
  \<open>Host\<close> header replaced by the Snowflake host, and the uncompressed content is logged.\<close>

theorem snowflake_rewrites_host:
  assumes "ctx t ''correlation_id'' = Some (AnyString cid)" and "b \<noteq> []" and "length b < 2 ^ 64"
    and "string_to_request H b = Inr q" and "q' = set_header H q ''Host'' snowflake_host"
    and "get_header H q' ''Content-Encoding'' \<noteq> ''gzip''"
  shows "CSnowflakeHttpHandler_HandleUpstreamData H Z J b (int (length b)) t
    = (Inr (request_to_string H q'), t\<lparr>trace := trace t @ [LogQuery cid (request_content H q')]\<rparr>)"
  using assms
  by (simp add: CSnowflakeHttpHandler_HandleUpstreamData_def ctx_at_present as_size_length
      std_substr_def run_simps Let_def)

definition sample_http :: "(string \<times> string) http" where
  "sample_http = \<lparr>string_to_request = (\<lambda>s. Inr ('''', s)), request_to_string = (\<lambda>(h, c). h @ c),
     empty_request = ('''', ''''), get_header = (\<lambda>q k. ''''), set_header = (\<lambda>(h, c) k v. (v, c)),
     request_content = snd\<rparr>"

theorem snowflake_rewrites_host_witness:
  "CSnowflakeHttpHandler_HandleUpstreamData sample_http sample_gzip sample_json ''Q'' (int (length ''Q'')) (sample_thread 0 ''id'')
   = (Inr (snowflake_host @ ''Q''), (sample_thread 0 ''id'')\<lparr>trace := [LogQuery ''id'' ''Q'']\<rparr>)"
  using snowflake_rewrites_host [of "sample_thread 0 ''id''" "''id''" "''Q''" sample_http "('''', ''Q'')"
      "(snowflake_host, ''Q'')" sample_gzip sample_json]
  by (simp add: sample_thread_def sample_http_def)

end
