(* ===== verification/MySQL_Handler.thy ===== *)
theory MySQL_Handler
  imports Proxy_Runtime Byte_Readers
begin

unbundle bit_operations_syntax

text \<open>
  \<open>CMySQLHandler\<close> (\<open>src/CMySQLHandler.cpp\<close>, \<open>src/CMySQLHandler.h\<close>): the length-encoded
  integers of the MySQL protocol, the extraction of the SQL text from \<open>COM_QUERY\<close> and
  \<open>COM_STMT_PREPARE\<close> packets, and the two handler methods.
\<close>

section \<open>Length-encoded integers and strings\<close>

definition readMySQLEncodedLength :: "string \<Rightarrow> int \<Rightarrow> 8 word res" where
  "readMySQLEncodedLength buffer start =
     bindR (std_index buffer start) (\<lambda>firstByte. Inr
       (if firstByte = CHR 0xFB then 0
        else if firstByte = CHR 0xFC then 2
        else if firstByte = CHR 0xFD then 3
        else if firstByte = CHR 0xFE then 8
        else 1))"

definition readMySQLLengthEncodedInt :: "readers \<Rightarrow> string \<Rightarrow> int \<Rightarrow> 64 word res" where
  "readMySQLLengthEncodedInt R buffer start =
     bindR (readMySQLEncodedLength buffer start) (\<lambda>size.
       if size = 1 then bindR (readByte R buffer start) (\<lambda>v. Inr (ucast v))
       else if size = 2 then
         bindR (int_add start 1) (\<lambda>p. bindR (readLEInt16 R buffer p) (\<lambda>v. Inr (ucast v)))
       else if size = 3 then
         bindR (int_add start 1) (\<lambda>p. bindR (readLEInt24 R buffer p) (\<lambda>v. Inr (ucast v)))
       else if size = 8 then
         bindR (int_add start 1) (\<lambda>p. readLEInt64 R buffer p)
       else Inr 0)"

definition readMySQLLengthEncodedString :: "readers \<Rightarrow> string \<Rightarrow> int \<Rightarrow> string res" where
  "readMySQLLengthEncodedString R buffer start =
     bindR (readMySQLLengthEncodedInt R buffer start) (\<lambda>len.
     bindR (int_add start 1) (\<lambda>p.
       std_substr buffer (unat (of_int p :: 64 word)) (unat len)))"

section \<open>Extracting the query\<close>

definition CLIENT_QUERY_ATTRIBUTES :: "32 word" where
  "CLIENT_QUERY_ATTRIBUTES = push_bit 27 1"

definition COM_QUERY :: char where
  "COM_QUERY = CHR 0x03"

definition COM_STMT_PREPARE :: char where
  "COM_STMT_PREPARE = CHR 0x16"

text \<open>
  \<open>readMySQLEncodedLength; pos++; if (len > 1) pos += len\<close>, the step the code repeats for
  the parameter set count, every parameter name and the parameter values.
\<close>

definition skip_encoded :: "string \<Rightarrow> int \<Rightarrow> int res" where
  "skip_encoded buffer pos =
     bindR (readMySQLEncodedLength buffer pos) (\<lambda>len.
     bindR (int_add pos 1) (\<lambda>pos.
       if 1 < len then int_add pos (uint len) else Inr pos))"

text \<open>\<open>pos += n\<close> for an unsigned 64-bit \<open>n\<close>: 64-bit addition, then conversion back to \<open>int\<close>.\<close>

definition add_u64 :: "int \<Rightarrow> 64 word \<Rightarrow> int" where
  "add_u64 pos n = to_int32 (uint (of_int pos + n))"

text \<open>The loop over the parameters, \<open>for (auto i = 0; i < parameter_count; i++)\<close>.\<close>

function skip_parameters :: "string \<Rightarrow> 64 word \<Rightarrow> nat \<Rightarrow> int \<Rightarrow> int res" where
  "skip_parameters buffer parameter_count i pos =
     (if i < unat parameter_count then
        bindR (int_add pos 2) (\<lambda>pos.
        bindR (skip_encoded buffer pos) (\<lambda>pos.
        bindR (int_add (int i) 1) (\<lambda>_.
          skip_parameters buffer parameter_count (Suc i) pos)))
      else Inr pos)"
  by pat_completeness auto
termination
  by (relation "measure (\<lambda>(b, n, i, p). unat n - i)") auto

declare skip_parameters.simps [simp del]

definition skip_attributes :: "readers \<Rightarrow> string \<Rightarrow> int \<Rightarrow> int res" where
  "skip_attributes R buffer pos =
     bindR (readMySQLEncodedLength buffer pos) (\<lambda>parameter_count_length.
     bindR (readMySQLLengthEncodedInt R buffer pos) (\<lambda>parameter_count.
     bindR (int_add pos 1) (\<lambda>pos.
     bindR (if 1 < parameter_count_length then int_add pos (uint parameter_count_length) else Inr pos) (\<lambda>pos.
     bindR (skip_encoded buffer pos) (\<lambda>pos.
       if 0 < parameter_count then
         let pos = add_u64 pos ((parameter_count + 7) div 8) in
         bindR (std_index buffer pos) (\<lambda>new_params_bind_flag.
         bindR (int_add pos 1) (\<lambda>pos.
         bindR (if new_params_bind_flag \<noteq> nul then skip_parameters buffer parameter_count 0 pos else Inr pos)
           (\<lambda>pos. skip_encoded buffer pos)))
       else Inr pos)))))"

definition extract_query_from_query_command ::
    "readers \<Rightarrow> 32 word \<Rightarrow> string \<Rightarrow> int \<Rightarrow> string res" where
  "extract_query_from_query_command R capabilities buffer start =
     bindR (int_add start 1) (\<lambda>pos.
     bindR (if capabilities AND CLIENT_QUERY_ATTRIBUTES \<noteq> 0 then skip_attributes R buffer pos else Inr pos)
       (\<lambda>pos. readCString R buffer pos))"

definition extract_query_from_prepare_command :: "readers \<Rightarrow> string \<Rightarrow> int \<Rightarrow> string res" where
  "extract_query_from_prepare_command R buffer start =
     bindR (int_add start 1) (\<lambda>pos. readCString R buffer pos)"

section \<open>The handler methods\<close>

definition CMySQLHandler_HandleUpstreamData ::
    "readers \<Rightarrow> string \<Rightarrow> int \<Rightarrow> ('w thread, string) cmd" where
  "CMySQLHandler_HandleUpstreamData R buffer buffer_length =
     bindM (ctx_at ''capabilities'') (\<lambda>a.
     bindM (resM (any_cast_u32 a)) (\<lambda>capabilities.
     bindM (resM (std_index buffer 4)) (\<lambda>command_type.
     seqM
       (if command_type = COM_QUERY then
          bindM (ctx_at ''correlation_id'') (\<lambda>a.
          bindM (resM (any_cast_string a)) (\<lambda>query_correlation_id.
          bindM (resM (extract_query_from_query_command R capabilities buffer 4)) (\<lambda>query.
            log_query query_correlation_id query)))
        else if command_type = COM_STMT_PREPARE then
          bindM (ctx_at ''correlation_id'') (\<lambda>a.
          bindM (resM (any_cast_string a)) (\<lambda>query_correlation_id.
          bindM (resM (extract_query_from_prepare_command R buffer 4)) (\<lambda>query.
            log_query query_correlation_id query)))
        else retM ())
       (retM buffer))))"

definition CMySQLHandler_HandleDownStreamData :: "string \<Rightarrow> int \<Rightarrow> ('w thread, string) cmd" where
  "CMySQLHandler_HandleDownStreamData buffer buffer_length = retM buffer"

definition CMySQLHandler :: "readers \<Rightarrow> 'w proxy_handler" where
  "CMySQLHandler R =
     \<lparr>HandleUpstreamData = CMySQLHandler_HandleUpstreamData R,
      HandleDownStreamData = CMySQLHandler_HandleDownStreamData\<rparr>"


section \<open>The handler keeps the contract\<close>

lemma mysql_up_frame:
  "wp (CMySQLHandler_HandleUpstreamData R b n) (\<lambda>_. handler_frame t) (\<lambda>_. handler_frame t) t"
  unfolding CMySQLHandler_HandleUpstreamData_def seqM_def
  by (intro wp_frame_bind wp_ctx_at_frame wp_res_frame)
    (auto simp: wp_simps(1) wp_if intro: wp_log_current)

lemma mysql_up_same:
  "wp (CMySQLHandler_HandleUpstreamData R b n) (\<lambda>r _. r = b) (\<lambda>_ _. True) t"
  unfolding CMySQLHandler_HandleUpstreamData_def
  by (intro wp_result_bind wp_result_ret refl)

interpretation mysql: transparent_handler "CMySQLHandler R"
  by unfold_locales
    (auto simp: CMySQLHandler_def CMySQLHandler_HandleDownStreamData_def wp_simps
      intro: mysql_up_frame mysql_up_same)


section \<open>Length-encoded integers: a round trip\<close>

text \<open>The encoding of the MySQL protocol documentation, as the reference.\<close>

definition lenenc_int :: "nat \<Rightarrow> string" where
  "lenenc_int v =
     (if v < 251 then [char_of v]
      else if v < 2 ^ 16 then CHR 0xFC # le_bytes 2 v
      else if v < 2 ^ 24 then CHR 0xFD # le_bytes 3 v
      else CHR 0xFE # le_bytes 8 v)"

definition encoded_size :: "char \<Rightarrow> 8 word" where
  "encoded_size c =
     (if c = CHR 0xFB then 0 else if c = CHR 0xFC then 2
      else if c = CHR 0xFD then 3 else if c = CHR 0xFE then 8 else 1)"

lemma readMySQLEncodedLength_at:
  "0 \<le> i \<Longrightarrow> i < int (length b) \<Longrightarrow> readMySQLEncodedLength b i = Inr (encoded_size (b ! nat i))"
  by (simp add: readMySQLEncodedLength_def encoded_size_def std_index_def)

lemma encoded_size_small: "byte c < 251 \<Longrightarrow> encoded_size c = 1"
  by (auto simp: encoded_size_def byte_def)

lemmas ucast_of_small = unsigned_of_nat take_bit_nat_eq_self

lemma readMySQLLengthEncodedInt_small:
  assumes "le_readers R" and "0 \<le> i" and "i < int (length b)" and "byte (b ! nat i) < 251"
  shows "readMySQLLengthEncodedInt R b i = Inr (of_nat (byte (b ! nat i)))"
  using assms
  by (simp add: readMySQLLengthEncodedInt_def readMySQLEncodedLength_at le_readers_at
      encoded_size_small ucast_of_small)

text \<open>C29: Every 64-bit value, encoded as the protocol prescribes at any place of a buffer,
  is read back by \<open>readMySQLLengthEncodedInt\<close>, provided the byte readers decode
  little-endian bytes.\<close>

theorem lenenc_roundtrip:
  assumes R: "le_readers R" and v: "v < 2 ^ 64" and xs: "length xs < 2 ^ 31 - 1"
  shows "readMySQLLengthEncodedInt R (xs @ lenenc_int v @ ys) (int (length xs)) = Inr (of_nat v)"
proof -
  let ?i = "int (length xs)"
  have add: "int_add ?i 1 = Inr (?i + 1)" using xs by (simp add: int_add_def)
  have next_nat: "nat (?i + 1) = Suc (length xs)" by simp
  note base = readMySQLLengthEncodedInt_def readMySQLEncodedLength_def std_index_def nth_append
    add le_readers_at [OF R] next_nat le_value_bytes ucast_of_small
  consider "v < 251" | "251 \<le> v" "v < 2 ^ 16" | "2 ^ 16 \<le> v" "v < 2 ^ 24" | "2 ^ 24 \<le> v"
    by linarith
  then show ?thesis
  proof cases
    case 1
    then show ?thesis
      using readMySQLLengthEncodedInt_small [OF R, of ?i "xs @ lenenc_int v @ ys"]
      by (simp add: lenenc_int_def nth_append)
  next
    case 2
    then show ?thesis by (simp add: lenenc_int_def base)
  next
    case 3
    then show ?thesis by (simp add: lenenc_int_def base)
  next
    case 4
    with v show ?thesis by (simp add: lenenc_int_def base)
  qed
qed

theorem lenenc_roundtrip_witness:
  "readMySQLLengthEncodedInt sample_readers (''ab'' @ lenenc_int 70000 @ ''c'') (int (length ''ab''))
     = Inr 70000"
  using lenenc_roundtrip [OF sample_le_readers, of 70000 "''ab''" "''c''"] by simp

text \<open>A string after its length: right for lengths of one byte, shifted for longer ones.\<close>

text \<open>\<open>readMySQLLengthEncodedString\<close> returns a string of fewer than 251 bytes that
  follows its encoded length.\<close>

theorem lenenc_string_short:
  assumes R: "le_readers R" and len: "length str < 251" and xs: "length xs < 2 ^ 31 - 1"
  shows "readMySQLLengthEncodedString R (xs @ lenenc_int (length str) @ str @ ys) (int (length xs)) = Inr str"
proof -
  let ?i = "int (length xs)"
  have add: "int_add ?i 1 = Inr (?i + 1)" using xs by (simp add: int_add_def)
  have "unat (of_nat (Suc (length xs)) :: 64 word) = Suc (length xs)"
    using xs by (simp add: unat_of_nat take_bit_nat_eq_self del: of_nat_Suc)
  then have start: "unat (of_nat (length xs) + 1 :: 64 word) = Suc (length xs)"
    by (simp add: add.commute)
  show ?thesis
    using lenenc_roundtrip [OF R _ xs, of "length str" "str @ ys"] len
    by (simp add: readMySQLLengthEncodedString_def add start std_substr_def lenenc_int_def
        unat_of_nat take_bit_nat_eq_self)
qed

theorem lenenc_string_short_witness:
  "readMySQLLengthEncodedString sample_readers (''ab'' @ lenenc_int (length ''hello'') @ ''hello'' @ ''c'')
     (int (length ''ab'')) = Inr ''hello''"
  using lenenc_string_short [OF sample_le_readers, of "''hello''" "''ab''" "''c''"] by simp


text \<open>For a string of 251 to 65535 bytes \<open>readMySQLLengthEncodedString\<close> starts reading
  inside the length field: its result is the two length bytes followed by the string without
  its last two bytes, never the string that was encoded.\<close>

theorem lenenc_string_long_shifted:
  assumes R: "le_readers R" and len: "251 \<le> length str" "length str < 2 ^ 16"
    and xs: "length xs < 2 ^ 31 - 1"
  shows "readMySQLLengthEncodedString R (xs @ lenenc_int (length str) @ str @ ys) (int (length xs))
    = Inr (le_bytes 2 (length str) @ take (length str - 2) str)"
proof -
  let ?i = "int (length xs)"
  have add: "int_add ?i 1 = Inr (?i + 1)" using xs by (simp add: int_add_def)
  have "unat (of_nat (Suc (length xs)) :: 64 word) = Suc (length xs)"
    using xs by (simp add: unat_of_nat take_bit_nat_eq_self del: of_nat_Suc)
  then have start: "unat (of_nat (length xs) + 1 :: 64 word) = Suc (length xs)"
    by (simp add: add.commute)
  show ?thesis
    using lenenc_roundtrip [OF R _ xs, of "length str" "str @ ys"] len
    by (simp add: readMySQLLengthEncodedString_def add start std_substr_def lenenc_int_def
        unat_of_nat take_bit_nat_eq_self)
qed

theorem lenenc_string_long_shifted_witness:
  "readMySQLLengthEncodedString sample_readers
     ([] @ lenenc_int (length (replicate 300 CHR ''x'')) @ replicate 300 CHR ''x'' @ [])
     (int (length ([] :: string)))
   = Inr (le_bytes 2 300 @ take 298 (replicate 300 CHR ''x''))"
  using lenenc_string_long_shifted [OF sample_le_readers, of "replicate 300 CHR ''x''" "[]" "[]"]
  by simp

section \<open>What is logged\<close>

lemmas mysql_up_defs = CMySQLHandler_HandleUpstreamData_def extract_query_from_query_command_def
  extract_query_from_prepare_command_def COM_QUERY_def COM_STMT_PREPARE_def log_query_def emit_def

text \<open>A handler state inside a MySQL session, with a request in flight.\<close>

definition mysql_session :: "'w thread \<Rightarrow> 32 word \<Rightarrow> string \<Rightarrow> bool" where
  "mysql_session t caps cid \<longleftrightarrow>
     ctx t ''capabilities'' = Some (AnyU32 caps) \<and>
     ctx t ''correlation_id'' = Some (AnyString cid)"

text \<open>The handler on a command packet, once the query has been extracted.\<close>

lemma mysql_up_query:
  assumes "mysql_session t caps cid" and "std_index b 4 = Inr COM_QUERY"
    and "extract_query_from_query_command R caps b 4 = Inr q"
  shows "CMySQLHandler_HandleUpstreamData R b n t
    = (Inr b, t\<lparr>trace := trace t @ [LogQuery cid q]\<rparr>)"
  using assms
  by (simp add: CMySQLHandler_HandleUpstreamData_def mysql_session_def cmd_defs ctx_at_present
      log_query_def emit_def)

text \<open>A \<open>COM_QUERY\<close> packet of a session without query attributes is forwarded unchanged,
  and its whole SQL text is logged under the current correlation id, nothing else.\<close>

theorem mysql_query_logged:
  assumes "mysql_session t caps cid" and "caps AND CLIENT_QUERY_ATTRIBUTES = 0"
    and "cstring_reader R" and "length header = 4" and "nul \<notin> set sql"
  shows "CMySQLHandler_HandleUpstreamData R (header @ COM_QUERY # sql) n t
    = (Inr (header @ COM_QUERY # sql), t\<lparr>trace := trace t @ [LogQuery cid sql]\<rparr>)"
proof (rule mysql_up_query [OF assms(1)])
  show "std_index (header @ COM_QUERY # sql) 4 = Inr COM_QUERY"
    using assms(4) by (simp add: std_index_def nth_append)
  show "extract_query_from_query_command R caps (header @ COM_QUERY # sql) 4 = Inr sql"
    using assms(2-5)
    by (auto simp: extract_query_from_query_command_def int_add_def cstring_reader_at
        takeWhile_eq_all_conv)
qed


lemma sample_session: "mysql_session (sample_thread caps cid) caps cid"
  by (simp add: mysql_session_def sample_thread_def)

theorem mysql_query_logged_witness:
  "CMySQLHandler_HandleUpstreamData sample_readers (''0000'' @ COM_QUERY # ''SELECT 1'') 13 (sample_thread 0 ''id'')
   = (Inr (''0000'' @ COM_QUERY # ''SELECT 1''),
      (sample_thread 0 ''id'')\<lparr>trace := [LogQuery ''id'' ''SELECT 1'']\<rparr>)"
  using mysql_query_logged [OF sample_session [of 0 "''id''"] _ sample_cstring_reader,
      of "''0000''" "''SELECT 1''" 13]
  by simp

text \<open>A \<open>COM_STMT_PREPARE\<close> packet is forwarded unchanged and its statement text is logged,
  whatever the negotiated capabilities are.\<close>

theorem mysql_prepare_logged:
  assumes "mysql_session t caps cid" and "cstring_reader R"
    and "length header = 4" and "nul \<notin> set sql"
  shows "CMySQLHandler_HandleUpstreamData R (header @ COM_STMT_PREPARE # sql) n t
    = (Inr (header @ COM_STMT_PREPARE # sql), t\<lparr>trace := trace t @ [LogQuery cid sql]\<rparr>)"
proof -
  have "std_index (header @ COM_STMT_PREPARE # sql) 4 = Inr COM_STMT_PREPARE"
    using assms(3) by (simp add: std_index_def nth_append)
  moreover have "extract_query_from_prepare_command R (header @ COM_STMT_PREPARE # sql) 4 = Inr sql"
    using assms(2-4)
    by (auto simp: extract_query_from_prepare_command_def int_add_def cstring_reader_at
        takeWhile_eq_all_conv)
  moreover have "COM_STMT_PREPARE \<noteq> COM_QUERY"
    by (simp add: COM_QUERY_def COM_STMT_PREPARE_def)
  ultimately show ?thesis
    using assms(1)
    by (simp add: CMySQLHandler_HandleUpstreamData_def mysql_session_def cmd_defs ctx_at_present
        log_query_def emit_def)
qed

theorem mysql_prepare_logged_witness:
  "CMySQLHandler_HandleUpstreamData sample_readers (''0000'' @ COM_STMT_PREPARE # ''SELECT ?'') 13
     (sample_thread (- 1) ''id'')
   = (Inr (''0000'' @ COM_STMT_PREPARE # ''SELECT ?''),
      (sample_thread (- 1) ''id'')\<lparr>trace := [LogQuery ''id'' ''SELECT ?'']\<rparr>)"
  using mysql_prepare_logged [OF sample_session [of "- 1" "''id''"] sample_cstring_reader,
      of "''0000''" "''SELECT ?''" 13]
  by simp

subsection \<open>Query attributes\<close>

lemma skip_encoded_small:
  assumes "drop p b = c # ys" and "byte c < 251" and "length b < 2 ^ 31"
  shows "skip_encoded b (int p) = Inr (int (Suc p))"
proof -
  have "length b = p + Suc (length ys)" and "b ! p = c"
    using length_of_drop [OF assms(1)] nth_of_drop [OF assms(1), of 0] by auto
  with assms show ?thesis
    by (simp add: skip_encoded_def readMySQLEncodedLength_at encoded_size_small int_add_def)
qed

text \<open>A parameter without a name occupies three bytes: its type, its flags, a zero length.\<close>

definition unnamed :: "(char \<times> char) list \<Rightarrow> string" where
  "unnamed ts = concat (map (\<lambda>(x, y). [x, y, nul]) ts)"

lemma unnamed_simps [simp]:
  "unnamed [] = []"
  "unnamed ((x, y) # ts) = x # y # nul # unnamed ts"
  by (simp_all add: unnamed_def)

lemma length_unnamed [simp]: "length (unnamed ts) = 3 * length ts"
  by (induction ts) auto



lemma add_u64_nat:
  assumes "q + unat w < 2 ^ 31"
  shows "add_u64 (int q) w = int (q + unat w)"
proof -
  have "unat (of_nat q + w) = q + unat w"
    using assms by (simp add: unat_word_ariths unat_of_nat take_bit_nat_eq_self)
  then have "uint (of_int (int q) + w) = int (q + unat w)"
    by (metis of_int_of_nat_eq uint_nat)
  moreover have "int (q + unat w) < 2 ^ 31"
    using assms by (metis of_nat_less_iff of_nat_numeral of_nat_power)
  moreover have "- (2 ^ 31) \<le> int (q + unat w)"
    by (rule order_trans [of _ 0]) auto
  ultimately show ?thesis unfolding add_u64_def by (simp only: to_int32_id)
qed

lemma unat_bitmap_size:
  assumes "n < 251"
  shows "unat ((of_nat n + 7 :: 64 word) div 8) = (n + 7) div 8"
  using assms by (simp add: unat_div unat_word_ariths unat_of_nat take_bit_nat_eq_self)

text \<open>The start of the attribute block: parameter count and parameter set count, one byte each.\<close>

lemma skip_attributes_head:
  assumes R: "le_readers R" and b: "drop p b = char_of n # c # rest"
    and n: "n < 251" and c: "byte c < 251" and len: "length b < 2 ^ 31"
    and bm: "(n + 7) div 8 \<le> length rest"
  shows "skip_attributes R b (int p) =
     (if n = 0 then Inr (int (p + 2))
      else bindR (std_index b (int (p + 2 + (n + 7) div 8))) (\<lambda>flag.
           bindR (int_add (int (p + 2 + (n + 7) div 8)) 1) (\<lambda>pos.
           bindR (if flag \<noteq> nul then skip_parameters b (of_nat n) 0 pos else Inr pos)
             (\<lambda>pos. skip_encoded b pos))))"
proof -
  have bp: "b ! p = char_of n" and lenb: "length b = p + Suc (Suc (length rest))"
    using nth_of_drop [OF b, of 0] length_of_drop [OF b] by auto
  have byte_n: "byte (char_of n) = n" using n by simp
  have size: "readMySQLEncodedLength b (int p) = Inr 1"
    using bp lenb byte_n n by (simp add: readMySQLEncodedLength_at encoded_size_small)
  have count: "readMySQLLengthEncodedInt R b (int p) = Inr (of_nat n)"
    using readMySQLLengthEncodedInt_small [OF R, of "int p" b] bp lenb byte_n n by simp
  have "drop (p + 1) b = c # rest" using drop_of_drop [OF b, of 1] by simp
  from skip_encoded_small [OF this c len]
  have set_count: "skip_encoded b (int p + 1) = Inr (int (p + 2))" by (simp add: add.commute)
  have pos: "0 < (of_nat n :: 64 word) \<longleftrightarrow> n \<noteq> 0"
    using n by (simp add: word_less_nat_alt unat_of_nat take_bit_nat_eq_self)
  have bitmap: "add_u64 (int (p + 2)) ((of_nat n + 7) div 8) = int (p + 2 + (n + 7) div 8)"
    using add_u64_nat [of "p + 2" "(of_nat n + 7) div 8"] n lenb len bm
    by (simp only: unat_bitmap_size)
  show ?thesis
    using n lenb len
    by (simp add: skip_attributes_def size count int_add_def set_count pos bitmap [simplified] Let_def)
qed


text \<open>With query attributes negotiated and no parameter attached (the usual packet, both
  counts in one byte), the SQL text is still the one that is logged.\<close>

theorem mysql_query_attributes_none:
  assumes "mysql_session t caps cid" and "caps AND CLIENT_QUERY_ATTRIBUTES \<noteq> 0"
    and R: "le_readers R" "cstring_reader R"
    and len: "length header = 4" "length sql + 7 < 2 ^ 31" and "nul \<notin> set sql"
  shows "CMySQLHandler_HandleUpstreamData R (header @ COM_QUERY # lenenc_int 0 @ lenenc_int 1 @ sql) n t
    = (Inr (header @ COM_QUERY # lenenc_int 0 @ lenenc_int 1 @ sql),
       t\<lparr>trace := trace t @ [LogQuery cid sql]\<rparr>)"
proof (rule mysql_up_query [OF assms(1)])
  let ?b = "header @ COM_QUERY # lenenc_int 0 @ lenenc_int 1 @ sql"
  show "std_index ?b 4 = Inr COM_QUERY"
    using len by (simp add: std_index_def nth_append)
  have "drop 5 ?b = char_of (0::nat) # char_of (1::nat) # sql"
    using len by (simp add: lenenc_int_def)
  from skip_attributes_head [OF R(1) this]
  have "skip_attributes R ?b 5 = Inr 7"
    using len by (simp add: lenenc_int_def)
  then show "extract_query_from_query_command R caps ?b 4 = Inr sql"
    using assms
    by (auto simp: extract_query_from_query_command_def int_add_def cstring_reader_at
        takeWhile_eq_all_conv lenenc_int_def)
qed

theorem mysql_query_attributes_none_witness:
  "CMySQLHandler_HandleUpstreamData sample_readers
     (''0000'' @ COM_QUERY # lenenc_int 0 @ lenenc_int 1 @ ''SELECT 1'') 15 (sample_thread (- 1) ''id'')
   = (Inr (''0000'' @ COM_QUERY # lenenc_int 0 @ lenenc_int 1 @ ''SELECT 1''),
      (sample_thread (- 1) ''id'')\<lparr>trace := [LogQuery ''id'' ''SELECT 1'']\<rparr>)"
  using mysql_query_attributes_none [OF sample_session [of "- 1" "''id''"] _ sample_le_readers
      sample_cstring_reader, of "''0000''" "''SELECT 1''" 15]
  by (simp add: CLIENT_QUERY_ATTRIBUTES_def)






text \<open>A parameter with a name defeats the extraction: the bytes of the name after the first
  and the parameter's values are taken for the query, so the text logged is not the SQL sent.\<close>

theorem mysql_named_parameter_misread:
  assumes "mysql_session t caps cid" and "caps AND CLIENT_QUERY_ATTRIBUTES \<noteq> 0"
    and R: "le_readers R" "cstring_reader R"
    and header: "length header = 4"
    and name: "length (c # cs) < 251" "byte c < 251"
    and len: "length cs + length vals + length sql + 20 < 2 ^ 31"
    and clean: "nul \<notin> set (cs @ vals @ sql)"
    and packet: "packet = header @ COM_QUERY # char_of (1::nat) # char_of (1::nat) # bm # CHR 0x01 #
      ty # fl # char_of (length (c # cs)) # c # cs @ vals @ sql"
  shows "CMySQLHandler_HandleUpstreamData R packet n t
    = (Inr packet, t\<lparr>trace := trace t @ [LogQuery cid (cs @ vals @ sql)]\<rparr>)"
proof (rule mysql_up_query [OF assms(1)])
  let ?l = "char_of (length (c # cs)) :: char"
  have lenp: "length packet = 13 + length (cs @ vals @ sql)" and small: "length packet < 2 ^ 31"
    using packet header len by simp_all
  show "std_index packet 4 = Inr COM_QUERY"
    using packet header by (simp add: std_index_def nth_append)
  have d5: "drop 5 packet = char_of (1::nat) # char_of (1::nat) # bm # CHR 0x01 # ty # fl # ?l # c # cs @ vals @ sql"
    using packet header by simp
  have "drop 11 packet = ?l # c # cs @ vals @ sql" "drop 12 packet = c # cs @ vals @ sql"
    using packet header by simp_all
  then have names: "skip_encoded packet 11 = Inr 12" and at_vals: "skip_encoded packet 12 = Inr 13"
    using skip_encoded_small [of 11 packet ?l] skip_encoded_small [of 12 packet c] name small
    by simp_all
  have params: "skip_parameters packet 1 0 9 = Inr 12"
    using names by (simp add: skip_parameters.simps int_add_def)
  have flag: "std_index packet 8 = Inr CHR 0x01"
    using packet header by (simp add: std_index_def nth_append)
  have skip: "skip_attributes R packet 5 = Inr 13"
    using skip_attributes_head [OF R(1), of 5 packet 1] d5 small flag params at_vals
    by (simp add: int_add_def)
  have "drop 13 packet = cs @ vals @ sql"
    using packet header by simp
  then have "readCString R packet 13 = Inr (cs @ vals @ sql)"
    using cstring_reader_at [OF R(2), of 13 packet] lenp clean
    by (simp add: takeWhile_eq_all_conv) (metis UnE set_append takeWhile_eq_all_conv)
  then show "extract_query_from_query_command R caps packet 4 = Inr (cs @ vals @ sql)"
    using skip assms(2) by (simp add: extract_query_from_query_command_def int_add_def)
qed


theorem mysql_named_parameter_misread_witness:
  "CMySQLHandler_HandleUpstreamData sample_readers
     (''0000'' @ COM_QUERY # char_of (1::nat) # char_of (1::nat) # CHR ''m'' # CHR 0x01 #
      CHR ''t'' # CHR ''f'' # char_of (length (CHR ''n'' # ''ame'')) # CHR ''n'' # ''ame'' @ ''5'' @ ''SELECT ?'')
     30 (sample_thread (- 1) ''id'')
   = (Inr (''0000'' @ COM_QUERY # char_of (1::nat) # char_of (1::nat) # CHR ''m'' # CHR 0x01 #
      CHR ''t'' # CHR ''f'' # char_of (length (CHR ''n'' # ''ame'')) # CHR ''n'' # ''ame'' @ ''5'' @ ''SELECT ?''),
      (sample_thread (- 1) ''id'')\<lparr>trace := [LogQuery ''id'' (''ame'' @ ''5'' @ ''SELECT ?'')]\<rparr>)"
  using mysql_named_parameter_misread [OF sample_session [of "- 1" "''id''"] _ sample_le_readers
      sample_cstring_reader _ _ _ _ _ refl, of "''0000''" "CHR ''n''" "''ame''" "''5''" "''SELECT ?''"
      "CHR ''m''" "CHR ''t''" "CHR ''f''" 30]
  by (simp add: CLIENT_QUERY_ATTRIBUTES_def byte_def)

subsection \<open>Other packets\<close>

text \<open>Any other command of a session is forwarded unchanged with no effect at all, even
  when no correlation id is present.\<close>

theorem mysql_other_commands_silent:
  assumes "ctx t ''capabilities'' = Some (AnyU32 caps)" and "length header = 4"
    and "c \<noteq> COM_QUERY" and "c \<noteq> COM_STMT_PREPARE"
  shows "CMySQLHandler_HandleUpstreamData R (header @ c # body) n t = (Inr (header @ c # body), t)"
proof -
  have "std_index (header @ c # body) 4 = Inr c"
    using assms(2) by (simp add: std_index_def nth_append)
  with assms show ?thesis
    by (simp add: CMySQLHandler_HandleUpstreamData_def cmd_defs ctx_at_present)
qed

theorem mysql_other_commands_silent_witness:
  "CMySQLHandler_HandleUpstreamData sample_readers (''0000'' @ CHR 0x0E # []) 5 (sample_thread 0 ''id'')
     = (Inr (''0000'' @ CHR 0x0E # []), sample_thread 0 ''id'')"
  using mysql_other_commands_silent [of "sample_thread 0 ''id''" 0 "''0000''" "CHR 0x0E" sample_readers "[]" 5]
  by (simp add: sample_thread_def COM_QUERY_def COM_STMT_PREPARE_def)

text \<open>A packet shorter than its four-byte header makes the handler read past the end of the
  buffer, whatever it contains.\<close>

theorem mysql_short_packet_undefined:
  assumes "ctx t ''capabilities'' = Some (AnyU32 caps)" and "length b < 4"
  shows "CMySQLHandler_HandleUpstreamData R b n t = (Inl (Undefined OutOfBounds), t)"
proof -
  have "std_index b 4 = Inl (Undefined OutOfBounds)"
    using assms(2) by (simp add: std_index_def)
  with assms show ?thesis
    by (simp add: CMySQLHandler_HandleUpstreamData_def cmd_defs ctx_at_present)
qed

theorem mysql_short_packet_undefined_witness:
  "CMySQLHandler_HandleUpstreamData sample_readers ''abc'' 3 (sample_thread 0 ''id'')
     = (Inl (Undefined OutOfBounds), sample_thread 0 ''id'')"
  using mysql_short_packet_undefined [of "sample_thread 0 ''id''" 0 "''abc''" sample_readers 3]
  by (simp add: sample_thread_def)

text \<open>Outside a MySQL session the handler throws before it looks at the packet.\<close>

lemma mysql_up_no_capabilities:
  assumes "ctx t ''capabilities'' = None"
  shows "fst (CMySQLHandler_HandleUpstreamData R b n t) = Inl (Thrown BadAnyCast)"
  using assms by (simp add: CMySQLHandler_HandleUpstreamData_def cmd_defs ctx_at_def)

end
