(* ===== verification/PostgreSQL_Handler.thy ===== *)
theory PostgreSQL_Handler
  imports Proxy_Runtime Byte_Readers
begin

text \<open>
  \<open>CPostgreSQLHandler\<close> (\<open>src/CPostgreSQLHandler.cpp\<close>, \<open>src/CPostgreSQLHandler.h\<close>): the
  extraction of the SQL text from simple-query (\<open>'Q'\<close>) and \<open>Parse\<close> (\<open>'P'\<close>) messages.
  Lengths and offsets are \<open>size_t\<close>: 64-bit words, whose subtractions wrap.
\<close>

definition MSG_LENGTH_LEN :: nat where
  "MSG_LENGTH_LEN = 4"

definition MsgTypeQuery :: char where
  "MsgTypeQuery = CHR ''Q''"

definition MsgTypeParse :: char where
  "MsgTypeParse = CHR ''P''"

definition getMessageBodyLength :: "readers \<Rightarrow> string \<Rightarrow> 64 word res" where
  "getMessageBodyLength R buffer =
     bindR (readBEInt32 R buffer 1) (\<lambda>packet_length. Inr (ucast (packet_length - 4)))"

definition simple_query_text :: "readers \<Rightarrow> string \<Rightarrow> string res" where
  "simple_query_text R buffer =
     bindR (getMessageBodyLength R buffer) (\<lambda>body_length.
       let query_length = body_length - 1 in
       std_substr buffer 5 (unat query_length))"

definition parse_query_text :: "readers \<Rightarrow> string \<Rightarrow> string res" where
  "parse_query_text R buffer =
     bindR (getMessageBodyLength R buffer) (\<lambda>packet_length.
       let stmt_name_end_idx = (of_nat (std_find_char buffer nul MSG_LENGTH_LEN) :: 64 word);
           query_start_idx = stmt_name_end_idx + 1;
           query_end_idx = of_nat (std_find_char buffer nul (unat query_start_idx));
           query_length = query_end_idx - query_start_idx
       in std_substr buffer (unat query_start_idx) (unat query_length))"

definition CPostgreSQLHandler_HandleUpstreamData ::
    "readers \<Rightarrow> string \<Rightarrow> int \<Rightarrow> ('w thread, string) cmd" where
  "CPostgreSQLHandler_HandleUpstreamData R buffer buffer_length =
     bindM (resM (std_index buffer 0)) (\<lambda>message_type.
     seqM
       (if message_type = MsgTypeQuery then
          bindM (ctx_at ''correlation_id'') (\<lambda>a.
          bindM (resM (any_cast_string a)) (\<lambda>query_correlation_id.
          bindM (resM (simple_query_text R buffer)) (\<lambda>query.
            log_query query_correlation_id query)))
        else if message_type = MsgTypeParse then
          bindM (ctx_at ''correlation_id'') (\<lambda>a.
          bindM (resM (any_cast_string a)) (\<lambda>query_correlation_id.
          bindM (resM (parse_query_text R buffer)) (\<lambda>query.
            log_query query_correlation_id query)))
        else retM ())
       (retM buffer))"

definition CPostgreSQLHandler_HandleDownStreamData :: "string \<Rightarrow> int \<Rightarrow> ('w thread, string) cmd" where
  "CPostgreSQLHandler_HandleDownStreamData buffer buffer_length = retM buffer"

definition CPostgreSQLHandler :: "readers \<Rightarrow> 'w proxy_handler" where
  "CPostgreSQLHandler R =
     \<lparr>HandleUpstreamData = CPostgreSQLHandler_HandleUpstreamData R,
      HandleDownStreamData = CPostgreSQLHandler_HandleDownStreamData\<rparr>"

section \<open>The handler keeps the contract\<close>

lemma postgresql_up_frame:
  "wp (CPostgreSQLHandler_HandleUpstreamData R b n) (\<lambda>_. handler_frame t) (\<lambda>_. handler_frame t) t"
  unfolding CPostgreSQLHandler_HandleUpstreamData_def seqM_def
  by (intro wp_frame_bind wp_res_frame) (auto simp: wp_simps(1) wp_if intro: wp_log_current)

lemma postgresql_up_same:
  "wp (CPostgreSQLHandler_HandleUpstreamData R b n) (\<lambda>r _. r = b) (\<lambda>_ _. True) t"
  unfolding CPostgreSQLHandler_HandleUpstreamData_def
  by (intro wp_result_bind wp_result_ret refl)

interpretation postgresql: transparent_handler "CPostgreSQLHandler R"
  by unfold_locales
    (auto simp: CPostgreSQLHandler_def CPostgreSQLHandler_HandleDownStreamData_def wp_simps
      intro: postgresql_up_frame postgresql_up_same)

section \<open>What is logged\<close>

definition be_reader :: "readers \<Rightarrow> bool" where
  "be_reader R \<longleftrightarrow> (\<forall>b i. 0 \<le> i \<longrightarrow> i + 4 \<le> int (length b) \<longrightarrow>
     readBEInt32 R b i = Inr (of_nat (le_value (rev (take 4 (drop (nat i) b))))))"

definition be_bytes :: "nat \<Rightarrow> nat \<Rightarrow> string" where
  "be_bytes k v = rev (le_bytes k v)"

lemma sample_be_reader: "be_reader sample_readers"
  by (simp add: be_reader_def sample_readers_def)

lemma length_be_bytes [simp]: "length (be_bytes k v) = k"
  by (simp add: be_bytes_def)

lemma be_reader_length:
  assumes "be_reader R" and "v < 2 ^ 32"
  shows "readBEInt32 R (m # be_bytes 4 v @ body) 1 = Inr (of_nat v)"
  using assms by (simp add: be_reader_def be_bytes_def le_value_bytes)

lemma body_length_at:
  assumes "be_reader R" and "4 \<le> v" and "v < 2 ^ 32"
  shows "getMessageBodyLength R (m # be_bytes 4 v @ body) = Inr (of_nat (v - 4))"
proof -
  have "(of_nat v - 4 :: 32 word) = of_nat (v - 4)"
    using assms(2) by (simp add: of_nat_diff)
  then show ?thesis
    using be_reader_length [OF assms(1,3)] assms(3)
    by (simp add: getMessageBodyLength_def unsigned_of_nat take_bit_nat_eq_self)
qed

lemma postgresql_up_log:
  assumes "ctx t ''correlation_id'' = Some (AnyString cid)"
    and "std_index b 0 = Inr MsgTypeQuery \<and> simple_query_text R b = Inr q
       \<or> std_index b 0 = Inr MsgTypeParse \<and> parse_query_text R b = Inr q"
  shows "CPostgreSQLHandler_HandleUpstreamData R b n t
    = (Inr b, t\<lparr>trace := trace t @ [LogQuery cid q]\<rparr>)"
  using assms
  by (auto simp: CPostgreSQLHandler_HandleUpstreamData_def cmd_defs ctx_at_present log_query_def
      emit_def MsgTypeQuery_def MsgTypeParse_def)

text \<open>A simple-query message is forwarded unchanged and exactly its SQL text is logged,
  whatever further messages share the buffer with it.\<close>

theorem postgresql_query_logged:
  assumes "ctx t ''correlation_id'' = Some (AnyString cid)" and "be_reader R"
    and "length sql + 5 < 2 ^ 32"
    and packet: "packet = MsgTypeQuery # be_bytes 4 (length sql + 5) @ sql @ nul # rest"
  shows "CPostgreSQLHandler_HandleUpstreamData R packet n t
    = (Inr packet, t\<lparr>trace := trace t @ [LogQuery cid sql]\<rparr>)"
proof (rule postgresql_up_log [OF assms(1)])
  have "getMessageBodyLength R packet = Inr (of_nat (Suc (length sql)))"
    using body_length_at [OF assms(2), of "length sql + 5"] assms(3) packet by simp
  then have "simple_query_text R packet = Inr sql"
    using assms(3) packet
    by (simp add: simple_query_text_def std_substr_def unat_of_nat take_bit_nat_eq_self)
  then show "std_index packet 0 = Inr MsgTypeQuery \<and> simple_query_text R packet = Inr sql
      \<or> std_index packet 0 = Inr MsgTypeParse \<and> parse_query_text R packet = Inr sql"
    using packet by (simp add: std_index_def)
qed

theorem postgresql_query_logged_witness:
  "CPostgreSQLHandler_HandleUpstreamData sample_readers
     (MsgTypeQuery # be_bytes 4 (length ''SELECT 1'' + 5) @ ''SELECT 1'' @ nul # ''X'') 15 (sample_thread 0 ''id'')
   = (Inr (MsgTypeQuery # be_bytes 4 (length ''SELECT 1'' + 5) @ ''SELECT 1'' @ nul # ''X''),
      (sample_thread 0 ''id'')\<lparr>trace := [LogQuery ''id'' ''SELECT 1'']\<rparr>)"
  using postgresql_query_logged [OF _ sample_be_reader _ refl, of "sample_thread 0 ''id''" "''id''"
      "''SELECT 1''" "''X''" 15]
  by (simp add: sample_thread_def)


text \<open>
  A \<open>Parse\<close> message: its length, the statement name, the query. The search for the end of
  the name starts at offset 4, the last byte of the length field.
\<close>

definition parse_message :: "nat \<Rightarrow> string \<Rightarrow> string \<Rightarrow> string \<Rightarrow> string" where
  "parse_message len stmt sql rest = MsgTypeParse # be_bytes 4 len @ stmt @ nul # sql @ nul # rest"

lemma be_bytes_4: "be_bytes 4 v = be_bytes 3 (v div 256) @ [char_of v]"
proof -
  have four: "(4 :: nat) = Suc 3" by simp
  show ?thesis by (simp only: be_bytes_def four le_bytes.simps rev.simps)
qed

lemma parse_text_between:
  assumes body: "getMessageBodyLength R packet = Inr l"
    and split: "packet = xs @ ys @ nul # zs @ nul # ws" "length xs = 4" "nul \<notin> set ys" "nul \<notin> set zs"
    and small: "length packet < 2 ^ 32"
  shows "parse_query_text R packet = Inr zs"
proof -
  have find1: "std_find_char packet nul MSG_LENGTH_LEN = 4 + length ys"
    using std_find_char_first [OF split(3), of xs "zs @ nul # ws"] split(2)
    unfolding split(1) by (simp add: MSG_LENGTH_LEN_def)
  have find2: "std_find_char packet nul (5 + length ys) = 5 + length ys + length zs"
    using std_find_char_first [OF split(4), of "xs @ ys @ [nul]" ws] split(2)
    unfolding split(1) by simp
  have start: "unat (of_nat (4 + length ys) + 1 :: 64 word) = 5 + length ys"
    using small split(1) by (simp add: unat_word_ariths unat_of_nat take_bit_nat_eq_self)
  have "(of_nat (5 + length ys + length zs) - (of_nat (4 + length ys) + 1) :: 64 word) = of_nat (length zs)"
    by simp
  then have len: "unat (of_nat (5 + length ys + length zs) - (of_nat (4 + length ys) + 1) :: 64 word) = length zs"
    using small split(1) by (simp only: unat_of_nat) (simp add: take_bit_nat_eq_self)
  have sub: "std_substr packet (5 + length ys) (length zs) = Inr zs"
    using split(1,2) by (simp add: std_substr_def)
  show ?thesis
    by (simp only: parse_query_text_def body bindR_simps Let_def find1 start find2 len sub)
qed

lemma parse_body:
  "be_reader R \<Longrightarrow> 4 \<le> len \<Longrightarrow> len < 2 ^ 32 \<Longrightarrow>
    getMessageBodyLength R (parse_message len stmt sql rest) = Inr (of_nat (len - 4))"
  unfolding parse_message_def by (rule body_length_at)

text \<open>A \<open>Parse\<close> message whose length is not a multiple of 256 is forwarded unchanged and
  exactly its query text is logged, for every statement name.\<close>

theorem postgresql_parse_logged:
  assumes "ctx t ''correlation_id'' = Some (AnyString cid)" and "be_reader R"
    and len: "4 \<le> len" "len < 2 ^ 32" "len mod 256 \<noteq> 0"
    and names: "nul \<notin> set stmt" "nul \<notin> set sql"
    and small: "length (parse_message len stmt sql rest) < 2 ^ 32"
  shows "CPostgreSQLHandler_HandleUpstreamData R (parse_message len stmt sql rest) n t
    = (Inr (parse_message len stmt sql rest), t\<lparr>trace := trace t @ [LogQuery cid sql]\<rparr>)"
proof (rule postgresql_up_log [OF assms(1)])
  let ?p = "parse_message len stmt sql rest"
  have "byte (char_of len) \<noteq> byte nul"
    using len(3) by simp (simp add: byte_def)
  then have "(char_of len :: char) \<noteq> nul" by metis
  moreover have split: "?p = (MsgTypeParse # be_bytes 3 (len div 256)) @ (char_of len # stmt) @ nul # sql @ nul # rest"
    by (simp add: parse_message_def be_bytes_4)
  ultimately have "parse_query_text R ?p = Inr sql"
    using names by (intro parse_text_between [OF parse_body [OF assms(2) len(1,2)] split _ _ _ small]) auto
  then show "std_index ?p 0 = Inr MsgTypeQuery \<and> simple_query_text R ?p = Inr sql
      \<or> std_index ?p 0 = Inr MsgTypeParse \<and> parse_query_text R ?p = Inr sql"
    by (simp add: parse_message_def std_index_def)
qed

theorem postgresql_parse_logged_witness:
  "CPostgreSQLHandler_HandleUpstreamData sample_readers (parse_message 20 ''st'' ''SELECT 1'' ''xx'') 21 (sample_thread 0 ''id'')
   = (Inr (parse_message 20 ''st'' ''SELECT 1'' ''xx''),
      (sample_thread 0 ''id'')\<lparr>trace := [LogQuery ''id'' ''SELECT 1'']\<rparr>)"
  using postgresql_parse_logged [OF _ sample_be_reader, of "sample_thread 0 ''id''" "''id''"
      20 "''st''" "''SELECT 1''" "''xx''" 21]
  by (simp add: sample_thread_def parse_message_def)

text \<open>When the length of a \<open>Parse\<close> message is a multiple of 256, its last length byte is
  taken for the end of the statement name and the name itself is logged as the query.\<close>

theorem postgresql_parse_length_byte:
  assumes "ctx t ''correlation_id'' = Some (AnyString cid)" and "be_reader R"
    and len: "4 \<le> len" "len < 2 ^ 32" "len mod 256 = 0"
    and names: "nul \<notin> set stmt"
    and small: "length (parse_message len stmt sql rest) < 2 ^ 32"
  shows "CPostgreSQLHandler_HandleUpstreamData R (parse_message len stmt sql rest) n t
    = (Inr (parse_message len stmt sql rest), t\<lparr>trace := trace t @ [LogQuery cid stmt]\<rparr>)"
proof (rule postgresql_up_log [OF assms(1)])
  let ?p = "parse_message len stmt sql rest"
  have "byte (char_of len) = byte nul"
    using len(3) by simp (simp add: byte_def)
  then have "(char_of len :: char) = nul" by (simp only: byte_inject)
  then have split: "?p = (MsgTypeParse # be_bytes 3 (len div 256)) @ [] @ nul # stmt @ nul # sql @ nul # rest"
    by (simp add: parse_message_def be_bytes_4)
  have "parse_query_text R ?p = Inr stmt"
    using names by (intro parse_text_between [OF parse_body [OF assms(2) len(1,2)] split _ _ _ small]) auto
  then show "std_index ?p 0 = Inr MsgTypeQuery \<and> simple_query_text R ?p = Inr stmt
      \<or> std_index ?p 0 = Inr MsgTypeParse \<and> parse_query_text R ?p = Inr stmt"
    by (simp add: parse_message_def std_index_def)
qed

theorem postgresql_parse_length_byte_witness:
  "CPostgreSQLHandler_HandleUpstreamData sample_readers
     (parse_message 256 ''st'' ''SELECT 1'' ''xx'') 300 (sample_thread 0 ''id'')
   = (Inr (parse_message 256 ''st'' ''SELECT 1'' ''xx''),
      (sample_thread 0 ''id'')\<lparr>trace := [LogQuery ''id'' ''st'']\<rparr>)"
  using postgresql_parse_length_byte [OF _ sample_be_reader, of "sample_thread 0 ''id''" "''id''"
      256 "''st''" "''SELECT 1''" "''xx''" 300]
  by (simp add: sample_thread_def parse_message_def)

text \<open>Every other message, the empty buffer included, is forwarded unchanged with no effect
  and needs no correlation id: in particular the body of a startup message.\<close>

theorem postgresql_other_messages_silent:
  assumes "b = [] \<or> hd b \<noteq> MsgTypeQuery \<and> hd b \<noteq> MsgTypeParse"
  shows "CPostgreSQLHandler_HandleUpstreamData R b n t = (Inr b, t)"
  using assms
  by (cases b) (auto simp: CPostgreSQLHandler_HandleUpstreamData_def std_index_def cmd_defs
      MsgTypeQuery_def MsgTypeParse_def)

theorem postgresql_other_messages_silent_witness:
  "CPostgreSQLHandler_HandleUpstreamData R (CHR 0x00 # ''user'') 5 (sample_thread 0 ''id'')
     = (Inr (CHR 0x00 # ''user''), sample_thread 0 ''id'')"
  using postgresql_other_messages_silent [of "CHR 0x00 # ''user''" R 5 "sample_thread 0 ''id''"]
  by (simp add: MsgTypeQuery_def MsgTypeParse_def)

end
