(* ===== verification/Handler_Family.thy ===== *)
theory Handler_Family
  imports Other_Handlers MySQL_Handler PostgreSQL_Handler
begin

text \<open>
  The handlers a pipeline of the repository may be configured with, and the contract each keeps.
\<close>

section \<open>The handlers of the repository\<close>

definition verbatim_handlers ::
    "'w env \<Rightarrow> 'j json \<Rightarrow> readers \<Rightarrow> 'q http \<Rightarrow> 'w wire_parser \<Rightarrow> 'w proxy_handler set" where
  "verbatim_handlers env J R H P =
     {BaseProxyHandler, CMySQLHandler R, CPostgreSQLHandler R, CMongoDBHandler J R,
      CHttpsHandler H, CHWirePTHandler env P}"

definition repository_handlers ::
    "'w env \<Rightarrow> 'j json \<Rightarrow> readers \<Rightarrow> 'q http \<Rightarrow> gzip \<Rightarrow> 'w wire_parser \<Rightarrow> 'w proxy_handler set" where
  "repository_handlers env J R H Z P =
     verbatim_handlers env J R H P \<union> {CHttpHandler H Z, CSnowflakeHttpHandler H Z J, GzipHandler Z}"

lemma verbatim_transparent:
  assumes "parser_frame P" and "h \<in> verbatim_handlers env J R H P"
  shows "transparent_handler h"
  using assms(2) clickhouse_transparent [OF assms(1)] base.transparent_handler_axioms
    mysql.transparent_handler_axioms postgresql.transparent_handler_axioms
    mongo.transparent_handler_axioms https.transparent_handler_axioms
  by (auto simp: verbatim_handlers_def)

lemma repository_contract:
  assumes "parser_frame P" and "h \<in> repository_handlers env J R H Z P"
  shows "proxy_contract h"
  using assms(2) transparent_handler.axioms(1) [OF verbatim_transparent [OF assms(1)]]
    http.proxy_contract_axioms snowflake.proxy_contract_axioms gzip.proxy_contract_axioms
  unfolding repository_handlers_def by blast

end
