(* ===== verification/Proxy_Safety.thy ===== *)
theory Proxy_Safety
  imports Proxy_Flow Scripted_World Handler_Family
begin

text \<open>
  The proxy pipelines as wholes, from the accepted client socket to the last \<open>delete\<close>,
  under every handler of the repository and every behaviour of the sockets: what they pass
  on, what they log, and what they do with the sockets they own.
\<close>

section \<open>Vocabulary\<close>

text \<open>At most one of the requests started has no latency yet, the last one.\<close>

definition latencies_in_order :: "event list \<Rightarrow> bool" where
  "latencies_in_order es \<longleftrightarrow>
     generated es = measured es \<or> measured es = butlast (generated es)"

text \<open>
  Resources: nothing is used after it was deleted, and a pipeline that returned has deleted
  the client socket and every socket object it opened, each once.
\<close>

definition released :: "sock \<Rightarrow> bool \<Rightarrow> event list \<Rightarrow> bool" where
  "released c running es \<longleftrightarrow> live {} es \<and>
     (if running then deleted es = [] else distinct (deleted es) \<and> set (deleted es) = insert c (set (opened es)))"

lemma accounted_latencies: "accounted s \<Longrightarrow> latencies_in_order (tr s)"
  by (auto simp: accounted_def latencies_in_order_def split: if_splits)

lemma extends_fresh:
  assumes "extends a b" and "deleted a = []" and "live {} a"
  shows "deleted b = [] \<and> opened b = opened a \<and> live {} b"
  using assms by (auto simp: extends_def no_lifecycle_deleted no_lifecycle_live live_append)

lemmas prologue_defs = resolve_target_def request_server_def open_target_or_close_def open_target_def
  connect_def close_socket_def configure_sockets_def set_read_timeout_def set_keep_alive_def
  stamp_start_def delete_client_def delete_target_def initial_proxy_def initial_thread_def
  wrap_client_tls_def wrap_tls_def

text \<open>The lines of the query log and the latency log.\<close>

definition log_lines :: "event list \<Rightarrow> event list" where
  "log_lines es = [e \<leftarrow> es. case e of LogQuery _ _ \<Rightarrow> True | LogLatency _ _ _ \<Rightarrow> True | _ \<Rightarrow> False]"

lemma untracked_no_log_lines: "generated es = [] \<Longrightarrow> tagged None es \<Longrightarrow> log_lines es = []"
proof (induction es)
  case Nil
  then show ?case by (simp add: log_lines_def)
next
  case (Cons e es)
  then show ?case by (cases e) (auto simp: log_lines_def)
qed

section \<open>Every handler that keeps the contract\<close>

context proxy_contract
begin

lemma default_resources:
  "wp (DefaultProxyPipeline env (Some h) n)
     (\<lambda>running s'. released (Raw Client) running (tr s'))
     (\<lambda>f s'. live {} (tr s') \<and> (escapes f \<or> untouched (tr s')))
     (initial_proxy (Raw Client) (Raw Target) w)"
  unfolding DefaultProxyPipeline_def prologue_defs option.case
  by (intro vcg dflt.loop_tunnel_rule [where c = "Raw Client" and t = "Raw Target"])
    (auto simp: inv_defs released_def untouched_def live_append dest: extends_fresh)

lemma default_latencies:
  "wp (DefaultProxyPipeline env (Some h) n)
     (\<lambda>running s'. tagged None (tr s') \<and> latencies_in_order (tr s'))
     (\<lambda>f s'. escapes f \<or> untouched (tr s'))
     (initial_proxy (Raw Client) (Raw Target) w)"
  unfolding DefaultProxyPipeline_def prologue_defs option.case
  by (intro vcg dflt.loop_tunnel_rule [where c = "Raw Client" and t = "Raw Target"])
    (simp_all add: inv_defs untouched_def latencies_in_order_def, (auto split: if_splits)?)

lemma terminate_resources:
  "wp (ClickHouseTLSTerminatePipeline env (Some h) n)
     (\<lambda>running s'. live {} (tr s') \<and> set (opened (tr s')) = {Tls Client, Raw Target} \<and>
        deleted (tr s') = (if running then [] else [Tls Client, Raw Target]))
     (\<lambda>f s'. live {} (tr s') \<and> (escapes f \<or> untouched (tr s')))
     (initial_proxy (Raw Client) (Raw Target) w)"
  unfolding ClickHouseTLSTerminatePipeline_def prologue_defs option.case
  by (intro vcg terminate.loop_tunnel_rule [where c = "Tls Client" and t = "Raw Target"])
    (auto simp: inv_defs untouched_def live_append dest: extends_fresh)

lemma terminate_silent:
  "wp (ClickHouseTLSTerminatePipeline env (Some h) n)
     (\<lambda>running s'. generated (tr s') = [] \<and> tagged None (tr s'))
     (\<lambda>f s'. escapes f \<or> untouched (tr s'))
     (initial_proxy (Raw Client) (Raw Target) w)"
  unfolding ClickHouseTLSTerminatePipeline_def prologue_defs option.case
  by (intro vcg terminate.loop_tunnel_rule [where c = "Tls Client" and t = "Raw Target"])
    (auto simp: inv_defs untouched_def)

lemma start_resources:
  "wp (ClickHouseTLSStartPipeline env (Some h) n)
     (\<lambda>running s'. released (Raw Client) running (tr s'))
     (\<lambda>f s'. live {} (tr s') \<and> (escapes f \<or> untouched (tr s')))
     (initial_proxy (Raw Client) (Raw Target) w)"
  unfolding ClickHouseTLSStartPipeline_def prologue_defs option.case tls_start_halves
  by (intro vcg terminate.loop_tunnel_rule [where c = "Raw Client" and t = "Tls Target"])
    (auto simp: inv_defs released_def untouched_def live_append dest: extends_fresh)

lemma exchange_resources:
  "wp (ClickHouseTLSExchangePipeline env (Some h) n)
     (\<lambda>running s'. live {} (tr s') \<and> set (opened (tr s')) = {Tls Client, Tls Target} \<and>
        deleted (tr s') = (if running then [] else [Tls Target, Tls Client]))
     (\<lambda>f s'. live {} (tr s') \<and> (escapes f \<or> untouched (tr s')))
     (initial_proxy (Raw Client) (Raw Target) w)"
  unfolding ClickHouseTLSExchangePipeline_def prologue_defs option.case
  by (intro vcg exchange.loop_tunnel_rule [where c = "Tls Client" and t = "Tls Target"])
    (auto simp: inv_defs untouched_def live_append dest: extends_fresh)

lemma exchange_latencies:
  "wp (ClickHouseTLSExchangePipeline env (Some h) n)
     (\<lambda>running s'. tagged None (tr s') \<and> subseq (measured (tr s')) (generated (tr s')))
     (\<lambda>f s'. escapes f \<or> untouched (tr s'))
     (initial_proxy (Raw Client) (Raw Target) w)"
  unfolding ClickHouseTLSExchangePipeline_def prologue_defs option.case
  by (intro vcg exchange.loop_tunnel_rule [where c = "Tls Client" and t = "Tls Target"])
    (simp_all add: inv_defs untouched_def, (auto split: if_splits dest: subseq_snocD)?)

end

section \<open>Handlers that forward verbatim\<close>

context transparent_handler
begin

lemma default_in_order:
  "wp (DefaultProxyPipeline env (Some h) n)
     (\<lambda>running s'. in_order (tr s') \<and> (running \<longrightarrow> balanced (tr s'))) (\<lambda>f s'. in_order (tr s'))
     (initial_proxy (Raw Client) (Raw Target) w)"
  unfolding DefaultProxyPipeline_def prologue_defs option.case
  by (intro vcg dflt.loop_flow_rule [where c = "Raw Client" and t = "Raw Target"])
    (auto simp: inv_defs in_order_def balanced_def)

lemma terminate_no_forgery:
  "wp (ClickHouseTLSTerminatePipeline env (Some h) n)
     (\<lambda>running s'. no_forgery (tr s')) (\<lambda>f s'. no_forgery (tr s'))
     (initial_proxy (Raw Client) (Raw Target) w)"
  unfolding ClickHouseTLSTerminatePipeline_def prologue_defs option.case
  by (intro vcg terminate.loop_lossy_rule [where c = "Tls Client" and t = "Raw Target"])
    (auto simp: inv_defs no_forgery_def)

lemma start_no_forgery:
  "wp (ClickHouseTLSStartPipeline env (Some h) n)
     (\<lambda>running s'. no_forgery (tr s')) (\<lambda>f s'. no_forgery (tr s'))
     (initial_proxy (Raw Client) (Raw Target) w)"
  unfolding ClickHouseTLSStartPipeline_def prologue_defs option.case tls_start_halves
  by (intro vcg terminate.loop_lossy_rule [where c = "Raw Client" and t = "Tls Target"])
    (auto simp: inv_defs no_forgery_def)

lemma exchange_no_forgery:
  "wp (ClickHouseTLSExchangePipeline env (Some h) n)
     (\<lambda>running s'. no_forgery (tr s')) (\<lambda>f s'. no_forgery (tr s'))
     (initial_proxy (Raw Client) (Raw Target) w)"
  unfolding ClickHouseTLSExchangePipeline_def prologue_defs option.case
  by (intro vcg exchange.loop_lossy_rule [where c = "Tls Client" and t = "Tls Target"])
    (auto simp: inv_defs no_forgery_def)

end

section \<open>The pipelines that share code\<close>

lemma clickhouse_is_default: "ClickHousePipeline = DefaultProxyPipeline"
  by (intro ext) (unfold ClickHousePipeline_def DefaultProxyPipeline_def clickhouse_halves, rule refl)

lemmas passthrough_defs = PassthroughPipeline_def prologue_defs generate_uuid_def

section \<open>Examples\<close>

abbreviation sample_proxy :: "script proxy" where
  "sample_proxy \<equiv> initial_proxy (Raw Client) (Raw Target) ([''ask''], [''answer''])"

lemma sample_handler:
  "CMySQLHandler sample_readers \<in> verbatim_handlers scripted sample_json sample_readers sample_http sample_parser"
  by (simp add: verbatim_handlers_def)

lemma sample_any_handler:
  "GzipHandler sample_gzip \<in> repository_handlers scripted sample_json sample_readers sample_http sample_gzip sample_parser"
  by (simp add: repository_handlers_def)

section \<open>What the pipelines promise\<close>

text \<open>C1: \<open>DefaultProxyPipeline\<close> and \<open>ClickHousePipeline\<close> pass the stream on in both
  directions without loss, change or reordering: under every verbatim handler and every
  behaviour of the sockets, what was sent to one side is at any time a prefix of what the other
  side delivered, also when an exception escapes, and at the start of every round the two are
  equal.\<close>

theorem default_relays_in_order:
  assumes "parser_frame P" and "h \<in> verbatim_handlers env J R H P"
  shows "wp (DefaultProxyPipeline env (Some h) rounds)
       (\<lambda>running s. in_order (tr s) \<and> (running \<longrightarrow> balanced (tr s))) (\<lambda>_ s. in_order (tr s))
       (initial_proxy (Raw Client) (Raw Target) w)
     \<and> wp (ClickHousePipeline env (Some h) rounds)
       (\<lambda>running s. in_order (tr s) \<and> (running \<longrightarrow> balanced (tr s))) (\<lambda>_ s. in_order (tr s))
       (initial_proxy (Raw Client) (Raw Target) w)"
  unfolding clickhouse_is_default
  by (intro conjI transparent_handler.default_in_order [OF verbatim_transparent [OF assms]])

lemma default_relays_in_order_witness:
  "wp (DefaultProxyPipeline scripted (Some (CMySQLHandler sample_readers)) 2)
     (\<lambda>running s. in_order (tr s) \<and> (running \<longrightarrow> balanced (tr s))) (\<lambda>_ s. in_order (tr s)) sample_proxy"
  by (rule default_relays_in_order [OF sample_parser_frame sample_handler, THEN conjunct1])

text \<open>\<open>PassthroughPipeline\<close>, which asks no handler, makes it too, in every environment.\<close>

theorem passthrough_relays_in_order:
  "wp (PassthroughPipeline env handler rounds)
     (\<lambda>running s. in_order (tr s) \<and> (running \<longrightarrow> balanced (tr s))) (\<lambda>_ s. in_order (tr s))
     (initial_proxy (Raw Client) (Raw Target) w)"
  unfolding passthrough_defs
  by (cases handler; simp only: option.case;
      intro vcg passthrough.loop_flow_rule [where c = "Raw Client" and t = "Raw Target"])
    (auto simp: inv_defs in_order_def balanced_def)

lemma passthrough_relays_in_order_witness:
  "wp (PassthroughPipeline scripted (Some BaseProxyHandler) 2)
     (\<lambda>running s. in_order (tr s) \<and> (running \<longrightarrow> balanced (tr s))) (\<lambda>_ s. in_order (tr s)) sample_proxy"
  by (rule passthrough_relays_in_order)

text \<open>C31: the pipelines with TLS on the client's side, the target's side or both may drop a
  chunk they could not pass on (they only log the exception and go on), but what they send is
  always a subsequence of what they received.\<close>

theorem tls_pipelines_no_forgery:
  assumes "parser_frame P" and "h \<in> verbatim_handlers env J R H P"
  shows "wp (ClickHouseTLSTerminatePipeline env (Some h) rounds)
       (\<lambda>_ s. no_forgery (tr s)) (\<lambda>_ s. no_forgery (tr s)) (initial_proxy (Raw Client) (Raw Target) w)
     \<and> wp (ClickHouseTLSStartPipeline env (Some h) rounds)
       (\<lambda>_ s. no_forgery (tr s)) (\<lambda>_ s. no_forgery (tr s)) (initial_proxy (Raw Client) (Raw Target) w)
     \<and> wp (ClickHouseTLSExchangePipeline env (Some h) rounds)
       (\<lambda>_ s. no_forgery (tr s)) (\<lambda>_ s. no_forgery (tr s)) (initial_proxy (Raw Client) (Raw Target) w)"
  by (intro conjI transparent_handler.terminate_no_forgery transparent_handler.start_no_forgery
      transparent_handler.exchange_no_forgery verbatim_transparent [OF assms])

lemma tls_pipelines_no_forgery_witness:
  "wp (ClickHouseTLSTerminatePipeline scripted (Some (CMySQLHandler sample_readers)) 2)
     (\<lambda>_ s. no_forgery (tr s)) (\<lambda>_ s. no_forgery (tr s)) sample_proxy"
  by (rule tls_pipelines_no_forgery [OF sample_parser_frame sample_handler, THEN conjunct1])

text \<open>C23: \<open>DefaultProxyPipeline\<close> accounts for its requests under every handler of the
  repository: every query and latency line carries the correlation id generated last, and one
  latency is logged per generated id, in order, but for the request in flight. A standard
  exception escapes only before anything was relayed.\<close>

theorem default_logs_one_latency_per_request:
  assumes "parser_frame P" and "h \<in> repository_handlers env J R H Z P"
  shows "wp (DefaultProxyPipeline env (Some h) rounds)
     (\<lambda>_ s. tagged None (tr s) \<and> latencies_in_order (tr s)) (\<lambda>f s. escapes f \<or> untouched (tr s))
     (initial_proxy (Raw Client) (Raw Target) w)"
  by (rule proxy_contract.default_latencies [OF repository_contract [OF assms]])

lemma default_logs_one_latency_per_request_witness:
  "wp (DefaultProxyPipeline scripted (Some (GzipHandler sample_gzip)) 2)
     (\<lambda>_ s. tagged None (tr s) \<and> latencies_in_order (tr s)) (\<lambda>f s. escapes f \<or> untouched (tr s))
     sample_proxy"
  by (rule default_logs_one_latency_per_request [OF sample_parser_frame sample_any_handler])

text \<open>with TLS on both sides a failed request is dropped and the loop goes on, so some ids
  have no latency; those logged are still in the order of the requests and correctly tagged.\<close>

theorem tls_exchange_latencies_subsequence:
  assumes "parser_frame P" and "h \<in> repository_handlers env J R H Z P"
  shows "wp (ClickHouseTLSExchangePipeline env (Some h) rounds)
     (\<lambda>_ s. tagged None (tr s) \<and> subseq (measured (tr s)) (generated (tr s)))
     (\<lambda>f s. escapes f \<or> untouched (tr s)) (initial_proxy (Raw Client) (Raw Target) w)"
  by (rule proxy_contract.exchange_latencies [OF repository_contract [OF assms]])

lemma tls_exchange_latencies_subsequence_witness:
  "wp (ClickHouseTLSExchangePipeline scripted (Some (GzipHandler sample_gzip)) 2)
     (\<lambda>_ s. tagged None (tr s) \<and> subseq (measured (tr s)) (generated (tr s)))
     (\<lambda>f s. escapes f \<or> untouched (tr s)) sample_proxy"
  by (rule tls_exchange_latencies_subsequence [OF sample_parser_frame sample_any_handler])

text \<open>\<open>ClickHouseTLSTerminatePipeline\<close> never puts a correlation id into the execution
  context, so under no handler of the repository does it log a query or a latency.\<close>

theorem tls_terminate_logs_nothing:
  assumes "parser_frame P" and "h \<in> repository_handlers env J R H Z P"
  shows "wp (ClickHouseTLSTerminatePipeline env (Some h) rounds)
     (\<lambda>_ s. log_lines (tr s) = []) (\<lambda>f s. escapes f \<or> untouched (tr s))
     (initial_proxy (Raw Client) (Raw Target) w)"
  by (rule wp_mono [OF proxy_contract.terminate_silent [OF repository_contract [OF assms]]])
    (auto intro: untracked_no_log_lines)

lemma tls_terminate_logs_nothing_witness:
  "wp (ClickHouseTLSTerminatePipeline scripted (Some (GzipHandler sample_gzip)) 2)
     (\<lambda>_ s. log_lines (tr s) = []) (\<lambda>f s. escapes f \<or> untouched (tr s)) sample_proxy"
  by (rule tls_terminate_logs_nothing [OF sample_parser_frame sample_any_handler])

text \<open>C28: \<open>DefaultProxyPipeline\<close>, \<open>ClickHousePipeline\<close> and \<open>ClickHouseTLSStartPipeline\<close> own
  their sockets properly: they use none after its \<open>delete\<close>, delete none while they run, and
  when they return they have deleted the client socket and every socket they opened, each
  exactly once.\<close>

theorem plain_pipelines_release_sockets:
  assumes "parser_frame P" and "h \<in> repository_handlers env J R H Z P"
    and "pipeline \<in> {DefaultProxyPipeline, ClickHousePipeline, ClickHouseTLSStartPipeline}"
  shows "wp (pipeline env (Some h) rounds)
     (\<lambda>running s. released (Raw Client) running (tr s))
     (\<lambda>f s. live {} (tr s) \<and> (escapes f \<or> untouched (tr s)))
     (initial_proxy (Raw Client) (Raw Target) w)"
  using assms(3) proxy_contract.default_resources [OF repository_contract [OF assms(1,2)]]
    proxy_contract.start_resources [OF repository_contract [OF assms(1,2)]]
  by (auto simp: clickhouse_is_default)

lemma plain_pipelines_release_sockets_witness:
  "wp (DefaultProxyPipeline scripted (Some (GzipHandler sample_gzip)) 2)
     (\<lambda>running s. released (Raw Client) running (tr s))
     (\<lambda>f s. live {} (tr s) \<and> (escapes f \<or> untouched (tr s))) sample_proxy"
  by (rule plain_pipelines_release_sockets [OF sample_parser_frame sample_any_handler]) simp

text \<open>the two pipelines that wrap the client's descriptor in a TLS socket delete the
  wrapper and the target, but never the plain client socket object they were handed.\<close>

theorem tls_pipelines_leak_client_socket:
  assumes "parser_frame P" and "h \<in> repository_handlers env J R H Z P"
  shows "wp (ClickHouseTLSTerminatePipeline env (Some h) rounds)
       (\<lambda>running s. deleted (tr s) = (if running then [] else [Tls Client, Raw Target])) (\<lambda>f s. escapes f \<or> untouched (tr s))
       (initial_proxy (Raw Client) (Raw Target) w)
     \<and> wp (ClickHouseTLSExchangePipeline env (Some h) rounds)
       (\<lambda>running s. deleted (tr s) = (if running then [] else [Tls Target, Tls Client])) (\<lambda>f s. escapes f \<or> untouched (tr s))
       (initial_proxy (Raw Client) (Raw Target) w)"
  by (intro conjI wp_mono [OF proxy_contract.terminate_resources [OF repository_contract [OF assms]]]
      wp_mono [OF proxy_contract.exchange_resources [OF repository_contract [OF assms]]]) simp_all

lemma tls_pipelines_leak_client_socket_witness:
  "wp (ClickHouseTLSTerminatePipeline scripted (Some (GzipHandler sample_gzip)) 2)
     (\<lambda>running s. deleted (tr s) = (if running then [] else [Tls Client, Raw Target])) (\<lambda>f s. escapes f \<or> untouched (tr s)) sample_proxy"
  by (rule tls_pipelines_leak_client_socket [OF sample_parser_frame sample_any_handler, THEN conjunct1])

text \<open>\<open>PassthroughPipeline\<close> generates one correlation id, measures the whole session
  under it exactly once, when it returns from a session that was established, and releases
  its sockets.\<close>

theorem passthrough_measures_session:
  "wp (PassthroughPipeline env (Some h) rounds)
     (\<lambda>running s. released (Raw Client) running (tr s) \<and>
        generated (tr s) = [correlation_id s] \<and>
        measured (tr s) = (if running \<or> opened (tr s) = [] then [] else [correlation_id s]))
     (\<lambda>f s. live {} (tr s) \<and> (escapes f \<or> untouched (tr s)))
     (initial_proxy (Raw Client) (Raw Target) w)"
  unfolding passthrough_defs option.case
  by (intro vcg passthrough.loop_tunnel_rule [where c = "Raw Client" and t = "Raw Target"])
    (auto simp: inv_defs released_def untouched_def live_append dest: extends_fresh)

end
