(* ===== verification/Session_Safety.thy ===== *)
theory Session_Safety
  imports Session_Flow Proxy_Safety
begin

text \<open>
  \<open>MySQLPipeline\<close> and \<open>PostgreSQLPipeline\<close> as wholes: handshake, relay loop and the
  deletion of the sockets.
\<close>

section \<open>Leaving the session\<close>

text \<open>What is known of a session when its sockets are deleted.\<close>

definition sockets_known :: "'w session \<Rightarrow> bool" where
  "sockets_known s \<longleftrightarrow>
     (client_socket s, target_socket s, opened (tr s)) \<in>
       {(Raw Client, Raw Target, [Raw Target]), (Tls Client, Raw Target, [Raw Target, Tls Client]),
        (Tls Client, Tls Target, [Raw Target, Tls Client, Tls Target])}
     \<and> deleted (tr s) = [] \<and> live {} (tr s)"

lemma shaking_known: "shaking s \<Longrightarrow> sockets_known s"
  by (auto simp: shaking_def sockets_known_def)

text \<open>The streams and the logs do not change.\<close>

definition same_streams :: "event list \<Rightarrow> event list \<Rightarrow> bool" where
  "same_streams a b \<longleftrightarrow> (\<forall>d. received d b = received d a \<and> sent d b = sent d a)
     \<and> generated b = generated a \<and> measured b = measured a \<and> tagged None b = tagged None a"

lemma delete_sockets_released:
  assumes "sockets_known s"
  shows "wp (delete_sockets env (Raw Client) (Raw Target))
     (\<lambda>_ s'. released (Raw Client) False (tr s') \<and> same_streams (tr s) (tr s')) (\<lambda>_ _. False) s"
  using assms unfolding delete_sockets_def sockets_known_def insert_iff empty_iff prod.inject
  by (elim conjE disjE FalseE; intro vcg; auto simp: released_def same_streams_def live_append)

section \<open>The pipelines as wholes\<close>

text \<open>The state in which the loop starts and ends.\<close>

lemma session_extends_known:
  assumes "sockets_known s" and "extends (tr s) (tr s')" and "session_inv (client_socket s) (target_socket s) s'"
  shows "sockets_known s'"
  using assms extends_fresh [OF assms(2)] by (auto simp: sockets_known_def session_defs)

lemma same_streams_order:
  "same_streams a b \<Longrightarrow> in_order b = in_order a"
  "same_streams a b \<Longrightarrow> balanced b = balanced a"
  "same_streams a b \<Longrightarrow> latencies_in_order b = latencies_in_order a"
  by (auto simp: same_streams_def in_order_def balanced_def latencies_in_order_def)

lemma session_latencies: "session_inv c t s \<Longrightarrow> latencies_in_order (tr s) \<and> tagged None (tr s)"
  by (auto simp: session_defs latencies_in_order_def split: if_splits)

lemma shaking_latencies: "shaking s \<Longrightarrow> latencies_in_order (tr s) \<and> tagged None (tr s)"
  by (simp add: shaking_def latencies_in_order_def)

lemma delete_sockets_rule:
  assumes "c = Raw Client" and "t = Raw Target" and "sockets_known s"
    and "\<And>s'. released (Raw Client) False (tr s') \<Longrightarrow> same_streams (tr s) (tr s') \<Longrightarrow> Q () s'"
  shows "wp (delete_sockets env c t) Q E s"
  unfolding assms(1,2)
  by (rule wp_mono [OF delete_sockets_released [OF assms(3)]]) (auto intro: assms(4))

lemma mysql_handshake_rule:
  assumes "at_start s"
    and "\<And>r s'. shaking s' \<Longrightarrow> in_order (tr s') \<Longrightarrow> (r = 0 \<Longrightarrow> balanced (tr s')) \<Longrightarrow> Q r s'"
    and "\<And>f s'. shaking s' \<Longrightarrow> in_order (tr s') \<Longrightarrow> E f s'"
  shows "wp (MySQLHandshake env R) Q E s"
  by (rule wp_mono [OF mysql_handshake [OF assms(1)]]) (auto intro: assms(2,3))

lemma postgresql_handshake_rule:
  assumes "at_start s"
    and "\<And>r s'. shaking s' \<Longrightarrow> in_order (tr s') \<Longrightarrow> (r = 0 \<Longrightarrow> balanced (tr s')) \<Longrightarrow> Q r s'"
    and "\<And>f s'. shaking s' \<Longrightarrow> in_order (tr s') \<Longrightarrow> E f s'"
  shows "wp (PostgreSQLHandshake env R) Q E s"
  by (rule wp_mono [OF postgresql_handshake [OF assms(1)]]) (auto intro: assms(2,3))

text \<open>What is promised of a session, for every handler that keeps the contract.\<close>

definition session_ok :: "bool \<Rightarrow> event list \<Rightarrow> bool" where
  "session_ok running es \<longleftrightarrow> released (Raw Client) running es \<and> tagged None es \<and> latencies_in_order es"

definition session_failed :: "failure \<Rightarrow> event list \<Rightarrow> bool" where
  "session_failed f es \<longleftrightarrow> live {} es \<and> deleted es = [] \<and> (escapes f \<or> untouched es)"

lemmas session_prologue_defs = resolve_target_def request_server_def open_target_def connect_def
  configure_sockets_def set_read_timeout_def set_keep_alive_def stamp_start_def put_target_host_def
  give_up_def initial_session_def initial_thread_def

lemma known_has_error [simp]: "sockets_known (s\<lparr>has_error := b\<rparr>) = sockets_known s"
  by (simp add: sockets_known_def)

lemma shaking_running: "shaking s \<Longrightarrow> \<not> has_error s"
  by (simp add: shaking_def)

lemma shaking_failed:
  assumes "shaking s" shows "live {} (tr s) \<and> deleted (tr s) = []"
  using assms by (simp add: shaking_def)

lemma session_ok_end:
  assumes "same_streams a b" and "released (Raw Client) False b" and "latencies_in_order a \<and> tagged None a"
  shows "session_ok False b"
  using assms by (simp add: session_ok_def same_streams_order) (simp add: same_streams_def)

lemma session_ok_running:
  assumes "sockets_known s" and "latencies_in_order (tr s) \<and> tagged None (tr s)"
  shows "session_ok True (tr s)"
  using assms by (simp add: session_ok_def sockets_known_def released_def)

lemma known_extends_failed:
  assumes "shaking s" and "extends (tr s) b"
  shows "live {} b \<and> deleted b = []"
  using extends_fresh [OF assms(2)] shaking_failed [OF assms(1)] by simp

lemmas session_loop_known = session_extends_known [OF shaking_known]

lemmas session_intros =
  session_ok_end [OF _ _ shaking_latencies] session_ok_end [OF _ _ session_latencies]
  session_ok_running [OF _ shaking_latencies] session_ok_running [OF _ session_latencies]
  shaking_known session_loop_known

context proxy_contract
begin

lemma mysql_session:
  "wp (MySQLPipeline env R (Some h) n)
     (\<lambda>running s'. session_ok running (tr s')) (\<lambda>f s'. session_failed f (tr s'))
     (initial_session (Raw Client) (Raw Target) w)"
  unfolding MySQLPipeline_def session_prologue_defs option.case
  by (intro vcg mysql_handshake_rule mysql_loop.loop_tunnel_rule [OF shaking_inv] delete_sockets_rule;
      (simp add: at_start_def shaking_running session_failed_def untouched_def; fail)?)
    (auto simp: session_failed_def dest: shaking_running shaking_failed known_extends_failed
      intro: session_intros)

lemma postgresql_session:
  "wp (PostgreSQLPipeline env R (Some h) n)
     (\<lambda>running s'. session_ok running (tr s')) (\<lambda>f s'. session_failed f (tr s'))
     (initial_session (Raw Client) (Raw Target) w)"
  unfolding PostgreSQLPipeline_def session_prologue_defs option.case
  by (intro vcg postgresql_handshake_rule postgresql_loop.loop_tunnel_rule [OF shaking_inv] delete_sockets_rule;
      (simp add: at_start_def shaking_running session_failed_def untouched_def; fail)?)
    (auto simp: session_failed_def dest: shaking_running shaking_failed known_extends_failed
      intro: session_intros)

end

context transparent_handler
begin

lemma mysql_session_in_order:
  "wp (MySQLPipeline env R (Some h) n)
     (\<lambda>running s'. in_order (tr s') \<and> (running \<longrightarrow> balanced (tr s'))) (\<lambda>f s'. in_order (tr s'))
     (initial_session (Raw Client) (Raw Target) w)"
  unfolding MySQLPipeline_def session_prologue_defs option.case
  by (intro vcg mysql_handshake_rule mysql_loop.loop_flow_rule [OF shaking_inv] delete_sockets_rule;
      (simp add: at_start_def shaking_running in_order_def; fail)?)
    (auto simp: same_streams_order dest: shaking_running intro: shaking_known session_loop_known)

lemma postgresql_session_in_order:
  "wp (PostgreSQLPipeline env R (Some h) n)
     (\<lambda>running s'. in_order (tr s') \<and> (running \<longrightarrow> balanced (tr s'))) (\<lambda>f s'. in_order (tr s'))
     (initial_session (Raw Client) (Raw Target) w)"
  unfolding PostgreSQLPipeline_def session_prologue_defs option.case
  by (intro vcg postgresql_handshake_rule postgresql_loop.loop_flow_rule [OF shaking_inv] delete_sockets_rule;
      (simp add: at_start_def shaking_running in_order_def; fail)?)
    (auto simp: same_streams_order dest: shaking_running intro: shaking_known session_loop_known)

end

section \<open>What the pipelines promise\<close>

abbreviation sample_session :: "script session" where
  "sample_session \<equiv> initial_session (Raw Client) (Raw Target) ([''ask''], [''answer''])"

text \<open>C2: \<open>MySQLPipeline\<close> passes the stream on in both directions without loss, change or
  reordering, through the handshake, the upgrade to TLS and the splitting into packets: under
  every verbatim handler, every environment and any byte readers, what was sent to one side is
  at any time a prefix of what the other side delivered, and in the loop the two are equal.\<close>

theorem mysql_relays_in_order:
  assumes "parser_frame P" and "h \<in> verbatim_handlers env J R H P"
  shows "wp (MySQLPipeline env R (Some h) rounds)
     (\<lambda>running s. in_order (tr s) \<and> (running \<longrightarrow> balanced (tr s))) (\<lambda>_ s. in_order (tr s))
     (initial_session (Raw Client) (Raw Target) w)"
  by (rule transparent_handler.mysql_session_in_order [OF verbatim_transparent [OF assms]])

lemma mysql_relays_in_order_witness:
  "wp (MySQLPipeline scripted sample_readers (Some (CMySQLHandler sample_readers)) 2)
     (\<lambda>running s. in_order (tr s) \<and> (running \<longrightarrow> balanced (tr s))) (\<lambda>_ s. in_order (tr s)) sample_session"
  by (rule mysql_relays_in_order [OF sample_parser_frame sample_handler])

text \<open>C3: \<open>PostgreSQLPipeline\<close> keeps the same promise through its handshake, whether or not the
  client asks for encryption and the server grants it.\<close>

theorem postgresql_relays_in_order:
  assumes "parser_frame P" and "h \<in> verbatim_handlers env J R H P"
  shows "wp (PostgreSQLPipeline env R (Some h) rounds)
     (\<lambda>running s. in_order (tr s) \<and> (running \<longrightarrow> balanced (tr s))) (\<lambda>_ s. in_order (tr s))
     (initial_session (Raw Client) (Raw Target) w)"
  by (rule transparent_handler.postgresql_session_in_order [OF verbatim_transparent [OF assms]])

lemma postgresql_relays_in_order_witness:
  "wp (PostgreSQLPipeline scripted sample_readers (Some (CMySQLHandler sample_readers)) 2)
     (\<lambda>running s. in_order (tr s) \<and> (running \<longrightarrow> balanced (tr s))) (\<lambda>_ s. in_order (tr s)) sample_session"
  by (rule postgresql_relays_in_order [OF sample_parser_frame sample_handler])

text \<open>C24: the session pipelines under every handler of the repository: no socket is used after
  its deletion; when the pipeline returns, the client socket, the target socket and the TLS
  objects that replaced them are each deleted once; every log line carries the current
  correlation id and one latency is logged per id. If an exception leaves the pipeline, nothing
  was deleted, and it is no \<open>std::exception\<close> unless nothing was relayed.\<close>

theorem session_pipelines_discipline:
  assumes "parser_frame P" and "h \<in> repository_handlers env J R H Z P"
    and "pipeline \<in> {MySQLPipeline, PostgreSQLPipeline}"
  shows "wp (pipeline env B (Some h) rounds)
     (\<lambda>running s. session_ok running (tr s)) (\<lambda>f s. session_failed f (tr s))
     (initial_session (Raw Client) (Raw Target) w)"
  using assms(3) proxy_contract.mysql_session [OF repository_contract [OF assms(1,2)]]
    proxy_contract.postgresql_session [OF repository_contract [OF assms(1,2)]]
  by auto

lemma session_pipelines_discipline_witness:
  "wp (PostgreSQLPipeline scripted sample_readers (Some (GzipHandler sample_gzip)) 2)
     (\<lambda>running s. session_ok running (tr s)) (\<lambda>f s. session_failed f (tr s)) sample_session"
  by (rule session_pipelines_discipline [OF sample_parser_frame sample_any_handler]) simp

text \<open>splitting a buffer into MySQL packets inverts framing: a buffer made of whole packets
  is split into exactly these packets.\<close>

theorem extract_packets_frames:
  assumes "le_readers R" and "\<forall>p \<in> set ps. length (snd p) < 2 ^ 24"
    and "length (concat (map frame ps)) < 2 ^ 31"
  shows "extract_packets R (concat (map frame ps)) (int (length (concat (map frame ps)))) = Inr (map frame ps)"
  using packets_from_frames [where pre = "[]", OF assms(1,2)] assms(3)
  by (simp add: extract_packets_def)

lemma extract_packets_frames_witness:
  "extract_packets sample_readers (concat (map frame [(nul, ''ab''), (CHR 0x01, '''')]))
     (int (length (concat (map frame [(nul, ''ab''), (CHR 0x01, '''')]))))
   = Inr (map frame [(nul, ''ab''), (CHR 0x01, '''')])"
  by (rule extract_packets_frames [OF sample_le_readers]) (simp_all add: length_frame)

text \<open>C26: whatever the readers answer, and also when the last packet is incomplete, the packets
  extracted make up the buffer again: nothing is lost, added or sent twice.\<close>

theorem extract_packets_lossless:
  assumes "extract_packets R b (int (length b)) = Inr packets"
  shows "concat packets = b"
  using assms by (rule extract_packets_concat)

lemma extract_packets_lossless_witness:
  "extract_packets sample_readers (frame (nul, ''ab'') @ [CHR 0x05, nul]) 8
     = Inr [frame (nul, ''ab''), [CHR 0x05, nul]]
   \<and> concat [frame (nul, ''ab''), [CHR 0x05, nul]] = frame (nul, ''ab'') @ [CHR 0x05, nul]"
proof (rule context_conjI)
  show run: "extract_packets sample_readers (frame (nul, ''ab'') @ [CHR 0x05, nul]) 8
      = Inr [frame (nul, ''ab''), [CHR 0x05, nul]]"
    by code_simp
  show "concat [frame (nul, ''ab''), [CHR 0x05, nul]] = frame (nul, ''ab'') @ [CHR 0x05, nul]"
    by (rule extract_packets_lossless [of sample_readers]) (simp add: run length_frame)
qed

text \<open>
  What the handshake has seen of the client: its packet, a header of four bytes and a payload, sent
  after the target's greeting, and the capabilities read out of it, the first field of the payload.
\<close>

definition client_answered :: "readers \<Rightarrow> event list \<Rightarrow> string \<Rightarrow> 32 word \<Rightarrow> bool" where
  "client_answered R es packet capabilities \<longleftrightarrow> (\<exists>greeting_header greeting header payload.
       es = [RecvBlocked (Raw Target) greeting_header, RecvBlocked (Raw Target) greeting,
         Sent (Raw Client) (greeting_header @ greeting),
         RecvBlocked (Raw Client) header, RecvBlocked (Raw Client) payload]
     \<and> length header = 4 \<and> packet = header @ payload
     \<and> readInt32 R packet 4 = Inr capabilities
     \<and> (4 \<le> length payload \<longrightarrow> capabilities = of_nat (le_value (take 4 payload))))"

lemma client_answered_by:
  assumes "readInt32 R (header @ payload) 4 = Inr capabilities" and "length header = 4" and "int32_reader R"
  shows "client_answered R [RecvBlocked (Raw Target) gh, RecvBlocked (Raw Target) gp, Sent (Raw Client) (gh @ gp),
      RecvBlocked (Raw Client) header, RecvBlocked (Raw Client) payload] (header @ payload) capabilities"
proof -
  have "capabilities = of_nat (le_value (take 4 payload))" if "4 \<le> length payload"
    using int32_reader_at [OF assms(3), of 4 "header @ payload"] assms(1,2) that by simp
  with assms(1,2) show ?thesis by (simp add: client_answered_def)
qed

text \<open>C30: the MySQL handshake succeeds only after the client answered the greeting with a packet whose
  first payload field, its capabilities, has the 4.1 protocol bit; then this packet was forwarded to
  the target, the capabilities are in the execution context for the handler, and both sockets were
  replaced by TLS sockets exactly if the TLS bit is set in them. It fails, with status -1, only if
  the client's packet lacks the bit, and then the target got nothing and the context is untouched.\<close>

theorem mysql_handshake_negotiates:
  assumes "client_socket s = Raw Client" and "target_socket s = Raw Target" and "int32_reader R"
  shows "wp (MySQLHandshake env R)
     (\<lambda>status s'. \<exists>es packet capabilities. client_answered R es packet capabilities \<and>
       (if status = 0 then
         (\<exists>later. tr s' = tr s @ es @ Sent (Raw Target) packet # later)
           \<and> ctx (thr s') ''capabilities'' = Some (AnyU32 capabilities)
           \<and> capabilities AND CLIENT_PROTOCOL_41 \<noteq> 0
           \<and> client_socket s' = (if capabilities AND CLIENT_SSL \<noteq> 0 then Tls Client else Raw Client)
           \<and> target_socket s' = (if capabilities AND CLIENT_SSL \<noteq> 0 then Tls Target else Raw Target)
       else status = - 1 \<and> tr s' = tr s @ es \<and> ctx (thr s') = ctx (thr s)
         \<and> capabilities AND CLIENT_PROTOCOL_41 = 0 \<and> client_socket s' = Raw Client))
     (\<lambda>_ _. True) s"
  using assms unfolding MySQLHandshake_def handshake_effects
  by (intro vcg)
    (simp; ((rule exI)+, (rule conjI)?, rule client_answered_by, assumption, assumption, assumption, simp?))+

lemma mysql_handshake_negotiates_witness:
  "wp (MySQLHandshake scripted sample_readers)
     (\<lambda>status s'. \<exists>es packet capabilities. client_answered sample_readers es packet capabilities \<and>
       (status = 0 \<longrightarrow> ctx (thr s') ''capabilities'' = Some (AnyU32 capabilities)
          \<and> client_socket s' = (if capabilities AND CLIENT_SSL \<noteq> 0 then Tls Client else Raw Client)))
     (\<lambda>_ _. True) sample_session"
  by (rule wp_mono [OF mysql_handshake_negotiates [OF _ _ sample_int32_reader]])
    (auto simp: initial_session_def split: if_splits)

text \<open>a failed connection to the target is caught by the default pipeline, which closes and
  deletes the client socket, but leaves \<open>MySQLPipeline\<close> and \<open>PostgreSQLPipeline\<close> as an
  exception, with the client socket neither closed nor deleted.\<close>

theorem connect_failure_escapes_sessions:
  assumes "x_request_server env w = (Inr ep, w')" and "x_connect env (Raw Target) ep w' = (Inl e, w'')"
    and "x_close env (Raw Client) w'' = (Inr (), w3)" and "is_std_exception e"
  shows "MySQLPipeline env R (Some h) rounds (initial_session (Raw Client) (Raw Target) w)
       = (Inl (Thrown e), (initial_session (Raw Client) (Raw Target) w)\<lparr>thr := initial_thread w'', target_endpoint := ep\<rparr>)
     \<and> PostgreSQLPipeline env R (Some h) rounds (initial_session (Raw Client) (Raw Target) w)
       = (Inl (Thrown e), (initial_session (Raw Client) (Raw Target) w)\<lparr>thr := initial_thread w'', target_endpoint := ep\<rparr>)
     \<and> fst (DefaultProxyPipeline env (Some h) rounds (initial_proxy (Raw Client) (Raw Target) w)) = Inr False
     \<and> tr (snd (DefaultProxyPipeline env (Some h) rounds (initial_proxy (Raw Client) (Raw Target) w)))
       = [Closed (Raw Client), Deleted (Raw Client)]"
proof -
  note defs = resolve_target_def request_server_def open_target_def connect_def extern_def
    initial_session_def initial_proxy_def initial_thread_def on_thread_def open_target_or_close_def
    close_socket_def delete_socket_def cmd_defs
  have "MySQLPipeline env R (Some h) rounds (initial_session (Raw Client) (Raw Target) w)
       = (Inl (Thrown e), (initial_session (Raw Client) (Raw Target) w)\<lparr>thr := initial_thread w'', target_endpoint := ep\<rparr>)"
    using assms by (simp add: MySQLPipeline_def defs)
  moreover have "PostgreSQLPipeline env R (Some h) rounds (initial_session (Raw Client) (Raw Target) w)
       = (Inl (Thrown e), (initial_session (Raw Client) (Raw Target) w)\<lparr>thr := initial_thread w'', target_endpoint := ep\<rparr>)"
    using assms by (simp add: PostgreSQLPipeline_def defs)
  moreover have "fst (DefaultProxyPipeline env (Some h) rounds (initial_proxy (Raw Client) (Raw Target) w)) = Inr False"
    and "tr (snd (DefaultProxyPipeline env (Some h) rounds (initial_proxy (Raw Client) (Raw Target) w)))
       = [Closed (Raw Client), Deleted (Raw Client)]"
    using assms by (simp_all add: DefaultProxyPipeline_def defs)
  ultimately show ?thesis by blast
qed

definition refusing :: "script env" where
  "refusing = scripted\<lparr>x_connect := (\<lambda>k ep w. (Inl (RuntimeError ''refused''), w))\<rparr>"

lemma connect_failure_escapes_sessions_witness:
  "MySQLPipeline refusing sample_readers (Some BaseProxyHandler) 1 sample_session
     = (Inl (Thrown (RuntimeError ''refused'')),
        sample_session\<lparr>thr := initial_thread ([''ask''], [''answer'']), target_endpoint := \<lparr>ipaddress = ''db'', port = 9000\<rparr>\<rparr>)
   \<and> fst (DefaultProxyPipeline refusing (Some BaseProxyHandler) 1 sample_proxy) = Inr False"
proof -
  let ?w = "([''ask''], [''answer''])" and ?ep = "\<lparr>ipaddress = ''db'', port = 9000\<rparr>"
  have calls: "x_request_server refusing ?w = (Inr ?ep, ?w)"
    "x_connect refusing (Raw Target) ?ep ?w = (Inl (RuntimeError ''refused''), ?w)"
    "x_close refusing (Raw Client) ?w = (Inr (), ?w)" "is_std_exception (RuntimeError ''refused'')"
    by (simp_all add: refusing_def scripted_def)
  show ?thesis
    using connect_failure_escapes_sessions [OF calls, of sample_readers BaseProxyHandler 1] by blast
qed

text \<open>A client that sends a \<open>GSSENCRequest\<close>: the world is the bytes it will still deliver.\<close>

definition gssenc_request :: script where
  "gssenc_request = ([[nul, nul, nul, CHR 0x08], [CHR 0x04, CHR 0xD2, CHR 0x16, CHR 0x30]], [])"

definition gssenc_client :: "script env" where
  "gssenc_client = scripted\<lparr>x_recv_blocking := (\<lambda>k n w.
     (Inr (\<lambda>i. if i < length (hd (fst w)) then hd (fst w) ! i else nul), (tl (fst w), snd w)))\<rparr>"

text \<open>a \<open>GSSENCRequest\<close> brings the PostgreSQL thread down: the handshake throws a string
  literal, which no \<open>catch (std::exception &)\<close> of the pipeline stops, and no socket is closed
  or deleted. For every handler and any readers that decode the two numbers of the request.\<close>

theorem postgresql_gssenc_escapes:
  assumes "readBEInt32 R [nul, nul, nul, CHR 0x08] 0 = Inr 8"
    and "readBEInt32 R [CHR 0x04, CHR 0xD2, CHR 0x16, CHR 0x30] 0 = Inr RequestCodeGSSENC"
  shows "fst (PostgreSQLPipeline gssenc_client R (Some h) rounds (initial_session (Raw Client) (Raw Target) gssenc_request))
       = Inl (Thrown (CharPtr ''Not Implemented''))
     \<and> deleted (tr (snd (PostgreSQLPipeline gssenc_client R (Some h) rounds
         (initial_session (Raw Client) (Raw Target) gssenc_request)))) = []"
  using assms
  by (simp add: PostgreSQLPipeline_def PostgreSQLHandshake_def session_prologue_defs handshake_effects
      recv_blocking_def run_simps on_thread_def effect_run_defs gssenc_client_def gssenc_request_def scripted_def
      RequestCodeSSL_def RequestCodeGSSENC_def upt_rec Let_def)

lemma postgresql_gssenc_escapes_witness:
  "fst (PostgreSQLPipeline gssenc_client sample_readers (Some BaseProxyHandler) 1
       (initial_session (Raw Client) (Raw Target) gssenc_request)) = Inl (Thrown (CharPtr ''Not Implemented''))"
proof -
  have "readBEInt32 sample_readers [nul, nul, nul, CHR 0x08] 0 = Inr 8"
    and "readBEInt32 sample_readers [CHR 0x04, CHR 0xD2, CHR 0x16, CHR 0x30] 0 = Inr RequestCodeGSSENC"
    by (simp_all add: sample_readers_def RequestCodeGSSENC_def byte_def)
  from postgresql_gssenc_escapes [OF this, of BaseProxyHandler 1] show ?thesis by simp
qed

end
