(* ===== verification/World_Rules.thy ===== *)
theory World_Rules
  imports Relay Other_Handlers
begin

text \<open>
  Proofs that a loop ends follow a measure of the outside world: rules for the effects that
  keep the world, and the two notions such proofs speak of.
\<close>

section \<open>Following the world\<close>

text \<open>
  The rules of \<open>vcg\<close> forget the world. These keep it and forget the trace: they serve the
  proofs that a measure of the world goes down.
\<close>

named_theorems vcgw \<open>introduction rules that follow the world of a thread\<close>

lemmas vcg_control = vcg_ret vcg_fail vcg_bind vcg_seq vcg_get vcg_upd vcg_res vcg_when vcg_if
  vcg_try vcg_on_fail vcg_on_thread vcg_lib

declare vcg_control [vcgw]

lemma vcgw_extern [vcgw]:
  assumes "\<And>e t'. f (world t) = (Inl e, world t') \<Longrightarrow> E (Thrown e) t'"
    and "\<And>a t'. f (world t) = (Inr a, world t') \<Longrightarrow> Q a t'"
  shows "wp (extern f ok bad) Q E t"
  using assms by (simp add: wp_extern split: prod.splits sum.splits)

lemma vcgw_now [vcgw]:
  assumes "\<And>i t'. x_now env (world t) = (i, world t') \<Longrightarrow> Q i t'"
  shows "wp (now env) Q E t"
  using assms by (simp add: wp_now split: prod.split)

lemma vcgw_ctx_put [vcgw]:
  assumes "\<And>t'. world t' = world t \<Longrightarrow> Q () t'"
  shows "wp (ctx_put k v) Q E t"
  using assms by (simp add: ctx_put_def wp_upd)

lemma vcgw_ctx_at [vcgw]:
  assumes "\<And>v t'. world t' = world t \<Longrightarrow> Q v t'"
  shows "wp (ctx_at k) Q E t"
  using assms by (simp add: wp_ctx_at split: option.split)

lemma vcgw_emit [vcgw]:
  assumes "\<And>t'. world t' = world t \<Longrightarrow> Q () t'"
  shows "wp (emit e) Q E t"
  using assms by (simp add: emit_def wp_upd)

lemma vcgw_delete_socket [vcgw]:
  assumes "\<And>t'. world t' = x_delete env k (world t) \<Longrightarrow> Q () t'"
  shows "wp (delete_socket env k) Q E t"
  using assms by (simp add: delete_socket_def wp_upd)

section \<open>Measures of the world\<close>

text \<open>An operation of the environment that lets a measure of the world grow no further.\<close>

definition keeps :: "('w \<Rightarrow> nat) \<Rightarrow> ('w \<Rightarrow> 'a \<times> 'w) \<Rightarrow> bool" where
  "keeps m f \<longleftrightarrow> (\<forall>w. m (snd (f w)) \<le> m w)"

lemma keeps_step: "keeps m f \<Longrightarrow> f w = (r, w') \<Longrightarrow> m w' \<le> m w"
  by (metis keeps_def snd_conv)

text \<open>
  The \<open>SocketSelect\<close> of a round can always be built. (Where it throws, every pipeline logs
  the exception and goes round again.)
\<close>

definition select_works :: "'w env \<Rightarrow> bool" where
  "select_works env \<longleftrightarrow> (\<forall>k t w. fst (x_select env k t w) = Inr ())"

lemma select_worksD: "select_works env \<Longrightarrow> x_select env k t w \<noteq> (Inl e, w')"
  unfolding select_works_def by (metis fst_conv sum.distinct(1))

end
