(* ===== verification/Hang_Up.thy ===== *)
theory Hang_Up
  imports Handler_Family World_Rules Scripted_World
begin

text \<open>
  Clients that hang up, and handlers that leave the world alone: what the proofs that a pipeline
  returns have in common.
\<close>

section \<open>Handlers that leave the world alone\<close>

definition calm :: "'w proxy_handler \<Rightarrow> bool" where
  "calm h \<longleftrightarrow> (\<forall>b n t.
     wp (HandleUpstreamData h b n) (\<lambda>_ t'. world t' = world t) (\<lambda>_ t'. world t' = world t) t \<and>
     wp (HandleDownStreamData h b n) (\<lambda>_ t'. world t' = world t) (\<lambda>_ t'. world t' = world t) t)"

text \<open>All handlers of the repository but \<open>CHWirePTHandler\<close>, which reads the clock.\<close>

definition calm_handlers ::
    "'j json \<Rightarrow> readers \<Rightarrow> 'q http \<Rightarrow> gzip \<Rightarrow> 'w proxy_handler set" where
  "calm_handlers J R H Z =
     {BaseProxyHandler, CMySQLHandler R, CPostgreSQLHandler R, CMongoDBHandler J R, CHttpsHandler H,
      CHttpHandler H Z, CSnowflakeHttpHandler H Z J, GzipHandler Z}"

lemmas upstream_defs = BaseProxyHandler_HandleUpstreamData_def CMySQLHandler_HandleUpstreamData_def
  CPostgreSQLHandler_HandleUpstreamData_def CMongoDBHandler_HandleUpstreamData_def mongo_log_body_def
  CHttpsHandler_HandleUpstreamData_def CHttpHandler_HandleUpstreamData_def
  CSnowflakeHttpHandler_HandleUpstreamData_def snowflake_sql_def GzipHandler_HandleUpstreamData_def

lemmas downstream_defs = BaseProxyHandler_HandleDownStreamData_def CMySQLHandler_HandleDownStreamData_def
  CPostgreSQLHandler_HandleDownStreamData_def CMongoDBHandler_HandleDownStreamData_def
  CHttpsHandler_HandleDownStreamData_def CHttpHandler_HandleDownStreamData_def
  CSnowflakeHttpHandler_HandleDownStreamData_def GzipHandler_HandleDownStreamData_def

lemmas handler_defs = BaseProxyHandler_def CMySQLHandler_def CPostgreSQLHandler_def CMongoDBHandler_def
  CHttpsHandler_def CHttpHandler_def CSnowflakeHttpHandler_def GzipHandler_def

lemma calm_handlers_calm:
  assumes "h \<in> calm_handlers J R H Z"
  shows "calm h"
  using assms
  unfolding calm_def calm_handlers_def handler_defs insert_iff empty_iff
  by (elim disjE FalseE; simp only: proxy_handler.select_convs;
      unfold upstream_defs downstream_defs log_query_def Let_def; intro allI conjI vcgw; simp)

section \<open>A client that hangs up\<close>

text \<open>
  The client's sockets can always be read and deliver finitely many chunks before the empty
  one: \<open>m\<close> bounds how many are left, and no other operation brings new ones. The select
  itself works.
\<close>

definition client_hangs_up :: "'w env \<Rightarrow> ('w \<Rightarrow> nat) \<Rightarrow> bool" where
  "client_hangs_up env m \<longleftrightarrow>
     keeps m (x_request_server env) \<and> (\<forall>k ep. keeps m (x_connect env k ep)) \<and>
     (\<forall>k. keeps m (x_set_read_timeout env k)) \<and> (\<forall>k. keeps m (x_set_keep_alive env k)) \<and>
     (\<forall>k t. keeps m (x_select env k t)) \<and> (\<forall>k. keeps m (x_readable env k)) \<and>
     (\<forall>k. keeps m (x_receive env k)) \<and> (\<forall>k b. keeps m (x_send env k b)) \<and>
     keeps m (x_uuid env) \<and> keeps m (x_now env) \<and> (\<forall>k w. m (x_delete env k w) \<le> m w) \<and>
     (\<forall>k t w. fst (x_select env k t w) = Inr ()) \<and>
     (\<forall>k n. keeps m (x_recv_blocking env k n)) \<and> (\<forall>k. keeps m (x_wrap_tls env k)) \<and>
     (\<forall>k w. side_of k = Client \<longrightarrow> fst (x_readable env k w) \<noteq> Inr False) \<and>
     (\<forall>k w b. side_of k = Client \<longrightarrow> fst (x_receive env k w) = Inr b \<longrightarrow> b \<noteq> [] \<longrightarrow> m (snd (x_receive env k w)) < m w)"

lemma hang_up_steps:
  assumes "client_hangs_up env m"
  shows "keeps m (x_request_server env)" "keeps m (x_connect env k ep)"
    "keeps m (x_set_read_timeout env k)" "keeps m (x_set_keep_alive env k)"
    "keeps m (x_select env k t)" "keeps m (x_readable env k)"
    "keeps m (x_send env k b)" "keeps m (x_uuid env)" "keeps m (x_now env)"
    "keeps m (x_recv_blocking env k n)" "keeps m (x_wrap_tls env k)"
  using assms by (simp_all add: client_hangs_up_def)

lemma hang_up_delete: "client_hangs_up env m \<Longrightarrow> m (x_delete env k w) \<le> m w"
  by (simp add: client_hangs_up_def)

lemma hang_up_receive: "client_hangs_up env m \<Longrightarrow> keeps m (x_receive env k)"
  by (simp add: client_hangs_up_def)

lemma hang_up_client:
  assumes "client_hangs_up env m"
  shows "x_select env k t w \<noteq> (Inl e, w')" "side_of k = Client \<Longrightarrow> x_readable env k w \<noteq> (Inr False, w')"
    "x_receive env k w = (Inr b, w') \<Longrightarrow> side_of k = Client \<Longrightarrow> b \<noteq> [] \<Longrightarrow> m w' < m w"
  using assms unfolding client_hangs_up_def by (metis fst_conv snd_conv sum.distinct(1))+

lemma calm_rules:
  assumes "calm h"
  shows "(\<And>r t'. world t' = world t \<Longrightarrow> Q r t') \<Longrightarrow> (\<And>f t'. world t' = world t \<Longrightarrow> E f t') \<Longrightarrow>
      wp (HandleUpstreamData h b n) Q E t"
    and "(\<And>r t'. world t' = world t \<Longrightarrow> Q r t') \<Longrightarrow> (\<And>f t'. world t' = world t \<Longrightarrow> E f t') \<Longrightarrow>
      wp (HandleDownStreamData h b n) Q E t"
  using assms unfolding calm_def by (blast intro: wp_mono)+

text \<open>The state of a connection whose client hangs up; what the client still sends.\<close>

definition drying_up :: "'w env \<Rightarrow> 'w proxy_handler \<Rightarrow> ('w \<Rightarrow> nat) \<Rightarrow> ('w, 'z) conn_scheme \<Rightarrow> bool" where
  "drying_up env h m s \<longleftrightarrow> client_hangs_up env m \<and> calm h \<and> side_of (client_socket s) = Client"

abbreviation chunks_left :: "('w \<Rightarrow> nat) \<Rightarrow> ('w, 'z) conn_scheme \<Rightarrow> nat" where
  "chunks_left m s \<equiv> m (world (thr s))"

lemma scripted_hangs_up: "client_hangs_up scripted (\<lambda>w. length (fst w))"
  by (auto simp: client_hangs_up_def keeps_def scripted_def split: side.split list.split)

end
