(* ===== verification/Session_Termination.thy ===== *)
theory Session_Termination
  imports Session_Flow Hang_Up
begin

text \<open>
  The pipelines with a handshake return after the client hangs up.
\<close>

section \<open>The halves\<close>

lemma send_packets_keeps:
  assumes "client_hangs_up env m" and "calm h"
    and "\<And>r t'. m (world t') \<le> m (world t) \<Longrightarrow> Q r t'" and "\<And>f t'. m (world t') \<le> m (world t) \<Longrightarrow> E f t'"
  shows "wp (send_packets env h k packets) Q E t"
proof -
  have "wp (send_packets env h k packets) (\<lambda>_ t'. m (world t') \<le> m (world t)) (\<lambda>_ t'. m (world t') \<le> m (world t)) t"
    unfolding send_packets_def send_bytes_def
  proof (rule wp_forM)
    fix packet and u :: "'a thread" assume "m (world u) \<le> m (world t)"
    then show "wp (bindM (HandleUpstreamData h packet (int (length packet)))
        (\<lambda>response. extern (x_send env k response) (\<lambda>_. [Sent k response]) [SendFailed k response]))
        (\<lambda>_ t'. m (world t') \<le> m (world t)) (\<lambda>_ t'. m (world t') \<le> m (world t)) u"
      by (intro vcgw calm_rules [OF assms(2)]) (auto dest!: hang_up_steps [OF assms(1), THEN keeps_step])
  qed simp
  then show ?thesis by (rule wp_mono) (auto intro: assms(3,4))
qed

text \<open>A select, and the downstream half, of either pipeline.\<close>

lemma session_select_drains:
  assumes "drying_up env h m s" and "\<not> has_error s"
  shows "wp (session_select env)
     (\<lambda>_ s'. drying_up env h m s' \<and> \<not> has_error s' \<and> chunks_left m s' \<le> chunks_left m s) (\<lambda>_ _. False) s"
proof -
  have hang: "client_hangs_up env m" using assms(1) by (simp add: drying_up_def)
  show ?thesis
    unfolding session_select_def select_def
    by (intro vcgw) (use assms in \<open>auto simp: drying_up_def hang_up_client(1) [OF hang]
      dest!: hang_up_steps [OF hang, THEN keeps_step]\<close>)
qed

lemma session_downstream_drains:
  assumes "drying_up env h m s"
  shows "wp (MySQLPipeline_downstream env h) (\<lambda>_ s'. drying_up env h m s' \<and>
     (\<not> has_error s' \<longrightarrow> \<not> has_error s \<and> chunks_left m s' \<le> chunks_left m s)) (\<lambda>f _. escapes f) s"
proof -
  have hang: "client_hangs_up env m" and calm: "calm h" using assms by (auto simp: drying_up_def)
  show ?thesis
    unfolding MySQLPipeline_downstream_def session_effects
    by (intro vcgw calm_rules [OF calm])
      (use assms in \<open>auto simp: drying_up_def dest!: hang_up_steps [OF hang, THEN keeps_step]
        hang_up_receive [OF hang, THEN keeps_step]\<close>)
qed

interpretation mysql_drains: draining "session_select env" "MySQLPipeline_upstream env R h"
    "MySQLPipeline_downstream env h" "\<lambda>s. \<not> has_error s" "drying_up env h m" "chunks_left m" for env R h m
proof
  fix s :: "'a session" assume s: "drying_up env h m s" and alive: "\<not> has_error s"
  then have hang: "client_hangs_up env m" and calm: "calm h" and client: "side_of (client_socket s) = Client"
    by (auto simp: drying_up_def)
  show "wp (MySQLPipeline_upstream env R h) (\<lambda>_ s'. drying_up env h m s' \<and>
      (\<not> has_error s' \<longrightarrow> chunks_left m s' < chunks_left m s)) (\<lambda>f _. escapes f) s"
    using alive client unfolding MySQLPipeline_upstream_def session_effects
    by (intro vcgw send_packets_keeps [OF hang calm])
      (use s in \<open>auto simp: drying_up_def hang_up_client(1,2) [OF hang] dest!: hang_up_client(3) [OF hang]
        hang_up_steps [OF hang, THEN keeps_step]\<close>)
qed (rule session_select_drains session_downstream_drains; assumption)+

interpretation postgresql_drains: draining "session_select env" "PostgreSQLPipeline_upstream env h"
    "PostgreSQLPipeline_downstream env h" "\<lambda>s. \<not> has_error s" "drying_up env h m" "chunks_left m" for env h m
proof
  fix s :: "'a session" assume s: "drying_up env h m s"
  then have hang: "client_hangs_up env m" and calm: "calm h" and client: "side_of (client_socket s) = Client"
    by (auto simp: drying_up_def)
  show "wp (PostgreSQLPipeline_downstream env h) (\<lambda>_ s'. drying_up env h m s' \<and>
     (\<not> has_error s' \<longrightarrow> \<not> has_error s \<and> chunks_left m s' \<le> chunks_left m s)) (\<lambda>f _. escapes f) s"
    using session_downstream_drains [OF s] by (simp add: PostgreSQLPipeline_downstream_def MySQLPipeline_downstream_def)
  assume alive: "\<not> has_error s"
  show "wp (PostgreSQLPipeline_upstream env h) (\<lambda>_ s'. drying_up env h m s' \<and>
      (\<not> has_error s' \<longrightarrow> chunks_left m s' < chunks_left m s)) (\<lambda>f _. escapes f) s"
    using alive client unfolding PostgreSQLPipeline_upstream_def session_effects
    by (intro vcgw calm_rules [OF calm])
      (use s in \<open>auto simp: drying_up_def hang_up_client(1,2) [OF hang] dest!: hang_up_client(3) [OF hang]
        hang_up_steps [OF hang, THEN keeps_step]\<close>)
qed (rule session_select_drains; assumption)

section \<open>The handshakes\<close>

text \<open>A handshake only uses up what the client sends.\<close>

definition shaken :: "'w env \<Rightarrow> 'w proxy_handler \<Rightarrow> ('w \<Rightarrow> nat) \<Rightarrow> 'w session \<Rightarrow> 'w session \<Rightarrow> bool" where
  "shaken env h m s s' \<longleftrightarrow> drying_up env h m s' \<and> chunks_left m s' \<le> chunks_left m s \<and> has_error s' = has_error s"

lemma mysql_handshake_keeps:
  assumes "drying_up env h m s"
  shows "wp (MySQLHandshake env R) (\<lambda>_. shaken env h m s) (\<lambda>_. shaken env h m s) s"
proof -
  have hang: "client_hangs_up env m" using assms by (simp add: drying_up_def)
  show ?thesis
    unfolding MySQLHandshake_def handshake_effects recv_blocking_def
    by (intro vcgw) (use assms in \<open>auto simp: shaken_def drying_up_def dest!: hang_up_steps [OF hang, THEN keeps_step]\<close>)
qed

lemma postgresql_handshake_keeps:
  assumes "drying_up env h m s"
  shows "wp (PostgreSQLHandshake env R) (\<lambda>_. shaken env h m s) (\<lambda>_. shaken env h m s) s"
proof -
  have hang: "client_hangs_up env m" using assms by (simp add: drying_up_def)
  show ?thesis
    unfolding PostgreSQLHandshake_def handshake_effects recv_blocking_def Let_def
    by (intro vcgw) (use assms in \<open>auto simp: shaken_def drying_up_def dest!: hang_up_steps [OF hang, THEN keeps_step]\<close>)
qed

section \<open>The whole threads\<close>

lemmas session_prologue = resolve_target_def request_server_def open_target_def connect_def put_target_host_def
  stamp_start_def configure_sockets_def set_read_timeout_def set_keep_alive_def give_up_def delete_sockets_def
  initial_session_def initial_thread_def

lemma mysql_handshake_ends:
  assumes "drying_up env h m s" and "\<And>r s'. shaken env h m s s' \<Longrightarrow> Q r s'" and "\<And>f s'. shaken env h m s s' \<Longrightarrow> E f s'"
  shows "wp (MySQLHandshake env R) Q E s"
  by (rule wp_mono [OF mysql_handshake_keeps [OF assms(1)]]) (auto intro: assms(2,3))

lemma postgresql_handshake_ends:
  assumes "drying_up env h m s" and "\<And>r s'. shaken env h m s s' \<Longrightarrow> Q r s'" and "\<And>f s'. shaken env h m s s' \<Longrightarrow> E f s'"
  shows "wp (PostgreSQLHandshake env R) Q E s"
  by (rule wp_mono [OF postgresql_handshake_keeps [OF assms(1)]]) (auto intro: assms(2,3))

text \<open>C11: the MySQL and the PostgreSQL pipeline return after the client hangs up, whatever the
  handshake brought, whether or not the connection is encrypted, and with any handler of the
  repository that leaves the world alone: with at most \<open>m w\<close> chunks still to come, after
  \<open>m w + 1\<close> rounds.\<close>

theorem session_pipelines_return_after_hangup:
  assumes "client_hangs_up env m" and "h \<in> calm_handlers J R' H Z" and "m w < rounds"
  shows "wp (MySQLPipeline env R (Some h) rounds) (\<lambda>running _. \<not> running) (\<lambda>_ _. True)
       (initial_session (Raw Client) (Raw Target) w)
     \<and> wp (PostgreSQLPipeline env R (Some h) rounds) (\<lambda>running _. \<not> running) (\<lambda>_ _. True)
       (initial_session (Raw Client) (Raw Target) w)"
proof -
  note calm = calm_handlers_calm [OF assms(2)]
  note step = hang_up_steps [OF assms(1), THEN keeps_step]
  show ?thesis
    unfolding MySQLPipeline_def PostgreSQLPipeline_def session_prologue option.case
    by (intro conjI vcgw mysql_handshake_ends [where m = m and h = h] postgresql_handshake_ends [where m = m and h = h]
        mysql_drains.loop_returns [where m = m] postgresql_drains.loop_returns [where m = m])
      (use assms(1,3) calm in \<open>auto simp: drying_up_def shaken_def dest!: step\<close>)
qed

lemma session_pipelines_return_after_hangup_witness:
  "wp (MySQLPipeline scripted sample_readers (Some (CMySQLHandler sample_readers)) 2) (\<lambda>running _. \<not> running) (\<lambda>_ _. True)
       (initial_session (Raw Client) (Raw Target) ([''ask''], [''answer'']))
     \<and> wp (PostgreSQLPipeline scripted sample_readers (Some (CMySQLHandler sample_readers)) 2)
       (\<lambda>running _. \<not> running) (\<lambda>_ _. True) (initial_session (Raw Client) (Raw Target) ([''ask''], [''answer'']))"
  by (rule session_pipelines_return_after_hangup [OF scripted_hangs_up, of _ sample_json sample_readers sample_http sample_gzip])
    (simp_all add: calm_handlers_def)

end
