(* ===== verification/Proxy_Termination.thy ===== *)
theory Proxy_Termination
  imports Proxy_Safety Hang_Up
begin

text \<open>
  When the proxy loops end: the default pipeline returns once the client hangs up, in every
  environment; with an engine whose \<open>SocketSelect\<close> cannot be built, or behind the
  TLS-terminating pipeline with a handler that needs a correlation id, the loop never ends.
\<close>

section \<open>The plain pipelines end\<close>

lemmas draining_rules = calm_rules hang_up_client

interpretation default_drains: draining "proxy_select env" "DefaultProxyPipeline_upstream env h"
    "DefaultProxyPipeline_downstream env h" still_connected "drying_up env h m" "chunks_left m" for env h m
proof
  fix s :: "'a proxy" assume s: "drying_up env h m s"
  then have hang: "client_hangs_up env m" and calm: "calm h" and client: "side_of (client_socket s) = Client"
    by (auto simp: drying_up_def)
  note step = hang_up_steps [OF hang, THEN keeps_step]
  show "wp (DefaultProxyPipeline_downstream env h) (\<lambda>_ s'. drying_up env h m s' \<and>
      (still_connected s' \<longrightarrow> still_connected s \<and> chunks_left m s' \<le> chunks_left m s)) (\<lambda>f _. escapes f) s"
    unfolding DefaultProxyPipeline_downstream_def half_effects
    by (intro vcgw calm_rules [OF calm]) (use s in \<open>auto simp: drying_up_def dest!: step hang_up_receive [OF hang, THEN keeps_step]\<close>)
  assume alive: "still_connected s"
  show "wp (proxy_select env) (\<lambda>_ s'. drying_up env h m s' \<and> still_connected s' \<and>
      chunks_left m s' \<le> chunks_left m s) (\<lambda>_ _. False) s"
    unfolding proxy_select_def select_def
    by (intro vcgw) (use s in \<open>auto simp: drying_up_def hang_up_client(1) [OF hang] dest!: step\<close>)
  show "wp (DefaultProxyPipeline_upstream env h) (\<lambda>_ s'. drying_up env h m s' \<and>
      (still_connected s' \<longrightarrow> chunks_left m s' < chunks_left m s)) (\<lambda>f _. escapes f) s"
    using alive client unfolding DefaultProxyPipeline_upstream_def half_effects
    by (intro vcgw calm_rules [OF calm])
      (use s in \<open>auto simp: drying_up_def hang_up_client(1,2) [OF hang] dest!: hang_up_client(3) [OF hang] step\<close>)
qed

text \<open>C10: the default pipeline returns after the client hangs up: if at most \<open>m w\<close> chunks are
  left, the loop is over after \<open>m w + 1\<close> rounds, whatever the target does and whatever fails,
  with any handler of the repository that leaves the world alone.\<close>

theorem default_returns_after_hangup:
  assumes "client_hangs_up env m" and "h \<in> calm_handlers J R H Z" and "m w < rounds"
  shows "wp (DefaultProxyPipeline env (Some h) rounds) (\<lambda>running _. \<not> running) (\<lambda>_ _. True)
     (initial_proxy (Raw Client) (Raw Target) w)"
  unfolding DefaultProxyPipeline_def prologue_defs option.case
  by (intro vcgw default_drains.loop_returns [where m = m])
    (use assms calm_handlers_calm [OF assms(2)] in \<open>auto simp: drying_up_def
      dest!: hang_up_steps [OF assms(1), THEN keeps_step]\<close>)

lemma default_returns_after_hangup_witness:
  "wp (DefaultProxyPipeline scripted (Some (CMySQLHandler sample_readers)) 2) (\<lambda>running _. \<not> running)
     (\<lambda>_ _. True) sample_proxy"
  by (rule default_returns_after_hangup [OF scripted_hangs_up, of _ sample_json sample_readers sample_http sample_gzip])
    (simp_all add: calm_handlers_def)

section \<open>Loops that never end\<close>

text \<open>when the \<open>SocketSelect\<close> of a round cannot be built, the exception is logged and the
  loop starts over: if that happens every time, the default pipeline, once connected, is in its
  loop for ever and relays nothing.\<close>

theorem default_spins_without_select:
  assumes "\<And>w. \<exists>e. fst (x_select env (Raw Client) (Some (Raw Target)) w) = Inl e \<and> is_std_exception e"
  shows "wp (DefaultProxyPipeline env (Some h) rounds)
     (\<lambda>running s. opened (tr s) = [Raw Target] \<longrightarrow> running \<and> untouched (tr s)) (\<lambda>_ s. untouched (tr s))
     (initial_proxy (Raw Client) (Raw Target) w)"
proof -
  let ?I = "\<lambda>s. client_socket s = Raw Client \<and> target_socket s = Raw Target \<and> untouched (tr s)"
  have round: "wp (relay_round (proxy_select env) up down alive)
      (\<lambda>again s'. if again then ?I s' else False) (\<lambda>_ s'. untouched (tr s')) s" if "?I s" for s up down alive
  proof -
    obtain e w' where "x_select env (Raw Client) (Some (Raw Target)) (world (thr s)) = (Inl e, w')"
      "is_std_exception e"
      using assms [of "world (thr s)"] by (metis prod.collapse)
    then show ?thesis
      using that by (simp add: relay_round_def proxy_select_def select_def wp_simps)
  qed
  have loop: "wp (run_loop rounds (relay_round (proxy_select env) up down alive)) Q E s"
    if "client_socket s = Raw Client" "target_socket s = Raw Target" "untouched (tr s)"
      "\<And>s'. untouched (tr s') \<Longrightarrow> Q True s'" "\<And>f s'. untouched (tr s') \<Longrightarrow> E f s'"
    for s up down alive Q E
    by (rule wp_mono [OF wp_run_loop [where I = ?I and Q = "\<lambda>_. False", OF round]])
      (use that in \<open>auto split: if_splits\<close>)
  show ?thesis
    unfolding DefaultProxyPipeline_def prologue_defs option.case
    by (intro vcg loop) (auto simp: untouched_def)
qed

definition blind :: "script env" where
  "blind = scripted\<lparr>x_select := (\<lambda>k t w. (Inl (RuntimeError ''select''), w))\<rparr>"

lemma default_spins_without_select_witness:
  "wp (DefaultProxyPipeline blind (Some BaseProxyHandler) 1000)
     (\<lambda>running s. opened (tr s) = [Raw Target] \<longrightarrow> running \<and> untouched (tr s)) (\<lambda>_ s. untouched (tr s))
     sample_proxy"
  by (rule default_spins_without_select) (simp add: blind_def)

lemma mongo_needs_id:
  assumes "correlation_of (ctx t) = None"
    and "\<And>t'. trace t' = trace t \<Longrightarrow> correlation_of (ctx t') = None \<Longrightarrow> E (Thrown BadAnyCast) t'"
  shows "wp (HandleUpstreamData (CMongoDBHandler J R) b n) Q E t"
  using assms
  by (auto simp: CMongoDBHandler_def CMongoDBHandler_HandleUpstreamData_def wp_simps correlation_of_def
      split: option.splits sum.splits any.splits elim!: any_cast_string.elims)

lemma mongo_down_same: "Q b t \<Longrightarrow> wp (HandleDownStreamData (CMongoDBHandler J R) b n) Q E t"
  by (simp add: CMongoDBHandler_def CMongoDBHandler_HandleDownStreamData_def wp_ret)

text \<open>\<open>ClickHouseTLSTerminatePipeline\<close> calls the handler for the empty chunk of a hang-up
  before it looks at it, and only logs exceptions. \<open>CMongoDBHandler\<close> needs a correlation id,
  which this pipeline never sets, so it always throws: unless the target hangs up, the loop
  goes on for ever after the client has gone, and nothing ever reaches the target.\<close>

theorem tls_terminate_never_returns_with_mongo:
  assumes "\<And>w. fst (x_receive env (Raw Target) w) \<noteq> Inr []"
  shows "wp (ClickHouseTLSTerminatePipeline env (Some (CMongoDBHandler J R)) rounds)
     (\<lambda>running s. running \<and> sent Target (tr s) = []) (\<lambda>_ s. sent Target (tr s) = [])
     (initial_proxy (Raw Client) (Raw Target) w)"
proof -
  let ?I = "\<lambda>s :: 'a proxy. client_socket s = Tls Client \<and> target_socket s = Raw Target \<and> still_connected s
    \<and> correlation_of (ctx (thr s)) = None \<and> sent Target (tr s) = []"
  let ?up = "ClickHouseTLSTerminatePipeline_upstream env (CMongoDBHandler J R)"
  let ?down = "ClickHouseTLSTerminatePipeline_downstream env (CMongoDBHandler J R)"
  have receive: "wp (receive_bytes env k) Q E t"
    if "\<And>b t'. (k = Raw Target \<Longrightarrow> b \<noteq> []) \<Longrightarrow> trace t' = trace t @ [Recv k b] \<Longrightarrow> ctx t' = ctx t \<Longrightarrow> Q b t'"
      and "\<And>e t'. trace t' = trace t \<Longrightarrow> ctx t' = ctx t \<Longrightarrow> E (Thrown e) t'" for k Q E t
    using assms [of "world t"] unfolding receive_bytes_def wp_extern
    by (auto split: prod.split sum.split intro!: that)
  have round: "wp (relay_round (proxy_select env) ?up ?down still_connected)
      (\<lambda>again s'. if again then ?I s' else False) (\<lambda>_ s'. sent Target (tr s') = []) s" if "?I s" for s
    using that
    unfolding relay_round_def proxy_select_def select_def ClickHouseTLSTerminatePipeline_upstream_def
      ClickHouseTLSTerminatePipeline_downstream_def readable_def send_bytes_def disconnect_def
    by (intro vcg receive mongo_needs_id mongo_down_same) simp_all
  have loop: "wp (run_loop rounds (relay_round (proxy_select env) ?up ?down still_connected)) Q E s"
    if "?I s" "\<And>s'. sent Target (tr s') = [] \<Longrightarrow> Q True s'" "\<And>f s'. sent Target (tr s') = [] \<Longrightarrow> E f s'"
    for s Q E
    by (rule wp_mono [OF wp_run_loop [where I = ?I and Q = "\<lambda>_. False", OF round]])
      (use that in \<open>auto split: if_splits\<close>)
  show ?thesis
    unfolding ClickHouseTLSTerminatePipeline_def prologue_defs option.case
    by (intro vcg loop) auto
qed

definition silent_target :: "script env" where
  "silent_target = scripted\<lparr>x_receive := (\<lambda>k w.
     if side_of k = Target then (Inl (RuntimeError ''timeout''), w) else scripted_receive k w)\<rparr>"

lemma tls_terminate_never_returns_with_mongo_witness:
  "wp (ClickHouseTLSTerminatePipeline silent_target (Some (CMongoDBHandler sample_json sample_readers)) 1000)
     (\<lambda>running s. running \<and> sent Target (tr s) = []) (\<lambda>_ s. sent Target (tr s) = []) sample_proxy"
  by (rule tls_terminate_never_returns_with_mongo) (simp add: silent_target_def)

end
