(* ===== verification/Http_Redirect.thy ===== *)
theory Http_Redirect
  imports Proxy_Pipelines Scripted_World Other_Handlers "HOL-Library.List_Lexorder" "HOL-Library.Char_ord"
begin

text \<open>
  \<open>HttpRedirectPipeline\<close> (\<open>src/pipeline-plugins/HttpRedirectPipeline.cpp\<close>): an HTTP gateway
  that chooses the target of each request by its host name and its path, connects to it, sends
  the request and relays the answer.
\<close>

section \<open>Choosing the route\<close>

text \<open>
  \<open>std::map<std::string, RESOLVED_SERVICE>\<close>: the entries in the order of iteration, which is
  the order of the keys as byte strings.
\<close>

type_synonym route_table = "(string \<times> endpoint) list"

definition route_table_ok :: "route_table \<Rightarrow> bool" where
  "route_table_ok uri_map \<longleftrightarrow> sorted (map fst uri_map) \<and> distinct (map fst uri_map)"

text \<open>
  The loop over the map stops at the first key that is a prefix of the path
  (\<open>source_uri_path.rfind(key, 0) == 0\<close>); without one the entry of the key \<open>*\<close> is taken.
\<close>

definition find_route :: "route_table \<Rightarrow> string \<Rightarrow> endpoint option" where
  "find_route uri_map source_uri_path =
     (case find (\<lambda>(key, _). prefix key source_uri_path) uri_map of
        Some (_, service) \<Rightarrow> Some service
      | None \<Rightarrow> map_of uri_map ''*'')"

lemma prefix_le: "prefix xs ys \<Longrightarrow> xs \<le> (ys :: 'a :: order list)"
proof (induction xs arbitrary: ys)
  case Nil
  then show ?case by simp
next
  case (Cons x xs)
  then show ?case by (cases ys) auto
qed

lemma find_sorted_first:
  assumes "sorted (map fst m)" and "find (\<lambda>(key, _). Q key) m = Some (k, v)" and "(k', v') \<in> set m" and "Q k'"
  shows "Q k \<and> k \<le> k'"
  using assms
proof (induction m)
  case Nil
  then show ?case by simp
next
  case (Cons e m)
  then show ?case by (cases e) (force split: if_splits)
qed

lemma find_in_set: "find P xs = Some x \<Longrightarrow> x \<in> set xs \<and> P x"
  by (induction xs) (auto split: if_splits)

text \<open>Which entry is taken: the least of the matching keys in the order of the map.\<close>

lemma find_route_least:
  assumes "route_table_ok m" and "(key, service) \<in> set m" and "prefix key path"
    and "\<And>k s. (k, s) \<in> set m \<Longrightarrow> prefix k path \<Longrightarrow> length key \<le> length k"
  shows "find_route m path = Some service"
proof -
  have "find (\<lambda>(k, _). prefix k path) m \<noteq> None"
    using assms(2,3) by (auto simp: find_None_iff)
  then obtain k s where found: "find (\<lambda>(k, _). prefix k path) m = Some (k, s)" by auto
  then have k: "(k, s) \<in> set m" "prefix k path" using find_in_set [OF found] by auto
  have "k \<le> key"
    using find_sorted_first [OF _ found assms(2,3)] assms(1) by (simp add: route_table_ok_def)
  moreover have "prefix key k"
    using assms(3) k(2) assms(4) [OF k] by (rule prefix_length_prefix)
  then have "key \<le> k" by (rule prefix_le)
  ultimately have "k = key" by simp
  then have "s = service"
    using k(1) assms(1,2) by (auto simp: route_table_ok_def dest: eq_key_imp_eq_value)
  then show ?thesis by (simp add: find_route_def found)
qed

section \<open>The state of a gateway thread\<close>

text \<open>The rest of the HTTP message class, and \<open>Utils::split\<close>.\<close>

record 'q gateway =
  uri_path :: "'q \<Rightarrow> string"
  split :: "string \<Rightarrow> string \<Rightarrow> string list"

record 'w redirect = "'w conn" +
  client_still_connected :: bool
  target_still_connected :: bool
  count :: int

definition initial_redirect :: "'w \<Rightarrow> 'w redirect" where
  "initial_redirect w =
     \<lparr>thr = initial_thread w, client_socket = Raw Client, target_socket = Raw Target,
      target_endpoint = \<lparr>ipaddress = [], port = 0\<rparr>, correlation_id = [], start_time = 0,
      client_still_connected = True, target_still_connected = True, count = 0\<rparr>"

text \<open>
  How the handling of a request, or a round of the outer loop, ends: the function goes on,
  returns, or is still in its inner loop when the budget is used up.
\<close>

datatype progress = Again | Finished | In_Inner_Loop

section \<open>The inner loop: relaying the answer\<close>

definition drop_target :: "('w redirect, unit) cmd" where
  "drop_target = updM (\<lambda>s. s\<lparr>target_still_connected := False\<rparr>)"

definition answer_poll :: "'w env \<Rightarrow> ('w redirect, unit) cmd" where
  "answer_poll env =
     bindM (getM client_socket) (\<lambda>client_socket.
     bindM (getM target_socket) (\<lambda>target_socket.
     seqM
       (bindM (on_thread (readable env target_socket)) (\<lambda>r. whenM r
         (bindM (on_thread (receive_bytes env target_socket)) (\<lambda>output_bytes. seqM
           (whenM (output_bytes \<noteq> []) (on_thread (send_bytes env client_socket output_bytes)))
           (whenM (output_bytes = []) drop_target)))))
       (bindM (getM count) (\<lambda>n.
        seqM (updM (\<lambda>s. s\<lparr>count := n + 1\<rparr>)) (whenM (n = 5000) drop_target)))))"

definition answer_round :: "'w env \<Rightarrow> ('w redirect, bool) cmd" where
  "answer_round env =
     tryM
       (bindM (getM target_socket) (\<lambda>target_socket.
        seqM (on_thread (select env target_socket None))
        (seqM (updM (\<lambda>s. s\<lparr>target_still_connected := True\<rparr>))
        (seqM (tryM (answer_poll env) (\<lambda>_. drop_target))
        (bindM (getM target_still_connected) (\<lambda>connected.
           if connected then retM True
           else seqM (on_thread (delete_socket env target_socket)) (retM False)))))))
       (\<lambda>_. retM True)"

section \<open>The outer loop: handling requests\<close>

definition handle_request ::
    "'w env \<Rightarrow> 'q http \<Rightarrow> 'q gateway \<Rightarrow> (string \<rightharpoonup> route_table) \<Rightarrow> nat \<Rightarrow> string \<Rightarrow> ('w redirect, progress) cmd" where
  "handle_request env H G hostname_map polls input_bytes =
     bindM (lib (string_to_request H input_bytes)) (\<lambda>request.
     bindM (case split G (get_header H request ''Host'') '':'' of
         [] \<Rightarrow> failM (Undefined OutOfBounds) | source_hostname # _ \<Rightarrow> retM source_hostname) (\<lambda>source_hostname.
     bindM (case hostname_map source_hostname of
         None \<Rightarrow> failM (Undefined EndIterator) | Some uri_map \<Rightarrow> retM uri_map) (\<lambda>uri_map.
       case find_route uri_map (uri_path G request) of
         None \<Rightarrow> seqM (delete_client env) (retM Finished)
       | Some service \<Rightarrow>
           seqM (updM (\<lambda>s. s\<lparr>target_endpoint := service\<rparr>))
           (bindM (tryM (seqM (open_target env) (retM True)) (\<lambda>_. seqM (delete_client env) (retM False)))
             (\<lambda>connected.
               if \<not> connected then retM Finished
               else
                 bindM (getM target_socket) (\<lambda>target_socket.
                 seqM (on_thread (send_bytes env target_socket input_bytes))
                 (seqM (updM (\<lambda>s. s\<lparr>count := 0\<rparr>))
                 (bindM (run_loop polls (answer_round env)) (\<lambda>running.
                    retM (if running then In_Inner_Loop else Again))))))))))"

definition lose_client :: "('w redirect, unit) cmd" where
  "lose_client = updM (\<lambda>s. s\<lparr>client_still_connected := False\<rparr>)"

definition request_round ::
    "'w env \<Rightarrow> 'q http \<Rightarrow> 'q gateway \<Rightarrow> (string \<rightharpoonup> route_table) \<Rightarrow> nat \<Rightarrow> ('w redirect, progress) cmd" where
  "request_round env H G hostname_map polls =
     tryM
       (bindM (getM client_socket) (\<lambda>client_socket.
        seqM (on_thread (select env client_socket None))
        (seqM (updM (\<lambda>s. s\<lparr>client_still_connected := True\<rparr>))
        (bindM
          (tryM
            (bindM (on_thread (readable env client_socket)) (\<lambda>r.
             if \<not> r then retM Again
             else
               bindM (on_thread (receive_bytes env client_socket)) (\<lambda>input_bytes.
                 if input_bytes = [] then seqM lose_client (retM Again)
                 else handle_request env H G hostname_map polls input_bytes)))
            (\<lambda>_. seqM lose_client (retM Again)))
          (\<lambda>p. if p \<noteq> Again then retM p
            else bindM (getM client_still_connected) (\<lambda>connected.
              if connected then retM Again
              else seqM (delete_client env) (retM Finished)))))))
       (\<lambda>_. retM Again)"

primrec request_loop :: "nat \<Rightarrow> ('s, progress) cmd \<Rightarrow> ('s, bool) cmd" where
  "request_loop 0 body = retM True"
| "request_loop (Suc n) body =
     bindM body (\<lambda>p. case p of Again \<Rightarrow> request_loop n body | Finished \<Rightarrow> retM False | In_Inner_Loop \<Rightarrow> retM True)"

text \<open>
  The thread: \<open>client\<close> is the socket in \<open>CLIENT_DATA\<close>, which may be null. \<open>rounds\<close> bounds
  the rounds of the outer loop looked at, \<open>polls\<close> those of each inner loop.
\<close>

definition HttpRedirectPipeline ::
    "'w env \<Rightarrow> 'q http \<Rightarrow> 'q gateway \<Rightarrow> (string \<rightharpoonup> route_table) \<Rightarrow> sock option \<Rightarrow> nat \<Rightarrow> nat \<Rightarrow> ('w redirect, bool) cmd" where
  "HttpRedirectPipeline env H G hostname_map client polls rounds =
     bindM (on_thread (generate_uuid env)) (\<lambda>u.
     seqM (updM (\<lambda>s. s\<lparr>correlation_id := u\<rparr>))
     (seqM (stamp_start env)
     (case client of None \<Rightarrow> retM False | Some c \<Rightarrow>
        seqM (updM (\<lambda>s. s\<lparr>client_socket := c\<rparr>))
        (seqM (on_thread (set_read_timeout env c))
          (request_loop rounds (request_round env H G hostname_map polls))))))"

end
