(* ===== verification/Http_Redirect_Safety.thy ===== *)
theory Http_Redirect_Safety
  imports Http_Redirect
begin

text \<open>
  The gateway as a whole: the sockets it owns, the streams it relays, the choice of the route
  and the end of its loops.
\<close>

section \<open>Ownership of sockets\<close>

text \<open>
  The gateway opens and deletes a target socket per request, so ownership is a set that grows
  with every socket opened and shrinks with every socket deleted. Well used: only owned sockets
  are used and deleted, only sockets that are not owned are opened.
\<close>

fun owned1 :: "sock set \<Rightarrow> event \<Rightarrow> sock set" where
  "owned1 A (Opened k) = insert k A"
| "owned1 A (Deleted k) = A - {k}"
| "owned1 A _ = A"

fun proper :: "sock set \<Rightarrow> event \<Rightarrow> bool" where
  "proper A (Opened k) \<longleftrightarrow> k \<notin> A"
| "proper A e \<longleftrightarrow> (case sock_of e of None \<Rightarrow> True | Some k \<Rightarrow> k \<in> A)"

fun owned :: "sock set \<Rightarrow> event list \<Rightarrow> sock set" where
  "owned A [] = A"
| "owned A (e # es) = owned (owned1 A e) es"

fun well_used :: "sock set \<Rightarrow> event list \<Rightarrow> bool" where
  "well_used A [] = True"
| "well_used A (e # es) = (proper A e \<and> well_used (owned1 A e) es)"

lemma owned_append [simp]: "owned A (es @ fs) = owned (owned A es) fs"
  by (induction es arbitrary: A) auto

lemma well_used_append [simp]: "well_used A (es @ fs) = (well_used A es \<and> well_used (owned A es) fs)"
  by (induction es arbitrary: A) auto

text \<open>Sending the request to a fresh target failed.\<close>

definition request_lost :: "event list \<Rightarrow> bool" where
  "request_lost es \<longleftrightarrow> (\<exists>b. SendFailed (Raw Target) b \<in> set es)"

lemma request_lost_simps [simp]:
  "request_lost [] = False"
  "request_lost (es @ fs) = (request_lost es \<or> request_lost fs)"
  "request_lost (e # es) = ((\<exists>b. e = SendFailed (Raw Target) b) \<or> request_lost es)"
  by (auto simp: request_lost_def)

section \<open>The invariants\<close>

text \<open>
  Requests arrive unchanged and in order; answers may lose chunks (a failed send to the client
  ends the answer, not the session), but nothing is invented or reordered.
\<close>

definition gateway_flow :: "event list \<Rightarrow> bool" where
  "gateway_flow es \<longleftrightarrow> prefix (sent Target es) (received Client es)
     \<and> subseq (sent Client es) (received Target es)"

definition serving :: "sock set \<Rightarrow> 'w redirect \<Rightarrow> bool" where
  "serving A s \<longleftrightarrow> client_socket s = Raw Client \<and> target_socket s = Raw Target
     \<and> well_used {Raw Client} (tr s) \<and> owned {Raw Client} (tr s) = A
     \<and> \<not> request_lost (tr s) \<and> sent Target (tr s) = received Client (tr s)
     \<and> subseq (sent Client (tr s)) (received Target (tr s))"

definition gateway_left :: "event list \<Rightarrow> bool" where
  "gateway_left es \<longleftrightarrow> well_used {Raw Client} es
     \<and> owned {Raw Client} es = (if request_lost es then {Raw Target} else {}) \<and> gateway_flow es"

definition gateway_failed :: "failure \<Rightarrow> event list \<Rightarrow> bool" where
  "gateway_failed f es \<longleftrightarrow> well_used {Raw Client} es \<and> Raw Client \<in> owned {Raw Client} es
     \<and> gateway_flow es \<and> (escapes f \<or> untouched es)"

lemma subseq_grow: "subseq xs ys \<Longrightarrow> subseq xs (ys @ zs)"
  by (rule list_emb_append_mono [of _ _ _ "[]", simplified])

lemmas gateway_defs = serving_def gateway_left_def gateway_failed_def gateway_flow_def

lemmas gateway_effects = select_def readable_def receive_bytes_def send_bytes_def open_target_def
  connect_def delete_client_def drop_target_def lose_client_def

lemma answer_round_serves:
  assumes "serving {Raw Client, Raw Target} s"
  shows "wp (answer_round env)
     (\<lambda>again s'. if again then serving {Raw Client, Raw Target} s' else serving {Raw Client} s')
     (\<lambda>f s'. escapes f \<and> gateway_failed f (tr s')) s"
  using assms unfolding answer_round_def answer_poll_def gateway_effects
  by (intro vcg)
    (simp_all add: gateway_defs subseq_grow, (auto simp: list_emb_append_mono)?)

lemma answer_loop_rule:
  assumes "serving {Raw Client, Raw Target} s"
    and "\<And>s'. serving {Raw Client, Raw Target} s' \<Longrightarrow> Q True s'"
    and "\<And>s'. serving {Raw Client} s' \<Longrightarrow> Q False s'"
    and "\<And>f s'. escapes f \<Longrightarrow> gateway_failed f (tr s') \<Longrightarrow> E f s'"
  shows "wp (run_loop n (answer_round env)) Q E s"
  by (rule wp_mono [OF wp_run_loop [where I = "serving {Raw Client, Raw Target}", OF answer_round_serves assms(1)]])
    (use assms(2-4) in \<open>auto split: if_splits\<close>)

text \<open>A request has arrived and not been sent on; its handling was interrupted by an exception.\<close>

definition asked :: "string \<Rightarrow> 'w redirect \<Rightarrow> bool" where
  "asked b s \<longleftrightarrow> client_socket s = Raw Client \<and> target_socket s = Raw Target
     \<and> well_used {Raw Client} (tr s) \<and> owned {Raw Client} (tr s) = {Raw Client}
     \<and> \<not> request_lost (tr s) \<and> received Client (tr s) = sent Target (tr s) @ b
     \<and> subseq (sent Client (tr s)) (received Target (tr s))"

definition interrupted :: "'w redirect \<Rightarrow> bool" where
  "interrupted s \<longleftrightarrow> client_socket s = Raw Client \<and> well_used {Raw Client} (tr s)
     \<and> owned {Raw Client} (tr s) = (if request_lost (tr s) then {Raw Client, Raw Target} else {Raw Client})
     \<and> gateway_flow (tr s)"

lemma vcg_option [vcg]:
  assumes "x = None \<Longrightarrow> wp m Q E s" and "\<And>y. x = Some y \<Longrightarrow> wp (k y) Q E s"
  shows "wp (case x of None \<Rightarrow> m | Some y \<Rightarrow> k y) Q E s"
  using assms by (cases x) auto

lemma vcg_list [vcg]:
  assumes "x = [] \<Longrightarrow> wp m Q E s" and "\<And>y ys. x = y # ys \<Longrightarrow> wp (k y ys) Q E s"
  shows "wp (case x of [] \<Rightarrow> m | y # ys \<Rightarrow> k y ys) Q E s"
  using assms by (cases x) auto

definition gateway_step :: "progress \<Rightarrow> 'w redirect \<Rightarrow> bool" where
  "gateway_step p s = (case p of Again \<Rightarrow> serving {Raw Client} s | Finished \<Rightarrow> gateway_left (tr s)
     | In_Inner_Loop \<Rightarrow> serving {Raw Client, Raw Target} s)"

lemma handle_request_serves:
  assumes "asked b s"
  shows "wp (handle_request env H G hosts polls b) gateway_step
     (\<lambda>f s'. escapes f \<and> gateway_failed f (tr s') \<or> interrupted s') s"
  using assms unfolding handle_request_def gateway_effects
  by (intro vcg answer_loop_rule)
    (simp_all add: gateway_defs asked_def interrupted_def gateway_step_def insert_commute)

lemma handle_request_rule:
  assumes "asked b s"
    and "\<And>p s'. gateway_step p s' \<Longrightarrow> Q p s'"
    and "\<And>f s'. escapes f \<Longrightarrow> gateway_failed f (tr s') \<Longrightarrow> E f s'"
    and "\<And>f s'. interrupted s' \<Longrightarrow> E f s'"
  shows "wp (handle_request env H G hosts polls b) Q E s"
  by (rule wp_mono [OF handle_request_serves [OF assms(1)]]) (auto intro: assms(2-4))

lemma request_round_serves:
  assumes "serving {Raw Client} s"
  shows "wp (request_round env H G hosts polls) gateway_step
     (\<lambda>f s'. escapes f \<and> gateway_failed f (tr s')) s"
  using assms unfolding request_round_def gateway_effects
  by (intro vcg handle_request_rule)
    (simp_all add: gateway_defs asked_def interrupted_def gateway_step_def,
     (auto simp: escapes_def split: progress.splits)?)

section \<open>The whole thread\<close>

lemma wp_request_loop:
  assumes step: "\<And>s. I s \<Longrightarrow> wp body (\<lambda>p s'. case p of Again \<Rightarrow> I s' | Finished \<Rightarrow> Q False s'
      | In_Inner_Loop \<Rightarrow> Q True s') E s"
    and "I s" and stop: "\<And>s. I s \<Longrightarrow> Q True s"
  shows "wp (request_loop n body) Q E s"
  using assms(2)
proof (induction n arbitrary: s)
  case 0
  then show ?case by (simp add: wp_ret stop)
next
  case (Suc n)
  have "wp (case p of Again \<Rightarrow> request_loop n body | Finished \<Rightarrow> retM False | In_Inner_Loop \<Rightarrow> retM True) Q E s'"
    if "case p of Again \<Rightarrow> I s' | Finished \<Rightarrow> Q False s' | In_Inner_Loop \<Rightarrow> Q True s'" for p s'
    using that Suc.IH by (cases p) (auto simp: wp_ret)
  then show ?case
    unfolding request_loop.simps wp_bind by (intro wp_mono [OF step [OF Suc.prems]]) auto
qed

text \<open>What is promised of a gateway thread.\<close>

definition gateway_ok :: "bool \<Rightarrow> event list \<Rightarrow> bool" where
  "gateway_ok running es \<longleftrightarrow> well_used {Raw Client} es \<and> gateway_flow es \<and>
     (if running then Raw Client \<in> owned {Raw Client} es
      else owned {Raw Client} es = (if request_lost es then {Raw Target} else {}))"

lemma gateway_left_ok: "gateway_left es \<Longrightarrow> gateway_ok False es"
  by (simp add: gateway_ok_def gateway_defs)

lemma serving_ok: "serving A s \<Longrightarrow> Raw Client \<in> A \<Longrightarrow> gateway_ok True (tr s)"
  by (auto simp: gateway_ok_def gateway_defs)

lemma request_loop_rule:
  assumes "serving {Raw Client} s"
    and "\<And>b s'. gateway_ok b (tr s') \<Longrightarrow> Q b s'"
    and "\<And>f s'. gateway_failed f (tr s') \<Longrightarrow> E f s'"
  shows "wp (request_loop n (request_round env H G hosts polls)) Q E s"
proof (rule wp_request_loop [where I = "serving {Raw Client}"])
  fix u :: "'a redirect" assume "serving {Raw Client} u"
  then show "wp (request_round env H G hosts polls) (\<lambda>p s'. case p of Again \<Rightarrow> serving {Raw Client} s'
      | Finished \<Rightarrow> Q False s' | In_Inner_Loop \<Rightarrow> Q True s') E u"
    by (intro wp_mono [OF request_round_serves])
      (auto simp: gateway_step_def assms(3) split: progress.splits
        intro!: assms(2) intro: gateway_left_ok serving_ok)
qed (use assms(1,2) serving_ok in auto)

text \<open>C12: the gateway in every environment, with every route table and any HTTP library: it only
  uses sockets it owns; a request is passed on unchanged and in order, an answer loses chunks at
  most; when it returns, the client socket and every target socket are deleted, but for the
  target socket of a request whose first send failed, which is leaked.\<close>

theorem gateway_discipline:
  "wp (HttpRedirectPipeline env H G hosts (Some (Raw Client)) polls rounds)
     (\<lambda>running s. gateway_ok running (tr s)) (\<lambda>f s. gateway_failed f (tr s)) (initial_redirect w)"
  unfolding HttpRedirectPipeline_def initial_redirect_def initial_thread_def generate_uuid_def
    stamp_start_def set_read_timeout_def option.case
  by (intro vcg request_loop_rule) (simp_all add: gateway_defs untouched_def)

section \<open>The routes\<close>

text \<open>C14: of the configured paths that are prefixes of the request's path, the gateway takes the
  shortest: a more specific route is never reached while a shorter one matches.\<close>

theorem gateway_takes_shortest_route:
  assumes "route_table_ok uri_map" and "(key, service) \<in> set uri_map" and "prefix key path"
    and "\<And>k s. (k, s) \<in> set uri_map \<Longrightarrow> prefix k path \<Longrightarrow> length key \<le> length k"
  shows "find_route uri_map path = Some service"
  using assms by (rule find_route_least)

lemma gateway_takes_shortest_route_witness:
  "find_route [(''/'', \<lparr>ipaddress = ''web'', port = 80\<rparr>), (''/api'', \<lparr>ipaddress = ''api'', port = 81\<rparr>)] ''/api/v1''
     = Some \<lparr>ipaddress = ''web'', port = 80\<rparr>"
  by (rule gateway_takes_shortest_route [of _ "''/''"])
    (auto simp: route_table_ok_def less_list_code less_char_def)

text \<open>without a matching path the wildcard entry is taken, and without one the request is
  refused: the client socket is deleted and the target never contacted.\<close>

theorem gateway_refuses_unknown_path:
  assumes "string_to_request H b = Inr q" and "split G (get_header H q ''Host'') '':'' = host # rest"
    and "hosts host = Some uri_map" and "\<And>k s. (k, s) \<in> set uri_map \<Longrightarrow> \<not> prefix k (uri_path G q) \<and> k \<noteq> ''*''"
  shows "handle_request env H G hosts polls b s
     = (Inr Finished, s\<lparr>thr := (thr s)\<lparr>world := x_delete env (client_socket s) (world (thr s)),
         trace := tr s @ [Deleted (client_socket s)]\<rparr>\<rparr>)"
proof -
  have "find (\<lambda>(k, _). prefix k (uri_path G q)) uri_map = None" using assms(4) by (auto simp: find_None_iff)
  moreover have "map_of uri_map ''*'' = None" using assms(4) by (force simp: map_of_eq_None_iff)
  ultimately have "find_route uri_map (uri_path G q) = None" by (simp add: find_route_def)
  with assms(1-3) show ?thesis
    by (simp add: handle_request_def lib_def cmd_defs delete_client_def delete_socket_def on_thread_def)
qed

definition sample_web :: "string http" where
  "sample_web = \<lparr>string_to_request = Inr, request_to_string = id, empty_request = [],
     get_header = (\<lambda>q k. q), set_header = (\<lambda>q k v. q), request_content = id\<rparr>"

definition sample_gateway :: "string gateway" where
  "sample_gateway = \<lparr>uri_path = (\<lambda>q. CHR ''/'' # q), split = (\<lambda>s d. [s])\<rparr>"

lemma gateway_refuses_unknown_path_witness:
  "fst (handle_request scripted sample_web sample_gateway [''a'' \<mapsto> [(''/b'', \<lparr>ipaddress = [], port = 1\<rparr>)]] 0 ''a''
      (initial_redirect ([], []))) = Inr Finished"
  by (subst gateway_refuses_unknown_path [where q = "''a''" and host = "''a''" and rest = "[]"
        and uri_map = "[(''/b'', \<lparr>ipaddress = [], port = 1\<rparr>)]"])
    (simp_all add: sample_web_def sample_gateway_def)

text \<open>a request for a host that is not configured dereferences the end iterator of the map:
  undefined behaviour that any client can trigger with a \<open>Host\<close> header.\<close>

theorem gateway_unknown_host_undefined:
  assumes "string_to_request H b = Inr q" and "split G (get_header H q ''Host'') '':'' = host # rest"
    and "hosts host = None"
  shows "handle_request env H G hosts polls b s = (Inl (Undefined EndIterator), s)"
  using assms by (simp add: handle_request_def lib_def cmd_defs)

lemma gateway_unknown_host_undefined_witness:
  "fst (handle_request scripted sample_web sample_gateway Map.empty 0 ''a'' (initial_redirect ([], [])))
     = Inl (Undefined EndIterator)"
  by (subst gateway_unknown_host_undefined [where q = "''a''" and host = "''a''" and rest = "[]"])
    (simp_all add: sample_web_def sample_gateway_def)

end
