(* ===== verification/Http_Redirect_Termination.thy ===== *)
theory Http_Redirect_Termination
  imports Http_Redirect_Safety Hang_Up
begin

text \<open>
  The loops of the gateway end: the inner one after at most 5001 polls of the target, the outer
  one once the client hangs up.
\<close>

section \<open>The answer\<close>

definition polling :: "'w redirect \<Rightarrow> bool" where
  "polling s \<longleftrightarrow> 0 \<le> count s \<and> count s \<le> 5000"

lemma answer_round_counts:
  assumes "select_works env" and "polling s"
  shows "wp (answer_round env)
     (\<lambda>again s'. again \<longrightarrow> polling s' \<and> nat (5001 - count s') < nat (5001 - count s)) (\<lambda>_ _. True) s"
  using assms(2) unfolding answer_round_def answer_poll_def gateway_effects
  by (intro vcgw) (auto simp: polling_def escapes_def select_worksD [OF assms(1)])

text \<open>an answer takes at most 5001 polls of the target, whatever the target and the client
  do, and then the target socket is given up.\<close>

theorem gateway_answer_bounded:
  assumes "select_works env" and "count s = 0" and "5001 < polls"
  shows "wp (run_loop polls (answer_round env)) (\<lambda>running _. \<not> running) (\<lambda>_ _. True) s"
  by (rule wp_run_loop_ends [where I = polling and \<mu> = "\<lambda>s. nat (5001 - count s)",
        OF answer_round_counts [OF assms(1)]])
    (use assms(2,3) in \<open>auto simp: polling_def\<close>)

text \<open>What the answer leaves alone: the client, and the chunks it still sends.\<close>

abbreviation requests_left :: "('w \<Rightarrow> nat) \<Rightarrow> 'w redirect \<Rightarrow> nat" where
  "requests_left m s \<equiv> m (world (thr s))"

definition no_worse :: "('w \<Rightarrow> nat) \<Rightarrow> 'w redirect \<Rightarrow> 'w redirect \<Rightarrow> bool" where
  "no_worse m s s' \<longleftrightarrow> client_socket s' = client_socket s \<and> requests_left m s' \<le> requests_left m s"

lemma answer_round_no_worse:
  assumes "client_hangs_up env m"
  shows "wp (answer_round env) (\<lambda>_. no_worse m s) (\<lambda>_ _. True) s"
  unfolding answer_round_def answer_poll_def gateway_effects
  by (intro vcgw)
    (auto simp: no_worse_def dest!: hang_up_steps [OF assms, THEN keeps_step] hang_up_receive [OF assms, THEN keeps_step]
      intro: order_trans [OF hang_up_delete [OF assms]])

lemma hang_up_select: "client_hangs_up env m \<Longrightarrow> select_works env"
  by (simp add: client_hangs_up_def select_works_def)

lemma answer_loop_ends:
  assumes "client_hangs_up env m" and "count s = 0" and "5001 < polls"
    and "\<And>s'. no_worse m s s' \<Longrightarrow> Q False s'" and "\<And>f s'. E f s'"
  shows "wp (run_loop polls (answer_round env)) Q E s"
proof -
  have "wp (run_loop polls (answer_round env)) (\<lambda>running s'. if running then no_worse m s s' else no_worse m s s') (\<lambda>_ _. True) s"
  proof (rule wp_run_loop [where I = "no_worse m s"])
    fix u assume "no_worse m s u"
    then show "wp (answer_round env) (\<lambda>again s'. if again then no_worse m s s' else no_worse m s s') (\<lambda>_ _. True) u"
      by (intro wp_mono [OF answer_round_no_worse [OF assms(1)]]) (auto simp: no_worse_def)
  qed (simp add: no_worse_def)
  moreover have "wp (run_loop polls (answer_round env)) (\<lambda>running _. \<not> running) (\<lambda>_ _. True) s"
    by (rule wp_run_loop_ends [where I = polling and \<mu> = "\<lambda>s. nat (5001 - count s)",
          OF answer_round_counts [OF hang_up_select [OF assms(1)]]])
      (use assms(2,3) in \<open>auto simp: polling_def\<close>)
  ultimately show ?thesis
    by (rule wp_mono [OF wp_conj]) (use assms(4,5) in auto)
qed

section \<open>The session\<close>

lemma handle_request_ends:
  assumes "client_hangs_up env m" and "5001 < polls"
    and "\<And>p s'. p \<noteq> In_Inner_Loop \<Longrightarrow> (p = Again \<Longrightarrow> no_worse m s s') \<Longrightarrow> Q p s'" and "\<And>f s'. E f s'"
  shows "wp (handle_request env H G hosts polls b) Q E s"
  unfolding handle_request_def gateway_effects
  by (intro vcgw vcg_option vcg_list answer_loop_ends [OF assms(1)])
    (auto intro!: assms(2,3,4) simp: no_worse_def dest!: hang_up_steps [OF assms(1), THEN keeps_step])

lemma request_round_ends:
  assumes "client_hangs_up env m" and "side_of (client_socket s) = Client" and "5001 < polls"
  shows "wp (request_round env H G hosts polls)
     (\<lambda>p s'. p \<noteq> In_Inner_Loop \<and>
        (p = Again \<longrightarrow> client_socket s' = client_socket s \<and> requests_left m s' < requests_left m s))
     (\<lambda>_ _. True) s"
  using assms(2) unfolding request_round_def gateway_effects
  by (intro vcgw handle_request_ends [OF assms(1,3)])
    (auto simp: no_worse_def escapes_def hang_up_client(1,2) [OF assms(1)] dest!: hang_up_client(3) [OF assms(1)]
      hang_up_steps [OF assms(1), THEN keeps_step])

lemma wp_request_loop_ends:
  assumes step: "\<And>s. I s \<Longrightarrow> wp body (\<lambda>p s'. p \<noteq> In_Inner_Loop \<and> (p = Again \<longrightarrow> I s' \<and> \<mu> s' < (\<mu> s :: nat))) (\<lambda>_ _. True) s"
    and "I s" and "\<mu> s < n"
  shows "wp (request_loop n body) (\<lambda>running _. \<not> running) (\<lambda>_ _. True) s"
  using assms(2,3)
proof (induction n arbitrary: s)
  case 0
  then show ?case by simp
next
  case (Suc n)
  have "wp (case p of Again \<Rightarrow> request_loop n body | Finished \<Rightarrow> retM False | In_Inner_Loop \<Rightarrow> retM True)
      (\<lambda>running _. \<not> running) (\<lambda>_ _. True) s'"
    if "p \<noteq> In_Inner_Loop \<and> (p = Again \<longrightarrow> I s' \<and> \<mu> s' < \<mu> s)" for p s'
    using that Suc by (cases p) (auto simp: wp_ret)
  then show ?case
    unfolding request_loop.simps wp_bind by (intro wp_mono [OF step [OF Suc.prems(1)]]) auto
qed

text \<open>C13: the gateway returns after the client hangs up: if the client still sends at most
  \<open>m w\<close> chunks, the outer loop is over after \<open>m w + 1\<close> rounds and each inner loop after 5001 polls,
  whatever the targets do and whatever fails.\<close>

theorem gateway_returns_after_hangup:
  assumes "client_hangs_up env m" and "5001 < polls" and "m w < rounds"
  shows "wp (HttpRedirectPipeline env H G hosts (Some (Raw Client)) polls rounds) (\<lambda>running _. \<not> running)
     (\<lambda>_ _. True) (initial_redirect w)"
proof -
  have loop: "wp (request_loop rounds (request_round env H G hosts polls)) (\<lambda>running _. \<not> running) (\<lambda>_ _. True) s"
    if "client_socket s = Raw Client" and "requests_left m s \<le> m w" for s
  proof (rule wp_request_loop_ends [where I = "\<lambda>s. client_socket s = Raw Client" and \<mu> = "requests_left m"])
    fix u :: "'a redirect" assume u: "client_socket u = Raw Client"
    then have "side_of (client_socket u) = Client" by simp
    from request_round_ends [OF assms(1) this assms(2)] u
    show "wp (request_round env H G hosts polls) (\<lambda>p s'. p \<noteq> In_Inner_Loop \<and>
        (p = Again \<longrightarrow> client_socket s' = Raw Client \<and> requests_left m s' < requests_left m u)) (\<lambda>_ _. True) u"
      by simp
  qed (use that assms(3) in auto)
  show ?thesis
    unfolding HttpRedirectPipeline_def initial_redirect_def initial_thread_def generate_uuid_def
      stamp_start_def set_read_timeout_def option.case
    by (intro vcgw loop) (auto dest!: hang_up_steps [OF assms(1), THEN keeps_step])
qed

lemma gateway_returns_after_hangup_witness:
  "wp (HttpRedirectPipeline scripted sample_web sample_gateway
       [''a'' \<mapsto> [(''/'', \<lparr>ipaddress = ''web'', port = 80\<rparr>)]] (Some (Raw Client)) 5002 2)
     (\<lambda>running _. \<not> running) (\<lambda>_ _. True) (initial_redirect ([''a''], [''x'', ''y'']))"
  by (rule gateway_returns_after_hangup [OF scripted_hangs_up]) simp_all

lemma gateway_answer_bounded_witness:
  "wp (run_loop 5002 (answer_round scripted)) (\<lambda>running _. \<not> running) (\<lambda>_ _. True) (initial_redirect ([], [''x'']))"
  by (rule gateway_answer_bounded) (auto simp: select_works_def scripted_def initial_redirect_def)

end
