(* ===== verification/Protocol_Server.thy ===== *)
theory Protocol_Server
  imports Relay Other_Handlers
begin

text \<open>
  Plug-ins for connections that the engine answers itself: the HTTP protocol handler
  (\<open>src/protocol-handlers/CHttpProtocolHandler.cpp\<close>), the ping handler
  (\<open>src/PingHandler.cpp\<close>) and the pipeline that collects a request and asks a handler for
  the answer (\<open>src/pipeline-plugins/CProtocolPipeline.cpp\<close>).
\<close>

section \<open>The HTTP library\<close>

text \<open>The status codes the sources name, and the rest of the message class.\<close>

datatype status = Ok | BadRequest | Unauthorized | NotFound | MethodNotAllowed | InternalServerError
  | HttpVersionNotSupported

record ('q, 'r, 'm) web = "'q http" +
  path_of :: "'q \<Rightarrow> string"
  method_of :: "'q \<Rightarrow> 'm"
  head_method :: 'm
  new_response :: "status \<Rightarrow> 'r"
  set_response_header :: "'r \<Rightarrow> string \<Rightarrow> string \<Rightarrow> 'r"
  set_content :: "'r \<Rightarrow> string \<Rightarrow> 'r"
  response_to_string :: "'r \<Rightarrow> bool \<Rightarrow> string"
  regex_match :: "string \<Rightarrow> string \<Rightarrow> exn + bool"   \<comment> \<open>case-insensitive, of the whole string\<close>

text \<open>
  \<open>request_handlers_\<close>: from a URI, whose path is a pattern, to the handlers of the methods, in
  the order of iteration of the map. A handler is any function object.
\<close>

type_synonym ('s, 'q, 'r, 'm) handlers = "(string \<times> ('m \<rightharpoonup> ('q \<Rightarrow> ('s, 'r) cmd))) list"

section \<open>CHttpProtocolHandler\<close>

text \<open>The loop over the patterns: it stops at the first that matches the path.\<close>

primrec find_handlers ::
    "('q, 'r, 'm) web \<Rightarrow> (string \<times> 'h) list \<Rightarrow> string \<Rightarrow> (exn + 'h option)" where
  "find_handlers W [] path = Inr None"
| "find_handlers W (e # es) path = (case regex_match W (fst e) path of
      Inl x \<Rightarrow> Inl x
    | Inr True \<Rightarrow> Inr (Some (snd e))
    | Inr False \<Rightarrow> find_handlers W es path)"

definition empty_response :: "('q, 'r, 'm) web \<Rightarrow> status \<Rightarrow> 'r" where
  "empty_response W c = set_response_header W (new_response W c) ''Content-Length'' ''0''"

definition HandleHttpRequest ::
    "('q, 'r, 'm) web \<Rightarrow> ('s, 'q, 'r, 'm) handlers \<Rightarrow> 'q \<Rightarrow> ('s, 'r) cmd" where
  "HandleHttpRequest W request_handlers request =
     bindM (lib (find_handlers W request_handlers (path_of W request))) (\<lambda>it.
       case it of
         None \<Rightarrow> retM (empty_response W NotFound)
       | Some methods \<Rightarrow> (case methods (method_of W request) of
             None \<Rightarrow> retM (empty_response W MethodNotAllowed)
           | Some callback \<Rightarrow> callback request))"

text \<open>The three \<open>catch\<close> clauses, tried in their order.\<close>

definition error_response :: "('q, 'r, 'm) web \<Rightarrow> exn \<Rightarrow> 'r" where
  "error_response W e =
     set_content W
       (new_response W (if is_invalid_argument e then BadRequest
          else if is_logic_error e then HttpVersionNotSupported
          else InternalServerError))
       (exn_what e)"

definition parse_request :: "('q, 'r, 'm) web \<Rightarrow> string \<Rightarrow> nat \<Rightarrow> ('s, 'q) cmd" where
  "parse_request W buffer buffer_length =
     bindM (resM (std_substr buffer 0 buffer_length)) (\<lambda>request_string.
       if request_string = [] then failM (Thrown (InvalidArgument ''Empty request string''))
       else lib (string_to_request W request_string))"

text \<open>
  The local \<open>http_request\<close> keeps its default value when parsing throws, and the parsed request
  when a later call does: the pair carries it past the \<open>catch\<close>.
\<close>

definition HandleData ::
    "('q, 'r, 'm) web \<Rightarrow> ('s, 'q, 'r, 'm) handlers \<Rightarrow> string \<Rightarrow> nat \<Rightarrow> ('s, string) cmd" where
  "HandleData W request_handlers buffer buffer_length =
     bindM
       (tryM
         (bindM (parse_request W buffer buffer_length) (\<lambda>http_request.
          bindM (tryM (HandleHttpRequest W request_handlers http_request) (\<lambda>e. retM (error_response W e)))
            (\<lambda>http_response. retM (http_request, http_response))))
         (\<lambda>e. retM (empty_request W, error_response W e)))
       (\<lambda>(http_request, http_response).
         retM (response_to_string W http_response (method_of W http_request \<noteq> head_method W)))"

section \<open>PingHandler\<close>

definition PingHandler_HandleData :: "string \<Rightarrow> nat \<Rightarrow> ('s, string) cmd" where
  "PingHandler_HandleData buffer buffer_length = retM ''PONG''"

section \<open>CProtocolPipeline\<close>

type_synonym 'w protocol_handler = "string \<Rightarrow> nat \<Rightarrow> ('w thread, string) cmd"

record 'w protocol = "'w conn" +
  request :: string
  retry :: int
  still_there :: bool

definition initial_protocol :: "'w \<Rightarrow> 'w protocol" where
  "initial_protocol w =
     \<lparr>thr = \<lparr>world = w, ctx = Map.empty, trace = []\<rparr>, client_socket = Raw Client, target_socket = Raw Target,
      target_endpoint = \<lparr>ipaddress = [], port = 0\<rparr>, correlation_id = [], start_time = 0,
      request = [], retry = 0, still_there = True\<rparr>"

definition leave :: "('w protocol, unit) cmd" where
  "leave = updM (\<lambda>s. s\<lparr>still_there := False\<rparr>)"

definition collect :: "'w env \<Rightarrow> ('w protocol, unit) cmd" where
  "collect env =
     bindM (getM client_socket) (\<lambda>client_socket.
     bindM (on_thread (readable env client_socket)) (\<lambda>r.
       if r then
         bindM (on_thread (receive_bytes env client_socket)) (\<lambda>bytes. seqM
           (whenM (bytes \<noteq> []) (updM (\<lambda>s. s\<lparr>request := request s @ bytes\<rparr>)))
           (whenM (bytes = []) leave))
       else
         seqM (updM (\<lambda>s. s\<lparr>retry := retry s + 1\<rparr>))
           (bindM (getM retry) (\<lambda>n. whenM (n = 100) leave))))"

definition protocol_round :: "'w env \<Rightarrow> ('w protocol, bool) cmd" where
  "protocol_round env =
     tryM
       (bindM (getM client_socket) (\<lambda>client_socket.
        seqM (on_thread (select env client_socket None))
        (seqM (updM (\<lambda>s. s\<lparr>still_there := True\<rparr>))
        (seqM (tryM (collect env) (\<lambda>_. retM ()))
          (getM still_there)))))
       (\<lambda>_. retM True)"

definition answer_request :: "'w env \<Rightarrow> 'w protocol_handler \<Rightarrow> ('w protocol, unit) cmd" where
  "answer_request env handler =
     bindM (getM client_socket) (\<lambda>client_socket.
     bindM (getM request) (\<lambda>request.
       whenM (request \<noteq> [])
         (bindM (on_thread (handler request (length request))) (\<lambda>response.
            on_thread (send_bytes env client_socket response)))))"

definition CProtocolPipeline :: "'w env \<Rightarrow> 'w protocol_handler option \<Rightarrow> nat \<Rightarrow> ('w protocol, bool) cmd" where
  "CProtocolPipeline env handler rounds =
     (case handler of None \<Rightarrow> retM False | Some h \<Rightarrow>
        bindM (getM client_socket) (\<lambda>client_socket.
        seqM (on_thread (set_read_timeout env client_socket))
        (bindM (run_loop rounds (protocol_round env)) (\<lambda>running.
           if running then retM True
           else
             seqM (answer_request env h)
             (seqM (on_thread (delete_socket env client_socket)) (retM False))))))"

section \<open>A concrete HTTP library, for examples\<close>

definition sample_server :: "(string, status \<times> string, bool) web" where
  "sample_server = \<lparr>string_to_request = (\<lambda>b. if b = ''bad'' then Inl (LogicError ''version'') else Inr b),
     request_to_string = id, empty_request = [], get_header = (\<lambda>q k. q), set_header = (\<lambda>q k v. q),
     request_content = id, path_of = id, method_of = (\<lambda>q. False), head_method = True,
     new_response = (\<lambda>c. (c, [])), set_response_header = (\<lambda>r k v. r), set_content = (\<lambda>r c. (fst r, c)),
     response_to_string = (\<lambda>r b. snd r), regex_match = (\<lambda>p q. Inr (p = q))\<rparr>"

end
