(* ===== verification/Protocol_Safety.thy ===== *)
theory Protocol_Safety
  imports Protocol_Server World_Rules Scripted_World
begin

text \<open>
  What a client of the answering pipeline gets: the HTTP handler turns every request and every
  standard exception into one answer, and the pipeline sends the answer to all it received.
\<close>

section \<open>The HTTP handler\<close>

text \<open>
  The specification of the handler for routes that compute a response or throw, without
  effects: a decision list over the request.
\<close>

type_synonym ('q, 'r, 'm) routes = "(string \<times> ('m \<rightharpoonup> ('q \<Rightarrow> exn + 'r))) list"

definition pure_handlers :: "('q, 'r, 'm) routes \<Rightarrow> ('s, 'q, 'r, 'm) handlers" where
  "pure_handlers routes = map (\<lambda>(p, ms). (p, \<lambda>m. map_option (\<lambda>f q. lib (f q)) (ms m))) routes"

definition serve :: "('q, 'r, 'm) web \<Rightarrow> ('q, 'r, 'm) routes \<Rightarrow> 'q \<Rightarrow> exn + 'r" where
  "serve W routes q =
     (let bare = \<lambda>c. set_response_header W (new_response W c) ''Content-Length'' ''0'' in
      case dropWhile (\<lambda>(p, _). regex_match W p (path_of W q) = Inr False) routes of
        [] \<Rightarrow> Inr (bare NotFound)
      | (p, ms) # _ \<Rightarrow> (case regex_match W p (path_of W q) of
            Inl e \<Rightarrow> Inl e
          | Inr _ \<Rightarrow> (case ms (method_of W q) of None \<Rightarrow> Inr (bare MethodNotAllowed) | Some f \<Rightarrow> f q)))"

text \<open>The status an exception is answered with.\<close>

fun status_for :: "exn \<Rightarrow> status" where
  "status_for (InvalidArgument _) = BadRequest"
| "status_for (OutOfRange _) = HttpVersionNotSupported"
| "status_for (LogicError _) = HttpVersionNotSupported"
| "status_for _ = InternalServerError"

definition failed :: "('q, 'r, 'm) web \<Rightarrow> exn \<Rightarrow> 'r" where
  "failed W e = set_content W (new_response W (status_for e)) (exn_what e)"

definition parsed :: "('q, 'r, 'm) web \<Rightarrow> string \<Rightarrow> exn + 'q" where
  "parsed W b = (if b = [] then Inl (InvalidArgument ''Empty request string'') else string_to_request W b)"

definition http_answer :: "('q, 'r, 'm) web \<Rightarrow> ('q, 'r, 'm) routes \<Rightarrow> string \<Rightarrow> string" where
  "http_answer W routes b =
     (let q = (case parsed W b of Inl _ \<Rightarrow> empty_request W | Inr q \<Rightarrow> q);
          r = (case parsed W b of Inl e \<Rightarrow> failed W e
               | Inr q \<Rightarrow> (case serve W routes q of Inl e \<Rightarrow> failed W e | Inr r \<Rightarrow> r))
      in response_to_string W r (method_of W q \<noteq> head_method W))"

lemma find_pure_handlers:
  "find_handlers W (pure_handlers routes) path
     = map_sum id (map_option (\<lambda>ms m. map_option (\<lambda>f q. lib (f q)) (ms m))) (find_handlers W routes path)"
  by (induction routes) (auto simp: pure_handlers_def split: sum.split bool.split)

lemma error_response_failed: "error_response W e = failed W e"
  by (cases e) (simp_all add: error_response_def failed_def)

lemma find_handlers_drop:
  "find_handlers W es path = (case dropWhile (\<lambda>(p, _). regex_match W p path = Inr False) es of
      [] \<Rightarrow> Inr None | (p, h) # _ \<Rightarrow> map_sum id (\<lambda>_. Some h) (regex_match W p path))"
  by (induction es) (auto split: sum.split bool.split)

lemma HandleHttpRequest_pure: "HandleHttpRequest W (pure_handlers routes) q = lib (serve W routes q)"
proof (cases "dropWhile (\<lambda>(p, _). regex_match W p (path_of W q) = Inr False) routes")
  case Nil
  have "find_handlers W routes (path_of W q) = Inr None"
    and "serve W routes q = Inr (empty_response W NotFound)"
    unfolding find_handlers_drop serve_def Nil by (simp_all add: empty_response_def)
  then show ?thesis
    by (intro ext) (simp add: HandleHttpRequest_def find_pure_handlers lib_def cmd_defs)
next
  case (Cons route later)
  obtain p ms where "route = (p, ms)" by fastforce
  with Cons have "find_handlers W routes (path_of W q) = map_sum id (\<lambda>_. Some ms) (regex_match W p (path_of W q))"
    and "serve W routes q = (case regex_match W p (path_of W q) of Inl e \<Rightarrow> Inl e
      | Inr _ \<Rightarrow> (case ms (method_of W q) of None \<Rightarrow> Inr (empty_response W MethodNotAllowed) | Some f \<Rightarrow> f q))"
    by (simp_all add: find_handlers_drop serve_def empty_response_def split: sum.split option.split)
  then show ?thesis
    by (intro ext, cases "regex_match W p (path_of W q)"; cases "ms (method_of W q)")
      (simp_all add: HandleHttpRequest_def find_pure_handlers lib_def cmd_defs)
qed

lemma parse_request_all: "parse_request W b (length b) = lib (parsed W b)"
  by (rule ext) (simp add: parse_request_def std_substr_def parsed_def lib_def cmd_defs)

lemma http_answers:
  "wp (HandleData W (pure_handlers routes) b (length b)) (\<lambda>r t'. t' = t \<and> r = http_answer W routes b)
     (\<lambda>f t'. t' = t \<and> escapes f) t"
  unfolding HandleData_def HandleHttpRequest_pure parse_request_all lib_def error_response_failed
  by (cases "parsed W b"; simp add: wp_simps)
    (auto simp: http_answer_def escapes_def wp_simps split: sum.split failure.split)

text \<open>C16: the HTTP handler refines its specification: whatever the routes, the answer to a whole
  buffer is the response of the first route whose pattern matches, or 404, 405, or the error
  response of the exception thrown (400, 505 or 500), serialised without content for HEAD.\<close>

theorem http_handler_refines:
  "wp (HandleData W (pure_handlers routes) b (length b)) (\<lambda>r t'. t' = t \<and> r = http_answer W routes b)
     (\<lambda>f t'. t' = t \<and> escapes f) t"
  by (rule http_answers)

text \<open>with any route handlers, whatever they do, no standard exception leaves the HTTP
  handler: the client gets the serialisation of one response.\<close>

theorem http_handler_catches:
  "wp (HandleData W request_handlers b n)
     (\<lambda>a _. \<exists>r q. a = response_to_string W r (method_of W q \<noteq> head_method W)) (\<lambda>f _. escapes f) t"
  unfolding HandleData_def wp_bind wp_try
  by (auto simp: wp_def escapes_def retM_def split: prod.split sum.split failure.split)

section \<open>Handlers that answer\<close>

text \<open>
  The interface the pipeline relies on: the handler leaves the sockets alone and its answer is
  a function of the request.
\<close>

locale answering_handler =
  fixes h :: "'w protocol_handler" and answer :: "string \<Rightarrow> string"
  assumes answers: "wp (h b (length b)) (\<lambda>r t'. r = answer b \<and> handler_frame t t') (\<lambda>_. handler_frame t) t"

interpretation ping: answering_handler PingHandler_HandleData "\<lambda>_. ''PONG''"
  by unfold_locales (simp add: PingHandler_HandleData_def wp_ret)

interpretation http_server: answering_handler "HandleData W (pure_handlers routes)" "http_answer W routes"
  by unfold_locales (rule wp_mono [OF http_answers], simp_all)

section \<open>The pipeline\<close>

text \<open>While it collects, the pipeline has exactly what was received, and has sent nothing.\<close>

definition collecting :: "'w protocol \<Rightarrow> bool" where
  "collecting s \<longleftrightarrow> client_socket s = Raw Client \<and> request s = received Client (tr s)
     \<and> sent Client (tr s) = [] \<and> deleted (tr s) = [] \<and> live {} (tr s)"

lemmas protocol_effects = select_def readable_def receive_bytes_def send_bytes_def
  set_read_timeout_def leave_def

lemma protocol_round_collects:
  assumes "collecting s"
  shows "wp (protocol_round env) (\<lambda>_. collecting) (\<lambda>f s'. escapes f \<and> collecting s') s"
  using assms unfolding protocol_round_def collect_def protocol_effects
  by (intro vcg) (simp_all add: collecting_def live_append)

lemma collect_rule:
  assumes "collecting s" and "\<And>b s'. collecting s' \<Longrightarrow> Q b s'" and "\<And>f s'. collecting s' \<Longrightarrow> E f s'"
  shows "wp (run_loop n (protocol_round env)) Q E s"
proof -
  have "wp (run_loop n (protocol_round env)) (\<lambda>running s'. if running then collecting s' else collecting s')
      (\<lambda>f s'. escapes f \<and> collecting s') s"
    by (rule wp_run_loop [where I = collecting, OF _ assms(1)]) (simp add: protocol_round_collects)
  then show ?thesis by (rule wp_mono) (use assms(2,3) in auto)
qed

definition answered :: "(string \<Rightarrow> string) \<Rightarrow> bool \<Rightarrow> event list \<Rightarrow> bool" where
  "answered answer running es \<longleftrightarrow> live {} es
     \<and> sent Client es = (if running \<or> received Client es = [] then [] else answer (received Client es))
     \<and> deleted es = (if running then [] else [Raw Client])"

definition unanswered :: "event list \<Rightarrow> bool" where
  "unanswered es \<longleftrightarrow> live {} es \<and> sent Client es = [] \<and> deleted es = []"

lemma handler_frame_silent:
  assumes "handler_frame t t'"
  shows "\<exists>es. trace t' = trace t @ es \<and> live {} es \<and> deleted es = [] \<and> received d es = [] \<and> sent d es = []"
proof -
  from assms obtain es where es: "trace t' = trace t @ es" "only_queries (correlation_of (ctx t)) es"
    by (auto simp: handler_frame_def)
  note quiet = only_queries_quiet [OF es(2)]
  from es(1) quiet show ?thesis
    using no_lifecycle_live [OF quiet(5)] no_lifecycle_deleted [OF quiet(5)] by blast
qed

context answering_handler
begin

lemma handler_rule:
  assumes "\<And>t' es. trace t' = trace t @ es \<Longrightarrow> live {} es \<Longrightarrow> deleted es = [] \<Longrightarrow>
      received Client es = [] \<Longrightarrow> sent Client es = [] \<Longrightarrow> Q (answer b) t'"
    and "\<And>f t' es. trace t' = trace t @ es \<Longrightarrow> live {} es \<Longrightarrow> deleted es = [] \<Longrightarrow>
      received Client es = [] \<Longrightarrow> sent Client es = [] \<Longrightarrow> E f t'"
  shows "wp (h b (length b)) Q E t"
  by (rule wp_mono [OF answers]) (auto dest!: handler_frame_silent [of _ _ Client] intro: assms)

lemma pipeline_answers:
  "wp (CProtocolPipeline env (Some h) rounds) (\<lambda>running s. answered answer running (tr s))
     (\<lambda>f s. unanswered (tr s)) (initial_protocol w)"
  unfolding CProtocolPipeline_def answer_request_def protocol_effects option.case
  by (intro vcg collect_rule handler_rule)
    (simp_all add: initial_protocol_def collecting_def answered_def unanswered_def live_append)

end

text \<open>The handlers of the repository, with what they answer.\<close>

definition answering_handlers ::
    "('q, 'r, 'm) web \<Rightarrow> ('q, 'r, 'm) routes \<Rightarrow> ('w protocol_handler \<times> (string \<Rightarrow> string)) set" where
  "answering_handlers W routes =
     {(PingHandler_HandleData, \<lambda>_. ''PONG''), (HandleData W (pure_handlers routes), http_answer W routes)}"

text \<open>C17: \<open>CProtocolPipeline\<close> with the HTTP or the ping handler, in every environment: nothing is
  sent before the client has finished; then the client gets the handler's answer to all the bytes
  received, or nothing if there were none, and its socket is deleted once. A failure leaves
  without an answer and without deleting the socket.\<close>

theorem protocol_pipeline_answers:
  assumes "(h, answer) \<in> answering_handlers W routes"
  shows "wp (CProtocolPipeline env (Some h) rounds) (\<lambda>running s. answered answer running (tr s))
     (\<lambda>f s. unanswered (tr s)) (initial_protocol w)"
  using assms ping.pipeline_answers http_server.pipeline_answers by (auto simp: answering_handlers_def)

lemma protocol_pipeline_answers_witness:
  "sent Client (tr (snd (CProtocolPipeline scripted (Some PingHandler_HandleData) 3 (initial_protocol ([''a'', ''b''], [])))))
     = ''PONG''"
proof -
  let ?run = "CProtocolPipeline scripted (Some PingHandler_HandleData) 3 (initial_protocol ([''a'', ''b''], []))"
  have run: "fst ?run = Inr False" "received Client (tr (snd ?run)) = ''ab''"
    by (simp_all add: CProtocolPipeline_def protocol_round_def collect_def answer_request_def protocol_effects
        initial_protocol_def PingHandler_HandleData_def delete_socket_def numeral_3_eq_3 scripted_def
        on_thread_def extern_def cmd_defs)
  have "wp (CProtocolPipeline scripted (Some PingHandler_HandleData) 3)
      (\<lambda>running s. answered (\<lambda>_. ''PONG'') running (tr s)) (\<lambda>f s. unanswered (tr s)) (initial_protocol ([''a'', ''b''], []))"
    by (rule protocol_pipeline_answers [of _ _ sample_server "[]"]) (simp add: answering_handlers_def)
  with run show ?thesis
    by (simp add: wp_def answered_def split: prod.splits sum.splits)
qed

section \<open>When the pipeline returns\<close>

text \<open>
  A client that stops: it delivers finitely many chunks, and its socket can be examined and
  read without an exception.
\<close>

definition client_stops :: "'w env \<Rightarrow> sock \<Rightarrow> ('w \<Rightarrow> nat) \<Rightarrow> bool" where
  "client_stops env c m \<longleftrightarrow> select_works env
     \<and> keeps m (x_set_read_timeout env c) \<and> (\<forall>t. keeps m (x_select env c t)) \<and> keeps m (x_readable env c)
     \<and> (\<forall>w e. fst (x_readable env c w) \<noteq> Inl e) \<and> (\<forall>w e. fst (x_receive env c w) \<noteq> Inl e)
     \<and> (\<forall>w b. fst (x_receive env c w) = Inr b \<longrightarrow> b \<noteq> [] \<longrightarrow> m (snd (x_receive env c w)) < m w)"

lemma client_stopsD:
  assumes "client_stops env c m"
  shows "select_works env" "keeps m (x_set_read_timeout env c)" "keeps m (x_select env c t)"
    "keeps m (x_readable env c)" "x_readable env c w \<noteq> (Inl e, w')" "x_receive env c w \<noteq> (Inl e, w')"
    "x_receive env c w = (Inr b, w') \<Longrightarrow> b \<noteq> [] \<Longrightarrow> m w' < m w"
  using assms by (auto simp: client_stops_def) (metis fst_conv snd_conv)+

definition patient :: "'w protocol \<Rightarrow> bool" where
  "patient s \<longleftrightarrow> client_socket s = Raw Client \<and> 0 \<le> retry s \<and> retry s < 100"

text \<open>Every round either reads a chunk or uses up one of the 100 retries.\<close>

definition patience :: "('w \<Rightarrow> nat) \<Rightarrow> 'w protocol \<Rightarrow> nat" where
  "patience m s = m (world (thr s)) + nat (100 - retry s)"

lemma protocol_round_ends:
  assumes "client_stops env (Raw Client) m" and "patient s"
  shows "wp (protocol_round env) (\<lambda>again s'. again \<longrightarrow> patient s' \<and> patience m s' < patience m s) (\<lambda>_ _. True) s"
  using assms(2) unfolding protocol_round_def collect_def protocol_effects
  by (intro vcgw)
    (auto simp: patient_def patience_def escapes_def client_stopsD(5,6) [OF assms(1)]
      select_worksD [OF client_stopsD(1) [OF assms(1)]]
      dest!: client_stopsD(7) [OF assms(1)] client_stopsD(2-4) [OF assms(1), THEN keeps_step])

text \<open>C18: \<open>CProtocolPipeline\<close> returns: with at most \<open>m w\<close> chunks still to come, the collecting loop
  is over after \<open>m w + 101\<close> rounds, whether the client hangs up or falls silent.\<close>

theorem protocol_pipeline_returns:
  assumes "client_stops env (Raw Client) m" and "m w + 100 < rounds"
  shows "wp (CProtocolPipeline env (Some h) rounds) (\<lambda>running _. \<not> running) (\<lambda>_ _. True) (initial_protocol w)"
proof -
  have loop: "wp (run_loop rounds (protocol_round env)) Q (\<lambda>_ _. True) s"
    if "patient s" and "patience m s < rounds" and "\<And>s'. Q False s'" for s Q
    by (rule wp_mono [OF wp_run_loop_ends [where I = patient and \<mu> = "patience m",
          OF protocol_round_ends [OF assms(1)] that(1,2)]]) (use that(3) in auto)
  have rest: "wp (seqM (answer_request env h) (seqM (on_thread (delete_socket env c)) (retM False)))
      (\<lambda>running _. \<not> running) (\<lambda>_ _. True) s" for c and s :: "'a protocol"
    unfolding wp_seq by (auto simp: wp_def retM_def split: prod.split sum.split)
  show ?thesis
    unfolding CProtocolPipeline_def set_read_timeout_def option.case
    by (intro vcgw loop rest)
      (use assms(2) in \<open>auto simp: patient_def patience_def initial_protocol_def
        dest!: client_stopsD(2) [OF assms(1), THEN keeps_step]\<close>)
qed

lemma protocol_pipeline_returns_witness:
  "wp (CProtocolPipeline scripted (Some PingHandler_HandleData) 102) (\<lambda>running _. \<not> running) (\<lambda>_ _. True)
     (initial_protocol ([''a''], []))"
  by (rule protocol_pipeline_returns [where m = "\<lambda>w. length (fst w)"])
    (auto simp: client_stops_def select_works_def keeps_def scripted_def split: list.split)

text \<open>A client whose connection was reset: its socket is readable and every read throws.\<close>

definition client_reset :: "'w env \<Rightarrow> bool" where
  "client_reset env \<longleftrightarrow> select_works env \<and> (\<forall>k w. fst (x_readable env k w) = Inr True)
     \<and> (\<forall>k w. fst (x_set_read_timeout env k w) = Inr ())
     \<and> (\<forall>k w. \<exists>e. fst (x_receive env k w) = Inl (RuntimeError e))"

lemma client_resetD:
  assumes "client_reset env"
  shows "x_set_read_timeout env k w \<noteq> (Inl e, w')" "x_readable env k w \<noteq> (Inl e, w')"
    "x_readable env k w \<noteq> (Inr False, w')" "x_receive env k w \<noteq> (Inr b, w')"
    "x_receive env k w = (Inl e, w') \<Longrightarrow> is_std_exception e" "select_works env"
  using assms unfolding client_reset_def by (metis fst_conv Inl_Inr_False Inr_inject Inl_inject is_std_exception.simps)+

text \<open>if reading from the client always throws (a connection that was reset), the exception is
  logged and the loop of \<open>CProtocolPipeline\<close> goes on: it never ends, and the client's socket is
  never deleted.\<close>

theorem protocol_pipeline_never_returns_after_reset:
  assumes "client_reset env"
  shows "wp (CProtocolPipeline env (Some h) rounds) (\<lambda>running s. running \<and> deleted (tr s) = [] \<and> sent Client (tr s) = [])
     (\<lambda>_ _. False) (initial_protocol w)"
proof -
  have again: "wp (protocol_round env) (\<lambda>again _. again) (\<lambda>_ _. False) s" for s
    unfolding protocol_round_def collect_def protocol_effects
    by (intro vcgw) (auto simp: escapes_def client_resetD(1-4) [OF assms]
        select_worksD [OF client_resetD(6) [OF assms]] dest!: client_resetD(5) [OF assms])
  have round: "wp (protocol_round env) (\<lambda>again s'. if again then collecting s' else False) (\<lambda>_ _. False) s"
    if "collecting s" for s
    by (rule wp_mono [OF wp_conj [OF again protocol_round_collects [OF that]]]) auto
  have loop: "wp (run_loop rounds (protocol_round env)) Q (\<lambda>_ _. False) s"
    if "collecting s" and "\<And>s'. collecting s' \<Longrightarrow> Q True s'" for s Q
    by (rule wp_mono [OF wp_run_loop [where I = collecting, OF round that(1)]]) (use that(2) in \<open>auto split: if_splits\<close>)
  show ?thesis
    unfolding CProtocolPipeline_def option.case wp_bind wp_get wp_seq set_read_timeout_def wp_on_thread wp_extern
    by (auto simp: client_resetD(1) [OF assms] wp_ret collecting_def initial_protocol_def
        intro!: loop split: prod.split sum.split)
qed

definition resetting :: "script env" where
  "resetting = scripted\<lparr>x_readable := (\<lambda>k w. (Inr True, w)), x_receive := (\<lambda>k w. (Inl (RuntimeError ''reset''), w))\<rparr>"

lemma protocol_pipeline_never_returns_after_reset_witness:
  "wp (CProtocolPipeline resetting (Some PingHandler_HandleData) 1000)
     (\<lambda>running s. running \<and> deleted (tr s) = [] \<and> sent Client (tr s) = []) (\<lambda>_ _. False) (initial_protocol ([], []))"
  by (rule protocol_pipeline_never_returns_after_reset)
    (auto simp: client_reset_def select_works_def resetting_def scripted_def)

section \<open>Routing\<close>

lemma find_handlers_first:
  assumes "\<And>e. e \<in> set before \<Longrightarrow> regex_match W (fst e) path = Inr False" and "regex_match W p path = Inr True"
  shows "find_handlers W (before @ (p, ms) # after) path = Inr (Some ms)"
  using assms by (induction before) auto

text \<open>the first route whose pattern matches the path decides: if it has no handler for the
  method, the answer is 405, even when a later route matches and has one.\<close>

theorem http_first_route_decides:
  assumes "\<And>e. e \<in> set before \<Longrightarrow> regex_match W (fst e) (path_of W q) = Inr False"
    and "regex_match W p (path_of W q) = Inr True"
  shows "HandleHttpRequest W (before @ (p, ms) # after) q
     = (case ms (method_of W q) of None \<Rightarrow> retM (empty_response W MethodNotAllowed) | Some callback \<Rightarrow> callback q)"
  by (rule ext) (simp add: HandleHttpRequest_def find_handlers_first [OF assms] lib_def cmd_defs split: option.split)

lemma http_first_route_decides_witness:
  "HandleHttpRequest sample_server ([(''a'', Map.empty)] @ (''b'', Map.empty) # [(''b'', \<lambda>_. Some (\<lambda>q. retM (Ok, q)))]) ''b'' ()
     = (Inr (MethodNotAllowed, []), ())"
  by (subst http_first_route_decides)
    (auto simp: sample_server_def empty_response_def retM_def)

end
