(* ===== verification/Text_Streams.thy ===== *)
theory Text_Streams
  imports Cxx_Prelude
begin

text \<open>
  The parts of the standard library that the request commands use on text: searching a
  \<open>std::string\<close>, \<open>std::stoul\<close>, and reading a file with \<open>std::getline\<close>.
\<close>

section \<open>Searching\<close>

text \<open>The index of the first occurrence of \<open>p\<close> in \<open>s\<close>.\<close>

fun occurs_at :: "string \<Rightarrow> string \<Rightarrow> nat option" where
  "occurs_at p s = (if prefix p s then Some 0
     else case s of [] \<Rightarrow> None | _ # s' \<Rightarrow> map_option Suc (occurs_at p s'))"

declare occurs_at.simps [simp del]

definition std_find :: "string \<Rightarrow> string \<Rightarrow> nat" where
  "std_find s p = (case occurs_at p s of None \<Rightarrow> npos | Some i \<Rightarrow> i)"

text \<open>\<open>find_last_of\<close> with one character.\<close>

definition std_find_last_of :: "string \<Rightarrow> char \<Rightarrow> nat" where
  "std_find_last_of s c =
     (if c \<in> set s then length s - 1 - length (takeWhile (\<lambda>x. x \<noteq> c) (rev s)) else npos)"

lemma occurs_at_Some: "occurs_at p s = Some i \<Longrightarrow> i \<le> length s \<and> prefix p (drop i s)"
proof (induction s arbitrary: i)
  case Nil
  then show ?case by (subst (asm) occurs_at.simps) (auto split: if_splits)
next
  case (Cons c s)
  then show ?case by (subst (asm) occurs_at.simps) (auto split: if_splits)
qed

lemma occurs_at_first: "occurs_at p s = Some i \<Longrightarrow> j < i \<Longrightarrow> \<not> prefix p (drop j s)"
proof (induction s arbitrary: i j)
  case Nil
  then show ?case by (subst (asm) occurs_at.simps) (auto split: if_splits)
next
  case (Cons c s)
  then show ?case
    by (subst (asm) (2) occurs_at.simps, cases j) (auto split: if_splits)
qed

lemma occurs_at_None: "occurs_at p s = None \<Longrightarrow> \<not> sublist p s"
proof (induction s)
  case Nil
  then show ?case by (subst (asm) occurs_at.simps) (auto split: if_splits)
next
  case (Cons c s)
  then show ?case
    by (subst (asm) (2) occurs_at.simps) (auto simp: sublist_Cons_right split: if_splits)
qed

text \<open>The first occurrence, when no earlier position matches.\<close>

lemma occurs_atI:
  assumes "prefix p (drop i s)" and "i \<le> length s" and "\<And>j. j < i \<Longrightarrow> \<not> prefix p (drop j s)"
  shows "occurs_at p s = Some i"
proof (cases "occurs_at p s")
  case None
  have "sublist p s" using assms(1) by (metis sublist_def append_take_drop_id prefix_def)
  with occurs_at_None [OF None] show ?thesis by simp
next
  case (Some k)
  have "\<not> i < k" using occurs_at_first [OF Some] assms(1) by blast
  moreover have "\<not> k < i" using occurs_at_Some [OF Some] assms(3) by blast
  ultimately show ?thesis using Some by simp
qed

section \<open>std::stoul\<close>

definition is_space :: "char \<Rightarrow> bool" where
  "is_space c \<longleftrightarrow> c = CHR '' '' \<or> (9 \<le> (of_char c :: nat) \<and> (of_char c :: nat) \<le> 13)"

definition digit_value :: "char \<Rightarrow> nat option" where
  "digit_value c = (let n = of_char c :: nat in if 48 \<le> n \<and> n \<le> 57 then Some (n - 48) else None)"

primrec read_digits :: "nat \<Rightarrow> string \<Rightarrow> nat" where
  "read_digits acc [] = acc"
| "read_digits acc (c # s) = (case digit_value c of None \<Rightarrow> acc | Some d \<Rightarrow> read_digits (10 * acc + d) s)"

definition std_stoul :: "string \<Rightarrow> nat res" where
  "std_stoul text =
     (let s = dropWhile is_space text;
          neg = (s \<noteq> [] \<and> hd s = CHR ''-'');
          ds = (if s \<noteq> [] \<and> (hd s = CHR ''-'' \<or> hd s = CHR ''+'') then tl s else s);
          v = read_digits 0 ds
      in if ds = [] \<or> digit_value (hd ds) = None then Inl (Thrown (InvalidArgument ''stoul''))
         else if v \<ge> 2 ^ 64 then Inl (Thrown (OutOfRange ''stoul''))
         else Inr (if neg then (2 ^ 64 - v) mod 2 ^ 64 else v))"

lemma digit_value_char: "d < 10 \<Longrightarrow> digit_value (char_of (48 + d)) = Some d"
  by (simp add: digit_value_def)

lemma read_digits_append:
  "\<forall>c \<in> set xs. digit_value c \<noteq> None \<Longrightarrow> read_digits acc (xs @ ys) = read_digits (read_digits acc xs) ys"
  by (induction xs arbitrary: acc) auto

lemma decimal_digits: "c \<in> set (decimal n) \<Longrightarrow> digit_value c \<noteq> None"
proof (induction n arbitrary: c rule: decimal.induct)
  case (1 n)
  then show ?case
    by (subst (asm) (2) decimal.simps) (auto simp: digit_value_char split: if_splits)
qed

lemma read_decimal: "read_digits 0 (decimal n) = n"
proof (induction n rule: decimal.induct)
  case (1 n)
  then show ?case
    by (subst decimal.simps) (auto simp: digit_value_char read_digits_append decimal_digits)
qed

lemma decimal_nonempty: "decimal n \<noteq> []"
  by (subst decimal.simps) simp

text \<open>A printed number is read back.\<close>

lemma stoul_decimal:
  assumes "n < 2 ^ 64"
  shows "std_stoul (decimal n) = Inr n"
proof -
  obtain c cs where d: "decimal n = c # cs" using decimal_nonempty by (cases "decimal n") auto
  have c: "digit_value c \<noteq> None" using decimal_digits [of c n] d by simp
  then have "\<not> is_space c" "c \<noteq> CHR ''-''" "c \<noteq> CHR ''+''"
    by (auto simp: digit_value_def is_space_def Let_def)
  with c read_decimal [of n] assms show ?thesis by (simp add: std_stoul_def d Let_def)
qed

section \<open>Reading a file by lines\<close>

text \<open>
  An input file: what is left to read, and the two state bits. \<open>std::getline\<close> fails without
  touching the string if the stream is not good; otherwise it takes the characters up to the
  next newline, and fails when it meets the end before any character.
\<close>

record ifstream =
  rest :: string
  eofbit :: bool
  failbit :: bool

definition open_ifstream :: "string \<Rightarrow> ifstream" where
  "open_ifstream s = \<lparr>rest = s, eofbit = False, failbit = False\<rparr>"

abbreviation newline :: char where
  "newline \<equiv> CHR 0x0A"

definition std_getline :: "ifstream \<Rightarrow> string \<Rightarrow> ifstream \<times> string" where
  "std_getline f temp =
     (if eofbit f \<or> failbit f then (f\<lparr>failbit := True\<rparr>, temp)
      else
        let line = takeWhile (\<lambda>c. c \<noteq> newline) (rest f);
            after = dropWhile (\<lambda>c. c \<noteq> newline) (rest f)
        in if after = [] then (\<lparr>rest = [], eofbit = True, failbit = (line = [])\<rparr>, line)
           else (f\<lparr>rest := tl after\<rparr>, line))"

text \<open>\<open>while (myfile) { std::getline(myfile, temp); content += temp; content += "\n"; }\<close>\<close>

definition left_to_do :: "ifstream \<Rightarrow> nat" where
  "left_to_do f = length (rest f) + (if eofbit f then 0 else 1) + (if failbit f then 0 else 1)"

lemma getline_progress: "\<not> failbit f \<Longrightarrow> left_to_do (fst (std_getline f temp)) < left_to_do f"
proof -
  assume f: "\<not> failbit f"
  have "length (tl (dropWhile (\<lambda>c. c \<noteq> newline) (rest f))) < length (rest f)"
    if "dropWhile (\<lambda>c. c \<noteq> newline) (rest f) \<noteq> []"
    using that length_dropWhile_le [of "\<lambda>c. c \<noteq> newline" "rest f"]
    by (cases "dropWhile (\<lambda>c. c \<noteq> newline) (rest f)") auto
  with f show ?thesis
    by (auto simp: std_getline_def left_to_do_def Let_def)
qed

function read_lines :: "ifstream \<Rightarrow> string \<Rightarrow> string \<Rightarrow> string" where
  "read_lines f temp content =
     (if failbit f then content
      else case std_getline f temp of (f', line) \<Rightarrow> read_lines f' line (content @ line @ [newline]))"
  by pat_completeness auto
termination
  by (relation "measure (\<lambda>(f, _, _). left_to_do f)") (simp_all, metis fst_conv getline_progress)

declare read_lines.simps [simp del]

text \<open>The text after the last newline.\<close>

definition last_line :: "string \<Rightarrow> string" where
  "last_line s = rev (takeWhile (\<lambda>c. c \<noteq> newline) (rev s))"

text \<open>What the loop makes of a file: the file, one newline more, and, if the file does not end in
  a newline, its last line a second time.\<close>

lemma takeWhile_none: "newline \<notin> set s \<Longrightarrow> takeWhile (\<lambda>c. c \<noteq> newline) s = s"
  by (induction s) auto

lemma dropWhile_none: "newline \<notin> set s \<Longrightarrow> dropWhile (\<lambda>c. c \<noteq> newline) s = []"
  by (induction s) auto

lemma read_lines_end:
  "newline \<notin> set s \<Longrightarrow> read_lines (open_ifstream s) temp content =
     content @ s @ [newline] @ (if s = [] then [] else s @ [newline])"
  by (simp add: read_lines.simps open_ifstream_def std_getline_def takeWhile_none dropWhile_none)

lemma read_lines_line:
  "newline \<notin> set xs \<Longrightarrow> read_lines (open_ifstream (xs @ newline # ys)) temp content =
     read_lines (open_ifstream ys) xs (content @ xs @ [newline])"
  by (subst read_lines.simps)
    (simp add: open_ifstream_def std_getline_def takeWhile_append dropWhile_append takeWhile_none dropWhile_none)

lemma last_line_whole: "newline \<notin> set s \<Longrightarrow> last_line s = s"
  by (simp add: last_line_def takeWhile_none)

lemma last_line_append: "last_line (xs @ newline # ys) = last_line ys"
proof (cases "newline \<in> set ys")
  case True
  then show ?thesis by (simp add: last_line_def takeWhile_append1)
next
  case False
  then have "last_line ys = ys" by (rule last_line_whole)
  with False show ?thesis
    by (simp add: last_line_def takeWhile_append takeWhile_none)
qed

lemma read_lines_file:
  "read_lines (open_ifstream s) temp content =
     content @ s @ [newline] @ (if last_line s = [] then [] else last_line s @ [newline])"
proof (induction "length s" arbitrary: s temp content rule: less_induct)
  case less
  show ?case
  proof (cases "newline \<in> set s")
    case False
    then have "last_line s = s" by (simp add: last_line_whole)
    with read_lines_end [OF False] show ?thesis by simp
  next
    case True
    then obtain xs ys where s: "s = xs @ newline # ys" "newline \<notin> set xs" by (meson split_list_first)
    with less [of ys] show ?thesis by (simp add: read_lines_line last_line_append)
  qed
qed

end
