(* ===== verification/Request_Commands.thy ===== *)
theory Request_Commands
  imports Protocol_Server Text_Streams
begin

text \<open>
  The computation commands of \<open>src/request-handlers\<close>. A command reads and writes the
  \<open>ComputationContext\<close> of a request; the engine's chain of commands goes on as long as
  \<open>Execute\<close> returns true.
\<close>

section \<open>External interfaces\<close>

text \<open>An \<open>AuthenticationStrategy\<close>: its methods read and write the context they are given.\<close>

record ('w, 'c) strategy =
  authenticate :: "'c \<Rightarrow> 'w \<Rightarrow> (exn + 'c) \<times> 'w"
  isAuthenticated :: "'c \<Rightarrow> 'w \<Rightarrow> (exn + 'c) \<times> 'w"
  removeAuthentication :: "'c \<Rightarrow> 'w \<Rightarrow> (exn + 'c) \<times> 'w"

text \<open>What the commands keep in a \<open>std::any\<close>.\<close>

datatype ('w, 'c, 'q, 'r, 'm) val =
    VRequest 'q
  | VResponse 'r
  | VBool bool
  | VString string
  | VInt int
  | VMethod 'm
  | VParams "string \<rightharpoonup> string"
  | VStrategy "('w, 'c) strategy"
  | VAuthorization "'c \<Rightarrow> 'w \<Rightarrow> (exn + 'c) \<times> 'w"
  | VFunction "string \<Rightarrow> 'w \<Rightarrow> (exn + string) \<times> 'w"
  | VOther

fun as_request where "as_request (VRequest q) = Some q" | "as_request _ = None"
fun as_bool where "as_bool (VBool b) = Some b" | "as_bool _ = None"
fun as_string where "as_string (VString s) = Some s" | "as_string _ = None"
fun as_int where "as_int (VInt i) = Some i" | "as_int _ = None"
fun as_method where "as_method (VMethod m) = Some m" | "as_method _ = None"
fun as_strategy where "as_strategy (VStrategy a) = Some a" | "as_strategy _ = None"
fun as_authorization where "as_authorization (VAuthorization a) = Some a" | "as_authorization _ = None"
fun as_function where "as_function (VFunction f) = Some f" | "as_function _ = None"

text \<open>The class \<open>ComputationContext\<close>, and the keys the authentication headers define.\<close>

record ('w, 'c, 'q, 'r, 'm) context_class =
  new_context :: 'c
  Get :: "'c \<Rightarrow> string \<Rightarrow> exn + ('w, 'c, 'q, 'r, 'm) val"
  GetString :: "'c \<Rightarrow> string \<Rightarrow> exn + string"
  Put :: "'c \<Rightarrow> string \<Rightarrow> ('w, 'c, 'q, 'r, 'm) val \<Rightarrow> 'c"
  AUTHENTICATION_STRATEGY_KEY :: string
  AUTHORIZATION_STRATEGY_KEY :: string
  AUTH_AUTHENTICATED_KEY :: string
  AUTH_AUTHENTICATED_INFO :: string
  AUTH_BASIC_TOKEN_KEY :: string
  AUTH_BASIC_USERNAME_KEY :: string
  AUTH_BASIC_PASSWORD_KEY :: string

text \<open>The operations on HTTP messages that only the commands use, and \<open>json[k] = v\<close>.\<close>

record ('q, 'r, 'm) client_web = "('q, 'r, 'm) web" +
  set_status :: "'r \<Rightarrow> status \<Rightarrow> 'r"
  set_method :: "'q \<Rightarrow> 'm \<Rightarrow> 'q"
  set_uri :: "'q \<Rightarrow> string \<Rightarrow> exn + 'q"
  set_request_content :: "'q \<Rightarrow> string \<Rightarrow> 'q"
  string_to_response :: "string \<Rightarrow> exn + 'r"
  response_content :: "'r \<Rightarrow> string"
  status_code :: "'r \<Rightarrow> int"

record 'j json_writer = "'j json" +
  json_member :: "string \<Rightarrow> string \<Rightarrow> 'j"

text \<open>The operating system: environment variables, and which paths can be opened for writing.\<close>

record os =
  getenv :: "string \<rightharpoonup> string"
  writable :: "string \<Rightarrow> bool"

section \<open>The state of a command\<close>

record ('w, 'c) job =
  job_thread :: "'w thread"
  computation :: 'c
  files :: "string \<rightharpoonup> string"

definition on_job :: "('w thread, 'a) cmd \<Rightarrow> (('w, 'c) job, 'a) cmd" where
  "on_job m s = (case m (job_thread s) of (r, t) \<Rightarrow> (r, s\<lparr>job_thread := t\<rparr>))"

text \<open>A call into the outside world that is not part of the repository.\<close>

definition call :: "('w \<Rightarrow> (exn + 'a) \<times> 'w) \<Rightarrow> (('w, 'c) job, 'a) cmd" where
  "call f = on_job (extern f (\<lambda>_. []) [])"

definition any_cast :: "('v \<Rightarrow> 'a option) \<Rightarrow> 'v \<Rightarrow> ('s, 'a) cmd" where
  "any_cast f v = (case f v of None \<Rightarrow> failM (Thrown BadAnyCast) | Some x \<Rightarrow> retM x)"

text \<open>\<open>std::any_cast<T>(context->Get(key))\<close> and \<open>context->Put(key, v)\<close>.\<close>

definition get_as ::
    "('w, 'c, 'q, 'r, 'm) context_class \<Rightarrow> (('w, 'c, 'q, 'r, 'm) val \<Rightarrow> 'a option) \<Rightarrow> string \<Rightarrow> (('w, 'c) job, 'a) cmd" where
  "get_as K f key = bindM (getM computation) (\<lambda>c. bindM (lib (Get K c key)) (any_cast f))"

definition put ::
    "('w, 'c, 'q, 'r, 'm) context_class \<Rightarrow> string \<Rightarrow> ('w, 'c, 'q, 'r, 'm) val \<Rightarrow> (('w, 'c) job, unit) cmd" where
  "put K key v = updM (\<lambda>s. s\<lparr>computation := Put K (computation s) key v\<rparr>)"

section \<open>Authentication\<close>

definition refuse :: "('w, 'c, 'q, 'r, 'm) context_class \<Rightarrow> (('w, 'c) job, bool) cmd" where
  "refuse K = seqM (put K (AUTH_AUTHENTICATED_KEY K) (VBool False)) (retM True)"

definition HTTPBasicIsAuthenticatedCommand ::
    "('w, 'c, 'q, 'r, 'm) context_class \<Rightarrow> ('q, 'z) http_scheme \<Rightarrow> (('w, 'c) job, bool) cmd" where
  "HTTPBasicIsAuthenticatedCommand K W =
     bindM (get_as K as_request ''request'') (\<lambda>request.
     bindM (get_as K as_strategy (AUTHENTICATION_STRATEGY_KEY K)) (\<lambda>auth.
     let token = get_header W request ''Authorization'' in
       if token = [] then refuse K
       else if std_find token ''Bearer '' = 0 then
         bindM (resM (std_substr token 7 npos)) (\<lambda>token.
         bindM (call (isAuthenticated auth (Put K (new_context K) (AUTH_BASIC_TOKEN_KEY K) (VString token))))
           (\<lambda>auth_context.
         bindM (bindM (lib (Get K auth_context (AUTH_AUTHENTICATED_KEY K))) (any_cast as_bool)) (\<lambda>authenticated.
         seqM (put K (AUTH_AUTHENTICATED_KEY K) (VBool authenticated))
         (bindM (lib (GetString K auth_context (AUTH_AUTHENTICATED_INFO K))) (\<lambda>info.
         seqM (put K (AUTH_AUTHENTICATED_INFO K) (VString info))
           (retM True))))))
       else refuse K))"

definition HTTPBasicLogoutCommand ::
    "('w, 'c, 'q, 'r, 'm) context_class \<Rightarrow> ('q, 'r, 'm) web \<Rightarrow> (('w, 'c) job, bool) cmd" where
  "HTTPBasicLogoutCommand K W =
     bindM (get_as K as_request ''request'') (\<lambda>request.
     bindM (get_as K as_strategy (AUTHENTICATION_STRATEGY_KEY K)) (\<lambda>auth.
     let token = get_header W request ''Authorization'' in
       if token = [] then refuse K
       else if std_find token ''Bearer '' = 0 then
         bindM (resM (std_substr token 7 npos)) (\<lambda>token.
         bindM (call (removeAuthentication auth (Put K (new_context K) (AUTH_BASIC_TOKEN_KEY K) (VString token))))
           (\<lambda>_.
         seqM (put K ''response'' (VResponse
             (set_content W (set_response_header W (new_response W Ok) ''Content-Type'' ''application/json'')
               ''Logout successful'')))
           (retM True)))
       else refuse K))"

definition HTTPBasicLoginCommand ::
    "('w, 'c, 'q, 'r, 'm) context_class \<Rightarrow> ('q, 'r, 'm) client_web \<Rightarrow> 'j json_writer \<Rightarrow> (('w, 'c) job, bool) cmd" where
  "HTTPBasicLoginCommand K W J =
     bindM (get_as K as_request ''request'') (\<lambda>request.
     bindM (lib (json_parse J (request_content W request))) (\<lambda>body.
     bindM (bindM (lib (json_at J body (AUTH_BASIC_USERNAME_KEY K))) (\<lambda>j. lib (json_string J j))) (\<lambda>username.
     bindM (bindM (lib (json_at J body (AUTH_BASIC_PASSWORD_KEY K))) (\<lambda>j. lib (json_string J j))) (\<lambda>password.
     bindM (get_as K as_strategy (AUTHENTICATION_STRATEGY_KEY K)) (\<lambda>auth.
     bindM (call (authenticate auth
         (Put K (Put K (new_context K) (AUTH_BASIC_USERNAME_KEY K) (VString username))
           (AUTH_BASIC_PASSWORD_KEY K) (VString password)))) (\<lambda>auth_context.
     bindM (bindM (lib (Get K auth_context (AUTH_AUTHENTICATED_KEY K))) (any_cast as_bool)) (\<lambda>authenticated.
       if \<not> authenticated then
         seqM (put K ''response'' (VResponse
             (set_content W
               (set_response_header W (set_status W (new_response W Ok) Unauthorized) ''Content-Type'' ''application/json'')
               ''Unauthorized'')))
           (retM False)
       else
         bindM (bindM (lib (Get K auth_context (AUTH_BASIC_TOKEN_KEY K))) (any_cast as_string)) (\<lambda>token.
         bindM (lib (json_dump J (json_member J ''token'' token))) (\<lambda>content.
         seqM (put K ''response'' (VResponse
             (set_content W (set_response_header W (new_response W Ok) ''Content-Type'' ''application/json'') content)))
           (retM True))))))))))"

definition IsAuthorizedCommand :: "('w, 'c, 'q, 'r, 'm) context_class \<Rightarrow> (('w, 'c) job, bool) cmd" where
  "IsAuthorizedCommand K =
     bindM (get_as K as_authorization (AUTHORIZATION_STRATEGY_KEY K)) (\<lambda>auth.
     bindM (getM computation) (\<lambda>c.
     bindM (call (auth c)) (\<lambda>c'.
     seqM (updM (\<lambda>s. s\<lparr>computation := c'\<rparr>)) (retM True))))"

section \<open>Calls\<close>

text \<open>The two update commands differ in the key of the function they call.\<close>

definition update_command ::
    "string \<Rightarrow> ('w, 'c, 'q, 'r, 'm) context_class \<Rightarrow> ('q, 'r, 'm) web \<Rightarrow> (('w, 'c) job, bool) cmd" where
  "update_command key K W =
     bindM (get_as K as_request ''request'') (\<lambda>request.
     bindM (bindM (getM computation) (\<lambda>c. lib (Get K c key))) (\<lambda>functionAny.
     case as_function functionAny of
       Some update \<Rightarrow>
         bindM (call (update (request_content W request))) (\<lambda>content.
         seqM (put K ''response'' (VResponse
             (set_content W (set_response_header W (new_response W Ok) ''Content-Type'' ''text/plain'') content)))
           (retM True))
     | None \<Rightarrow> retM False))"

definition UpdateConfigurationCommand ::
    "('w, 'c, 'q, 'r, 'm) context_class \<Rightarrow> ('q, 'r, 'm) web \<Rightarrow> (('w, 'c) job, bool) cmd" where
  "UpdateConfigurationCommand = update_command ''update_configuration''"

definition UpdateEndPointServiceCommand ::
    "('w, 'c, 'q, 'r, 'm) context_class \<Rightarrow> ('q, 'r, 'm) web \<Rightarrow> (('w, 'c) job, bool) cmd" where
  "UpdateEndPointServiceCommand = update_command ''update_endpoint_service''"

text \<open>\<open>PythonInterpreter::Execute\<close> is a parameter.\<close>

definition PythonCommand ::
    "('w, 'c, 'q, 'r, 'm) context_class \<Rightarrow> ('q, 'r, 'm) web \<Rightarrow> 'j json \<Rightarrow>
      (string \<Rightarrow> 'c \<Rightarrow> 'w \<Rightarrow> (exn + 'c) \<times> 'w) \<Rightarrow> (('w, 'c) job, bool) cmd" where
  "PythonCommand K W J execute =
     bindM (get_as K as_request ''request'') (\<lambda>request.
       tryM
         (bindM (lib (json_parse J (request_content W request))) (\<lambda>body.
          bindM (bindM (lib (json_at J body ''inputParams'')) (\<lambda>j. lib (json_dump J j))) (\<lambda>parameters.
          bindM (call (execute ''multiply''
              (Put K (new_context K) ''params'' (VParams [''inputParams'' \<mapsto> parameters])))) (\<lambda>python_context.
          bindM (bindM (lib (Get K python_context ''response'')) (any_cast as_string)) (\<lambda>content.
          seqM (put K ''response'' (VResponse
              (set_content W (set_response_header W (new_response W Ok) ''Content-Type'' ''text/plain'') content)))
            (retM True))))))
         (\<lambda>_. retM False))"

definition compose_request ::
    "('w, 'c, 'q, 'r, 'm) context_class \<Rightarrow> ('q, 'r, 'm) client_web \<Rightarrow> string \<Rightarrow> int \<Rightarrow> 'm \<Rightarrow> (('w, 'c) job, 'q) cmd" where
  "compose_request K W host port_no method =
     bindM (get_as K as_string ''requestUri'') (\<lambda>requestUri.
     bindM (lib (set_uri W
         (set_header W (set_method W (empty_request W) method) ''Host'' (host @ '':'' @ std_to_string port_no)) requestUri))
       (\<lambda>request.
     bindM (get_as K as_string ''content'') (\<lambda>content.
     bindM (get_as K as_string ''content-type'') (\<lambda>contentType.
       retM (if contentType \<noteq> [] then set_header W (set_request_content W request content) ''Content-Type'' contentType
         else set_request_content W request content)))))"

definition HTTPRequestCommand ::
    "'w env \<Rightarrow> ('w, 'c, 'q, 'r, 'm) context_class \<Rightarrow> ('q, 'r, 'm) client_web \<Rightarrow> (('w, 'c) job, bool) cmd" where
  "HTTPRequestCommand env K W =
     tryM
       (bindM (get_as K as_method ''method'') (\<lambda>method.
        bindM (get_as K as_string ''host'') (\<lambda>host.
        bindM (get_as K as_int ''port'') (\<lambda>p.
        bindM (compose_request K W host p method) (\<lambda>request.
        seqM (on_job (connect env (Raw Target) \<lparr>ipaddress = host, port = p\<rparr>))
        (seqM (on_job (send_bytes env (Raw Target) (request_to_string W request)))
        (bindM (on_job (receive_bytes env (Raw Target))) (\<lambda>buffer.
        bindM (lib (string_to_response W buffer)) (\<lambda>httpResponse.
        seqM (on_job (delete_socket env (Raw Target)))
        (seqM (whenM (response_content W httpResponse \<noteq> [])
            (put K ''response_content'' (VString (response_content W httpResponse))))
        (seqM (put K ''status_code'' (VInt (status_code W httpResponse)))
          (if status_code W httpResponse \<ge> 400 then retM False
           else
             seqM (put K ''response'' (VString (''Successfully send request...'' @ [newline])))
               (retM True)))))))))))))
       (\<lambda>_. retM False)"

section \<open>Files\<close>

text \<open>\<open>std::string s = std::getenv(name)\<close>.\<close>

definition require_env :: "os \<Rightarrow> string \<Rightarrow> ('s, string) cmd" where
  "require_env OS name = (case getenv OS name of None \<Rightarrow> failM (Undefined NullPointer) | Some v \<Rightarrow> retM v)"

text \<open>Open the file and collect its lines; the empty string when it cannot be opened.\<close>

definition file_content :: "string \<Rightarrow> (('w, 'c) job, string) cmd" where
  "file_content path = bindM (getM files) (\<lambda>fs. retM (case fs path of
      None \<Rightarrow> [] | Some s \<Rightarrow> read_lines (open_ifstream s) [] []))"

definition mime_type_of :: "string \<Rightarrow> string res" where
  "mime_type_of file_path =
     bindR (std_substr file_path ((std_find_last_of file_path (CHR ''.'') + 1) mod 2 ^ 64) npos) (\<lambda>file_ext.
       let mime_type = [] in
         Inr (if file_ext = ''js'' then ''text/javascript''
              else if mime_type = ''html'' then ''text/html''
              else if mime_type = ''css'' then ''text/css''
              else mime_type))"

definition SendFileCommand ::
    "('w, 'c, 'q, 'r, 'm) context_class \<Rightarrow> ('q, 'r, 'm) web \<Rightarrow> os \<Rightarrow> (('w, 'c) job, bool) cmd" where
  "SendFileCommand K W OS =
     bindM (get_as K as_request ''request'') (\<lambda>request.
     let request_path = (if path_of W request = ''/'' then ''/index.html'' else path_of W request) in
     bindM (require_env OS ''PUBLIC_FOLDER_PATH'') (\<lambda>publicFolderPath.
     let file_path = publicFolderPath @ ''/'' @ request_path in
     bindM (file_content file_path) (\<lambda>content.
     bindM (resM (mime_type_of file_path)) (\<lambda>mime_type.
     seqM (put K ''response'' (VResponse
         (set_content W (set_response_header W (new_response W Ok) ''Content-Type'' mime_type) content)))
       (retM True)))))"

text \<open>The loop that copies the file name up to the closing quote.\<close>

function read_name :: "string \<Rightarrow> int \<Rightarrow> string \<Rightarrow> string res" where
  "read_name meta i name =
     (if i < 0 \<or> i \<ge> int (length meta) then Inl (Thrown (OutOfRange ''basic_string::at''))
      else if meta ! nat i = CHR 0x22 then Inr name
      else bindR (int_add i 1) (\<lambda>_. read_name meta (i + 1) (name @ [meta ! nat i])))"
  by pat_completeness auto
termination
  by (relation "measure (\<lambda>(meta, i, _). nat (int (length meta) - i))") auto

declare read_name.simps [simp del]

definition uploaded_name :: "string \<Rightarrow> string res" where
  "uploaded_name meta =
     (let fileNameIndex = to_int32 (int (std_find meta ''filename='')) in
        if fileNameIndex \<noteq> -1 then bindR (int_add fileNameIndex 10) (\<lambda>i. read_name meta i [])
        else Inr [])"

definition crlf :: string where
  "crlf = [CHR 0x0D, CHR 0x0A]"

definition save_file :: "os \<Rightarrow> string \<Rightarrow> string \<Rightarrow> (('w, 'c) job, unit) cmd" where
  "save_file OS path content = whenM (writable OS path) (updM (\<lambda>s. s\<lparr>files := (files s)(path \<mapsto> content)\<rparr>))"

definition HttpFileUploadCommand ::
    "('w, 'c, 'q, 'r, 'm) context_class \<Rightarrow> ('q, 'r, 'm) web \<Rightarrow> os \<Rightarrow> (('w, 'c) job, bool) cmd" where
  "HttpFileUploadCommand K W OS =
     bindM (get_as K as_request ''request'') (\<lambda>request.
     bindM (require_env OS ''PUBLIC_FOLDER_PATH'') (\<lambda>publicFolderPath.
     bindM (file_content (publicFolderPath @ ''/index.html'')) (\<lambda>content.
     let body = request_content W request;
         rpos = std_find body (crlf @ crlf)
     in
     bindM (resM (std_stoul (get_header W request ''Content-Length''))) (\<lambda>content_length.
     if rpos = npos then failM (Thrown (InvalidArgument ''Could not find request start line''))
     else
       bindM (resM (std_substr body 0 rpos)) (\<lambda>file_metadata.
       bindM (resM (uploaded_name file_metadata)) (\<lambda>file_name.
       bindM (resM (std_substr body (rpos + 4) content_length)) (\<lambda>file_content.
       seqM (save_file OS
           ((case getenv OS ''DOWNLOADS_FOLDER'' of None \<Rightarrow> ''.'' | Some d \<Rightarrow> d) @ ''/'' @ file_name) file_content)
       (seqM (put K ''response'' (VResponse
           (set_content W
             (set_response_header W
               (set_response_header W (new_response W Ok) ''Content-Type'' ''text/html'') ''Connection'' ''close'')
             content)))
         (retM True)))))))))"

end
