(* ===== verification/Request_Safety.thy ===== *)
theory Request_Safety
  imports Request_Commands Scripted_World
begin

text \<open>
  What the request commands do to the context of a request, to the files and to sockets.
\<close>

section \<open>The context\<close>

text \<open>
  The documented behaviour of \<open>ComputationContext\<close>: a map, for the values the commands store in
  one (they store no strategies and functions). The two keys of an authentication differ.
\<close>

fun storable :: "('w, 'c, 'q, 'r, 'm) val \<Rightarrow> bool" where
  "storable (VStrategy _) = False"
| "storable (VAuthorization _) = False"
| "storable (VFunction _) = False"
| "storable _ = True"

definition lawful :: "('w, 'c, 'q, 'r, 'm) context_class \<Rightarrow> bool" where
  "lawful K \<longleftrightarrow> (\<forall>c k v. storable v \<longrightarrow> Get K (Put K c k v) k = Inr v)
     \<and> (\<forall>c k k' v. k \<noteq> k' \<longrightarrow> Get K (Put K c k v) k' = Get K c k')
     \<and> AUTH_AUTHENTICATED_KEY K \<noteq> AUTH_AUTHENTICATED_INFO K"

lemma lawfulD:
  assumes "lawful K"
  shows "storable v \<Longrightarrow> Get K (Put K c k v) k = Inr v" "k \<noteq> k' \<Longrightarrow> Get K (Put K c k v) k' = Get K c k'"
    "AUTH_AUTHENTICATED_KEY K \<noteq> AUTH_AUTHENTICATED_INFO K" "AUTH_AUTHENTICATED_INFO K \<noteq> AUTH_AUTHENTICATED_KEY K"
  using assms by (auto simp: lawful_def)

lemma as_Some [simp]:
  "as_request v = Some q \<longleftrightarrow> v = VRequest q" "as_bool v = Some b \<longleftrightarrow> v = VBool b"
  "as_string v = Some t \<longleftrightarrow> v = VString t" "as_strategy v = Some a \<longleftrightarrow> v = VStrategy a"
  "as_int v = Some i \<longleftrightarrow> v = VInt i" "as_method v = Some m \<longleftrightarrow> v = VMethod m"
  "as_function v = Some f \<longleftrightarrow> v = VFunction f"
  by (cases v; auto)+

subsection \<open>Rules\<close>

text \<open>The strategy calls are followed through their results: what was called with what.\<close>

lemma vcg_get_as [vcg]:
  assumes "\<And>v x. Get K (computation s) key = Inr v \<Longrightarrow> f v = Some x \<Longrightarrow> Q x s" and "\<And>e. E (Thrown e) s"
  shows "wp (get_as K f key) Q E s"
  using assms by (auto simp: get_as_def any_cast_def wp_simps lib_def split: sum.split option.split)

lemma vcg_any_cast [vcg]:
  assumes "\<And>x. f v = Some x \<Longrightarrow> Q x s" and "f v = None \<Longrightarrow> E (Thrown BadAnyCast) s"
  shows "wp (any_cast f v) Q E s"
  using assms by (simp add: any_cast_def wp_simps split: option.split)

lemma vcg_lib_result:
  assumes "\<And>a. r = Inr a \<Longrightarrow> Q a s" and "\<And>e. r = Inl e \<Longrightarrow> E (Thrown e) s"
  shows "wp (lib r) Q E s"
  using assms by (simp add: lib_def wp_res split: sum.split)

lemma vcg_call:
  assumes "\<And>a s'. \<exists>w'. f (world (job_thread s)) = (Inr a, w') \<Longrightarrow> computation s' = computation s \<Longrightarrow>
      trace (job_thread s') = trace (job_thread s) \<Longrightarrow> Q a s'"
    and "\<And>e s'. computation s' = computation s \<Longrightarrow> trace (job_thread s') = trace (job_thread s) \<Longrightarrow> E (Thrown e) s'"
  shows "wp (call f) Q E s"
  using assms
  by (auto simp: call_def on_job_def extern_def wp_def split: prod.split sum.split)

lemmas command_rules = vcg_call vcg_lib_result vcg_ret vcg_fail vcg_bind vcg_seq vcg_get vcg_upd vcg_res
  vcg_when vcg_if vcg_try vcg_on_fail vcg_get_as vcg_any_cast

section \<open>Authentication\<close>

lemma find_prefix: "prefix p s \<Longrightarrow> std_find s p = 0"
  by (subst std_find_def, subst occurs_at.simps) simp

lemma find_prefix_iff: "std_find s p = 0 \<longleftrightarrow> prefix p s"
proof
  assume "std_find s p = 0"
  then have "occurs_at p s = Some 0" by (auto simp: std_find_def npos_def split: option.splits)
  then show "prefix p s" using occurs_at_Some [of p s 0] by simp
qed (rule find_prefix)

text \<open>The token of a bearer header.\<close>

definition bearer_token :: "string \<Rightarrow> string option" where
  "bearer_token header = (if prefix ''Bearer '' header then Some (drop 7 header) else None)"

lemma std_substr_bearer: "prefix ''Bearer '' h \<Longrightarrow> length h < npos \<Longrightarrow> std_substr h 7 npos = Inr (drop 7 h)"
  by (auto simp: std_substr_def prefix_def)

text \<open>C19: after \<open>HTTPBasicIsAuthenticatedCommand\<close> a request counts as authenticated only if its
  header is a bearer token for which the strategy itself, asked with exactly this token, said so;
  the strategy and its answer are arbitrary.\<close>

theorem authenticated_only_by_strategy:
  assumes "lawful K" and "Get K (computation s) ''request'' = Inr (VRequest q)"
    and "Get K (computation s) (AUTHENTICATION_STRATEGY_KEY K) = Inr (VStrategy auth)"
    and "length (get_header W q ''Authorization'') < npos"
  shows "wp (HTTPBasicIsAuthenticatedCommand K W)
     (\<lambda>_ s'. \<exists>v. Get K (computation s') (AUTH_AUTHENTICATED_KEY K) = Inr (VBool v) \<and>
        (v \<longrightarrow> (\<exists>token c w'. bearer_token (get_header W q ''Authorization'') = Some token
           \<and> isAuthenticated auth (Put K (new_context K) (AUTH_BASIC_TOKEN_KEY K) (VString token))
               (world (job_thread s)) = (Inr c, w')
           \<and> Get K c (AUTH_AUTHENTICATED_KEY K) = Inr (VBool True)))) (\<lambda>_ _. True) s"
  unfolding HTTPBasicIsAuthenticatedCommand_def refuse_def put_def Let_def
  by (intro command_rules)
    (use assms in \<open>auto simp: lawfulD [OF assms(1)] find_prefix_iff std_substr_bearer bearer_token_def\<close>)

text \<open>The strategy was asked with the user name and the password of the request's body, and answered.\<close>

definition login_asked ::
    "('w, 'c, 'q, 'r, 'm) context_class \<Rightarrow> ('q, 'r, 'm) client_web \<Rightarrow> 'j json_writer \<Rightarrow> ('w, 'c) strategy \<Rightarrow> 'q \<Rightarrow> 'w \<Rightarrow> 'c \<Rightarrow> bool" where
  "login_asked K W J auth q w c \<longleftrightarrow> (\<exists>body ju jp user password w'.
       json_parse J (request_content W q) = Inr body
     \<and> json_at J body (AUTH_BASIC_USERNAME_KEY K) = Inr ju \<and> json_string J ju = Inr user
     \<and> json_at J body (AUTH_BASIC_PASSWORD_KEY K) = Inr jp \<and> json_string J jp = Inr password
     \<and> authenticate auth (Put K (Put K (new_context K) (AUTH_BASIC_USERNAME_KEY K) (VString user))
          (AUTH_BASIC_PASSWORD_KEY K) (VString password)) w = (Inr c, w'))"

text \<open>C20: \<open>HTTPBasicLoginCommand\<close> returns true only after the strategy, asked with the user name and the
  password of the request's body, said yes, and then the response carries the very token of the
  strategy; it returns false, so that the chain of commands stops, only after the strategy said no,
  and then the response is 401. In every other case (a malformed body, a missing field, a strategy
  that throws) it leaves with an exception and sets no response at all.\<close>

theorem login_token_from_strategy:
  assumes "lawful K" and "Get K (computation s) ''request'' = Inr (VRequest q)"
    and "Get K (computation s) (AUTHENTICATION_STRATEGY_KEY K) = Inr (VStrategy auth)"
  shows "wp (HTTPBasicLoginCommand K W J)
     (\<lambda>ok s'. \<exists>c. login_asked K W J auth q (world (job_thread s)) c \<and>
        (if ok then
          \<exists>token content. Get K c (AUTH_AUTHENTICATED_KEY K) = Inr (VBool True)
          \<and> Get K c (AUTH_BASIC_TOKEN_KEY K) = Inr (VString token)
          \<and> json_dump J (json_member J ''token'' token) = Inr content
          \<and> Get K (computation s') ''response'' = Inr (VResponse (set_content W
               (set_response_header W (new_response W Ok) ''Content-Type'' ''application/json'') content))
         else Get K c (AUTH_AUTHENTICATED_KEY K) = Inr (VBool False)
          \<and> Get K (computation s') ''response'' = Inr (VResponse (set_content W
               (set_response_header W (set_status W (new_response W Ok) Unauthorized) ''Content-Type'' ''application/json'')
               ''Unauthorized''))))
     (\<lambda>_ s'. computation s' = computation s) s"
  unfolding HTTPBasicLoginCommand_def put_def login_asked_def
  by (intro command_rules) (use assms in \<open>auto simp: lawfulD [OF assms(1)]\<close>)

section \<open>The outgoing request\<close>

definition response_seen :: "('q, 'r, 'm) client_web \<Rightarrow> event list \<Rightarrow> bool" where
  "response_seen W es \<longleftrightarrow> (\<exists>b r. Recv (Raw Target) b \<in> set es \<and> string_to_response W b = Inr r)"

lemma response_seen_simps [simp]:
  "response_seen W [] = False"
  "response_seen W (es @ fs) = (response_seen W es \<or> response_seen W fs)"
  "response_seen W (e # es) = ((\<exists>b r. e = Recv (Raw Target) b \<and> string_to_response W b = Inr r) \<or> response_seen W es)"
  by (auto simp: response_seen_def)

lemma vcg_on_job [vcg]:
  "wp m (\<lambda>a t. Q a (s\<lparr>job_thread := t\<rparr>)) (\<lambda>f t. E f (s\<lparr>job_thread := t\<rparr>)) (job_thread s) \<Longrightarrow> wp (on_job m) Q E s"
  by (cases "m (job_thread s)") (simp add: wp_def on_job_def split: sum.split)

text \<open>C35: \<open>HTTPRequestCommand\<close> lets no standard exception out and succeeds only after a whole
  exchange; the socket it opened is deleted exactly when a response was received and parsed, so
  every failure after the connection leaks it.\<close>

theorem http_request_socket:
  assumes "trace (job_thread s) = []"
  shows "wp (HTTPRequestCommand env K W)
     (\<lambda>ok s'. live {} (trace (job_thread s'))
        \<and> deleted (trace (job_thread s')) = (if response_seen W (trace (job_thread s')) then [Raw Target] else [])
        \<and> set (deleted (trace (job_thread s'))) \<subseteq> set (opened (trace (job_thread s')))
        \<and> (ok \<longrightarrow> response_seen W (trace (job_thread s')))) (\<lambda>f _. escapes f) s"
  using assms unfolding HTTPRequestCommand_def compose_request_def put_def connect_def send_bytes_def receive_bytes_def
  by (intro vcg vcg_lib_result) (auto simp: live_append)

section \<open>A concrete context, for examples\<close>

datatype cell = CRequest string | CResponse "status \<times> string" | CBool bool | CString string | CInt int
  | CMethod bool | CParams "string \<rightharpoonup> string" | CStrategy | COther

type_synonym cells = "string \<rightharpoonup> cell"
type_synonym sample_val = "(script, cells, string, status \<times> string, bool) val"

text \<open>A strategy that knows one token, and one user.\<close>

definition sample_strategy :: "(script, cells) strategy" where
  "sample_strategy =
     \<lparr>authenticate = (\<lambda>c w. (Inr (if c ''user'' = Some (CString ''ann'') then c(''ok'' \<mapsto> CBool True, ''token'' \<mapsto> CString ''t1'')
          else c(''ok'' \<mapsto> CBool False)), w)),
      isAuthenticated = (\<lambda>c w. (Inr (c(''ok'' \<mapsto> CBool (c ''token'' = Some (CString ''t1'')), ''info'' \<mapsto> CString ''ann'')), w)),
      removeAuthentication = (\<lambda>c w. (Inr c, w))\<rparr>"

fun of_cell :: "cell \<Rightarrow> sample_val" where
  "of_cell (CRequest q) = VRequest q"
| "of_cell (CResponse r) = VResponse r"
| "of_cell (CBool b) = VBool b"
| "of_cell (CString s) = VString s"
| "of_cell (CInt i) = VInt i"
| "of_cell (CMethod m) = VMethod m"
| "of_cell (CParams m) = VParams m"
| "of_cell CStrategy = VStrategy sample_strategy"
| "of_cell COther = VOther"

fun to_cell :: "sample_val \<Rightarrow> cell" where
  "to_cell (VRequest q) = CRequest q"
| "to_cell (VResponse r) = CResponse r"
| "to_cell (VBool b) = CBool b"
| "to_cell (VString s) = CString s"
| "to_cell (VInt i) = CInt i"
| "to_cell (VMethod m) = CMethod m"
| "to_cell (VParams m) = CParams m"
| "to_cell (VStrategy _) = CStrategy"
| "to_cell (VAuthorization _) = COther"
| "to_cell (VFunction _) = COther"
| "to_cell VOther = COther"

definition sample_class :: "(script, cells, string, status \<times> string, bool) context_class" where
  "sample_class =
     \<lparr>new_context = Map.empty,
      Get = (\<lambda>c k. case c k of None \<Rightarrow> Inl (StdException k) | Some v \<Rightarrow> Inr (of_cell v)),
      GetString = (\<lambda>c k. case c k of Some (CString s) \<Rightarrow> Inr s | _ \<Rightarrow> Inl (StdException k)),
      Put = (\<lambda>c k v. c(k \<mapsto> to_cell v)),
      AUTHENTICATION_STRATEGY_KEY = ''auth'', AUTHORIZATION_STRATEGY_KEY = ''authz'',
      AUTH_AUTHENTICATED_KEY = ''ok'', AUTH_AUTHENTICATED_INFO = ''info'', AUTH_BASIC_TOKEN_KEY = ''token'',
      AUTH_BASIC_USERNAME_KEY = ''user'', AUTH_BASIC_PASSWORD_KEY = ''password''\<rparr>"

lemma sample_class_lawful: "lawful sample_class"
proof -
  have "of_cell (to_cell v) = v" if "storable v" for v using that by (cases v) auto
  then show ?thesis by (simp add: lawful_def sample_class_def)
qed

definition sample_job :: "string \<Rightarrow> (string \<rightharpoonup> string) \<Rightarrow> (script, cells) job" where
  "sample_job q fs =
     \<lparr>job_thread = \<lparr>world = ([], [''HTTP/1.1 200 OK'']), ctx = Map.empty, trace = []\<rparr>,
      computation = [''request'' \<mapsto> CRequest q, ''auth'' \<mapsto> CStrategy, ''host'' \<mapsto> CString ''h'', ''port'' \<mapsto> CInt 80,
        ''method'' \<mapsto> CMethod False, ''requestUri'' \<mapsto> CString ''/'', ''content'' \<mapsto> CString [],
        ''content-type'' \<mapsto> CString []],
      files = fs\<rparr>"

definition sample_client :: "(string, status \<times> string, bool) client_web" where
  "sample_client = web.extend sample_server
     \<lparr>set_status = (\<lambda>r c. (c, snd r)), set_method = (\<lambda>q m. q), set_uri = (\<lambda>q u. Inr q),
      set_request_content = (\<lambda>q c. q), string_to_response = (\<lambda>b. if b = [] then Inl (StdException ''empty'') else Inr (Ok, b)),
      response_content = snd, status_code = (\<lambda>r. 200)\<rparr>"

lemmas sample_request_defs = sample_class_def sample_job_def sample_client_def sample_server_def sample_strategy_def
  web.defs

lemma authenticated_only_by_strategy_witness:
  "wp (HTTPBasicIsAuthenticatedCommand sample_class sample_server)
     (\<lambda>_ s'. \<exists>v. Get sample_class (computation s') ''ok'' = Inr (VBool v) \<and>
        (v \<longrightarrow> (\<exists>token c w'. bearer_token ''Bearer t1'' = Some token
           \<and> isAuthenticated sample_strategy [''token'' \<mapsto> CString token] ([], [''HTTP/1.1 200 OK'']) = (Inr c, w')
           \<and> Get sample_class c ''ok'' = Inr (VBool True)))) (\<lambda>_ _. True) (sample_job ''Bearer t1'' Map.empty)"
  by (rule wp_mono [OF authenticated_only_by_strategy [OF sample_class_lawful, of _ "''Bearer t1''" sample_strategy]])
    (simp_all add: sample_request_defs npos_def)

definition sample_writer :: "string json_writer" where
  "sample_writer = json.extend (sample_json\<lparr>json_at := (\<lambda>j k. if j = k then Inr ''ann'' else Inr j)\<rparr>)
     \<lparr>json_member = (\<lambda>k v. v)\<rparr>"

lemma login_token_from_strategy_witness:
  "wp (HTTPBasicLoginCommand sample_class sample_client sample_writer)
     (\<lambda>ok s'. if ok then \<exists>r. Get sample_class (computation s') ''response'' = Inr (VResponse r)
        else Get sample_class (computation s') ''response'' = Inr (VResponse (Unauthorized, ''Unauthorized'')))
     (\<lambda>_ s'. computation s' = computation (sample_job ''user'' Map.empty)) (sample_job ''user'' Map.empty)"
  by (rule wp_mono [OF login_token_from_strategy [OF sample_class_lawful, of _ "''user''" sample_strategy]])
    (auto simp: sample_request_defs split: if_splits)

lemma http_request_socket_witness:
  "wp (HTTPRequestCommand scripted sample_class sample_client)
     (\<lambda>ok s'. ok \<longrightarrow> deleted (trace (job_thread s')) = [Raw Target]) (\<lambda>f _. escapes f) (sample_job [] Map.empty)"
  by (rule wp_mono [OF http_request_socket [of "sample_job [] Map.empty" scripted sample_class sample_client]])
    (auto simp: sample_job_def)

section \<open>Serving a file\<close>

text \<open>The extension of a path: what follows the last dot, or all of it.\<close>

definition extension :: "string \<Rightarrow> string" where
  "extension p = rev (takeWhile (\<lambda>c. c \<noteq> CHR ''.'') (rev p))"

lemma mime_type_of:
  assumes "length p < npos"
  shows "mime_type_of p = Inr (if extension p = ''js'' then ''text/javascript'' else [])"
proof -
  let ?t = "takeWhile (\<lambda>c. c \<noteq> CHR ''.'') (rev p)"
  have "std_substr p ((std_find_last_of p (CHR ''.'') + 1) mod 2 ^ 64) npos = Inr (extension p)"
  proof (cases "CHR ''.'' \<in> set p")
    case True
    then have "CHR ''.'' \<in> set (rev p)" by simp
    then obtain xs ys where p: "rev p = xs @ CHR ''.'' # ys" "CHR ''.'' \<notin> set xs" by (meson split_list_first)
    then have t: "?t = xs" by (auto simp: takeWhile_append)
    have short: "length ?t < length p"
      using arg_cong [OF p(1), of length] t by simp
    then have "(std_find_last_of p (CHR ''.'') + 1) mod 2 ^ 64 = length p - length ?t"
      using True assms by (simp add: std_find_last_of_def npos_def)
    moreover have "drop (length p - length ?t) p = extension p"
      using arg_cong [OF p(1), of rev] t by (simp add: extension_def)
    moreover have "length (extension p) \<le> npos"
      using length_takeWhile_le [of "\<lambda>c. c \<noteq> CHR ''.''" "rev p"] assms by (simp add: extension_def)
    ultimately show ?thesis by (simp add: std_substr_def)
  next
    case False
    then have whole: "?t = rev p" by (subst takeWhile_eq_all_conv) auto
    have "extension p = p" unfolding extension_def whole by simp
    with False assms show ?thesis by (simp add: std_substr_def std_find_last_of_def npos_def)
  qed
  then show ?thesis by (simp add: mime_type_of_def)
qed

text \<open>C36: what \<open>SendFileCommand\<close> answers: the file at the public folder followed by the request's
  path, whatever that path is, with one more newline and, if the file does not end in a newline,
  with its last line a second time; the content type is empty for every file but \<open>.js\<close>.\<close>

theorem send_file_serves:
  assumes "Get K (computation s) ''request'' = Inr (VRequest q)" and "getenv OS ''PUBLIC_FOLDER_PATH'' = Some public"
    and "path = public @ ''/'' @ (if path_of W q = ''/'' then ''/index.html'' else path_of W q)"
    and "length path < npos" and "files s path = Some contents"
  shows "SendFileCommand K W OS s = (Inr True, s\<lparr>computation := Put K (computation s) ''response''
     (VResponse (set_content W
       (set_response_header W (new_response W Ok) ''Content-Type''
         (if extension path = ''js'' then ''text/javascript'' else []))
       (contents @ [newline] @ (if last_line contents = [] then [] else last_line contents @ [newline]))))\<rparr>)"
  using assms mime_type_of [OF assms(4)]
  by (simp add: SendFileCommand_def get_as_def any_cast_def lib_def require_env_def file_content_def put_def
      cmd_defs Let_def read_lines_file)

lemma send_file_serves_witness:
  "SendFileCommand sample_class sample_server \<lparr>getenv = [''PUBLIC_FOLDER_PATH'' \<mapsto> ''/www''], writable = (\<lambda>_. False)\<rparr>
     (sample_job ''../secret.html'' [''/www/../secret.html'' \<mapsto> ''key''])
     = (Inr True, (sample_job ''../secret.html'' [''/www/../secret.html'' \<mapsto> ''key''])
         \<lparr>computation := (computation (sample_job ''../secret.html'' Map.empty))
           (''response'' \<mapsto> CResponse (Ok, ''key'' @ [newline] @ ''key'' @ [newline]))\<rparr>)"
  by (subst send_file_serves [where q = "''../secret.html''" and public = "''/www''"
        and path = "''/www/../secret.html''" and contents = "''key''"])
    (simp_all add: sample_request_defs npos_def last_line_def)

section \<open>Storing a file\<close>

lemma read_name_quoted:
  assumes "CHR 0x22 \<notin> set name" and "length xs + length name < 2 ^ 31"
  shows "read_name (xs @ name @ CHR 0x22 # ys) (int (length xs)) acc = Inr (acc @ name)"
  using assms
proof (induction name arbitrary: xs acc)
  case Nil
  then show ?case by (subst read_name.simps) simp
next
  case (Cons c name)
  have step: "read_name (xs @ (c # name) @ CHR 0x22 # ys) (int (length xs)) acc
      = read_name (xs @ (c # name) @ CHR 0x22 # ys) (int (length xs) + 1) (acc @ [c])"
    using Cons.prems by (subst read_name.simps) (auto simp: int_add_def)
  have "int (length xs) + 1 = int (length (xs @ [c]))" by simp
  with Cons.IH [of "xs @ [c]" "acc @ [c]"] Cons.prems step show ?case by simp
qed

lemma uploaded_name_quoted:
  assumes "std_find meta ''filename='' = length a" and "meta = a @ ''filename='' @ CHR 0x22 # name @ CHR 0x22 # b"
    and "CHR 0x22 \<notin> set name" and "length meta < 2 ^ 31"
  shows "uploaded_name meta = Inr name"
proof -
  have "to_int32 (int (length a)) = int (length a)" using assms(2,4) by (intro to_int32_id) auto
  moreover have "int_add (int (length a)) 10 = Inr (int (length a) + 10)" using assms(2,4) by (simp add: int_add_def)
  moreover have "int (length a) + 10 = int (length (a @ ''filename='' @ [CHR 0x22]))" by simp
  ultimately show ?thesis
    using read_name_quoted [OF assms(3), of "a @ ''filename='' @ [CHR 0x22]" b "[]"] assms(1,2,4)
    by (simp add: uploaded_name_def)
qed

text \<open>C37: \<open>HttpFileUploadCommand\<close> stores everything after the first blank line of the body, up to
  the length the header claims, under the file name of the part's header taken as it is; with the
  length of the whole body in the header that includes the boundary line that closes the part.\<close>

theorem upload_stores_rest_of_body:
  assumes "Get K (computation s) ''request'' = Inr (VRequest q)" and "getenv OS ''PUBLIC_FOLDER_PATH'' = Some public"
    and "getenv OS ''DOWNLOADS_FOLDER'' = Some dir" and "writable OS (dir @ ''/'' @ name)"
    and "request_content W q = meta @ crlf @ crlf @ tail" and "std_find (request_content W q) (crlf @ crlf) = length meta"
    and "meta = a @ ''filename='' @ CHR 0x22 # name @ CHR 0x22 # b" and "std_find meta ''filename='' = length a"
    and "CHR 0x22 \<notin> set name" and "length meta < 2 ^ 31"
    and "get_header W q ''Content-Length'' = decimal n" and "n < 2 ^ 64"
  shows "fst (HttpFileUploadCommand K W OS s) = Inr True
     \<and> files (snd (HttpFileUploadCommand K W OS s)) = (files s)(dir @ ''/'' @ name \<mapsto> take n tail)"
proof -
  have "std_substr (request_content W q) 0 (length meta) = Inr meta"
    and "std_substr (request_content W q) (length meta + 4) n = Inr (take n tail)"
    unfolding assms(5) by (simp_all add: std_substr_def crlf_def)
  moreover have "length meta \<noteq> npos" using assms(10) by (simp add: npos_def)
  ultimately show ?thesis
    using assms(1-4,6) stoul_decimal [OF assms(12)] uploaded_name_quoted [OF assms(8,7,9,10)]
    by (simp add: HttpFileUploadCommand_def get_as_def any_cast_def lib_def require_env_def file_content_def put_def
        save_file_def cmd_defs Let_def assms(11))
qed

text \<open>A body of one part: its header, the content \<open>hi\<close>, and the closing boundary.\<close>

definition sample_part :: string where
  "sample_part = ''filename='' @ [CHR 0x22] @ ''f'' @ [CHR 0x22]"

definition sample_body :: string where
  "sample_body = sample_part @ crlf @ crlf @ ''hi'' @ crlf @ ''--x--''"

definition sample_upload :: "(string, status \<times> string, bool) web" where
  "sample_upload = sample_server\<lparr>get_header := (\<lambda>q k. decimal (length q))\<rparr>"

definition sample_os :: os where
  "sample_os = \<lparr>getenv = [''PUBLIC_FOLDER_PATH'' \<mapsto> ''/www'', ''DOWNLOADS_FOLDER'' \<mapsto> ''/up''], writable = (\<lambda>_. True)\<rparr>"

lemma upload_stores_rest_of_body_witness:
  "files (snd (HttpFileUploadCommand sample_class sample_upload sample_os (sample_job sample_body Map.empty)))
     = [''/up/f'' \<mapsto> ''hi'' @ crlf @ ''--x--'']"
proof -
  have find: "std_find sample_body (crlf @ crlf) = length sample_part" "std_find sample_part ''filename='' = 0"
    by (simp_all add: sample_body_def sample_part_def std_find_def occurs_at.simps crlf_def)
  have request: "Get sample_class (computation (sample_job sample_body Map.empty)) ''request'' = Inr (VRequest sample_body)"
    by (simp add: sample_class_def sample_job_def)
  have "files (snd (HttpFileUploadCommand sample_class sample_upload sample_os (sample_job sample_body Map.empty)))
      = (files (sample_job sample_body Map.empty))(''/up'' @ ''/'' @ ''f'' \<mapsto> take (length sample_body) (''hi'' @ crlf @ ''--x--''))"
    by (rule conjunct2 [OF upload_stores_rest_of_body [where q = sample_body and public = "''/www''" and meta = sample_part
          and a = "[]" and b = "[]"]])
      (use find request in \<open>simp_all add: sample_upload_def sample_os_def sample_server_def sample_body_def\<close>,
       simp_all add: sample_part_def crlf_def)
  then show ?thesis by (simp add: sample_body_def sample_part_def crlf_def sample_job_def)
qed

end
