(* ===== verification/Stream_Pipeline.thy ===== *)
theory Stream_Pipeline
  imports Relay Byte_Readers Scripted_World
begin

text \<open>
  \<open>CStreamPipeline\<close> (\<open>src/pipeline-plugins/CStreamPipeline.cpp\<close>): receives one file in chunks,
  after a handshake packet and a packet with the file's meta data, and writes it to disk. The
  packet layouts (\<open>file_transfer/Payload.h\<close>) and \<open>ReadSocketBuffer\<close> are external.
\<close>

section \<open>External interfaces\<close>

text \<open>
  The layouts as readers of the bytes of a packet: the sizes of the two structures, their
  fields, the offset of the chunk's buffer; and the bytes of the packets the code makes.
\<close>

record payload =
  make_ack :: string
  make_eof :: string
  sizeof_meta :: nat
  sizeof_chunk :: nat
  packet_seq_num :: "string \<Rightarrow> int"
  buffer_size :: "string \<Rightarrow> int"
  buffer_offset :: nat

text \<open>
  \<open>ReadSocketBuffer(socket, buffer, size)\<close>: the bytes it stored at the start of the buffer.
  \<open>fwrite\<close>, told what the stream still buffers and what to add, takes a number of bytes of the
  latter (a short count is a write error) and passes a number of the then buffered ones on to the
  file; \<open>fclose\<close> passes a number of the last ones on (less than all is an error).
\<close>

record 'w stream_env = "'w env" +
  x_read_socket_buffer :: "sock \<Rightarrow> nat \<Rightarrow> 'w \<Rightarrow> (exn + string) \<times> 'w"
  x_fwrite :: "string \<Rightarrow> string \<Rightarrow> 'w \<Rightarrow> (nat \<times> nat) \<times> 'w"
  x_fclose :: "string \<Rightarrow> 'w \<Rightarrow> nat \<times> 'w"

definition zero_padded :: "nat \<Rightarrow> string \<Rightarrow> string" where
  "zero_padded n b = take n b @ replicate (n - length b) nul"

lemma length_zero_padded [simp]: "length (zero_padded n b) = n"
  by (simp add: zero_padded_def)

text \<open>The buffer, cleared before the call, as the call leaves it; what was read is in the trace.\<close>

definition read_socket_buffer :: "'w stream_env \<Rightarrow> sock \<Rightarrow> nat \<Rightarrow> ('w thread, string) cmd" where
  "read_socket_buffer env k n =
     bindM (extern (x_read_socket_buffer env k n) (\<lambda>b. [RecvBlocked k (take n b)]) [])
       (\<lambda>b. retM (zero_padded n b))"

section \<open>Helpers\<close>

text \<open>
  \<open>*((int *) bytes.c_str())\<close>: four bytes, of which the string's own and its terminating NUL may
  be read; the byte order is that of a little-endian machine.
\<close>

definition GetPacketType :: "string \<Rightarrow> int res" where
  "GetPacketType bytes =
     (if length bytes + 1 < 4 then Inl (Undefined OutOfBounds)
      else Inr (to_int32 (int (le_value (take 4 (bytes @ [nul]))))))"

record 'w stream = "'w conn" +
  dest :: "string option"   \<comment> \<open>what of \<open>DEST_WIRE.out\<close> is on the disk, once it was created\<close>
  unwritten :: string       \<comment> \<open>what the \<open>FILE\<close> still buffers\<close>
  fp :: bool                \<comment> \<open>\<open>fp\<close> points to an open \<open>FILE\<close>; a null pointer otherwise\<close>
  transferred_size :: int

definition initial_stream :: "'w \<Rightarrow> 'w stream" where
  "initial_stream w =
     \<lparr>thr = \<lparr>world = w, ctx = Map.empty, trace = []\<rparr>, client_socket = Raw Client, target_socket = Raw Target,
      target_endpoint = \<lparr>ipaddress = [], port = 0\<rparr>, correlation_id = [], start_time = 0,
      dest = None, unwritten = [], fp = False, transferred_size = 0\<rparr>"

text \<open>
  A round of \<open>GetRequest\<close>. The pointer to the \<open>SocketSelect\<close> is declared in the loop and used
  after the \<open>catch\<close>: when the constructor throws, it was never assigned.
\<close>

datatype poll = Received string | Hung_Up | Poll_Again

definition poll_request :: "('w, 'z) env_scheme \<Rightarrow> (('w, 'y) conn_scheme, poll) cmd" where
  "poll_request env =
     bindM (getM client_socket) (\<lambda>client_socket.
     seqM (tryM (on_thread (extern (x_select env client_socket None) (\<lambda>_. []) []))
         (\<lambda>_. failM (Undefined UninitialisedPointer)))
       (tryM
         (bindM (on_thread (extern (x_readable env client_socket) (\<lambda>_. []) [])) (\<lambda>r.
            if \<not> r then retM Poll_Again
            else bindM (on_thread (extern (x_receive env client_socket) (\<lambda>b. [Recv client_socket b]) [])) (\<lambda>bytes.
              retM (if bytes \<noteq> [] then Received bytes else Hung_Up))))
         (\<lambda>_. retM Poll_Again)))"

text \<open>\<open>None\<close>: still polling after the budget.\<close>

primrec GetRequest :: "nat \<Rightarrow> ('w, 'z) env_scheme \<Rightarrow> (('w, 'y) conn_scheme, string option) cmd" where
  "GetRequest 0 env = retM None"
| "GetRequest (Suc n) env = bindM (poll_request env) (\<lambda>p. case p of
      Received b \<Rightarrow> retM (Some b) | Hung_Up \<Rightarrow> retM (Some []) | Poll_Again \<Rightarrow> GetRequest n env)"

definition send_to_client :: "('w, 'z) env_scheme \<Rightarrow> string \<Rightarrow> (('w, 'y) conn_scheme, unit) cmd" where
  "send_to_client env b =
     bindM (getM client_socket) (\<lambda>k. on_thread (extern (x_send env k b) (\<lambda>_. [Sent k b]) [SendFailed k b]))"

definition SendAcknowledgement :: "('w, 'z) env_scheme \<Rightarrow> payload \<Rightarrow> (('w, 'y) conn_scheme, unit) cmd" where
  "SendAcknowledgement env P = send_to_client env (make_ack P)"

definition SendEOF :: "('w, 'z) env_scheme \<Rightarrow> payload \<Rightarrow> (('w, 'y) conn_scheme, unit) cmd" where
  "SendEOF env P = send_to_client env (make_eof P)"

definition fclose :: "'w stream_env \<Rightarrow> ('w stream, unit) cmd" where
  "fclose env = bindM (getM fp) (\<lambda>open_file.
     if open_file then
       updM (\<lambda>s. let (flushed, w) = x_fclose env (unwritten s) (world (thr s)) in
         s\<lparr>thr := (thr s)\<lparr>world := w\<rparr>, dest := map_option (\<lambda>d. d @ take flushed (unwritten s)) (dest s),
           unwritten := [], fp := False\<rparr>)
     else failM (Undefined NullPointer))"

definition fwrite :: "'w stream_env \<Rightarrow> string \<Rightarrow> ('w stream, unit) cmd" where
  "fwrite env b = bindM (getM fp) (\<lambda>open_file.
     if open_file then
       updM (\<lambda>s. let ((accepted, flushed), w) = x_fwrite env (unwritten s) b (world (thr s));
           pending = unwritten s @ take accepted b in
         s\<lparr>thr := (thr s)\<lparr>world := w\<rparr>, dest := map_option (\<lambda>d. d @ take flushed pending) (dest s),
           unwritten := drop flushed pending\<rparr>)
     else failM (Undefined NullPointer))"

section \<open>The transfer\<close>

definition buffer_type :: "string \<Rightarrow> int" where
  "buffer_type b = to_int32 (int (le_value (take 4 b)))"

definition chunk_data :: "payload \<Rightarrow> string \<Rightarrow> string" where
  "chunk_data P b = take (nat (buffer_size P b)) (drop (buffer_offset P) b)"

text \<open>
  A round of the transfer loop. The data is copied through \<open>char temp_mem[32000]\<close>: a larger (or,
  converted to \<open>size_t\<close>, negative) size overruns it, as it may overrun the buffer itself.
\<close>

definition transfer_round :: "'w stream_env \<Rightarrow> payload \<Rightarrow> ('w stream, bool) cmd" where
  "transfer_round env P =
     bindM (getM client_socket) (\<lambda>client_socket.
     let chunk_size = sizeof_chunk P + 5000 in
     bindM (on_thread (read_socket_buffer env client_socket chunk_size)) (\<lambda>buffer_chunk.
       if buffer_type buffer_chunk = 5 then
         seqM (fclose env) (seqM (SendAcknowledgement env P) (retM False))
       else if buffer_type buffer_chunk \<noteq> 4 then
         seqM (fclose env) (retM False)
       else if packet_seq_num P buffer_chunk > 10 then retM False
       else
         let size = buffer_size P buffer_chunk in
           if size < 0 \<or> size > 32000 \<or> int (buffer_offset P) + size > int chunk_size then
             failM (Undefined OutOfBounds)
           else
             seqM (fwrite env (chunk_data P buffer_chunk))
             (bindM (getM transferred_size) (\<lambda>n.
              bindM (resM (int_add n size)) (\<lambda>n'.
              seqM (updM (\<lambda>s. s\<lparr>transferred_size := n'\<rparr>)) (retM True))))))"

text \<open>\<open>can_create\<close>: \<open>fopen("DEST_WIRE.out", "wb")\<close> succeeds.\<close>

definition CStreamPipeline :: "'w stream_env \<Rightarrow> payload \<Rightarrow> bool \<Rightarrow> nat \<Rightarrow> ('w stream, bool) cmd" where
  "CStreamPipeline env P can_create rounds =
     bindM (getM client_socket) (\<lambda>client_socket.
     seqM (on_thread (extern (x_set_read_timeout env client_socket) (\<lambda>_. []) []))
     (bindM (GetRequest rounds env) (\<lambda>first. case first of None \<Rightarrow> retM True | Some handshake \<Rightarrow>
      bindM (resM (GetPacketType handshake)) (\<lambda>packet_type.
      if packet_type \<noteq> 1 then retM False
      else
        seqM (send_to_client env (make_ack P))
        (bindM (GetRequest rounds env) (\<lambda>second. case second of None \<Rightarrow> retM True | Some request \<Rightarrow>
         bindM (resM (GetPacketType request)) (\<lambda>packet_type.
         if packet_type \<noteq> 3 then retM False
         else if length request + 1 < sizeof_meta P then failM (Undefined OutOfBounds)
         else
           seqM (SendAcknowledgement env P)
           (seqM (updM (\<lambda>s. if can_create then s\<lparr>dest := Some [], fp := True\<rparr> else s))
           (bindM (run_loop rounds (transfer_round env P)) (\<lambda>running.
              if running then retM True
              else seqM (on_thread (extern (x_close env client_socket) (\<lambda>_. [Closed client_socket]) []))
                (retM False)))))))))))"

end
