(* ===== verification/Stream_Safety.thy ===== *)
theory Stream_Safety
  imports Stream_Pipeline
begin

text \<open>
  What the file transfer stores, and how it fails.
\<close>

section \<open>The packets read\<close>

fun packet1 :: "event \<Rightarrow> string list" where
  "packet1 (RecvBlocked _ b) = [b]"
| "packet1 _ = []"

definition packets :: "event list \<Rightarrow> string list" where
  "packets es = concat (map packet1 es)"

lemma packets_simps [simp]:
  "packets [] = []"
  "packets (e # es) = packet1 e @ packets es"
  "packets (es @ fs) = packets es @ packets fs"
  by (simp_all add: packets_def)

text \<open>
  The specification reads the packets by the layout of \<open>T_FILE_CHUNK\<close>: four bytes of type, the
  fields, and the data from \<open>buffer_offset\<close> on. A read may be short: what it did not deliver
  counts as NUL.
\<close>

definition packet_byte :: "string \<Rightarrow> nat \<Rightarrow> char" where
  "packet_byte p i = (if i < length p then p ! i else nul)"

definition read_size :: "payload \<Rightarrow> nat" where
  "read_size P = sizeof_chunk P + 5000"

definition data_size :: "payload \<Rightarrow> string \<Rightarrow> int" where
  "data_size P p = buffer_size P (zero_padded (read_size P) p)"

definition sequence_number :: "payload \<Rightarrow> string \<Rightarrow> int" where
  "sequence_number P p = packet_seq_num P (zero_padded (read_size P) p)"

definition is_chunk :: "string \<Rightarrow> bool" where
  "is_chunk p \<longleftrightarrow> map (packet_byte p) [0..<4] = [CHR 0x04, nul, nul, nul]"

text \<open>A chunk the code can store: of the first eleven, and within both buffers.\<close>

definition data_packet :: "payload \<Rightarrow> string \<Rightarrow> bool" where
  "data_packet P p \<longleftrightarrow> is_chunk p \<and> sequence_number P p \<le> 10
     \<and> 0 \<le> data_size P p \<and> data_size P p \<le> 32000 \<and> int (buffer_offset P) + data_size P p \<le> int (read_size P)"

definition packet_data :: "payload \<Rightarrow> string \<Rightarrow> string" where
  "packet_data P p = map (\<lambda>i. packet_byte p (buffer_offset P + i)) [0..<nat (data_size P p)]"

text \<open>The data of the packets up to the first that is no such chunk.\<close>

definition stored :: "payload \<Rightarrow> event list \<Rightarrow> string" where
  "stored P es = concat (map (packet_data P) (takeWhile (data_packet P) (packets es)))"

text \<open>Of a packet read as a whole, the data are the bytes between its header and its rest.\<close>

lemma packet_data_layout:
  assumes "p = header @ data @ rest" and "length header = buffer_offset P" and "data_size P p = int (length data)"
  shows "packet_data P p = data"
  using assms by (intro nth_equalityI) (auto simp: packet_data_def packet_byte_def nth_append)

lemma packet_byte_padded: "i < n \<Longrightarrow> zero_padded n p ! i = packet_byte p i"
  by (auto simp: zero_padded_def packet_byte_def nth_append)

lemma length_packet_data: "0 \<le> data_size P p \<Longrightarrow> int (length (packet_data P p)) = data_size P p"
  by (simp add: packet_data_def)

text \<open>The code reads the same out of its buffer.\<close>

lemma chunk_data_packet:
  assumes "0 \<le> data_size P p" and "int (buffer_offset P) + data_size P p \<le> int (read_size P)"
  shows "chunk_data P (zero_padded (read_size P) p) = packet_data P p"
  using assms
  by (intro nth_equalityI)
    (auto simp: chunk_data_def packet_data_def data_size_def [symmetric] packet_byte_padded add.commute)

lemma le_value_eq: "length b = k \<Longrightarrow> le_value b = v \<longleftrightarrow> b = le_bytes k v \<and> v < 256 ^ k"
proof (induction k arbitrary: b v)
  case (Suc k)
  then obtain c cs where b: "b = c # cs" "length cs = k" by (cases b) auto
  have "byte c + 256 * le_value cs = v \<longleftrightarrow> byte c = v mod 256 \<and> le_value cs = v div 256"
    using byte_less [of c] by (auto simp: mod_mult_div_eq simp del: byte_less)
  moreover have "byte c = v mod 256 \<longleftrightarrow> c = char_of v"
    using byte_inject [of c "char_of v"] by simp
  ultimately show ?case
    using Suc.IH [OF b(2), of "v div 256"] b(1) by (auto simp: less_mult_imp_div_less div_less_iff_less_mult mult.commute)
qed auto

lemma to_int32_chunk: "v < 2 ^ 32 \<Longrightarrow> to_int32 (int v) = 4 \<longleftrightarrow> v = 4"
proof (cases "v < 2 ^ 31")
  case False
  assume "v < 2 ^ 32"
  with False have "(int v + 2 ^ 31) mod 2 ^ 32 = int v - 2 ^ 31"
    by (subst mod_pos_geq) auto
  with False \<open>v < 2 ^ 32\<close> show ?thesis by (simp add: to_int32_def)
qed (simp add: to_int32_def)

lemma buffer_type_chunk: "4 \<le> n \<Longrightarrow> buffer_type (zero_padded n p) = 4 \<longleftrightarrow> is_chunk p"
proof -
  assume n: "4 \<le> n"
  let ?h = "take 4 (zero_padded n p)"
  have h: "length ?h = 4" "?h = map (packet_byte p) [0..<4]"
    using n by (auto intro!: nth_equalityI simp: packet_byte_padded)
  have "le_value ?h < 2 ^ 32" using le_value_bound [of ?h] h(1) by simp
  then have "buffer_type (zero_padded n p) = 4 \<longleftrightarrow> le_value ?h = 4"
    by (simp add: buffer_type_def to_int32_chunk)
  also have "\<dots> \<longleftrightarrow> ?h = le_bytes 4 4" using le_value_eq [OF h(1), of 4] by simp
  also have "\<dots> \<longleftrightarrow> is_chunk p"
  proof -
    have "le_bytes 4 4 = [CHR 0x04, nul, nul, nul]" by code_simp
    then show ?thesis unfolding is_chunk_def h(2) by simp
  qed
  finally show ?thesis .
qed

section \<open>The file\<close>

text \<open>Every byte is taken by the \<open>FILE\<close> and, at the latest when it is closed, on the disk.\<close>

definition disk_works :: "'w stream_env \<Rightarrow> bool" where
  "disk_works env \<longleftrightarrow> (\<forall>u b w. length b \<le> fst (fst (x_fwrite env u b w)) \<and> length u \<le> fst (x_fclose env u w))"

text \<open>
  The bytes that are on the disk or buffered: in order what is to be stored, and all of it when no
  write fails.
\<close>

definition file_bytes :: "'w stream_env \<Rightarrow> 'w stream \<Rightarrow> string \<Rightarrow> string \<Rightarrow> bool" where
  "file_bytes env s d b \<longleftrightarrow> subseq (d @ unwritten s) b \<and> (disk_works env \<longrightarrow> d @ unwritten s = b)"

definition file_state :: "'w stream_env \<Rightarrow> payload \<Rightarrow> bool \<Rightarrow> 'w stream \<Rightarrow> bool" where
  "file_state env P can_create s \<longleftrightarrow> (case dest s of
      None \<Rightarrow> \<not> fp s \<and> (can_create \<longrightarrow> packets (tr s) = [])
    | Some d \<Rightarrow> can_create \<and> file_bytes env s d (stored P (tr s)) \<and> (\<not> fp s \<longrightarrow> unwritten s = []))"

definition receiving :: "'w stream_env \<Rightarrow> payload \<Rightarrow> bool \<Rightarrow> 'w stream \<Rightarrow> bool" where
  "receiving env P can_create s \<longleftrightarrow> fp s = can_create \<and> file_state env P can_create s
     \<and> (\<forall>b \<in> set (packets (tr s)). data_packet P b) \<and> transferred_size s = int (length (stored P (tr s)))"

definition left_open :: "payload \<Rightarrow> 'w stream \<Rightarrow> bool" where
  "left_open P s \<longleftrightarrow> packets (tr s) \<noteq> [] \<and> is_chunk (last (packets (tr s)))
     \<and> sequence_number P (last (packets (tr s))) > 10"

definition file_closed :: "payload \<Rightarrow> 'w stream \<Rightarrow> bool" where
  "file_closed P s \<longleftrightarrow> (fp s \<longrightarrow> left_open P s)"

lemma takeWhile_all: "\<forall>b \<in> set bs. p b \<Longrightarrow> takeWhile p (bs @ cs) = bs @ takeWhile p cs"
  by (induction bs) auto

lemma stored_snoc:
  assumes "\<forall>b \<in> set (packets es). data_packet P b" and "packets fs = []"
  shows "stored P (es @ RecvBlocked k b # fs) = stored P es @ (if data_packet P b then packet_data P b else [])"
proof -
  have whole: "takeWhile (data_packet P) (packets es) = packets es"
    using takeWhile_all [OF assms(1), of "[]"] by simp
  show ?thesis
    unfolding stored_def packets_simps takeWhile_all [OF assms(1)] whole packet1.simps assms(2) by simp
qed

lemma stored_quiet: "packets fs = [] \<Longrightarrow> stored P (es @ fs) = stored P es"
  by (simp add: stored_def)


lemmas stream_effects = read_socket_buffer_def fclose_def fwrite_def SendAcknowledgement_def send_to_client_def Let_def

lemma packet_at_least_4: "4 \<le> read_size P"
  by (simp add: read_size_def)

lemmas round_facts = data_size_def [symmetric] sequence_number_def [symmetric]
  buffer_type_chunk [OF packet_at_least_4] chunk_data_packet

lemma end_of_file_no_chunk: "buffer_type (zero_padded (read_size P) p) = 5 \<Longrightarrow> \<not> is_chunk p"
  using buffer_type_chunk [OF packet_at_least_4, of P p] by auto

lemma data_packet_simps:
  "\<not> is_chunk b \<Longrightarrow> \<not> data_packet P b" "10 < sequence_number P b \<Longrightarrow> \<not> data_packet P b"
  "data_size P b < 0 \<Longrightarrow> \<not> data_packet P b" "32000 < data_size P b \<Longrightarrow> \<not> data_packet P b"
  "int (read_size P) < int (buffer_offset P) + data_size P b \<Longrightarrow> \<not> data_packet P b"
  "is_chunk b \<Longrightarrow> sequence_number P b \<le> 10 \<Longrightarrow> 0 \<le> data_size P b \<Longrightarrow> data_size P b \<le> 32000 \<Longrightarrow>
     int (buffer_offset P) + data_size P b \<le> int (read_size P) \<Longrightarrow> data_packet P b"
  by (auto simp: data_packet_def)

lemma zero_padded_take: "zero_padded n b = zero_padded n (take n b)"
  by (simp add: zero_padded_def min_def)

text \<open>What a read leaves in the buffer and in the trace.\<close>

lemma read_rule:
  assumes "\<And>p t'. trace t' = trace t @ [RecvBlocked k p] \<Longrightarrow> Q (zero_padded n p) t'"
    and "\<And>e t'. trace t' = trace t \<Longrightarrow> E (Thrown e) t'"
  shows "wp (read_socket_buffer env k n) Q E t"
  unfolding read_socket_buffer_def
  by (subst zero_padded_take) (intro vcg; simp add: assms)

lemma file_bytes_write:
  assumes "file_bytes env s d b" and "unwritten s @ take a c = x @ y" and "disk_works env \<Longrightarrow> length c \<le> a"
  shows "subseq (d @ x @ y) (b @ c) \<and> (disk_works env \<longrightarrow> d @ x @ y = b @ c)"
proof -
  have "subseq ((d @ unwritten s) @ take a c) (b @ c)"
    using assms(1) by (intro list_emb_append_mono) (auto simp: file_bytes_def intro: prefix_imp_subseq take_is_prefix)
  with assms show ?thesis by (auto simp: file_bytes_def)
qed

lemma disk_worksD:
  "disk_works env \<Longrightarrow> x_fwrite env u b w = ((a, f), w') \<Longrightarrow> length b \<le> a"
  "disk_works env \<Longrightarrow> x_fclose env u w = (f, w') \<Longrightarrow> length u \<le> f"
  unfolding disk_works_def by (metis fst_conv)+

lemma fwrite_rule:
  assumes "fp s \<Longrightarrow> \<exists>d. dest s = Some d \<and> file_bytes env s d b"
    and "\<And>s' d. fp s \<Longrightarrow> dest s' = Some d \<Longrightarrow> file_bytes env s' d (b @ c) \<Longrightarrow> fp s' \<Longrightarrow> tr s' = tr s \<Longrightarrow>
      transferred_size s' = transferred_size s \<Longrightarrow> Q () s'"
    and "\<not> fp s \<Longrightarrow> E (Undefined NullPointer) s"
  shows "wp (fwrite env c) Q E s"
proof (cases "fp s")
  case True
  obtain d where d: "dest s = Some d" "file_bytes env s d b" using assms(1) True by blast
  obtain a f w where w: "x_fwrite env (unwritten s) c (world (thr s)) = ((a, f), w)" by (metis prod.exhaust)
  define q where "q = unwritten s @ take a c"
  let ?s' = "s\<lparr>thr := (thr s)\<lparr>world := w\<rparr>, dest := Some (d @ take f q), unwritten := drop f q\<rparr>"
  have q: "unwritten s @ take a c = take f q @ drop f q" unfolding append_take_drop_id q_def ..
  have "file_bytes env ?s' (d @ take f q) (b @ c)"
    using file_bytes_write [OF d(2) q] disk_worksD(1) [OF _ w] by (simp add: file_bytes_def)
  then have "Q () ?s'" by (intro assms(2)) (simp_all add: True)
  then show ?thesis using True w d(1) by (simp add: fwrite_def wp_bind wp_get wp_upd Let_def q_def)
next
  case False
  then show ?thesis using assms(3) by (simp add: fwrite_def wp_bind wp_get wp_fail)
qed

lemma fclose_rule:
  assumes "fp s \<Longrightarrow> \<exists>d. dest s = Some d \<and> file_bytes env s d b"
    and "\<And>s' d. fp s \<Longrightarrow> dest s' = Some d \<Longrightarrow> file_bytes env s' d b \<Longrightarrow> unwritten s' = [] \<Longrightarrow> \<not> fp s' \<Longrightarrow>
      tr s' = tr s \<Longrightarrow> Q () s'"
    and "\<not> fp s \<Longrightarrow> E (Undefined NullPointer) s"
  shows "wp (fclose env) Q E s"
proof (cases "fp s")
  case True
  obtain d where d: "dest s = Some d" "file_bytes env s d b" using assms(1) True by blast
  obtain f w where w: "x_fclose env (unwritten s) (world (thr s)) = (f, w)" by (metis prod.exhaust)
  let ?s' = "s\<lparr>thr := (thr s)\<lparr>world := w\<rparr>, dest := Some (d @ take f (unwritten s)), unwritten := [], fp := False\<rparr>"
  have "subseq (d @ take f (unwritten s)) (d @ unwritten s)"
    by (intro list_emb_append_mono) (auto intro: prefix_imp_subseq take_is_prefix)
  then have "file_bytes env ?s' (d @ take f (unwritten s)) b"
    using d(2) disk_worksD(2) [OF _ w] by (auto simp: file_bytes_def intro: subseq_order.trans)
  then have "Q () ?s'" by (intro assms(2)) (simp_all add: True)
  then show ?thesis using True w d(1) by (simp add: fclose_def wp_bind wp_get wp_upd Let_def)
next
  case False
  then show ?thesis using assms(3) by (simp add: fclose_def wp_bind wp_get wp_fail)
qed

text \<open>A round keeps the file in step with the packets read.\<close>

lemma file_bytes_more: "file_bytes env (s\<lparr>thr := t\<rparr>) d b = file_bytes env s d b"
  "file_bytes env (s\<lparr>transferred_size := n\<rparr>) d b = file_bytes env s d b"
  by (simp_all add: file_bytes_def)

lemma receivingD:
  assumes "receiving env P can_create s"
  shows "\<forall>b \<in> set (packets (tr s)). data_packet P b" "transferred_size s = int (length (stored P (tr s)))"
    "fp s = can_create" "fp s \<Longrightarrow> \<exists>d. dest s = Some d \<and> file_bytes env s d (stored P (tr s))"
    "\<not> fp s \<Longrightarrow> dest s = None"
  using assms by (auto simp: receiving_def file_state_def split: option.splits)

lemma transfer_round_stores:
  assumes "receiving env P can_create s"
  shows "wp (transfer_round env P)
     (\<lambda>again s'. if again then receiving env P can_create s'
        else file_state env P can_create s' \<and> (fp s' \<longrightarrow> left_open P s'))
     (\<lambda>f s'. file_state env P can_create s') s"
  using receivingD [OF assms]
  unfolding transfer_round_def SendAcknowledgement_def send_to_client_def Let_def read_size_def [symmetric]
  by (intro vcg read_rule fwrite_rule [where b = "stored P (tr s)"] fclose_rule [where b = "stored P (tr s)"])
    (auto simp: round_facts file_bytes_more stored_snoc stored_quiet data_packet_simps length_packet_data
      end_of_file_no_chunk int_add_Inr file_state_def receiving_def left_open_def)

section \<open>The whole transfer\<close>

definition waiting_for_file :: "'w stream \<Rightarrow> bool" where
  "waiting_for_file s \<longleftrightarrow> packets (tr s) = [] \<and> dest s = None \<and> unwritten s = [] \<and> \<not> fp s \<and> transferred_size s = 0"

lemma poll_request_waits:
  "waiting_for_file s \<Longrightarrow> wp (poll_request env) (\<lambda>_. waiting_for_file) (\<lambda>_. waiting_for_file) s"
  unfolding poll_request_def by (intro vcg) (simp_all add: waiting_for_file_def)

lemma GetRequest_rule:
  assumes "waiting_for_file s" and "\<And>r s'. waiting_for_file s' \<Longrightarrow> Q r s'" and "\<And>f s'. waiting_for_file s' \<Longrightarrow> E f s'"
  shows "wp (GetRequest n env) Q E s"
  using assms(1)
proof (induction n arbitrary: s)
  case 0
  then show ?case by (simp add: wp_ret assms(2))
next
  case (Suc n)
  have "wp (case p of Received b \<Rightarrow> retM (Some b) | Hung_Up \<Rightarrow> retM (Some []) | Poll_Again \<Rightarrow> GetRequest n env) Q E s'"
    if "waiting_for_file s'" for p and s'
    using that Suc.IH assms(2) by (cases p) (auto simp: wp_ret)
  then show ?case
    unfolding GetRequest.simps wp_bind by (intro wp_mono [OF poll_request_waits [OF Suc.prems]]) (auto intro: assms(3))
qed

lemma vcg_opt [vcg]:
  assumes "x = None \<Longrightarrow> wp m Q E s" and "\<And>y. x = Some y \<Longrightarrow> wp (k y) Q E s"
  shows "wp (case x of None \<Rightarrow> m | Some y \<Rightarrow> k y) Q E s"
  using assms by (cases x) auto

lemma transfer_rule:
  assumes "receiving env P can_create s" and "\<And>s'. receiving env P can_create s' \<Longrightarrow> Q True s'"
    and "\<And>s'. file_state env P can_create s' \<Longrightarrow> file_closed P s' \<Longrightarrow> Q False s'"
    and "\<And>f s'. file_state env P can_create s' \<Longrightarrow> E f s'"
  shows "wp (run_loop n (transfer_round env P)) Q E s"
  by (rule wp_mono [OF wp_run_loop [where I = "receiving env P can_create", OF transfer_round_stores assms(1)]])
    (use assms(2-4) in \<open>auto simp: file_closed_def split: if_splits\<close>)

lemma waiting_file_state:
  "waiting_for_file s \<Longrightarrow> file_state env P can_create s \<and> file_closed P s"
  by (simp add: waiting_for_file_def file_state_def file_closed_def)

lemma waiting_more:
  "waiting_for_file (initial_stream w)"
  "waiting_for_file s \<Longrightarrow> packets (trace t) = [] \<Longrightarrow> waiting_for_file (s\<lparr>thr := t\<rparr>)"
  "waiting_for_file s \<Longrightarrow> packets (tr s) = []"
  by (simp_all add: waiting_for_file_def initial_stream_def)

lemma closing_keeps:
  "packets (trace t) = packets (tr s) \<Longrightarrow>
     file_state env P can_create (s\<lparr>thr := t\<rparr>) = file_state env P can_create s"
  "packets (trace t) = packets (tr s) \<Longrightarrow> file_closed P (s\<lparr>thr := t\<rparr>) = file_closed P s"
  by (auto simp: file_state_def file_closed_def left_open_def stored_def file_bytes_more split: option.split)

lemma receiving_state: "receiving env P can_create s \<Longrightarrow> file_state env P can_create s"
  by (simp add: receiving_def)

lemma created_receiving:
  "waiting_for_file s \<Longrightarrow> receiving env P can_create (if can_create then s\<lparr>dest := Some [], fp := True\<rparr> else s)"
  by (simp add: waiting_for_file_def receiving_def file_state_def file_bytes_def stored_def)

text \<open>C21: the file against the packets the client sent, whatever the client sends, the sockets do,
  and the standard I/O library buffers: on the disk, or still in the buffer of the \<open>FILE\<close>, are in
  order bytes of the chunks received before the first packet that is not a chunk the code can
  store, and all of these bytes when no write fails; a byte that a short read did not deliver is
  stored as NUL. When the pipeline returns the file is closed and nothing is left in the buffer,
  unless the last packet was a chunk with a sequence number over ten, which ends the transfer with
  the file left open. If the file cannot be created no packet is stored.\<close>

theorem stream_stores_chunks:
  "wp (CStreamPipeline env P can_create rounds)
     (\<lambda>running s. file_state env P can_create s \<and> (running \<or> file_closed P s))
     (\<lambda>f s. file_state env P can_create s) (initial_stream w)"
  unfolding CStreamPipeline_def SendAcknowledgement_def send_to_client_def
  by (intro vcg GetRequest_rule transfer_rule [where P = P and can_create = can_create])
    (simp_all add: waiting_file_state waiting_more created_receiving closing_keeps receiving_state)

section \<open>How it fails\<close>

text \<open>a client that connects and hangs up without sending anything makes the code read the
  packet type out of an empty string: four bytes, where one is there.\<close>

theorem stream_hangup_undefined:
  assumes "fst (x_set_read_timeout env (Raw Client) w) = Inr ()"
    and "\<And>w. fst (x_select env (Raw Client) None w) = Inr ()" and "\<And>w. fst (x_readable env (Raw Client) w) = Inr True"
    and "\<And>w. fst (x_receive env (Raw Client) w) = Inr []"
  shows "fst (CStreamPipeline env P can_create (Suc n) (initial_stream w)) = Inl (Undefined OutOfBounds)"
proof -
  obtain w1 where 1: "x_set_read_timeout env (Raw Client) w = (Inr (), w1)"
    using assms(1) by (cases "x_set_read_timeout env (Raw Client) w") auto
  obtain w2 where 2: "x_select env (Raw Client) None w1 = (Inr (), w2)"
    using assms(2) [of w1] by (cases "x_select env (Raw Client) None w1") auto
  obtain w3 where 3: "x_readable env (Raw Client) w2 = (Inr True, w3)"
    using assms(3) [of w2] by (cases "x_readable env (Raw Client) w2") auto
  obtain w4 where 4: "x_receive env (Raw Client) w3 = (Inr [], w4)"
    using assms(4) [of w3] by (cases "x_receive env (Raw Client) w3") auto
  show ?thesis
    by (simp add: CStreamPipeline_def initial_stream_def poll_request_def GetPacketType_def on_thread_def extern_def
        cmd_defs 1 2 3 4)
qed

text \<open>a chunk whose size field is over 32000 overruns the array it is copied into.\<close>

theorem stream_oversized_chunk_undefined:
  assumes "x_read_socket_buffer env (client_socket s) (sizeof_chunk P + 5000) (world (thr s)) = (Inr b, w')"
    and "c = zero_padded (sizeof_chunk P + 5000) b" and "buffer_type c = 4" and "packet_seq_num P c \<le> 10"
    and "32000 < buffer_size P c"
  shows "fst (transfer_round env P s) = Inl (Undefined OutOfBounds)"
  using assms
  by (simp add: transfer_round_def read_socket_buffer_def on_thread_def extern_def cmd_defs Let_def)

definition sample_payload :: payload where
  "sample_payload = \<lparr>make_ack = ''ack'', make_eof = ''eof'', sizeof_meta = 8, sizeof_chunk = 12,
     packet_seq_num = (\<lambda>b. int (le_value (take 4 (drop 4 b)))), buffer_size = (\<lambda>b. int (le_value (take 4 (drop 8 b)))),
     buffer_offset = 12\<rparr>"

text \<open>A client that has hung up, and one whose packets are all the same.\<close>

definition scripted_stream :: "string \<Rightarrow> script stream_env" where
  "scripted_stream b = env.extend (scripted\<lparr>x_receive := (\<lambda>k w. (Inr [], w))\<rparr>)
     \<lparr>x_read_socket_buffer = (\<lambda>k n w. (Inr b, w)), x_fwrite = (\<lambda>u b w. ((length b, 0), w)), x_fclose = (\<lambda>u w. (length u, w))\<rparr>"

lemma stream_hangup_undefined_witness:
  "fst (CStreamPipeline (scripted_stream []) sample_payload True 1 (initial_stream ([], []))) = Inl (Undefined OutOfBounds)"
  unfolding One_nat_def
  by (rule stream_hangup_undefined) (simp_all add: scripted_stream_def env.defs scripted_def)

lemma stream_oversized_chunk_undefined_witness:
  "fst (transfer_round (scripted_stream (le_bytes 4 4 @ le_bytes 4 1 @ le_bytes 4 40000)) sample_payload
     (initial_stream ([], []))) = Inl (Undefined OutOfBounds)"
  by (rule stream_oversized_chunk_undefined [where b = "le_bytes 4 4 @ le_bytes 4 1 @ le_bytes 4 40000"])
    (auto simp: scripted_stream_def env.defs initial_stream_def sample_payload_def buffer_type_def zero_padded_def
      to_int32_def le_value_bytes)

text \<open>A transfer of a file of two bytes, over a disk that works.\<close>

abbreviation int32 :: "char \<Rightarrow> string" where
  "int32 c \<equiv> [c, nul, nul, nul]"

definition data_of_two :: string where
  "data_of_two = int32 CHR 0x04 @ int32 nul @ int32 CHR 0x02 @ ''hi''"

definition scripted_transfer :: "script stream_env" where
  "scripted_transfer = env.extend scripted
     \<lparr>x_read_socket_buffer = (\<lambda>k n. scripted_receive k), x_fwrite = (\<lambda>u b w. ((length b, 0), w)),
      x_fclose = (\<lambda>u w. (length u, w))\<rparr>"

lemma scripted_disk: "disk_works scripted_transfer"
  by (simp add: disk_works_def scripted_transfer_def env.defs)

text \<open>What is read at the front of the large buffer is read in the packet.\<close>

lemma take_zero_padded: "k \<le> n \<Longrightarrow> take k (zero_padded n b) = zero_padded k b"
  by (intro nth_equalityI) (auto simp: packet_byte_padded)

lemma take_drop_zero_padded: "i + k \<le> n \<Longrightarrow> take k (drop i (zero_padded n b)) = zero_padded k (drop i b)"
  by (intro nth_equalityI) (auto simp: packet_byte_padded, auto simp: packet_byte_def)

lemma zero_padded_small:
  "zero_padded 4 (a # b # c # d # xs) = [a, b, c, d]" "zero_padded 2 [a, b] = [a, b]"
  by (simp_all add: zero_padded_def)

lemma transfer_runs:
  "\<exists>s. CStreamPipeline scripted_transfer sample_payload True (Suc (Suc (Suc 0)))
     (initial_stream ([int32 CHR 0x01, int32 CHR 0x03 @ int32 nul, data_of_two, int32 CHR 0x05], [])) = (Inr False, s)
   \<and> packets (tr s) = [data_of_two, int32 CHR 0x05] \<and> \<not> fp s"
  by (simp add: CStreamPipeline_def initial_stream_def poll_request_def GetPacketType_def on_thread_def extern_def
      cmd_defs scripted_transfer_def env.defs scripted_def sample_payload_def send_to_client_def data_of_two_def
      SendAcknowledgement_def transfer_round_def read_socket_buffer_def take_zero_padded take_drop_zero_padded buffer_type_def
      fwrite_def fclose_def chunk_data_def Let_def zero_padded_small byte_def to_int32_def int_add_def)

lemma two_is_data:
  "data_packet sample_payload data_of_two" "\<not> data_packet sample_payload (int32 CHR 0x05)"
  "packet_data sample_payload data_of_two = ''hi''"
  by (simp_all add: data_packet_def is_chunk_def packet_byte_def data_size_def sequence_number_def read_size_def
      sample_payload_def take_drop_zero_padded zero_padded_small data_of_two_def packet_data_def byte_def upt_rec)

lemma stream_stores_chunks_witness:
  "\<exists>s. CStreamPipeline scripted_transfer sample_payload True (Suc (Suc (Suc 0)))
     (initial_stream ([int32 CHR 0x01, int32 CHR 0x03 @ int32 nul, data_of_two, int32 CHR 0x05], [])) = (Inr False, s)
   \<and> dest s = Some ''hi''"
proof -
  obtain s where run: "CStreamPipeline scripted_transfer sample_payload True (Suc (Suc (Suc 0)))
     (initial_stream ([int32 CHR 0x01, int32 CHR 0x03 @ int32 nul, data_of_two, int32 CHR 0x05], [])) = (Inr False, s)"
    and s: "packets (tr s) = [data_of_two, int32 CHR 0x05]" "\<not> fp s"
    using transfer_runs by blast
  have "file_state scripted_transfer sample_payload True s"
    using stream_stores_chunks [where w = "([int32 CHR 0x01, int32 CHR 0x03 @ int32 nul, data_of_two, int32 CHR 0x05], [])",
        of scripted_transfer sample_payload True "Suc (Suc (Suc 0))"]
    unfolding wp_def run by simp
  then have "dest s = Some ''hi''"
    using s by (auto simp: file_state_def file_bytes_def scripted_disk stored_def two_is_data split: option.splits)
  with run show ?thesis by blast
qed

end
