(* ===== verification/Libuv_Pipeline.thy ===== *)
theory Libuv_Pipeline
  imports Proxy_Runtime Other_Handlers Scripted_World
begin

text \<open>
  \<open>ClickHouseLibuvPipeline\<close> (\<open>src/pipeline-plugins/ClickHouseLibuvPipeline.cpp\<close>): a relay
  driven by the callbacks of libuv. The plug-in starts the connection; from then on libuv's loop
  calls \<open>on_target_connected\<close> once and \<open>on_read\<close> for every read. The loop is not part of the
  repository: it is a step relation that calls the code's callbacks, at any time libuv's
  documentation allows, with any data.
\<close>

section \<open>The state of a connection\<close>

datatype uv_event =
    Uv_Connect endpoint
  | Uv_Read_Start side
  | Uv_Write side string
  | Uv_Close side

text \<open>
  What the pipeline gets from \<open>malloc\<close>, and the pair of handles it was given, which it may free.
\<close>

datatype block = Pair | Connection_Data | Connect_Req | Read_Buffer nat

text \<open>
  A write request of \<open>on_read\<close> is a local variable: it is named by the call that holds it.
\<close>

record 'w uv_conn =
  uv_thread :: "'w thread"
  calls :: "uv_event list"
  connecting :: bool      \<comment> \<open>\<open>uv_tcp_connect\<close> was called and has not called back\<close>
  reading :: "side set"   \<comment> \<open>\<open>uv_read_start\<close> was called\<close>
  closed :: "side set"    \<comment> \<open>\<open>uv_close\<close> was called\<close>
  heap :: "block set"     \<comment> \<open>allocated and not freed\<close>
  buffers :: nat          \<comment> \<open>read buffers allocated so far\<close>
  reads :: "(block option \<times> int) list"  \<comment> \<open>the buffer and the length of every call of \<open>on_read\<close>\<close>
  active :: "nat option"  \<comment> \<open>the call of \<open>on_read\<close> that is running\<close>
  arrived :: "(side \<times> string \<times> string) list"  \<comment> \<open>of every read: its side, its data, what the buffer held behind them\<close>
  in_flight :: "(side \<times> nat) list" \<comment> \<open>the write requests libuv still holds, each with its call, oldest first\<close>

definition uv_call :: "uv_event \<Rightarrow> ('w uv_conn, unit) cmd" where
  "uv_call e = updM (\<lambda>s. s\<lparr>calls := calls s @ [e]\<rparr>)"

definition uv_close :: "side \<Rightarrow> ('w uv_conn, unit) cmd" where
  "uv_close d = seqM (uv_call (Uv_Close d)) (updM (\<lambda>s. s\<lparr>closed := insert d (closed s)\<rparr>))"

definition uv_read_start :: "side \<Rightarrow> ('w uv_conn, unit) cmd" where
  "uv_read_start d = seqM (uv_call (Uv_Read_Start d)) (updM (\<lambda>s. s\<lparr>reading := insert d (reading s)\<rparr>))"

text \<open>
  \<open>uv_write\<close> appends the request, here a variable of the running call, to those the stream still
  holds. Requests of calls that have returned are gone: linking a new one to them is a use of a
  dangling pointer.
\<close>

definition dangling :: "side \<Rightarrow> 'w uv_conn \<Rightarrow> bool" where
  "dangling d s \<longleftrightarrow> list_ex (\<lambda>(e, f). e = d \<and> active s \<noteq> Some f) (in_flight s)"

definition uv_write :: "side \<Rightarrow> string \<Rightarrow> ('w uv_conn, unit) cmd" where
  "uv_write d bytes = bindM (getM (dangling d)) (\<lambda>gone.
     if gone then failM (Undefined DanglingPointer)
     else seqM (uv_call (Uv_Write d bytes))
       (updM (\<lambda>s. s\<lparr>in_flight := in_flight s @ (case active s of None \<Rightarrow> [] | Some f \<Rightarrow> [(d, f)])\<rparr>)))"

text \<open>\<open>malloc\<close>, which may fail, and \<open>free\<close>, which ignores the null pointer.\<close>

definition malloc :: "bool \<Rightarrow> block \<Rightarrow> ('w uv_conn, block option) cmd" where
  "malloc ok b = (if ok then seqM (updM (\<lambda>s. s\<lparr>heap := insert b (heap s)\<rparr>)) (retM (Some b)) else retM None)"

definition free :: "block option \<Rightarrow> ('w uv_conn, unit) cmd" where
  "free p = (case p of None \<Rightarrow> retM () | Some b \<Rightarrow>
     bindM (getM (\<lambda>s. b \<in> heap s)) (\<lambda>allocated.
       if allocated then updM (\<lambda>s. s\<lparr>heap := heap s - {b}\<rparr>) else failM (Undefined DoubleFree)))"

definition on_uv :: "('w thread, 'a) cmd \<Rightarrow> ('w uv_conn, 'a) cmd" where
  "on_uv m s = (case m (uv_thread s) of (r, t) \<Rightarrow> (r, s\<lparr>uv_thread := t\<rparr>))"

section \<open>The callbacks\<close>

text \<open>A \<open>uv_buf_t\<close>: the base, null when the allocation failed, and the length.\<close>

definition on_alloc :: "bool \<Rightarrow> nat \<Rightarrow> ('w uv_conn, block option \<times> nat) cmd" where
  "on_alloc ok suggested_size =
     bindM (getM (\<lambda>s. Read_Buffer (buffers s))) (\<lambda>b.
     seqM (updM (\<lambda>s. s\<lparr>buffers := Suc (buffers s)\<rparr>))
     (bindM (malloc ok b) (\<lambda>base. retM (base, suggested_size))))"

text \<open>
  \<open>buf->base\<close> is passed where a \<open>std::string\<close> is expected: the string ends at the first NUL of
  the allocated area, whose \<open>nread\<close> bytes of data are followed by what \<open>malloc\<close> left there.
\<close>

definition c_string :: "string \<Rightarrow> string res" where
  "c_string area = (if nul \<in> set area then Inr (takeWhile (\<lambda>c. c \<noteq> nul) area) else Inl (Undefined OutOfBounds))"

definition other_side :: "side \<Rightarrow> side" where
  "other_side d = (case d of Client \<Rightarrow> Target | Target \<Rightarrow> Client)"

text \<open>The local variables of a call exist until it returns, and no longer.\<close>

definition in_call :: "('w uv_conn, 'a) cmd \<Rightarrow> ('w uv_conn, 'a) cmd" where
  "in_call m s = (case m (s\<lparr>active := Some (length (reads s))\<rparr>) of (r, s') \<Rightarrow> (r, s'\<lparr>active := None\<rparr>))"

text \<open>
  \<open>stream\<close> is the side that was read, \<open>base\<close> the buffer and \<open>area\<close> the memory it points to;
  the execution context is a new one in every call.
\<close>

definition on_read :: "'w proxy_handler \<Rightarrow> side \<Rightarrow> int \<Rightarrow> block option \<Rightarrow> string \<Rightarrow> ('w uv_conn, unit) cmd" where
  "on_read h stream nread base area =
     seqM (on_uv (updM (\<lambda>t. t\<lparr>ctx := Map.empty\<rparr>)))
     (seqM
       (if nread < 0 then seqM (uv_close Client) (seqM (uv_close Target) (free base))
        else if nread > 0 then
          bindM (resM (c_string area)) (\<lambda>text.
          bindM (on_uv (case stream of
              Client \<Rightarrow> HandleUpstreamData h text nread
            | Target \<Rightarrow> HandleDownStreamData h text nread)) (\<lambda>response.
          seqM (uv_write (other_side stream) response) (free base)))
        else retM ())
       (updM (\<lambda>s. s\<lparr>reads := reads s @ [(base, nread)]\<rparr>)))"

definition on_target_connected :: "int \<Rightarrow> ('w uv_conn, unit) cmd" where
  "on_target_connected status =
     (if status < 0 then seqM (uv_close Client) (free (Some Connect_Req))
      else seqM (uv_read_start Client) (uv_read_start Target))"

section \<open>The plug-in\<close>

text \<open>
  \<open>gethostbyname\<close> is a parameter, and so is whether the two allocations succeed. The first one is
  not checked: its result is written through. When \<open>gethostbyname\<close> fails, the code throws, catches
  and logs, and then uses the null pointer.
\<close>

definition ClickHouseLibuvPipeline ::
    "'w env \<Rightarrow> (string \<Rightarrow> string option) \<Rightarrow> bool \<times> bool \<Rightarrow> 'w proxy_handler option \<Rightarrow> ('w uv_conn, unit) cmd" where
  "ClickHouseLibuvPipeline env gethostbyname enough_memory handler =
     (case handler of None \<Rightarrow> retM () | Some h \<Rightarrow>
        bindM (malloc (fst enough_memory) Connection_Data) (\<lambda>connection_data.
        seqM (if connection_data = None then failM (Undefined NullPointer) else retM ())
        (bindM (on_uv (request_server env)) (\<lambda>target_endpoint.
          case gethostbyname (ipaddress target_endpoint) of
            None \<Rightarrow> failM (Undefined NullPointer)
          | Some ip_address \<Rightarrow>
              bindM (malloc (snd enough_memory) Connect_Req) (\<lambda>connect_req.
                if connect_req = None then seqM (uv_close Client) (free (Some Pair))
                else
                  seqM (uv_call (Uv_Connect (target_endpoint\<lparr>ipaddress := ip_address\<rparr>)))
                    (updM (\<lambda>s. s\<lparr>connecting := True\<rparr>)))))))"

definition initial_uv :: "'w \<Rightarrow> 'w uv_conn" where
  "initial_uv w = \<lparr>uv_thread = \<lparr>world = w, ctx = Map.empty, trace = []\<rparr>, calls = [], connecting = False,
     reading = {}, closed = {}, heap = {Pair}, buffers = 0, reads = [], active = None, arrived = [], in_flight = []\<rparr>"

section \<open>libuv's loop\<close>

text \<open>
  What libuv documents: the connect callback comes once; reads are reported for handles that were
  started and not closed, into a buffer that \<open>on_alloc\<close> was asked for. A negative length is an
  error or the end, a positive one that of the data, and without memory no data are reported. A
  write request is used until the write is done. Steps are callbacks that return.
\<close>

definition finish_write :: "('w uv_conn, unit) cmd" where
  "finish_write = bindM (getM in_flight) (\<lambda>q. case q of [] \<Rightarrow> retM () | (_, f) # rest \<Rightarrow>
     bindM (getM active) (\<lambda>a. if a = Some f then updM (\<lambda>s. s\<lparr>in_flight := rest\<rparr>)
       else failM (Undefined DanglingPointer)))"

definition deliver ::
    "'w proxy_handler \<Rightarrow> bool \<Rightarrow> side \<Rightarrow> int \<Rightarrow> string \<Rightarrow> ('w uv_conn, unit) cmd" where
  "deliver h ok d nread area =
     seqM (whenM (nread > 0) (updM (\<lambda>s. s\<lparr>arrived := arrived s @ [(d, take (nat nread) area, drop (nat nread) area)]\<rparr>)))
     (bindM (on_alloc ok (length area)) (\<lambda>(base, len). in_call (on_read h d nread base area)))"

inductive uv_step :: "'w proxy_handler \<Rightarrow> 'w uv_conn \<Rightarrow> 'w uv_conn \<Rightarrow> bool" for h where
  connect: "uv_step h s s'"
    if "connecting s" and "on_target_connected status (s\<lparr>connecting := False\<rparr>) = (Inr (), s')"
| read: "uv_step h s s'"
    if "d \<in> reading s" and "d \<notin> closed s" and "nread \<le> (if ok then int (length area) else 0)"
      and "deliver h ok d nread area s = (Inr (), s')"
| finish: "uv_step h s s'" if "finish_write s = (Inr (), s')"

inductive uv_reachable :: "'w proxy_handler \<Rightarrow> 'w uv_conn \<Rightarrow> 'w uv_conn \<Rightarrow> bool" for h s where
  start: "uv_reachable h s s"
| step: "uv_reachable h s u \<Longrightarrow> uv_step h u v \<Longrightarrow> uv_reachable h s v"

section \<open>Invariants\<close>

text \<open>No handle is used after it was closed, and none is closed twice (libuv aborts on both).\<close>

fun uv_ok :: "side set \<Rightarrow> uv_event list \<Rightarrow> bool" where
  "uv_ok C [] = True"
| "uv_ok C (Uv_Connect _ # es) = uv_ok C es"
| "uv_ok C (Uv_Read_Start d # es) = (d \<notin> C \<and> uv_ok C es)"
| "uv_ok C (Uv_Write d _ # es) = (d \<notin> C \<and> uv_ok C es)"
| "uv_ok C (Uv_Close d # es) = (d \<notin> C \<and> uv_ok (insert d C) es)"

fun closes :: "uv_event \<Rightarrow> side set" where
  "closes (Uv_Close d) = {d}"
| "closes _ = {}"

definition all_closed :: "uv_event list \<Rightarrow> side set" where
  "all_closed es = (\<Union>e \<in> set es. closes e)"

lemma all_closed_simps [simp]:
  "all_closed [] = {}"
  "all_closed (e # es) = closes e \<union> all_closed es"
  "all_closed (es @ fs) = all_closed es \<union> all_closed fs"
  by (auto simp: all_closed_def)

lemma uv_ok_append [simp]: "uv_ok C (es @ fs) = (uv_ok C es \<and> uv_ok (C \<union> all_closed es) fs)"
  by (induction C es rule: uv_ok.induct) auto

text \<open>A chunk was written.\<close>

definition written :: "uv_event list \<Rightarrow> string set" where
  "written es = {b. \<exists>d. Uv_Write d b \<in> set es}"

lemma written_simps [simp]:
  "written [] = {}"
  "written (es @ fs) = written es \<union> written fs"
  "written (e # es) = (case e of Uv_Write d b \<Rightarrow> {b} | _ \<Rightarrow> {}) \<union> written es"
  by (auto simp: written_def split: uv_event.split)

definition uv_inv :: "'w uv_conn \<Rightarrow> bool" where
  "uv_inv s \<longleftrightarrow> uv_ok {} (calls s) \<and> all_closed (calls s) = closed s
     \<and> (connecting s \<longrightarrow> reading s = {} \<and> closed s = {})
     \<and> (closed s = {} \<or> closed s = {Client, Target} \<or> reading s = {})"

lemma wp_on_uv: "wp (on_uv m) Q E s = wp m (\<lambda>a t. Q a (s\<lparr>uv_thread := t\<rparr>)) (\<lambda>f t. E f (s\<lparr>uv_thread := t\<rparr>)) (uv_thread s)"
  by (simp add: wp_def on_uv_def split: prod.split sum.split)

lemmas uv_defs = uv_call_def uv_close_def uv_read_start_def uv_write_def malloc_def free_def

lemma wp_in_call:
  "wp (in_call m) Q E s = wp m (\<lambda>a s'. Q a (s'\<lparr>active := None\<rparr>)) (\<lambda>f s'. E f (s'\<lparr>active := None\<rparr>))
     (s\<lparr>active := Some (length (reads s))\<rparr>)"
  by (simp add: wp_def in_call_def split: prod.split sum.split)

lemma uv_inv_start:
  "wp (ClickHouseLibuvPipeline env gethostbyname m handler) (\<lambda>_. uv_inv) (\<lambda>_. uv_inv) (initial_uv w)"
  by (auto simp: ClickHouseLibuvPipeline_def uv_defs wp_simps wp_on_uv request_server_def initial_uv_def uv_inv_def
      split: option.split sum.split prod.split)

lemma uv_inv_connect:
  assumes "uv_inv s" and "connecting s"
  shows "wp (on_target_connected status) (\<lambda>_. uv_inv) (\<lambda>_. uv_inv) (s\<lparr>connecting := False\<rparr>)"
  using assms by (auto simp: on_target_connected_def uv_defs wp_simps uv_inv_def)

lemma uv_inv_read:
  assumes "uv_inv s" and "d \<in> reading s" and "d \<notin> closed s"
  shows "wp (deliver h ok d nread area) (\<lambda>_. uv_inv) (\<lambda>_ _. True) s"
proof -
  have open_handles: "closed s = {}" using assms by (cases d) (auto simp: uv_inv_def)
  show ?thesis
    using assms(1,2) open_handles
    unfolding deliver_def on_alloc_def on_read_def uv_defs
    by (auto simp: wp_simps wp_on_uv wp_in_call uv_inv_def wp_def [of "HandleUpstreamData _ _ _"]
        wp_def [of "HandleDownStreamData _ _ _"] split: sum.split prod.split side.split option.split)
qed

end
