(* ===== verification/Libuv_Safety.thy ===== *)
theory Libuv_Safety
  imports Libuv_Pipeline Handler_Family
begin

text \<open>
  What holds of every run of the libuv pipeline: handles are used only while open, data does not
  get through whole, read buffers are freed once unless the read was empty, and the write requests
  are gone before libuv has finished with them.
\<close>

section \<open>Handles\<close>

inductive_cases uv_stepE: "uv_step h s s'"

lemma wp_result: "wp m Q E s \<Longrightarrow> m s = (Inr a, s') \<Longrightarrow> Q a s'"
  by (simp add: wp_def)

lemma uv_inv_finish: "uv_inv s \<Longrightarrow> wp finish_write (\<lambda>_. uv_inv) (\<lambda>_ _. True) s"
  by (auto simp: finish_write_def wp_simps uv_inv_def split: list.split)

lemma uv_inv_step: "uv_step h s s' \<Longrightarrow> uv_inv s \<Longrightarrow> uv_inv s'"
  by (auto elim!: uv_stepE dest: wp_result [OF uv_inv_connect] wp_result [OF uv_inv_read] wp_result [OF uv_inv_finish])

lemma uv_inv_reachable: "uv_reachable h s u \<Longrightarrow> uv_inv s \<Longrightarrow> uv_inv u"
  by (induction rule: uv_reachable.induct) (auto intro: uv_inv_step)

text \<open>C22: in every run of the libuv pipeline, whatever the order of the callbacks, no handle is
  used after it was closed and none is closed twice.\<close>

theorem libuv_handles_used_while_open:
  assumes "ClickHouseLibuvPipeline env gethostbyname m (Some h) (initial_uv w) = (Inr (), s)" and "uv_reachable h s u"
  shows "uv_ok {} (calls u)"
  using uv_inv_reachable [OF assms(2)] wp_result [OF uv_inv_start assms(1)] by (simp add: uv_inv_def)

section \<open>Data\<close>

definition cut_at_nul :: "'w uv_conn \<Rightarrow> bool" where
  "cut_at_nul s \<longleftrightarrow> (\<forall>b \<in> written (calls s). nul \<notin> set b)"

lemma c_string_no_nul: "c_string area = Inr b \<Longrightarrow> nul \<notin> set b"
  by (auto simp: c_string_def dest: set_takeWhileD split: if_splits)

context transparent_handler
begin

lemma read_cuts:
  assumes "cut_at_nul s"
  shows "wp (deliver h ok d nread area) (\<lambda>_. cut_at_nul) (\<lambda>_ _. True) s"
proof -
  have up: "wp (HandleUpstreamData h b n) (\<lambda>a t. nul \<notin> set a) (\<lambda>_ _. True) t" if "nul \<notin> set b" for b n t
    by (rule wp_mono [OF up_same]) (use that in auto)
  have down: "wp (HandleDownStreamData h b n) (\<lambda>a t. nul \<notin> set a) (\<lambda>_ _. True) t" if "nul \<notin> set b" for b n t
    by (rule wp_mono [OF down_same]) (use that in auto)
  show ?thesis
    using assms
    by (auto simp: deliver_def on_alloc_def on_read_def uv_defs wp_simps wp_on_uv wp_in_call cut_at_nul_def
        dest!: c_string_no_nul intro!: wp_mono [OF up] wp_mono [OF down] split: sum.split side.split option.split)
qed

lemma step_cuts: "uv_step h s s' \<Longrightarrow> cut_at_nul s \<Longrightarrow> cut_at_nul s'"
proof (erule uv_stepE)
  fix status assume "on_target_connected status (s\<lparr>connecting := False\<rparr>) = (Inr (), s')" and "cut_at_nul s"
  then show "cut_at_nul s'"
    by (auto simp: on_target_connected_def uv_defs cut_at_nul_def cmd_defs split: if_splits)
next
  assume "finish_write s = (Inr (), s')" and "cut_at_nul s"
  then show "cut_at_nul s'"
    by (auto simp: finish_write_def cmd_defs cut_at_nul_def split: list.splits if_splits)
qed (auto dest: wp_result [OF read_cuts])

lemma reachable_cuts: "uv_reachable h s u \<Longrightarrow> cut_at_nul s \<Longrightarrow> cut_at_nul u"
  by (induction rule: uv_reachable.induct) (auto intro: step_cuts)

end

text \<open>behind a handler that forwards verbatim, the libuv pipeline never sends a zero byte:
  every chunk read is cut at its first one, so no binary protocol gets through.\<close>

theorem libuv_never_forwards_nul:
  assumes "parser_frame P" and "h \<in> verbatim_handlers env J R H P"
    and "ClickHouseLibuvPipeline env gethostbyname m (Some h) (initial_uv w) = (Inr (), s)"
    and "uv_reachable h s u" and "b \<in> written (calls u)"
  shows "nul \<notin> set b"
proof -
  have "wp (ClickHouseLibuvPipeline env gethostbyname m (Some h)) (\<lambda>_. cut_at_nul) (\<lambda>_ _. True) (initial_uv w)"
    by (auto simp: ClickHouseLibuvPipeline_def uv_defs wp_simps wp_on_uv request_server_def initial_uv_def cut_at_nul_def
        split: option.split sum.split prod.split)
  note cut = wp_result [OF this assms(3)]
  from transparent_handler.reachable_cuts [OF verbatim_transparent [OF assms(1,2)] assms(4) cut] assms(5)
  show ?thesis by (simp add: cut_at_nul_def)
qed

section \<open>The relay\<close>

text \<open>
  What becomes of a chunk: it is read as a C string, so it ends at its first zero byte, and without
  one goes on with what lies behind it in the buffer, up to the first zero byte there.
\<close>

fun relayed :: "string \<times> string \<Rightarrow> string" where
  "relayed (data, behind) = takeWhile (\<lambda>c. c \<noteq> nul) (data @ behind)"

definition arrived_from :: "side \<Rightarrow> 'w uv_conn \<Rightarrow> (string \<times> string) list" where
  "arrived_from d s = map snd (List.filter (\<lambda>x. fst x = d) (arrived s))"

fun writes1 :: "side \<Rightarrow> uv_event \<Rightarrow> string list" where
  "writes1 d (Uv_Write e b) = (if e = d then [b] else [])"
| "writes1 d _ = []"

definition writes_to :: "side \<Rightarrow> uv_event list \<Rightarrow> string list" where
  "writes_to d es = concat (map (writes1 d) es)"

lemma writes_to_simps [simp]:
  "writes_to d [] = []" "writes_to d (e # es) = writes1 d e @ writes_to d es"
  "writes_to d (es @ fs) = writes_to d es @ writes_to d fs"
  by (simp_all add: writes_to_def)

text \<open>
  Every chunk of either side has become one write to the other, in order; and as a write leaves a
  request behind that dangles when its call has returned, there is at most one in a direction.
\<close>

definition relays_chunks :: "'w uv_conn \<Rightarrow> bool" where
  "relays_chunks s \<longleftrightarrow> active s = None
     \<and> (\<forall>d. writes_to (other_side d) (calls s) = map relayed (arrived_from d s))
     \<and> (\<forall>d. length (writes_to d (calls s)) \<le> 1 \<and> (writes_to d (calls s) \<noteq> [] \<longrightarrow> (\<exists>f < length (reads s). (d, f) \<in> set (in_flight s))))"

lemma c_string_relayed: "c_string area = Inr text \<Longrightarrow> text = relayed (take n area, drop n area)"
  by (simp add: c_string_def split: if_splits)

context transparent_handler
begin

lemma read_relays:
  assumes "relays_chunks s"
  shows "wp (deliver h ok d nread area) (\<lambda>_. relays_chunks) (\<lambda>_ _. True) s"
proof -
  have up: "wp (HandleUpstreamData h b n) Q (\<lambda>_ _. True) t" if "\<And>t. Q b t" for Q b n t
    by (rule wp_mono [OF up_same]) (use that in auto)
  have down: "wp (HandleDownStreamData h b n) Q (\<lambda>_ _. True) t" if "\<And>t. Q b t" for Q b n t
    by (rule wp_mono [OF down_same]) (use that in auto)
  have first: "writes_to e (calls s) = []"
    if "\<not> list_ex (\<lambda>(e', f). e' = e \<and> length (reads s) \<noteq> f) (in_flight s)" for e
    using that assms by (fastforce simp: relays_chunks_def list_ex_iff)
  have more: "\<exists>f < Suc (length (reads s)). (e, f) \<in> set (in_flight s)" if "writes_to e (calls s) \<noteq> []" for e
    using that assms by (auto simp: relays_chunks_def less_Suc_eq)
  note up down
  show ?thesis
    using assms
    by (cases d) (auto simp: deliver_def on_alloc_def on_read_def uv_defs wp_simps wp_on_uv wp_in_call relays_chunks_def
        arrived_from_def other_side_def dangling_def first intro!: up down dest!: c_string_relayed [where n = "nat nread"]
        dest: more less_SucI split: sum.split option.split side.split)
qed

lemma step_relays: "uv_step h s s' \<Longrightarrow> relays_chunks s \<Longrightarrow> relays_chunks s'"
proof (erule uv_stepE)
  fix status assume "on_target_connected status (s\<lparr>connecting := False\<rparr>) = (Inr (), s')" and "relays_chunks s"
  then show "relays_chunks s'"
    by (auto simp: on_target_connected_def uv_defs relays_chunks_def arrived_from_def dangling_def cmd_defs split: if_splits)
next
  assume "finish_write s = (Inr (), s')" and "relays_chunks s"
  then show "relays_chunks s'"
    by (auto simp: finish_write_def cmd_defs relays_chunks_def arrived_from_def dangling_def split: list.splits if_splits)
qed (auto dest: wp_result [OF read_relays])

lemma reachable_relays: "uv_reachable h s u \<Longrightarrow> relays_chunks s \<Longrightarrow> relays_chunks u"
  by (induction rule: uv_reachable.induct) (auto intro: step_relays)

end

text \<open>C38: In every defined run of the libuv pipeline behind a verbatim handler, every chunk that
  arrived from a side has become exactly one write to the other: the bytes up to the first zero
  byte in it or, without one in it, in the buffer behind it. And in each direction there is at most
  one: a second write would use the request of the first one, which is gone.\<close>

theorem libuv_relays_chunks:
  assumes "parser_frame P" and "h \<in> verbatim_handlers env J R H P"
    and "ClickHouseLibuvPipeline env gethostbyname m (Some h) (initial_uv w) = (Inr (), s)"
    and "uv_reachable h s u"
  shows "writes_to Target (calls u) = map relayed (arrived_from Client u)
    \<and> writes_to Client (calls u) = map relayed (arrived_from Target u)
    \<and> length (arrived_from Client u) \<le> 1 \<and> length (arrived_from Target u) \<le> 1"
proof -
  have "wp (ClickHouseLibuvPipeline env gethostbyname m (Some h)) (\<lambda>_. relays_chunks) (\<lambda>_ _. True) (initial_uv w)"
    by (auto simp: ClickHouseLibuvPipeline_def uv_defs wp_simps wp_on_uv request_server_def initial_uv_def
        relays_chunks_def arrived_from_def split: option.split sum.split prod.split)
  note start = wp_result [OF this assms(3)]
  have "relays_chunks u"
    by (rule transparent_handler.reachable_relays [OF verbatim_transparent [OF assms(1,2)] assms(4) start])
  then have eq: "writes_to (other_side d) (calls u) = map relayed (arrived_from d u)"
    and one: "length (writes_to d (calls u)) \<le> 1" for d by (auto simp: relays_chunks_def)
  show ?thesis
    using eq [of Client] eq [of Target] one [of Client] one [of Target]
    by (simp add: other_side_def)
qed

section \<open>Memory\<close>

text \<open>Every call of \<open>on_read\<close> had its buffer; the live ones are those of the empty reads.\<close>

definition uv_mem :: "'w uv_conn \<Rightarrow> bool" where
  "uv_mem s \<longleftrightarrow> active s = None \<and> buffers s = length (reads s) \<and> Connection_Data \<in> heap s
     \<and> (\<forall>i. Read_Buffer i \<in> heap s \<longleftrightarrow> (Some (Read_Buffer i), 0) \<in> set (reads s))
     \<and> (\<forall>i n. (Some (Read_Buffer i), n) \<in> set (reads s) \<longrightarrow> i < length (reads s))
     \<and> (in_flight s = [] \<longleftrightarrow> written (calls s) = {})"

lemma uv_mem_start: "wp (ClickHouseLibuvPipeline env gethostbyname m (Some h)) (\<lambda>_. uv_mem) (\<lambda>_ _. True) (initial_uv w)"
  by (auto simp: ClickHouseLibuvPipeline_def uv_defs wp_simps wp_on_uv request_server_def initial_uv_def uv_mem_def
      split: option.split sum.split prod.split)

lemma uv_mem_connect:
  assumes "uv_mem s"
  shows "wp (on_target_connected status) (\<lambda>_. uv_mem) (\<lambda>_ _. True) (s\<lparr>connecting := False\<rparr>)"
  using assms by (auto simp: on_target_connected_def uv_defs wp_simps uv_mem_def)

lemma uv_mem_finish: "uv_mem s \<Longrightarrow> wp finish_write (\<lambda>_. uv_mem) (\<lambda>_ _. True) s"
  by (auto simp: finish_write_def wp_simps uv_mem_def split: list.split)

lemma uv_mem_read:
  assumes "uv_mem s"
  shows "wp (deliver h ok d nread area) (\<lambda>_. uv_mem) (\<lambda>_ _. True) s"
proof -
  have fresh: "Read_Buffer (length (reads s)) \<notin> heap s" "(Some (Read_Buffer (length (reads s))), n) \<notin> set (reads s)" for n
    using assms by (auto simp: uv_mem_def)
  have later: "(Some (Read_Buffer i), n) \<in> set (reads s) \<Longrightarrow> i < Suc (length (reads s))" for i n
    using assms by (auto simp: uv_mem_def less_Suc_eq)
  show ?thesis
    using assms fresh later
    unfolding deliver_def on_alloc_def on_read_def uv_defs
    by (auto simp: wp_simps wp_on_uv wp_in_call uv_mem_def wp_def [of "HandleUpstreamData _ _ _"]
        wp_def [of "HandleDownStreamData _ _ _"] split: sum.split prod.split side.split option.split)
qed

lemma uv_mem_reachable: "uv_reachable h s u \<Longrightarrow> uv_mem s \<Longrightarrow> uv_mem u"
proof (induction rule: uv_reachable.induct)
  case (step u v)
  from step.hyps(2) step.IH [OF step.prems] show ?case
    by (auto elim!: uv_stepE dest: wp_result [OF uv_mem_connect] wp_result [OF uv_mem_read] wp_result [OF uv_mem_finish])
qed simp

lemmas uv_mem_of_run = uv_mem_reachable [OF _ wp_result [OF uv_mem_start]]

text \<open>C39: in every run of the libuv pipeline the read buffers still allocated are exactly those of
  the reads that delivered nothing: \<open>on_read\<close> frees every other one, and no buffer twice. The data
  of the connection are never freed.\<close>

theorem libuv_buffers_of_empty_reads_leak:
  assumes "ClickHouseLibuvPipeline env gethostbyname m (Some h) (initial_uv w) = (Inr (), s)" and "uv_reachable h s u"
  shows "(Read_Buffer i \<in> heap u \<longleftrightarrow> (Some (Read_Buffer i), 0) \<in> set (reads u)) \<and> Connection_Data \<in> heap u"
  using uv_mem_of_run [OF assms(2,1)] by (simp add: uv_mem_def)

text \<open>as soon as anything was relayed, libuv is left with a write request in a stack frame
  that is gone: finishing the write is a use of a dangling pointer.\<close>

theorem libuv_write_requests_dangle:
  assumes "ClickHouseLibuvPipeline env gethostbyname m (Some h) (initial_uv w) = (Inr (), s)" and "uv_reachable h s u"
    and "Uv_Write d b \<in> set (calls u)"
  shows "finish_write u = (Inl (Undefined DanglingPointer), u)"
proof -
  have "active u = None" "in_flight u \<noteq> []"
    using uv_mem_of_run [OF assms(2,1)] assms(3) by (auto simp: uv_mem_def written_def)
  then show ?thesis by (simp add: finish_write_def cmd_defs split: list.split)
qed

section \<open>A run, for examples\<close>

definition started :: "script uv_conn" where
  "started = snd (ClickHouseLibuvPipeline scripted Some (True, True) (Some BaseProxyHandler) (initial_uv ([], [])))"

definition connected :: "script uv_conn" where
  "connected = snd (on_target_connected 0 (started\<lparr>connecting := False\<rparr>))"

definition relayed_once :: "script uv_conn" where
  "relayed_once = snd (deliver BaseProxyHandler True Client 3 (''a'' @ [nul] @ ''b'') connected)"

lemma started_run: "ClickHouseLibuvPipeline scripted Some (True, True) (Some BaseProxyHandler) (initial_uv ([], [])) = (Inr (), started)"
  by (simp add: started_def ClickHouseLibuvPipeline_def uv_defs cmd_defs on_uv_def request_server_def extern_def
      initial_uv_def scripted_def)

lemmas run_defs = started_def connected_def relayed_once_def ClickHouseLibuvPipeline_def on_target_connected_def
  deliver_def on_alloc_def in_call_def on_read_def uv_defs cmd_defs on_uv_def request_server_def extern_def initial_uv_def scripted_def c_string_def
  BaseProxyHandler_def BaseProxyHandler_HandleUpstreamData_def other_side_def dangling_def

lemma relayed_once_reachable: "uv_reachable BaseProxyHandler started relayed_once"
proof (rule uv_reachable.step)
  show "uv_reachable BaseProxyHandler started connected"
    by (rule uv_reachable.step [OF uv_reachable.start], rule uv_step.connect [where status = 0])
      (simp_all add: run_defs)
  show "uv_step BaseProxyHandler connected relayed_once"
    by (rule uv_step.read [where ok = True and d = Client and nread = 3 and area = "''a'' @ [nul] @ ''b''"]) (simp_all add: run_defs)
qed

lemma libuv_handles_used_while_open_witness: "uv_ok {} (calls relayed_once)"
  by (rule libuv_handles_used_while_open [OF started_run relayed_once_reachable])

lemma libuv_buffers_of_empty_reads_leak_witness:
  "(Read_Buffer 0 \<in> heap relayed_once \<longleftrightarrow> (Some (Read_Buffer 0), 0) \<in> set (reads relayed_once))
   \<and> Connection_Data \<in> heap relayed_once"
  by (rule libuv_buffers_of_empty_reads_leak [OF started_run relayed_once_reachable])

lemma libuv_write_requests_dangle_witness:
  "finish_write relayed_once = (Inl (Undefined DanglingPointer), relayed_once)"
  by (rule libuv_write_requests_dangle [OF started_run relayed_once_reachable, of Target "''a''"])
    (simp add: run_defs)

lemma libuv_never_forwards_nul_witness:
  "''a'' \<in> written (calls relayed_once) \<and> nul \<notin> set ''a''"
proof
  show sent: "''a'' \<in> written (calls relayed_once)" by (simp add: run_defs)
  show "nul \<notin> set ''a''"
    by (rule libuv_never_forwards_nul [where J = sample_json and R = sample_readers and H = sample_http,
          OF sample_parser_frame _ started_run relayed_once_reachable sent])
      (simp add: verbatim_handlers_def)
qed

lemma libuv_relays_chunks_witness:
  "writes_to Target (calls relayed_once) = [''a''] \<and> writes_to Client (calls relayed_once) = []"
proof -
  have "arrived_from Client relayed_once = [(''a'' @ [nul] @ ''b'', [])]" "arrived_from Target relayed_once = []"
    by (simp_all add: arrived_from_def run_defs)
  then show ?thesis
    using libuv_relays_chunks [where J = sample_json and R = sample_readers and H = sample_http,
        OF sample_parser_frame _ started_run relayed_once_reachable]
    by (simp add: verbatim_handlers_def)
qed

text \<open>A second chunk from the same side makes the run undefined.\<close>

lemma second_write_dangles:
  "fst (deliver BaseProxyHandler True Client 2 (''c'' @ [nul]) relayed_once) = Inl (Undefined DanglingPointer)"
  by (simp add: run_defs)

end
