(* ===== verification/Response_Log.thy ===== *)
theory Response_Log
  imports Cxx_Prelude
begin

text \<open>
  \<open>BaseProxyHandler::LogResponse\<close> (\<open>src/BaseProxyHandler.h\<close>), which takes the text of a response
  apart to print it: status line, headers, body. No file of the repository calls it. What it
  prints is the result of the definition; \<open>LineGrabber\<close> and \<open>Utils::ChopLine\<close>, which are not part
  of the repository, are parameters. A loop over lines that never end does not return, which is
  the value \<open>None\<close>.
\<close>

section \<open>The library functions it uses\<close>

record 'g line_grabber =
  open_lines :: "string \<Rightarrow> int \<Rightarrow> 'g"
  getNextLine :: "'g \<Rightarrow> string \<times> 'g"
  isEof :: "'g \<Rightarrow> bool"

text \<open>What C functions see of a string.\<close>

definition c_str :: "string \<Rightarrow> string" where
  "c_str s = takeWhile (\<lambda>c. c \<noteq> nul) s"

definition is_space :: "char \<Rightarrow> bool" where
  "is_space c \<longleftrightarrow> c \<in> {CHR '' '', CHR 0x09, CHR 0x0A, CHR 0x0B, CHR 0x0C, CHR 0x0D}"

text \<open>\<open>sscanf\<close> with \<open>n\<close> conversions \<open>%s\<close>: the words it finds, \<open>n\<close> at most.\<close>

fun scan_words :: "nat \<Rightarrow> string \<Rightarrow> string list" where
  "scan_words 0 s = []"
| "scan_words (Suc n) s =
     (let s = dropWhile is_space s in
      if s = [] then []
      else takeWhile (\<lambda>c. \<not> is_space c) s # scan_words n (dropWhile (\<lambda>c. \<not> is_space c) s))"

section \<open>LogResponse\<close>

record response_log =
  status_line :: "string list"
  printed_headers :: "(string \<times> string) list"
  printed_body :: string

definition CRLF :: string where
  "CRLF = [CHR 0x0D, CHR 0x0A]"

text \<open>The header loop, up to an empty line (an empty C string): what is printed.\<close>

partial_function (option) header_loop ::
    "'g line_grabber \<Rightarrow> (string \<Rightarrow> (string \<times> string) res) \<Rightarrow> (string \<times> string) list \<Rightarrow> 'g \<Rightarrow>
      ((string \<times> string) list \<times> 'g) res option" where
  "header_loop G chop hs g =
     (if isEof G g then Some (Inr (hs, g))
      else case getNextLine G g of (test, g') \<Rightarrow>
        if c_str test = [] then Some (Inr (hs, g'))
        else case chop test of Inl e \<Rightarrow> Some (Inl e) | Inr h \<Rightarrow> header_loop G chop (hs @ [h]) g')"

partial_function (option) body_loop :: "'g line_grabber \<Rightarrow> string \<Rightarrow> 'g \<Rightarrow> string option" where
  "body_loop G body g =
     (if isEof G g then Some body
      else case getNextLine G g of (l, g') \<Rightarrow>
        body_loop G ((if body \<noteq> [] then body @ CRLF else body) @ l) g')"

text \<open>
  The first line is copied into 1024 bytes, whatever its length; three words are read from it into
  arrays that were not initialised.
\<close>

definition LogResponse ::
    "'g line_grabber \<Rightarrow> (string \<Rightarrow> (string \<times> string) res) \<Rightarrow> string \<Rightarrow> int \<Rightarrow> response_log res option" where
  "LogResponse G chop buffer len =
     (case getNextLine G (open_lines G buffer len) of (first_line, g) \<Rightarrow>
        if 1024 \<le> length (c_str first_line) then Some (Inl (Undefined OutOfBounds))
        else if length (scan_words 3 (c_str first_line)) < 3 then Some (Inl (Undefined Uninitialised))
        else Option.bind (header_loop G chop [] g) (\<lambda>r. case r of
            Inl e \<Rightarrow> Some (Inl e)
          | Inr (hs, g) \<Rightarrow> Option.bind (body_loop G [] g) (\<lambda>body.
              Some (Inr \<lparr>status_line = scan_words 3 (c_str first_line), printed_headers = hs,
                printed_body = body\<rparr>))))"

section \<open>What it prints\<close>

text \<open>A grabber that hands out the lines \<open>rem g\<close>, one after the other.\<close>

definition hands_out :: "'g line_grabber \<Rightarrow> ('g \<Rightarrow> string list) \<Rightarrow> bool" where
  "hands_out G rem \<longleftrightarrow> (\<forall>g. isEof G g = (rem g = []))
     \<and> (\<forall>g l ls. rem g = l # ls \<longrightarrow> fst (getNextLine G g) = l \<and> rem (snd (getNextLine G g)) = ls)"

text \<open>
  The specification of the body: its lines separated by CRLF, but for the empty lines in front, which
  are lost. The status line: the first three words; what follows them, as the rest of a longer reason
  phrase, is lost.
\<close>

definition body_text :: "string list \<Rightarrow> string" where
  "body_text ls = (case dropWhile (\<lambda>l. l = []) ls of [] \<Rightarrow> []
     | l # ls' \<Rightarrow> l @ concat (map (\<lambda>x. CRLF @ x) ls'))"

definition word :: "string \<Rightarrow> bool" where
  "word w \<longleftrightarrow> w \<noteq> [] \<and> (\<forall>c \<in> set w. \<not> is_space c)"

definition spaces :: "string \<Rightarrow> bool" where
  "spaces b \<longleftrightarrow> b \<noteq> [] \<and> (\<forall>c \<in> set b. is_space c)"

definition three_words :: "string \<Rightarrow> string list \<Rightarrow> bool" where
  "three_words l ws \<longleftrightarrow> (\<exists>w1 s1 w2 s2 w3 tail. l = w1 @ s1 @ w2 @ s2 @ w3 @ tail \<and> ws = [w1, w2, w3]
     \<and> list_all word ws \<and> spaces s1 \<and> spaces s2 \<and> (tail = [] \<or> is_space (hd tail)))"

lemma scan_word:
  assumes "word w" and "rest = [] \<or> is_space (hd rest)"
  shows "scan_words (Suc n) (w @ rest) = w # scan_words n rest"
proof -
  obtain c w' where w: "w = c # w'" "\<not> is_space c" using assms(1) by (cases w) (auto simp: word_def)
  have "takeWhile (\<lambda>c. \<not> is_space c) (w @ rest) = w" "dropWhile (\<lambda>c. \<not> is_space c) (w @ rest) = rest"
    using assms by (cases rest; auto simp: word_def takeWhile_append dropWhile_append)+
  with w show ?thesis by (simp add: Let_def)
qed

lemma scan_skips: "spaces b \<Longrightarrow> scan_words n (b @ rest) = scan_words n rest"
  by (cases n) (simp_all add: spaces_def dropWhile_append)

lemma spaces_ahead: "spaces b \<Longrightarrow> b @ rest = [] \<or> is_space (hd (b @ rest))"
  by (cases b) (auto simp: spaces_def)

lemma scan_word_spaces: "word w \<Longrightarrow> spaces b \<Longrightarrow> scan_words (Suc n) (w @ b @ rest) = w # scan_words n rest"
  by (simp only: scan_word [OF _ spaces_ahead] scan_skips)

lemma scan_three:
  assumes "three_words l ws"
  shows "scan_words 3 l = ws"
proof -
  obtain w1 s1 w2 s2 w3 tail where l: "l = w1 @ s1 @ w2 @ s2 @ w3 @ tail" "ws = [w1, w2, w3]"
    and ws: "list_all word ws" and s: "spaces s1" "spaces s2" and tail: "tail = [] \<or> is_space (hd tail)"
    using assms unfolding three_words_def by blast
  then have w: "word w1" "word w2" "word w3" by simp_all
  show ?thesis
    unfolding l numeral_3_eq_3 scan_word_spaces [OF w(1) s(1)] scan_word_spaces [OF w(2) s(2)] scan_word [OF w(3) tail]
    by simp
qed

lemma grab:
  assumes "hands_out G rem" and "rem g = l # ls"
  obtains g' where "getNextLine G g = (l, g')" "rem g' = ls" "\<not> isEof G g"
  using assms unfolding hands_out_def by (metis list.distinct(1) prod.collapse)

lemma at_end: "hands_out G rem \<Longrightarrow> rem g = [] \<Longrightarrow> isEof G g"
  by (simp add: hands_out_def)

lemma body_text_snoc: "body_text (ls @ [l]) = (if body_text ls \<noteq> [] then body_text ls @ CRLF else body_text ls) @ l"
proof (cases "dropWhile (\<lambda>l. l = []) ls")
  case Nil
  then have "dropWhile (\<lambda>l. l = []) (ls @ [l]) = (if l = [] then [] else [l])" by (simp add: dropWhile_append)
  then show ?thesis unfolding body_text_def Nil by simp
next
  case (Cons x xs)
  have "x \<noteq> []" using hd_dropWhile [of "\<lambda>l. l = []" ls] Cons by simp
  moreover have "\<not> (\<forall>x \<in> set ls. x = [])"
    using Cons dropWhile_eq_Nil_conv [of "\<lambda>l. l = []" ls] by simp
  ultimately have "dropWhile (\<lambda>l. l = []) (ls @ [l]) = x # xs @ [l]" using Cons by (simp add: dropWhile_append)
  with Cons \<open>x \<noteq> []\<close> show ?thesis by (simp add: body_text_def)
qed

lemma body_loop_lines: "hands_out G rem \<Longrightarrow> body_loop G (body_text ls) g = Some (body_text (ls @ rem g))"
proof (induction "rem g" arbitrary: ls g)
  case Nil
  with at_end [OF Nil.prems] show ?case by (simp add: body_loop.simps [of G _ g])
next
  case (Cons l ls')
  obtain g' where "getNextLine G g = (l, g')" "rem g' = ls'" "\<not> isEof G g"
    using grab [OF Cons.prems Cons.hyps(2) [symmetric]] .
  with Cons.hyps(1) [of g' "ls @ [l]"] Cons.prems Cons.hyps(2) [symmetric]
  show ?case by (simp add: body_loop.simps [of G _ g] body_text_snoc)
qed

lemma header_loop_lines:
  assumes "hands_out G rem" and "rem g = heads @ rest" and "\<forall>l \<in> set heads. c_str l \<noteq> []"
    and "rest = [] \<or> c_str (hd rest) = []" and "map chop heads = map Inr vs"
  shows "\<exists>g'. header_loop G chop hs g = Some (Inr (hs @ vs, g')) \<and> rem g' = tl rest"
  using assms(2,3,5)
proof (induction heads arbitrary: hs g vs)
  case Nil
  show ?case
  proof (cases rest)
    case Nil
    with Nil.prems at_end [OF assms(1), of g] show ?thesis
      by (simp add: header_loop.simps [of G _ hs g] )
  next
    case (Cons l ls)
    obtain g' where "getNextLine G g = (l, g')" "rem g' = ls" "\<not> isEof G g"
      using grab [OF assms(1), of g l ls] Nil.prems Cons by auto
    with Cons assms(4) Nil.prems show ?thesis by (simp add: header_loop.simps [of G _ hs g])
  qed
next
  case (Cons l heads)
  obtain v vs' where vs: "vs = v # vs'" "chop l = Inr v" "map chop heads = map Inr vs'"
    using Cons.prems(3) by (cases vs) auto
  obtain g' where g': "getNextLine G g = (l, g')" "rem g' = heads @ rest" "\<not> isEof G g"
    using grab [OF assms(1), of g l "heads @ rest"] Cons.prems by auto
  with Cons.IH [of g' vs' "hs @ [v]"] Cons.prems vs show ?case
    by (simp add: header_loop.simps [of G _ hs g])
qed

text \<open>C40: What is printed of a response whose first line has at least three words and less than 1024
  bytes: the first three words of that line (of a longer reason phrase the rest is lost), every
  header line up to the first empty one, as \<open>ChopLine\<close> takes it apart, and as the body the lines
  after it, joined by CRLF, without the empty ones in front.\<close>

lemma log_response_prints:
  assumes G: "hands_out G rem" and lines: "rem (open_lines G buffer len) = status # heads @ rest"
    and status: "length (c_str status) < 1024" "three_words (c_str status) ws"
    and heads: "\<forall>l \<in> set heads. c_str l \<noteq> []" and empty_line: "rest = [] \<or> c_str (hd rest) = []"
    and chop: "map chop heads = map Inr hs"
  shows "LogResponse G chop buffer len =
    Some (Inr \<lparr>status_line = ws, printed_headers = hs, printed_body = body_text (tl rest)\<rparr>)"
proof -
  obtain g where g: "getNextLine G (open_lines G buffer len) = (status, g)" "rem g = heads @ rest"
    using grab [OF G lines] .
  obtain g' where "header_loop G chop [] g = Some (Inr (hs, g'))" "rem g' = tl rest"
    using header_loop_lines [OF G g(2) heads empty_line chop, of "[]"] by auto
  moreover have "length ws = 3" using status(2) by (auto simp: three_words_def)
  ultimately show ?thesis
    using g status(1) body_loop_lines [OF G, of "[]" g'] scan_three [OF status(2)]
    by (simp add: LogResponse_def body_text_def [of "[]"])
qed

text \<open>
  Everything else is undefined behaviour: a first line that does not fit, or one of fewer than
  three words, such as a status line without a reason phrase.
\<close>

lemma log_response_undefined:
  assumes "hands_out G rem" and "rem (open_lines G buffer len) = status # ls"
    and "1024 \<le> length (c_str status) \<or> length (scan_words 3 (c_str status)) < 3"
  shows "\<exists>u. LogResponse G chop buffer len = Some (Inl (Undefined u))"
proof -
  obtain g where "getNextLine G (open_lines G buffer len) = (status, g)"
    using grab [OF assms(1,2)] .
  with assms(3) show ?thesis by (auto simp: LogResponse_def)
qed

definition sample_grabber :: "string list line_grabber" where
  "sample_grabber = \<lparr>open_lines = (\<lambda>b n. [''HTTP/1.1 404 Not Found'', ''Server: x'', [], [], ''a'', ''b'']),
     getNextLine = (\<lambda>g. (hd g, tl g)), isEof = (\<lambda>g. g = [])\<rparr>"

lemma sample_hands_out: "hands_out sample_grabber (\<lambda>g. g)"
  by (simp add: hands_out_def sample_grabber_def)

lemma not_found_words: "three_words ''HTTP/1.1 404 Not Found'' [''HTTP/1.1'', ''404'', ''Not'']"
  unfolding three_words_def
  by (rule exI [of _ "''HTTP/1.1''"], rule exI [of _ "'' ''"], rule exI [of _ "''404''"], rule exI [of _ "'' ''"],
      rule exI [of _ "''Not''"], rule exI [of _ "'' Found''"]) (simp add: word_def spaces_def is_space_def)

lemma log_response_prints_witness:
  "LogResponse sample_grabber (\<lambda>l. Inr (l, [])) [] 0 =
    Some (Inr \<lparr>status_line = [''HTTP/1.1'', ''404'', ''Not''], printed_headers = [(''Server: x'', [])],
      printed_body = ''a'' @ CRLF @ ''b''\<rparr>)"
  by (subst log_response_prints [OF sample_hands_out, of "[]" 0 "''HTTP/1.1 404 Not Found''" "[''Server: x'']"
        "[[], [], ''a'', ''b'']" "[''HTTP/1.1'', ''404'', ''Not'']"])
    (simp_all add: sample_grabber_def c_str_def not_found_words body_text_def)

end
