(* ===== verification/Stable_Rules.thy ===== *)
theory Stable_Rules
  imports Relay Other_Handlers
begin

text \<open>
  Predicates of the state that a computation keeps whatever its outcome, and a rule for each
  construct of a computation: a proof walks through the code and leaves the few places that write
  what the predicate speaks of.
\<close>

section \<open>Stable predicates\<close>

text \<open>A predicate of the state that a computation keeps, whether it returns or fails.\<close>

definition stable :: "('s \<Rightarrow> bool) \<Rightarrow> ('s, 'a) cmd \<Rightarrow> bool" where
  "stable J m \<longleftrightarrow> (\<forall>s. J s \<longrightarrow> J (snd (m s)))"

named_theorems stable_intros \<open>one rule per construct of a computation\<close>

lemma stable_snd: "stable J m \<Longrightarrow> J s \<Longrightarrow> J (snd (m s))"
  by (simp add: stable_def)

lemma stable_basic [stable_intros]:
  "stable J (retM a)" "stable J (failM f)" "stable J (getM g)" "stable J (resM r)" "stable J (lib x)"
  by (simp_all add: stable_def cmd_defs lib_def split: sum.split)

lemma stable_upd [stable_intros]: "(\<And>s. J s \<Longrightarrow> J (f s)) \<Longrightarrow> stable J (updM f)"
  by (simp add: stable_def updM_def)

lemma stable_bind [stable_intros]: "stable J m \<Longrightarrow> (\<And>a. stable J (f a)) \<Longrightarrow> stable J (bindM m f)"
  unfolding stable_def by (auto simp: bindM_def split: prod.split sum.split)

lemma stable_seq [stable_intros]: "stable J m \<Longrightarrow> stable J k \<Longrightarrow> stable J (seqM m k)"
  by (simp add: seqM_def stable_bind)

lemma stable_when [stable_intros]: "stable J m \<Longrightarrow> stable J (whenM b m)"
  by (simp add: whenM_def stable_basic)

lemma stable_if [stable_intros]: "stable J m \<Longrightarrow> stable J k \<Longrightarrow> stable J (if b then m else k)"
  by simp

lemma stable_try [stable_intros]: "stable J m \<Longrightarrow> (\<And>e. stable J (h e)) \<Longrightarrow> stable J (tryM m h)"
  unfolding stable_def
  by (auto simp: tryM_def split: prod.split sum.split failure.split)

lemma stable_forM [stable_intros]: "(\<And>x. stable J (f x)) \<Longrightarrow> stable J (forM f xs)"
  by (induction xs) (auto intro!: stable_intros)

lemma stable_run_loop [stable_intros]: "stable J m \<Longrightarrow> stable J (run_loop n m)"
  by (induction n) (auto intro!: stable_intros)

lemma stable_case_option [stable_intros]:
  "stable J m \<Longrightarrow> (\<And>a. stable J (f a)) \<Longrightarrow> stable J (case x of None \<Rightarrow> m | Some a \<Rightarrow> f a)"
  by (cases x) auto

lemma stable_case_prod [stable_intros]: "(\<And>a b. stable J (f a b)) \<Longrightarrow> stable J (case p of (a, b) \<Rightarrow> f a b)"
  by (cases p) auto

lemma stable_Let [stable_intros]: "(\<And>a. stable J (f a)) \<Longrightarrow> stable J (Let a f)"
  by (simp add: Let_def)

lemma stable_on_thread [stable_intros]: "stable J m \<Longrightarrow> stable (\<lambda>s. J (thr s)) (on_thread m)"
  by (auto simp: stable_def on_thread_def split: prod.split)

section \<open>Effects\<close>

lemmas thread_effects = request_server_def connect_def wrap_tls_def set_read_timeout_def
  set_keep_alive_def select_def readable_def receive_bytes_def send_bytes_def close_socket_def
  generate_uuid_def

end
