(* ===== verification/Context_Types.thy ===== *)
theory Context_Types
  imports Session_Pipelines Handler_Family Scripted_World Stable_Rules
begin

text \<open>
  The execution context is a map to \<open>std::any\<close>: nothing but convention fixes the type of an entry,
  and a cast to another one throws. Here the convention is a signature of six entries, and every
  pipeline with every handler of the repository keeps to it. An entry may still be absent or empty:
  \<open>operator[]\<close> creates an empty one, and \<open>CHWirePTHandler\<close> copies one, so casts can throw all the same.
\<close>

section \<open>The signature of the context\<close>

datatype entry_type = A_String | A_U32 | A_Time

text \<open>An empty \<open>any\<close> is what \<open>operator[]\<close> leaves under a key that is read too early.\<close>

fun has_type :: "entry_type \<Rightarrow> any \<Rightarrow> bool" where
  "has_type A_String v = (v = AnyEmpty \<or> \<not> isl (any_cast_string v))"
| "has_type A_U32 v = (v = AnyEmpty \<or> \<not> isl (any_cast_u32 v))"
| "has_type A_Time v = (v = AnyEmpty \<or> \<not> isl (any_cast_time v))"

definition context_signature :: "(string \<times> entry_type) list" where
  "context_signature =
     [(''correlation_id'', A_String), (''query_correlation_id'', A_String), (''target_host'', A_String),
      (''capabilities'', A_U32), (''query_start_time'', A_Time), (''request_stop_time'', A_Time)]"

definition well_typed :: "exec_context \<Rightarrow> bool" where
  "well_typed m \<longleftrightarrow> list_all (\<lambda>(k, T). case m k of None \<Rightarrow> True | Some v \<Rightarrow> has_type T v) context_signature"

lemma well_typed_empty [simp]: "well_typed Map.empty"
  by (simp add: well_typed_def context_signature_def)

lemma well_typed_put:
  "well_typed m \<Longrightarrow> list_all (\<lambda>(k', T). k' = k \<longrightarrow> has_type T v) context_signature \<Longrightarrow> well_typed (m(k \<mapsto> v))"
  by (auto simp: well_typed_def context_signature_def)

lemma has_type_empty [simp]: "has_type T AnyEmpty"
  by (cases T) auto

abbreviation typed :: "'w thread \<Rightarrow> bool" where
  "typed t \<equiv> well_typed (ctx t)"

abbreviation conn_typed :: "('w, 'z) conn_scheme \<Rightarrow> bool" where
  "conn_typed s \<equiv> typed (thr s)"

section \<open>Every effect keeps the signature\<close>

lemma typed_extern [stable_intros]: "stable typed (extern f ok bad)"
  by (simp add: stable_def extern_def split: prod.split sum.split)

lemma typed_now [stable_intros]: "stable typed (now env)"
  by (simp add: stable_def now_def split: prod.split)

lemma typed_ctx_at [stable_intros]: "stable typed (ctx_at k)"
  by (auto simp: stable_def ctx_at_def cmd_defs intro!: well_typed_put split: option.split)
    (simp add: list.pred_True case_prod_unfold)

lemma typed_ctx_put [stable_intros]:
  "list_all (\<lambda>(k', T). k' = k \<longrightarrow> has_type T v) context_signature \<Longrightarrow> stable typed (ctx_put k v)"
  by (simp add: stable_def ctx_put_def updM_def well_typed_put)

lemma typed_emit [stable_intros]: "stable typed (emit e)"
  by (simp add: stable_def emit_def updM_def)

lemma typed_log [stable_intros]: "stable typed (log_query c q)"
  by (simp add: log_query_def typed_emit)

lemma typed_delete [stable_intros]: "stable typed (delete_socket env k)"
  by (simp add: stable_def delete_socket_def updM_def)

lemma typed_recv_blocking [stable_intros]: "stable typed (recv_blocking env k n)"
  unfolding recv_blocking_def by (intro stable_intros)

text \<open>\<open>(*exec_context)["query_correlation_id"] = (*exec_context)["correlation_id"]\<close>.\<close>

lemma typed_copy_correlation:
  "(\<And>a. stable typed (f a)) \<Longrightarrow> stable typed (bindM (ctx_at ''correlation_id'') (\<lambda>a.
     seqM (ctx_put ''query_correlation_id'' a) (f a)))"
  unfolding stable_def
proof (intro allI impI)
  fix t :: "'a thread"
  assume f: "\<And>a. \<forall>s. typed s \<longrightarrow> typed (snd (f a s))" and t: "typed t"
  have "has_type A_String a" if "ctx t ''correlation_id'' = Some a" for a
    using t that by (simp add: well_typed_def context_signature_def)
  with t have "typed (t\<lparr>ctx := (ctx t)(''query_correlation_id'' \<mapsto> a)\<rparr>)" if "ctx t ''correlation_id'' = Some a" for a
    using that by (simp add: well_typed_def context_signature_def)
  moreover have "typed (t\<lparr>ctx := (ctx t)(''correlation_id'' \<mapsto> AnyEmpty, ''query_correlation_id'' \<mapsto> AnyEmpty)\<rparr>)"
    using t by (simp add: well_typed_def context_signature_def)
  ultimately show "typed (snd (bindM (ctx_at ''correlation_id'') (\<lambda>a. seqM (ctx_put ''query_correlation_id'' a) (f a)) t))"
    using f by (simp add: ctx_at_def ctx_put_def cmd_defs split: option.split)
qed

section \<open>The handlers\<close>

definition parser_types :: "'w wire_parser \<Rightarrow> bool" where
  "parser_types P \<longleftrightarrow> (\<forall>b n. stable typed (parseClientHello P b n) \<and> stable typed (parseClientQuery P b n))"

definition handler_types :: "'w proxy_handler \<Rightarrow> bool" where
  "handler_types h \<longleftrightarrow>
     (\<forall>b n. stable typed (HandleUpstreamData h b n) \<and> stable typed (HandleDownStreamData h b n))"

lemmas handler_code_defs =
  BaseProxyHandler_def BaseProxyHandler_HandleUpstreamData_def BaseProxyHandler_HandleDownStreamData_def
  CMySQLHandler_def CMySQLHandler_HandleUpstreamData_def CMySQLHandler_HandleDownStreamData_def
  CPostgreSQLHandler_def CPostgreSQLHandler_HandleUpstreamData_def CPostgreSQLHandler_HandleDownStreamData_def
  CMongoDBHandler_def CMongoDBHandler_HandleUpstreamData_def CMongoDBHandler_HandleDownStreamData_def mongo_log_body_def
  CHttpsHandler_def CHttpsHandler_HandleUpstreamData_def CHttpsHandler_HandleDownStreamData_def
  CHttpHandler_def CHttpHandler_HandleUpstreamData_def CHttpHandler_HandleDownStreamData_def
  CSnowflakeHttpHandler_def CSnowflakeHttpHandler_HandleUpstreamData_def
  CSnowflakeHttpHandler_HandleDownStreamData_def snowflake_sql_def
  GzipHandler_def GzipHandler_HandleUpstreamData_def GzipHandler_HandleDownStreamData_def
  CHWirePTHandler_def CHWirePTHandler_HandleDownStreamData_def

lemma clickhouse_up_typed: "parser_types P \<Longrightarrow> stable typed (CHWirePTHandler_HandleUpstreamData env P b n)"
  unfolding CHWirePTHandler_HandleUpstreamData_def parser_types_def
  by (intro stable_intros typed_copy_correlation) (auto simp: context_signature_def)

lemma repository_handler_types:
  assumes "parser_types P" and "h \<in> repository_handlers env J R H Z P"
  shows "handler_types h"
  using assms(2) clickhouse_up_typed [OF assms(1)]
  unfolding repository_handlers_def verbatim_handlers_def handler_types_def handler_code_defs
  by (auto intro!: stable_intros)

section \<open>The pipelines\<close>

lemma handlerD:
  "handler_types h \<Longrightarrow> stable typed (HandleUpstreamData h b n)"
  "handler_types h \<Longrightarrow> stable typed (HandleDownStreamData h b n)"
  by (simp_all add: handler_types_def)

lemma typed_fields [stable_intros]:
  "stable conn_typed (new_correlation env)" "stable conn_typed (stamp_start env)" "stable conn_typed (log_latency i)"
  "stable conn_typed put_target_host" "stable conn_typed (resolve_target env)" "stable conn_typed (open_target env)"
  unfolding new_correlation_def stamp_start_def log_latency_def put_target_host_def resolve_target_def
    open_target_def thread_effects
  by (intro stable_intros; simp add: context_signature_def)+

lemmas proxy_code_defs = DefaultProxyPipeline_def DefaultProxyPipeline_upstream_def DefaultProxyPipeline_downstream_def
  PassthroughPipeline_def PassthroughPipeline_upstream_def PassthroughPipeline_downstream_def
  ClickHouseTLSTerminatePipeline_def ClickHouseTLSTerminatePipeline_upstream_def ClickHouseTLSTerminatePipeline_downstream_def
  ClickHouseTLSStartPipeline_def ClickHouseTLSStartPipeline_upstream_def ClickHouseTLSStartPipeline_downstream_def
  ClickHouseTLSExchangePipeline_def ClickHouseTLSExchangePipeline_upstream_def ClickHouseTLSExchangePipeline_downstream_def
  ClickHousePipeline_def ClickHousePipeline_upstream_def ClickHousePipeline_downstream_def
  disconnect_def proxy_select_def configure_sockets_def open_target_or_close_def
  delete_client_def delete_target_def wrap_client_tls_def relay_round_def thread_effects

lemma proxies_typed:
  assumes "handler_types h"
  shows "stable conn_typed (DefaultProxyPipeline env (Some h) n) \<and>
    stable conn_typed (ClickHousePipeline env (Some h) n) \<and>
    stable conn_typed (PassthroughPipeline env (Some h) n) \<and>
    stable conn_typed (ClickHouseTLSTerminatePipeline env (Some h) n) \<and>
    stable conn_typed (ClickHouseTLSStartPipeline env (Some h) n) \<and>
    stable conn_typed (ClickHouseTLSExchangePipeline env (Some h) n)"
  unfolding proxy_code_defs option.case
  by (intro conjI stable_intros handlerD [OF assms]) (simp_all add: context_signature_def)

lemmas session_code_defs = give_up_def session_select_def start_request_def finish_request_def
  delete_sockets_def MySQLHandshake_def read_packet_def write_packet_def wrap_target_tls_def
  MySQLPipeline_def MySQLPipeline_upstream_def MySQLPipeline_downstream_def send_packets_def
  PostgreSQLPipeline_def PostgreSQLPipeline_upstream_def PostgreSQLPipeline_downstream_def
  PostgreSQLHandshake_def handle_ssl_request_def read_startup_message_def read_bytes_def write_bytes_def
  proxy_code_defs

lemma sessions_typed:
  assumes "handler_types h"
  shows "stable conn_typed (MySQLPipeline env R (Some h) n) \<and>
    stable conn_typed (PostgreSQLPipeline env R (Some h) n)"
  unfolding session_code_defs option.case
  by (intro conjI stable_intros handlerD [OF assms]) (simp_all add: context_signature_def)

text \<open>C15: At the end of a run of any pipeline, of any number of rounds, whether it returned or threw, with
  any handler of the repository and in any environment, each of the six entries of the execution
  context that the code uses is absent, empty, or of its declared type.\<close>

theorem context_stays_typed:
  assumes "parser_types P" and "h \<in> repository_handlers env J R H Z P" and "conn_typed s" and "conn_typed s'"
  shows "conn_typed (snd (DefaultProxyPipeline env (Some h) n s)) \<and>
    conn_typed (snd (ClickHousePipeline env (Some h) n s)) \<and>
    conn_typed (snd (PassthroughPipeline env (Some h) n s)) \<and>
    conn_typed (snd (ClickHouseTLSTerminatePipeline env (Some h) n s)) \<and>
    conn_typed (snd (ClickHouseTLSStartPipeline env (Some h) n s)) \<and>
    conn_typed (snd (ClickHouseTLSExchangePipeline env (Some h) n s)) \<and>
    conn_typed (snd (MySQLPipeline env R (Some h) n s')) \<and>
    conn_typed (snd (PostgreSQLPipeline env R (Some h) n s'))"
proof -
  have h: "handler_types h" using repository_handler_types [OF assms(1,2)] .
  note final = stable_snd [where J = conn_typed, OF _ assms(3)] stable_snd [where J = conn_typed, OF _ assms(4)]
  show ?thesis
    using proxies_typed [OF h, of env n] sessions_typed [OF h, of env R n] by (simp add: final)
qed

text \<open>An example of a parser.\<close>

lemma sample_parser_types: "parser_types sample_parser"
  by (simp add: parser_types_def sample_parser_def stable_basic)

lemma context_stays_typed_witness:
  "conn_typed (snd (DefaultProxyPipeline scripted (Some (CMongoDBHandler sample_json sample_readers)) 3
     (initial_proxy (Raw Client) (Raw Target) ([], []))))"
  using context_stays_typed [OF sample_parser_types, of "CMongoDBHandler sample_json sample_readers" scripted
      sample_json sample_readers sample_http sample_gzip "initial_proxy (Raw Client) (Raw Target) ([], [])"
      "initial_session (Raw Client) (Raw Target) ([], [])" 3]
  by (simp add: repository_handlers_def verbatim_handlers_def initial_proxy_def initial_session_def initial_thread_def)

end
