(* ===== verification/Two_Runs.thy ===== *)
theory Two_Runs
  imports Stable_Rules
begin

text \<open>
  Relational reasoning: two computations of the same shape, started in related states. \<open>wp2\<close> says
  that they have the same outcome and end in related states, unless the second run has gone \<open>off\<close>,
  a predicate that no computation undoes.
\<close>

definition wp2 :: "('s \<Rightarrow> bool) \<Rightarrow> ('s, 'a) cmd \<Rightarrow> ('s, 'a) cmd \<Rightarrow> ('a \<Rightarrow> 's \<Rightarrow> 's \<Rightarrow> bool) \<Rightarrow>
    (failure \<Rightarrow> 's \<Rightarrow> 's \<Rightarrow> bool) \<Rightarrow> 's \<Rightarrow> 's \<Rightarrow> bool" where
  "wp2 off m k Q E s t \<longleftrightarrow> off (snd (k t)) \<or>
     fst (m s) = fst (k t) \<and>
     (case fst (k t) of Inl f \<Rightarrow> E f (snd (m s)) (snd (k t)) | Inr a \<Rightarrow> Q a (snd (m s)) (snd (k t)))"

named_theorems vc2 \<open>introduction rules for two runs\<close>

lemma wp2_mono:
  assumes "wp2 off m k Q E s t" and "\<And>a s t. Q a s t \<Longrightarrow> Q' a s t" and "\<And>f s t. E f s t \<Longrightarrow> E' f s t"
  shows "wp2 off m k Q' E' s t"
  using assms by (auto simp: wp2_def split: sum.splits)

lemma vc2_ret [vc2]: "Q a s t \<Longrightarrow> wp2 off (retM a) (retM a) Q E s t"
  by (simp add: wp2_def retM_def)

lemma vc2_fail [vc2]: "E f s t \<Longrightarrow> wp2 off (failM f) (failM f) Q E s t"
  by (simp add: wp2_def failM_def)

lemma vc2_res [vc2]:
  "(\<And>a. r = Inr a \<Longrightarrow> Q a s t) \<Longrightarrow> (\<And>f. r = Inl f \<Longrightarrow> E f s t) \<Longrightarrow> wp2 off (resM r) (resM r) Q E s t"
  by (simp add: wp2_def resM_def split: sum.split)

lemma vc2_get [vc2]: "f s = f t \<Longrightarrow> Q (f t) s t \<Longrightarrow> wp2 off (getM f) (getM f) Q E s t"
  by (simp add: wp2_def getM_def)

lemma vc2_upd [vc2]: "Q () (f s) (f t) \<Longrightarrow> wp2 off (updM f) (updM f) Q E s t"
  by (simp add: wp2_def updM_def)

lemma vc2_bind [vc2]:
  assumes "wp2 off m k (\<lambda>a. wp2 off (f a) (g a) Q E) E s t" and "\<And>a. stable off (g a)"
  shows "wp2 off (bindM m f) (bindM k g) Q E s t"
proof (cases "k t")
  case (Pair r t')
  then show ?thesis
    using assms stable_snd [OF assms(2), of t']
    by (cases "m s"; cases r) (auto simp: wp2_def bindM_def split: sum.splits)
qed

lemma vc2_seq [vc2]:
  "wp2 off m k (\<lambda>_. wp2 off m' k' Q E) E s t \<Longrightarrow> stable off k' \<Longrightarrow> wp2 off (seqM m m') (seqM k k') Q E s t"
  unfolding seqM_def by (rule vc2_bind)

lemma vc2_when [vc2]:
  "(b \<Longrightarrow> wp2 off m k Q E s t) \<Longrightarrow> (\<not> b \<Longrightarrow> Q () s t) \<Longrightarrow> wp2 off (whenM b m) (whenM b k) Q E s t"
  by (simp add: whenM_def vc2_ret)

lemma vc2_if [vc2]:
  "(b \<Longrightarrow> wp2 off m k Q E s t) \<Longrightarrow> (\<not> b \<Longrightarrow> wp2 off m' k' Q E s t) \<Longrightarrow>
   wp2 off (if b then m else m') (if b then k else k') Q E s t"
  by simp

definition on_fail2 ::
    "('s \<Rightarrow> bool) \<Rightarrow> (exn \<Rightarrow> ('s, 'a) cmd) \<Rightarrow> ('a \<Rightarrow> 's \<Rightarrow> 's \<Rightarrow> bool) \<Rightarrow> (failure \<Rightarrow> 's \<Rightarrow> 's \<Rightarrow> bool) \<Rightarrow>
      failure \<Rightarrow> 's \<Rightarrow> 's \<Rightarrow> bool" where
  "on_fail2 off h Q E f s t = (case f of
      Thrown e \<Rightarrow> if is_std_exception e then wp2 off (h e) (h e) Q E s t else E f s t
    | Undefined u \<Rightarrow> E f s t)"

lemma vc2_on_fail [vc2]:
  assumes "\<And>e. f = Thrown e \<Longrightarrow> is_std_exception e \<Longrightarrow> wp2 off (h e) (h e) Q E s t" and "escapes f \<Longrightarrow> E f s t"
  shows "on_fail2 off h Q E f s t"
  using assms by (auto simp: on_fail2_def escapes_def split: failure.split)

lemma vc2_try [vc2]:
  assumes "wp2 off m k Q (on_fail2 off h Q E) s t" and "\<And>e. stable off (h e)"
  shows "wp2 off (tryM m h) (tryM k h) Q E s t"
proof (cases "k t")
  case (Pair r t')
  then show ?thesis
    using assms(1) stable_snd [OF assms(2), of t']
    by (cases "m s"; cases r) (auto simp: wp2_def tryM_def on_fail2_def split: sum.splits failure.splits if_splits)
qed

lemma wp2_run_loop:
  assumes step: "\<And>s t. R s t \<Longrightarrow> wp2 off m k (\<lambda>_. R) E s t" and "stable off k" and "R s t"
  shows "wp2 off (run_loop n m) (run_loop n k) (\<lambda>_. R) E s t"
  using assms(3)
proof (induction n arbitrary: s t)
  case 0
  then show ?case by (simp add: vc2_ret)
next
  case (Suc n)
  have "wp2 off (if again then run_loop n m else retM False) (if again then run_loop n k else retM False) (\<lambda>_. R) E s t"
    if "R s t" for again s t
    using that Suc.IH by (intro vc2) auto
  then show ?case
    unfolding run_loop.simps
    by (intro vc2_bind wp2_mono [OF step [OF Suc.prems]] stable_intros assms(2))
qed

section \<open>Effects\<close>

text \<open>
  Two threads in the same world: the outside answers the same. The states are written as one
  record with two threads.
\<close>

lemma vc2_extern [vc2]:
  assumes "world (thr s) = world (thr t)"
    and "\<And>e u v. world u = world v \<Longrightarrow> ctx u = ctx (thr s) \<Longrightarrow> trace u = tr s @ bad \<Longrightarrow> trace v = tr t @ bad \<Longrightarrow>
      E (Thrown e) (s\<lparr>thr := u\<rparr>) (t\<lparr>thr := v\<rparr>)"
    and "\<And>a u v. world u = world v \<Longrightarrow> ctx u = ctx (thr s) \<Longrightarrow> trace u = tr s @ ok a \<Longrightarrow> trace v = tr t @ ok a \<Longrightarrow>
      Q a (s\<lparr>thr := u\<rparr>) (t\<lparr>thr := v\<rparr>)"
  shows "wp2 off (on_thread (extern f ok bad)) (on_thread (extern f ok bad)) Q E s t"
  using assms by (auto simp: wp2_def on_thread_def extern_def split: prod.splits sum.splits)

lemma vc2_now [vc2]:
  assumes "world (thr s) = world (thr t)"
    and "\<And>i u v. world u = world v \<Longrightarrow> ctx u = ctx (thr s) \<Longrightarrow> trace u = tr s \<Longrightarrow> trace v = tr t \<Longrightarrow>
      Q i (s\<lparr>thr := u\<rparr>) (t\<lparr>thr := v\<rparr>)"
  shows "wp2 off (on_thread (now env)) (on_thread (now env)) Q E s t"
  using assms by (auto simp: wp2_def on_thread_def now_def split: prod.splits)

lemma vc2_ctx_put [vc2]:
  assumes "world (thr s) = world (thr t)"
    and "\<And>u v. world u = world v \<Longrightarrow> ctx u = (ctx (thr s))(k \<mapsto> a) \<Longrightarrow> trace u = tr s \<Longrightarrow> trace v = tr t \<Longrightarrow>
      Q () (s\<lparr>thr := u\<rparr>) (t\<lparr>thr := v\<rparr>)"
  shows "wp2 off (on_thread (ctx_put k a)) (on_thread (ctx_put k a)) Q E s t"
  using assms by (auto simp: wp2_def on_thread_def ctx_put_def updM_def)

lemma vc2_emit [vc2]:
  assumes "world (thr s) = world (thr t)"
    and "\<And>u v. world u = world v \<Longrightarrow> ctx u = ctx (thr s) \<Longrightarrow> trace u = tr s @ [e] \<Longrightarrow> trace v = tr t @ [e] \<Longrightarrow>
      Q () (s\<lparr>thr := u\<rparr>) (t\<lparr>thr := v\<rparr>)"
  shows "wp2 off (on_thread (emit e)) (on_thread (emit e)) Q E s t"
  using assms by (auto simp: wp2_def on_thread_def emit_def updM_def)

lemma vc2_delete [vc2]:
  assumes "world (thr s) = world (thr t)"
    and "\<And>u v. world u = world v \<Longrightarrow> ctx u = ctx (thr s) \<Longrightarrow> trace u = tr s @ [Deleted k] \<Longrightarrow>
      trace v = tr t @ [Deleted k] \<Longrightarrow> Q () (s\<lparr>thr := u\<rparr>) (t\<lparr>thr := v\<rparr>)"
  shows "wp2 off (on_thread (delete_socket env k)) (on_thread (delete_socket env k)) Q E s t"
  using assms by (auto simp: wp2_def on_thread_def delete_socket_def updM_def)

lemma vc2_recv_blocking [vc2]:
  assumes "world (thr s) = world (thr t)"
    and "\<And>e u v. world u = world v \<Longrightarrow> ctx u = ctx (thr s) \<Longrightarrow> trace u = tr s \<Longrightarrow> trace v = tr t \<Longrightarrow>
      E (Thrown e) (s\<lparr>thr := u\<rparr>) (t\<lparr>thr := v\<rparr>)"
    and "\<And>b u v. world u = world v \<Longrightarrow> ctx u = ctx (thr s) \<Longrightarrow> trace u = tr s @ [RecvBlocked k b] \<Longrightarrow>
      trace v = tr t @ [RecvBlocked k b] \<Longrightarrow> Q b (s\<lparr>thr := u\<rparr>) (t\<lparr>thr := v\<rparr>)"
  shows "wp2 off (on_thread (recv_blocking env k n)) (on_thread (recv_blocking env k n)) Q E s t"
  using assms
  by (auto simp: wp2_def on_thread_def recv_blocking_def extern_def bindM_def retM_def split: prod.splits sum.splits)

end
