(* ===== verification/Network_View.thy ===== *)
theory Network_View
  imports Two_Runs Proxy_Flow Session_Flow Handler_Family Proxy_Safety Scripted_World
begin

text \<open>
  What the network sees of a handler: nothing. A run with a handler that only looks at the traffic
  and a run with \<open>BaseProxyHandler\<close> are compared step by step: same results, same world, same
  socket operations, ids and latencies, as long as the handler does not fail on a chunk.
\<close>

section \<open>The network's view of a run\<close>

fun on_network :: "event \<Rightarrow> bool" where
  "on_network (LogQuery c q) = False"
| "on_network _ = True"

definition network :: "event list \<Rightarrow> event list" where
  "network es = List.filter on_network es"

lemma network_simps [simp]:
  "network [] = []" "network (e # es) = (if on_network e then e # network es else network es)"
  "network (es @ fs) = network es @ network fs"
  unfolding network_def by simp_all

lemma only_queries_off_network: "only_queries c es \<Longrightarrow> network es = []"
  unfolding only_queries_def network_def filter_empty_conv by (metis on_network.simps(1))

text \<open>The same connection, but for what was logged and for the execution context.\<close>

definition alike :: "('w, 'z) conn_scheme \<Rightarrow> ('w, 'z) conn_scheme \<Rightarrow> bool" where
  "alike s t \<longleftrightarrow> t = s\<lparr>thr := thr t\<rparr> \<and> world (thr s) = world (thr t) \<and> network (tr s) = network (tr t)"

lemma alikeD: "alike s t \<Longrightarrow> \<exists>u. t = s\<lparr>thr := u\<rparr>"
  by (auto simp: alike_def)

lemma alike_refl [simp]: "alike s s"
  by (simp add: alike_def)

text \<open>What an observer of the network can tell of a run.\<close>

definition network_view :: "bool res \<times> ('w, 'z) conn_scheme \<Rightarrow> bool res \<times> 'w \<times> event list" where
  "network_view = (\<lambda>(r, s). (r, world (thr s), network (tr s)))"

section \<open>Handlers that only look\<close>

text \<open>
  Chunks that do not make a handler fail while a request is in flight, nor touch the outside; and
  runs in which the client delivered only such chunks.
\<close>

definition passes :: "'w proxy_handler \<Rightarrow> string \<Rightarrow> bool" where
  "passes h b \<longleftrightarrow> (\<forall>t. correlation_of (ctx t) \<noteq> None \<longrightarrow>
     (\<exists>r u. HandleUpstreamData h b (int (length b)) t = (Inr r, u) \<and> world u = world t))"

definition accepted :: "'w proxy_handler \<Rightarrow> event list \<Rightarrow> bool" where
  "accepted h es \<longleftrightarrow> (\<forall>k b. Recv k b \<in> set es \<longrightarrow> b \<noteq> [] \<longrightarrow> side_of k = Client \<longrightarrow> passes h b)"

lemma accepted_append [simp]: "accepted h (es @ fs) \<longleftrightarrow> accepted h es \<and> accepted h fs"
  by (auto simp: accepted_def)

lemma acceptedD: "accepted h es \<Longrightarrow> Recv k b \<in> set es \<Longrightarrow> b \<noteq> [] \<Longrightarrow> side_of k = Client \<Longrightarrow> passes h b"
  by (auto simp: accepted_def)

abbreviation refused :: "'w proxy_handler \<Rightarrow> 'w thread \<Rightarrow> bool" where
  "refused h t \<equiv> \<not> accepted h (trace t)"

lemma refused_extern [stable_intros]: "stable (refused h) (extern f ok bad)"
  by (auto simp: stable_def extern_def split: prod.split sum.split)

lemma refused_effects [stable_intros]:
  "stable (refused h) (now env)" "stable (refused h) (ctx_put k v)" "stable (refused h) (emit e)"
  "stable (refused h) (delete_socket env k')"
  by (auto simp: stable_def now_def ctx_put_def emit_def delete_socket_def updM_def split: prod.split)

lemma refused_recv_blocking [stable_intros]: "stable (refused h) (recv_blocking env k n)"
  unfolding recv_blocking_def by (intro stable_intros)

lemma stable_base [stable_intros]:
  "stable J (HandleUpstreamData BaseProxyHandler b n)" "stable J (HandleDownStreamData BaseProxyHandler b n)"
  by (simp_all add: BaseProxyHandler_def BaseProxyHandler_HandleUpstreamData_def
      BaseProxyHandler_HandleDownStreamData_def stable_basic)

text \<open>Handlers that forward verbatim and do nothing with the answers of the target.\<close>

locale monitor = transparent_handler +
  assumes down_idle: "HandleDownStreamData h b n t = (Inr b, t)"
begin

abbreviation off :: "('a, 'z) conn_scheme \<Rightarrow> bool" where
  "off s \<equiv> refused h (thr s)"

lemma vc2_up:
  assumes "\<not> off t \<Longrightarrow> passes h b" and "n = int (length b)" and "correlation_of (ctx (thr s)) \<noteq> None"
    and Q: "\<And>u. world u = world (thr s) \<Longrightarrow> network (trace u) = network (tr s) \<Longrightarrow>
      correlation_of (ctx u) = correlation_of (ctx (thr s)) \<Longrightarrow> Q b (s\<lparr>thr := u\<rparr>) t"
  shows "wp2 off (on_thread (HandleUpstreamData h b n)) (on_thread (HandleUpstreamData BaseProxyHandler b n)) Q E s t"
proof (cases "off t")
  case False
  with assms(1,3) obtain r u where
    u: "HandleUpstreamData h b (int (length b)) (thr s) = (Inr r, u)" "world u = world (thr s)"
    unfolding passes_def by blast
  have "r = b" using up_same [of b "int (length b)" "thr s"] u by (simp add: wp_def)
  moreover have "handler_frame (thr s) u" using up_frame [of b "int (length b)" "thr s"] u by (simp add: wp_def)
  ultimately show ?thesis
    using u assms(2) Q [of u]
    by (auto simp: handler_frame_def only_queries_off_network wp2_def on_thread_def BaseProxyHandler_def
        BaseProxyHandler_HandleUpstreamData_def retM_def)
qed (simp add: wp2_def on_thread_def BaseProxyHandler_def BaseProxyHandler_HandleUpstreamData_def retM_def)

lemma vc2_down:
  "Q b s t \<Longrightarrow>
    wp2 off (on_thread (HandleDownStreamData h b n)) (on_thread (HandleDownStreamData BaseProxyHandler b n)) Q E s t"
  by (simp add: wp2_def on_thread_def down_idle BaseProxyHandler_def BaseProxyHandler_HandleDownStreamData_def retM_def)

section \<open>The halves of the loops\<close>

text \<open>Besides: while a request is in flight, the handler's context holds an id.\<close>

definition proxy_alike :: "'a proxy \<Rightarrow> 'a proxy \<Rightarrow> bool" where
  "proxy_alike s t \<longleftrightarrow> alike s t \<and> side_of (client_socket s) = Client \<and> side_of (target_socket s) = Target
     \<and> (data_sent s \<longrightarrow> correlation_of (ctx (thr s)) \<noteq> None)"

lemma default_up_alike:
  assumes "proxy_alike s t"
  shows "wp2 off (DefaultProxyPipeline_upstream env h) (DefaultProxyPipeline_upstream env BaseProxyHandler)
     (\<lambda>_. proxy_alike) (\<lambda>_. proxy_alike) s t"
proof -
  obtain u where t: "t = s\<lparr>thr := u\<rparr>" using assms by (auto simp: proxy_alike_def dest!: alikeD)
  show ?thesis
    using assms unfolding t DefaultProxyPipeline_upstream_def half_effects
    by (intro vc2 vc2_up stable_intros) (auto simp: proxy_alike_def alike_def dest: acceptedD)
qed

lemma default_down_alike:
  assumes "proxy_alike s t"
  shows "wp2 off (DefaultProxyPipeline_downstream env h) (DefaultProxyPipeline_downstream env BaseProxyHandler)
     (\<lambda>_. proxy_alike) (\<lambda>_. proxy_alike) s t"
proof -
  obtain u where t: "t = s\<lparr>thr := u\<rparr>" using assms by (auto simp: proxy_alike_def dest!: alikeD)
  show ?thesis
    using assms unfolding t DefaultProxyPipeline_downstream_def half_effects
    by (intro vc2 vc2_down stable_intros) (auto simp: proxy_alike_def alike_def)
qed

lemma proxy_select_alike:
  assumes "proxy_alike s t"
  shows "wp2 off (proxy_select env) (proxy_select env) (\<lambda>_. proxy_alike) (\<lambda>_. proxy_alike) s t"
proof -
  obtain u where t: "t = s\<lparr>thr := u\<rparr>" using assms by (auto simp: proxy_alike_def dest!: alikeD)
  show ?thesis
    using assms unfolding t proxy_select_def select_def
    by (intro vc2 stable_intros) (auto simp: proxy_alike_def alike_def)
qed

text \<open>PostgreSQL: the flag is \<open>latency_logged\<close>, false while a request is in flight.\<close>

definition session_alike :: "'a session \<Rightarrow> 'a session \<Rightarrow> bool" where
  "session_alike s t \<longleftrightarrow> alike s t \<and> side_of (client_socket s) = Client \<and> side_of (target_socket s) = Target
     \<and> (\<not> latency_logged s \<longrightarrow> correlation_of (ctx (thr s)) \<noteq> None)"

lemma postgresql_up_alike:
  assumes "session_alike s t"
  shows "wp2 off (PostgreSQLPipeline_upstream env h) (PostgreSQLPipeline_upstream env BaseProxyHandler)
     (\<lambda>_. session_alike) (\<lambda>_. session_alike) s t"
proof -
  obtain u where t: "t = s\<lparr>thr := u\<rparr>" using assms by (auto simp: session_alike_def dest!: alikeD)
  show ?thesis
    using assms unfolding t PostgreSQLPipeline_upstream_def session_effects
    by (intro vc2 vc2_up stable_intros) (auto simp: session_alike_def alike_def dest: acceptedD)
qed

lemma postgresql_down_alike:
  assumes "session_alike s t"
  shows "wp2 off (PostgreSQLPipeline_downstream env h) (PostgreSQLPipeline_downstream env BaseProxyHandler)
     (\<lambda>_. session_alike) (\<lambda>_. session_alike) s t"
proof -
  obtain u where t: "t = s\<lparr>thr := u\<rparr>" using assms by (auto simp: session_alike_def dest!: alikeD)
  show ?thesis
    using assms unfolding t PostgreSQLPipeline_downstream_def session_effects
    by (intro vc2 vc2_down stable_intros) (auto simp: session_alike_def alike_def)
qed

lemma session_select_alike:
  assumes "session_alike s t"
  shows "wp2 off (session_select env) (session_select env) (\<lambda>_. session_alike) (\<lambda>_. session_alike) s t"
proof -
  obtain u where t: "t = s\<lparr>thr := u\<rparr>" using assms by (auto simp: session_alike_def dest!: alikeD)
  show ?thesis
    using assms unfolding t session_select_def select_def
    by (intro vc2 stable_intros) (auto simp: session_alike_def alike_def)
qed

section \<open>The loops\<close>

lemma proxy_alike_cases: "proxy_alike s t \<Longrightarrow> \<exists>v. t = s\<lparr>thr := v\<rparr> \<and> proxy_alike s (s\<lparr>thr := v\<rparr>)"
  using alikeD [of s t] by (auto simp: proxy_alike_def)

lemma session_alike_cases: "session_alike s t \<Longrightarrow> \<exists>v. t = s\<lparr>thr := v\<rparr> \<and> session_alike s (s\<lparr>thr := v\<rparr>)"
  using alikeD [of s t] by (auto simp: session_alike_def)

text \<open>One round, for any two halves that keep a relation.\<close>

lemma round_alike:
  assumes "\<And>s t. R s t \<Longrightarrow> wp2 off sel sel (\<lambda>_. R) (\<lambda>_. R) s t"
    and "\<And>s t. R s t \<Longrightarrow> wp2 off up up' (\<lambda>_. R) (\<lambda>_. R) s t" and "\<And>s t. R s t \<Longrightarrow> wp2 off dn dn' (\<lambda>_. R) (\<lambda>_. R) s t"
    and "stable off sel" "stable off up'" "stable off dn'"
    and "\<And>s t. R s t \<Longrightarrow> alive s = alive t" and "R s t"
  shows "wp2 off (relay_round sel up dn alive) (relay_round sel up' dn' alive) (\<lambda>_. R) (\<lambda>_. R) s t"
proof -
  have down: "wp2 off (seqM dn (getM alive)) (seqM dn' (getM alive)) (\<lambda>_. R) (\<lambda>_. R) s t" if "R s t" for s t
    by (intro vc2_seq wp2_mono [OF assms(3) [OF that]] stable_intros) (auto intro!: vc2_get assms(7))
  have up: "wp2 off (seqM up (seqM dn (getM alive))) (seqM up' (seqM dn' (getM alive))) (\<lambda>_. R) (\<lambda>_. R) s t"
    if "R s t" for s t
    by (intro vc2_seq [of _ up] wp2_mono [OF assms(2) [OF that]] stable_intros assms(6)) (auto intro: down)
  have "wp2 off (seqM sel (seqM up (seqM dn (getM alive)))) (seqM sel (seqM up' (seqM dn' (getM alive)))) (\<lambda>_. R) (\<lambda>_. R) s t"
    by (intro vc2_seq [of _ sel] wp2_mono [OF assms(1) [OF assms(8)]] stable_intros assms(5,6)) (auto intro: up)
  then show ?thesis
    unfolding relay_round_def
    by (intro vc2_try stable_intros wp2_mono [OF _ _ vc2_on_fail]) (auto intro: vc2_ret)
qed

lemmas half_code = DefaultProxyPipeline_upstream_def DefaultProxyPipeline_downstream_def
  PostgreSQLPipeline_upstream_def PostgreSQLPipeline_downstream_def proxy_select_def session_select_def
  half_effects session_effects select_def

lemma halves_stable [stable_intros]:
  "stable off (DefaultProxyPipeline_upstream env BaseProxyHandler)"
  "stable off (DefaultProxyPipeline_downstream env BaseProxyHandler)"
  "stable off (PostgreSQLPipeline_upstream env BaseProxyHandler)"
  "stable off (PostgreSQLPipeline_downstream env BaseProxyHandler)"
  "stable off (proxy_select env)" "stable off (session_select env)"
  unfolding half_code by (intro stable_intros; simp)+

lemma rounds_stable [stable_intros]:
  "stable J sel \<Longrightarrow> stable J up \<Longrightarrow> stable J dn \<Longrightarrow> stable J (relay_round sel up dn alive)"
  unfolding relay_round_def by (intro stable_intros)

lemma default_loop_alike:
  assumes "proxy_alike s t" and "\<And>b s v. proxy_alike s (s\<lparr>thr := v\<rparr>) \<Longrightarrow> Q b s (s\<lparr>thr := v\<rparr>)"
    and "\<And>f s v. proxy_alike s (s\<lparr>thr := v\<rparr>) \<Longrightarrow> E f s (s\<lparr>thr := v\<rparr>)"
  shows "wp2 off
     (run_loop n (relay_round (proxy_select env) (DefaultProxyPipeline_upstream env h)
        (DefaultProxyPipeline_downstream env h) still_connected))
     (run_loop n (relay_round (proxy_select env) (DefaultProxyPipeline_upstream env BaseProxyHandler)
        (DefaultProxyPipeline_downstream env BaseProxyHandler) still_connected)) Q E s t"
proof -
  have same: "still_connected s = still_connected t" if "proxy_alike s t" for s t
    using that by (auto simp: proxy_alike_def dest!: alikeD)
  note round = round_alike [where R = proxy_alike, OF proxy_select_alike default_up_alike default_down_alike
      halves_stable(5,1,2) same]
  show ?thesis
    by (rule wp2_mono [OF wp2_run_loop [where R = proxy_alike, OF round]])
      (assumption | rule stable_intros assms(1) | metis proxy_alike_cases assms(2,3))+
qed

lemma postgresql_loop_alike:
  assumes "session_alike s t" and "\<And>b s v. session_alike s (s\<lparr>thr := v\<rparr>) \<Longrightarrow> Q b s (s\<lparr>thr := v\<rparr>)"
    and "\<And>f s v. session_alike s (s\<lparr>thr := v\<rparr>) \<Longrightarrow> E f s (s\<lparr>thr := v\<rparr>)"
  shows "wp2 off
     (run_loop n (relay_round (session_select env) (PostgreSQLPipeline_upstream env h)
        (PostgreSQLPipeline_downstream env h) (\<lambda>s. \<not> has_error s)))
     (run_loop n (relay_round (session_select env) (PostgreSQLPipeline_upstream env BaseProxyHandler)
        (PostgreSQLPipeline_downstream env BaseProxyHandler) (\<lambda>s. \<not> has_error s))) Q E s t"
proof -
  have same: "(\<not> has_error s) = (\<not> has_error t)" if "session_alike s t" for s t
    using that by (auto simp: session_alike_def dest!: alikeD)
  note round = round_alike [where R = session_alike, OF session_select_alike postgresql_up_alike postgresql_down_alike
      halves_stable(6,3,4) same]
  show ?thesis
    by (rule wp2_mono [OF wp2_run_loop [where R = session_alike, OF round]])
      (assumption | rule stable_intros assms(1) | metis session_alike_cases assms(2,3))+
qed

section \<open>The pipelines\<close>

lemma default_pipeline_alike:
  "wp2 off (DefaultProxyPipeline env (Some h) n) (DefaultProxyPipeline env (Some BaseProxyHandler) n)
     (\<lambda>_. alike) (\<lambda>_. alike) (initial_proxy (Raw Client) (Raw Target) w) (initial_proxy (Raw Client) (Raw Target) w)"
  unfolding DefaultProxyPipeline_def option.case initial_proxy_def initial_thread_def resolve_target_def open_target_or_close_def
    open_target_def configure_sockets_def delete_client_def delete_target_def stamp_start_def thread_effects
  by (intro vc2 default_loop_alike stable_intros) (auto simp: proxy_alike_def alike_def)

text \<open>
  The handshake is the same code in both runs. It works on the sockets of either side, plain or
  TLS, and no request is in flight during it.
\<close>

lemma postgresql_handshake_alike:
  assumes "session_alike s t"
  shows "wp2 off (PostgreSQLHandshake env R) (PostgreSQLHandshake env R) (\<lambda>_. session_alike) (\<lambda>_. session_alike) s t"
proof -
  obtain v where t: "t = s\<lparr>thr := v\<rparr>" using session_alike_cases [OF assms] by blast
  show ?thesis
    using assms unfolding t PostgreSQLHandshake_def handshake_effects Let_def
    by (intro vc2 stable_intros) (auto simp: session_alike_def alike_def)
qed

lemma handshake_stable [stable_intros]: "stable off (PostgreSQLHandshake env R)"
  unfolding PostgreSQLHandshake_def handshake_effects Let_def by (intro stable_intros; simp)+

lemma give_up_stable [stable_intros]: "stable off (give_up :: ('a session, unit) cmd)"
  unfolding give_up_def by (intro stable_intros) simp

lemma failed_thr: "(s :: 'a session)\<lparr>has_error := True, thr := v\<rparr> = s\<lparr>thr := v, has_error := True\<rparr>"
  by (cases s) simp

lemma postgresql_shaken_alike:
  assumes "session_alike s t"
    and "\<And>s v. session_alike s (s\<lparr>thr := v\<rparr>) \<Longrightarrow> Q () s (s\<lparr>thr := v\<rparr>)"
    and "\<And>f s v. session_alike s (s\<lparr>thr := v\<rparr>) \<Longrightarrow> E f s (s\<lparr>thr := v\<rparr>)"
  shows "wp2 off (tryM (bindM (PostgreSQLHandshake env R) (\<lambda>status. whenM (status \<noteq> 0) give_up)) (\<lambda>_. give_up))
     (tryM (bindM (PostgreSQLHandshake env R) (\<lambda>status. whenM (status \<noteq> 0) give_up)) (\<lambda>_. give_up))
     Q E s t"
proof -
  have failed: "Q () (s\<lparr>has_error := True\<rparr>) (t\<lparr>has_error := True\<rparr>)" if st: "session_alike s t" for s t
  proof -
    obtain v where "t = s\<lparr>thr := v\<rparr>" "session_alike s (s\<lparr>thr := v\<rparr>)" using session_alike_cases [OF st] by blast
    then show ?thesis using assms(2) [of "s\<lparr>has_error := True\<rparr>" v]
      by (simp add: session_alike_def alike_def failed_thr)
  qed
  have other: "Q () s t" "E f s t" if "session_alike s t" for f s t
    using session_alike_cases [OF that] assms(2,3) by blast+
  show ?thesis unfolding give_up_def
    by (intro vc2 stable_intros wp2_mono [OF postgresql_handshake_alike [OF assms(1)]]) (auto intro: failed other)
qed

lemma postgresql_pipeline_alike:
  "wp2 off (PostgreSQLPipeline env R (Some h) n) (PostgreSQLPipeline env R (Some BaseProxyHandler) n)
     (\<lambda>_. alike) (\<lambda>_. alike) (initial_session (Raw Client) (Raw Target) w) (initial_session (Raw Client) (Raw Target) w)"
  unfolding PostgreSQLPipeline_def option.case initial_session_def initial_thread_def resolve_target_def
    open_target_def put_target_host_def stamp_start_def configure_sockets_def
    delete_sockets_def thread_effects
  by (intro vc2 postgresql_shaken_alike postgresql_loop_alike stable_intros) (auto simp: session_alike_def alike_def)

end

section \<open>The handlers of the repository\<close>

text \<open>What \<open>CMongoDBHandler\<close> does to the world: nothing.\<close>

lemma world_effects [stable_intros]:
  "stable (\<lambda>t. world t = w) (ctx_at k)" "stable (\<lambda>t. world t = w) (log_query c q)"
  by (auto simp: stable_def ctx_at_def log_query_def emit_def cmd_defs split: option.split)

lemma mongo_up_world: "stable (\<lambda>u. world u = world t) (CMongoDBHandler_HandleUpstreamData J R b n)"
  unfolding CMongoDBHandler_HandleUpstreamData_def mongo_log_body_def by (intro stable_intros)

interpretation mongo_monitor: monitor "CMongoDBHandler J R"
  by unfold_locales (simp add: CMongoDBHandler_def CMongoDBHandler_HandleDownStreamData_def retM_def)

interpretation https_monitor: monitor "CHttpsHandler H"
  by unfold_locales (simp add: CHttpsHandler_def CHttpsHandler_HandleDownStreamData_def retM_def)

interpretation mysql_monitor: monitor "CMySQLHandler R"
  by unfold_locales (simp add: CMySQLHandler_def CMySQLHandler_HandleDownStreamData_def retM_def)

interpretation postgresql_monitor: monitor "CPostgreSQLHandler R"
  by unfold_locales (simp add: CPostgreSQLHandler_def CPostgreSQLHandler_HandleDownStreamData_def retM_def)

text \<open>
  The handlers that need nothing of the execution context but the correlation id. \<open>CMySQLHandler\<close>
  is not among them: it also needs the capabilities, which \<open>MySQLPipeline\<close> alone provides, so
  behind any other pipeline it fails on the first chunk.
\<close>

definition onlookers :: "'j json \<Rightarrow> readers \<Rightarrow> 'q http \<Rightarrow> 'w proxy_handler set" where
  "onlookers J R H = {CMongoDBHandler J R, CHttpsHandler H, CPostgreSQLHandler R}"

lemma onlooker_monitor: "h \<in> onlookers J R H \<Longrightarrow> monitor h"
  using mongo_monitor.monitor_axioms https_monitor.monitor_axioms postgresql_monitor.monitor_axioms
  unfolding onlookers_def by blast

text \<open>What the handlers pass: any chunk that parses, any whole message.\<close>

lemma https_passes:
  assumes "string_to_request H (take (as_size (int (length b))) b) = Inr q"
  shows "passes (CHttpsHandler H) b"
  using assms
  by (simp add: passes_def CHttpsHandler_def CHttpsHandler_HandleUpstreamData_def std_substr_def run_simps)

lemma mongo_passes:
  assumes "message_head b" and "int32_reader R"
    and "\<And>s e. from_bson J s = Inl e \<Longrightarrow> is_std_exception e" and "\<And>j e. json_dump J j = Inl e \<Longrightarrow> is_std_exception e"
  shows "passes (CMongoDBHandler J R :: 'w proxy_handler) b"
  unfolding passes_def
proof (intro allI impI)
  fix t :: "'w thread" assume "correlation_of (ctx t) \<noteq> None"
  then obtain cid where cid: "ctx t ''correlation_id'' = Some (AnyString cid)"
    by (auto simp: correlation_of_def split: option.splits any.splits)
  obtain r u where ru: "CMongoDBHandler_HandleUpstreamData J R b (int (length b)) t = (r, u)" by fastforce
  from mongo_forwards [OF cid assms(1), where R = R and J = J and n = "int (length b)"] assms(2-4)
  have "fst (CMongoDBHandler_HandleUpstreamData J R b (int (length b)) t) = Inr b" by blast
  with ru have "r = Inr b" by simp
  moreover have "world u = world t"
    using stable_snd [OF mongo_up_world, of t t J R b "int (length b)"] ru by simp
  ultimately show "\<exists>r u. HandleUpstreamData (CMongoDBHandler J R) b (int (length b)) t = (Inr r, u) \<and> world u = world t"
    using ru by (simp add: CMongoDBHandler_def)
qed

section \<open>The handlers are unseen\<close>

lemma view_eq: "wp2 off m k (\<lambda>_. alike) (\<lambda>_. alike) s t \<Longrightarrow> \<not> off (snd (k t)) \<Longrightarrow> network_view (m s) = network_view (k t)"
  by (auto simp: wp2_def network_view_def alike_def split: sum.splits prod.splits)

text \<open>C8: Whatever the environment does, the network cannot tell a connection watched by the
  MongoDB, the HTTPS or the PostgreSQL handler from one with \<open>BaseProxyHandler\<close>, which only
  forwards, provided that the handler fails on none of the chunks the client sent: the default and
  the ClickHouse pipeline return the same, leave the same world, and perform the same socket
  operations with the same ids and latencies.\<close>

theorem handlers_unseen_by_network:
  assumes "h \<in> onlookers J R H"
    and "accepted h (tr (snd (DefaultProxyPipeline env (Some BaseProxyHandler) n (initial_proxy (Raw Client) (Raw Target) w))))"
  shows "network_view (DefaultProxyPipeline env (Some h) n (initial_proxy (Raw Client) (Raw Target) w))
      = network_view (DefaultProxyPipeline env (Some BaseProxyHandler) n (initial_proxy (Raw Client) (Raw Target) w))
    \<and> network_view (ClickHousePipeline env (Some h) n (initial_proxy (Raw Client) (Raw Target) w))
      = network_view (ClickHousePipeline env (Some BaseProxyHandler) n (initial_proxy (Raw Client) (Raw Target) w))"
  using view_eq [OF monitor.default_pipeline_alike [OF onlooker_monitor [OF assms(1)]]] assms(2)
  by (simp add: clickhouse_is_default)

text \<open>C27: The same for the PostgreSQL pipeline, through its handshake, with and without TLS, under the
  same proviso: watched by the MongoDB, the HTTPS or the PostgreSQL handler, which fails on none of
  the chunks the client sent, it is for the network the same as with \<open>BaseProxyHandler\<close>.\<close>

theorem handlers_unseen_in_sessions:
  assumes "h \<in> onlookers J R H"
    and "accepted h (tr (snd (PostgreSQLPipeline env R' (Some BaseProxyHandler) n (initial_session (Raw Client) (Raw Target) w))))"
  shows "network_view (PostgreSQLPipeline env R' (Some h) n (initial_session (Raw Client) (Raw Target) w))
    = network_view (PostgreSQLPipeline env R' (Some BaseProxyHandler) n (initial_session (Raw Client) (Raw Target) w))"
  using view_eq [OF monitor.postgresql_pipeline_alike [OF onlooker_monitor [OF assms(1)]]] assms(2) by simp

text \<open>An example: a request parser that takes everything.\<close>

lemma sample_accepted: "accepted (CHttpsHandler sample_http) es"
  unfolding accepted_def by (auto intro!: https_passes simp: sample_http_def)

lemma sample_onlooker: "CHttpsHandler sample_http \<in> onlookers sample_json sample_readers sample_http"
  by (simp add: onlookers_def)

lemma handlers_unseen_by_network_witness:
  "network_view (DefaultProxyPipeline scripted (Some (CHttpsHandler sample_http)) 2
     (initial_proxy (Raw Client) (Raw Target) ([''ask''], [''answer''])))
   = network_view (DefaultProxyPipeline scripted (Some BaseProxyHandler) 2
     (initial_proxy (Raw Client) (Raw Target) ([''ask''], [''answer''])))"
  by (rule handlers_unseen_by_network [OF sample_onlooker sample_accepted, THEN conjunct1])

lemma handlers_unseen_in_sessions_witness:
  "network_view (PostgreSQLPipeline scripted sample_readers (Some (CHttpsHandler sample_http)) 2
     (initial_session (Raw Client) (Raw Target) ([''ask''], [''answer''])))
   = network_view (PostgreSQLPipeline scripted sample_readers (Some BaseProxyHandler) 2
     (initial_session (Raw Client) (Raw Target) ([''ask''], [''answer''])))"
  by (rule handlers_unseen_in_sessions [OF sample_onlooker sample_accepted])

end
