(* ===== verification/Packet_Stream.thy ===== *)
theory Packet_Stream
  imports Session_Pipelines
begin

text \<open>
  The splitting of a chunk into MySQL packets against a reference: \<open>split_packets\<close> takes packets
  off the front of the buffer, where \<open>extract_packets\<close> of the code walks through it with a 32-bit
  position. What the packets of a chunk ask for is read off the reference.
\<close>

section \<open>The reference\<close>

definition packet_size :: "string \<Rightarrow> nat" where
  "packet_size b = 4 + le_value (take 3 b)"

function split_packets :: "string \<Rightarrow> string list" where
  "split_packets b =
     (if b = [] then [] else take (packet_size b) b # split_packets (drop (packet_size b) b))"
  by pat_completeness auto
termination
  by (relation "measure length") (auto simp: packet_size_def)

declare split_packets.simps [simp del]

lemma split_packets_Nil [simp]: "split_packets [] = []"
  by (simp add: split_packets.simps)

text \<open>
  A packet with a whole header and a whole payload. A stretch of whole packets can be split off
  the front of a stream: reading the stream in such stretches loses nothing.
\<close>

definition whole_packet :: "string \<Rightarrow> bool" where
  "whole_packet p \<longleftrightarrow> 4 \<le> length p \<and> length p = packet_size p"

lemma packet_size_append: "3 \<le> length b \<Longrightarrow> packet_size (b @ c) = packet_size b"
  by (simp add: packet_size_def)

lemma packet_size_take: "packet_size (take (packet_size b) b) = packet_size b"
  by (simp add: packet_size_def min_def)

lemma split_packets_append:
  "list_all whole_packet (split_packets b) \<Longrightarrow> split_packets (b @ c) = split_packets b @ split_packets c"
proof (induction b rule: split_packets.induct)
  case (1 b)
  show ?case
  proof (cases "b = []")
    case False
    let ?n = "packet_size b"
    have split: "split_packets b = take ?n b # split_packets (drop ?n b)"
      using False by (simp add: split_packets.simps [of b])
    with "1.prems" have whole: "whole_packet (take ?n b)" and rest: "list_all whole_packet (split_packets (drop ?n b))"
      by simp_all
    have n: "?n \<le> length b" and size: "packet_size (b @ c) = ?n"
      using whole by (auto simp: whole_packet_def packet_size_take packet_size_append min_def split: if_splits)
    have "split_packets (b @ c) = take ?n b # split_packets (drop ?n b @ c)"
      using False n by (simp add: split_packets.simps [of "b @ c"] size)
    also have "\<dots> = split_packets b @ split_packets c"
      using "1.IH" [OF False rest] split by simp
    finally show ?thesis .
  qed simp
qed

text \<open>No length field is cut off (the payload of the last packet may be).\<close>

definition lengths_whole :: "string \<Rightarrow> bool" where
  "lengths_whole b \<longleftrightarrow> list_all (\<lambda>p. 3 \<le> length p) (split_packets b)"

lemma le_value_24: "le_value (take 3 b) < 2 ^ 24"
proof -
  have "(256::nat) ^ length (take 3 b) \<le> 256 ^ 3"
    by (intro power_increasing) auto
  with le_value_bound [of "take 3 b"] show ?thesis by simp
qed

text \<open>One step of the loop of the code takes one packet off the rest of the buffer.\<close>

lemma packets_from_step:
  assumes R: "le_readers R" and p: "p + 3 \<le> length b" and small: "length b + 2 ^ 24 + 4 < 2 ^ 31"
  shows "packets_from R b (int (length b)) (int p) =
    bindR (packets_from R b (int (length b)) (int (p + packet_size (drop p b))))
      (\<lambda>packets. Inr (take (packet_size (drop p b)) (drop p b) # packets))"
proof -
  let ?n = "le_value (take 3 (drop p b))" and ?i = "int p"
  let ?v = "of_nat ?n :: 24 word"
  have n: "?n < 2 ^ 24" by (rule le_value_24)
  then have unat_v: "unat ?v = ?n" by (simp add: unsigned_of_nat take_bit_nat_eq_self)
  have read: "readLEInt24 R b ?i = Inr ?v"
    using le_readers_at(3) [OF R, of ?i b] p by simp
  have sub: "substr_at b ?i (unat (ucast ?v + 4 :: 32 word)) = Inr (take (packet_size (drop p b)) (drop p b))"
    unfolding packet_span unat_v using p by (simp add: substr_at_def std_substr_def packet_size_def add.commute)
  have four: "int_add ?i 4 = Inr (?i + 4)"
    using p small by (simp add: int_add_def)
  have next_pos: "add_u32 (?i + 4) (ucast ?v) = int (p + packet_size (drop p b))"
  proof -
    have "uint (of_int (?i + 4) + (ucast ?v :: 32 word)) = ?i + 4 + int ?n"
      using add_u32_uint [of "?i + 4" ?v] p small n
      by (simp add: unsigned_of_nat take_bit_nat_eq_self)
    then show ?thesis
      unfolding add_u32_def using p small n by (simp add: to_int32_id packet_size_def)
  qed
  show ?thesis
    using p by (simp add: packets_from.simps [of R b _ ?i] read sub four next_pos Let_def)
qed

lemma packets_from_split:
  assumes R: "le_readers R" and small: "length b + 2 ^ 24 + 4 < 2 ^ 31"
  shows "lengths_whole (drop p b) \<Longrightarrow>
    packets_from R b (int (length b)) (int p) = Inr (split_packets (drop p b))"
proof (induction "length b - p" arbitrary: p rule: less_induct)
  case less
  show ?case
  proof (cases "p < length b")
    case False
    then show ?thesis by (simp add: packets_from.simps)
  next
    case True
    let ?r = "drop p b" and ?q = "p + packet_size (drop p b)"
    have split: "split_packets ?r = take (packet_size ?r) ?r # split_packets (drop ?q b)"
      using True by (simp add: split_packets.simps [of ?r] add.commute)
    with less.prems have whole: "lengths_whole (drop ?q b)" and "3 \<le> length ?r"
      by (simp_all add: lengths_whole_def)
    then have here: "p + 3 \<le> length b" using True by simp
    have "length b - ?q < length b - p" using True by (simp add: packet_size_def)
    from less.hyps [OF this whole] show ?thesis
      unfolding packets_from_step [OF R here small] split by simp
  qed
qed

lemma extract_packets_split:
  "le_readers R \<Longrightarrow> lengths_whole b \<Longrightarrow> length b + 2 ^ 24 + 4 < 2 ^ 31 \<Longrightarrow>
    extract_packets R b (int (length b)) = Inr (split_packets b)"
  using packets_from_split [of R b 0] by (simp add: extract_packets_def)

text \<open>C25: For every buffer whose length fields are whole, and up to the last 16 MB below 2 GB,
  the code's walk with a 32-bit position yields the packets of the reference, which takes them off
  the front one by one; the last packet may be cut short.\<close>

theorem extract_packets_is_split:
  assumes "le_readers R" and "lengths_whole b" and "length b + 2 ^ 24 + 4 < 2 ^ 31"
  shows "extract_packets R b (int (length b)) = Inr (split_packets b)"
  by (rule extract_packets_split [OF assms])

lemma split_sample: "split_packets ([CHR 0x02, nul, nul, nul] @ ''ab'' @ [CHR 0x05, nul, nul, CHR 0x01] @ ''cd'')
    = [[CHR 0x02, nul, nul, nul] @ ''ab'', [CHR 0x05, nul, nul, CHR 0x01] @ ''cd'']"
  by (simp add: split_packets.simps packet_size_def byte_def numeral_3_eq_3)

theorem extract_packets_is_split_witness:
  "extract_packets sample_readers ([CHR 0x02, nul, nul, nul] @ ''ab'' @ [CHR 0x05, nul, nul, CHR 0x01] @ ''cd'')
     (int (length ([CHR 0x02, nul, nul, nul] @ ''ab'' @ [CHR 0x05, nul, nul, CHR 0x01] @ ''cd'')))
   = Inr [[CHR 0x02, nul, nul, nul] @ ''ab'', [CHR 0x05, nul, nul, CHR 0x01] @ ''cd'']"
  by (subst extract_packets_is_split [OF sample_le_readers]; (unfold lengths_whole_def split_sample)?) simp_all

end
