(* ===== verification/Query_Audit.thy ===== *)
theory Query_Audit
  imports Session_Safety Stable_Rules
begin

text \<open>
  The query log of a session against what the client asked: what both session pipelines share. A
  handler is described by the chunks it understands (\<open>ok\<close>) and the queries in them (\<open>asks\<close>), both
  read off the protocol and not off the code.
\<close>

section \<open>What was asked and what was logged\<close>

fun chunks1 :: "event \<Rightarrow> string list" where
  "chunks1 (Recv k b) = (if side_of k = Client then [b] else [])"
| "chunks1 _ = []"

fun queries1 :: "event \<Rightarrow> string list" where
  "queries1 (LogQuery c q) = [q]"
| "queries1 _ = []"

definition client_chunks :: "event list \<Rightarrow> string list" where
  "client_chunks es = concat (map chunks1 es)"

definition queries :: "event list \<Rightarrow> string list" where
  "queries es = concat (map queries1 es)"

lemma chunks_queries_simps [simp]:
  "client_chunks [] = []" "client_chunks (e # es) = chunks1 e @ client_chunks es"
  "client_chunks (es @ fs) = client_chunks es @ client_chunks fs"
  "queries [] = []" "queries (e # es) = queries1 e @ queries es" "queries (es @ fs) = queries es @ queries fs"
  by (simp_all add: client_chunks_def queries_def)

text \<open>
  The log against the chunks: nothing but what was asked, in order; complete up to the last chunk,
  and including it while the session goes on.
\<close>

definition audited ::
    "(string \<Rightarrow> bool) \<Rightarrow> (string \<Rightarrow> string list) \<Rightarrow> bool \<Rightarrow> event list \<Rightarrow> bool" where
  "audited ok asks complete es \<longleftrightarrow> list_all ok (client_chunks es) \<longrightarrow>
     prefix (concat (map asks (butlast (client_chunks es)))) (queries es)
     \<and> prefix (queries es) (concat (map asks (client_chunks es)))
     \<and> (complete \<longrightarrow> queries es = concat (map asks (client_chunks es)))"

lemma audited_chunk:
  assumes "audited ok asks True a" and "client_chunks es = [b]"
    and "ok b \<Longrightarrow> prefix (queries es) (asks b)" and "complete \<Longrightarrow> ok b \<Longrightarrow> queries es = asks b"
  shows "audited ok asks complete (a @ es)"
  using assms by (auto simp: audited_def butlast_append)

lemma audited_quiet:
  "audited ok asks c a \<Longrightarrow> client_chunks es = [] \<Longrightarrow> queries es = [] \<Longrightarrow> audited ok asks c (a @ es)"
  by (simp add: audited_def)

lemma audited_weaken: "audited ok asks True a \<Longrightarrow> audited ok asks c a" "audited ok asks c a \<Longrightarrow> audited ok asks False a"
  by (auto simp: audited_def)

lemma audited_unheard: "client_chunks es = [] \<Longrightarrow> queries es = [] \<Longrightarrow> audited ok asks c es"
  by (simp add: audited_def)

section \<open>The loop\<close>

text \<open>
  An invariant in two grades: the full one, and what is left of it when a chunk could not be dealt
  with, after which the loop ends.
\<close>

locale auditor =
  fixes sel up down :: "('s, unit) cmd" and alive :: "'s \<Rightarrow> bool" and inv :: "bool \<Rightarrow> 's \<Rightarrow> bool"
  assumes weaken: "inv c s \<Longrightarrow> inv False s"
    and sel_law: "inv True s \<Longrightarrow> alive s \<Longrightarrow>
      wp sel (\<lambda>_ s'. inv True s' \<and> alive s') (\<lambda>_ s'. inv True s' \<and> alive s') s"
    and up_law: "inv True s \<Longrightarrow> alive s \<Longrightarrow> wp up (\<lambda>_ s'. inv (alive s') s') (\<lambda>f s'. escapes f \<and> inv False s') s"
    and down_law: "inv (alive s) s \<Longrightarrow>
      wp down (\<lambda>_ s'. inv (alive s') s') (\<lambda>f s'. escapes f \<and> inv False s') s"
begin

lemma round_audited:
  assumes s: "inv True s" "alive s"
  shows "wp (relay_round sel up down alive)
     (\<lambda>again s'. if again then inv True s' \<and> alive s' else inv False s') (\<lambda>_. inv False) s" (is "wp _ ?Q ?E s")
proof -
  let ?E' = "\<lambda>f s'. escapes f \<and> inv False s'"
  have after_up: "wp (seqM down (getM alive)) ?Q ?E' u" if "inv (alive u) u" for u
    unfolding wp_seq wp_get by (rule wp_mono [OF down_law [OF that]]) (auto intro: weaken)
  have after_select: "wp (seqM up (seqM down (getM alive))) ?Q ?E' u" if "inv True u" "alive u" for u
    unfolding wp_seq [of up] by (rule wp_mono [OF up_law [OF that]]) (assumption | rule after_up)+
  show ?thesis
    unfolding relay_round_def wp_try wp_seq [of sel]
    by (rule wp_mono [OF sel_law [OF s]])
      (auto simp: wp_ret escapes_def weaken intro!: wp_mono [OF after_select] split: failure.splits)
qed

lemma loop_audited:
  assumes s: "inv True s" "alive s"
    and Q: "\<And>running s'. inv running s' \<Longrightarrow> Q running s'" and E: "\<And>f s'. inv False s' \<Longrightarrow> E f s'"
  shows "wp (run_loop n (relay_round sel up down alive)) Q E s"
  by (rule wp_mono [OF wp_run_loop [where I = "\<lambda>s. inv True s \<and> alive s", OF round_audited]])
    (use s in \<open>auto intro: Q E split: if_splits\<close>)

end

section \<open>Around the loop\<close>

text \<open>Before the loop: no chunk was read, nothing was logged.\<close>

definition unheard :: "'w session \<Rightarrow> bool" where
  "unheard s \<longleftrightarrow> side_of (client_socket s) = Client \<and> side_of (target_socket s) = Target
     \<and> client_chunks (tr s) = [] \<and> queries (tr s) = [] \<and> latency_logged s"

lemma shaken_rule:
  assumes "wp m (\<lambda>status s'. unheard s' \<and> (status = (0 :: int) \<longrightarrow> P s')) (\<lambda>_. unheard) s"
    and "\<And>s'. unheard s' \<Longrightarrow> (\<not> has_error s' \<Longrightarrow> P s') \<Longrightarrow> Q () s'" and "\<And>f s'. unheard s' \<Longrightarrow> E f s'"
  shows "wp (tryM (bindM m (\<lambda>status. whenM (status \<noteq> 0) give_up)) (\<lambda>_. give_up)) Q E s"
proof -
  have failed: "unheard s \<Longrightarrow> Q () (s\<lparr>has_error := True\<rparr>)" for s
    by (rule assms(2)) (auto simp: unheard_def)
  show ?thesis
    unfolding wp_try wp_bind give_up_def
    by (rule wp_mono [OF assms(1)]) (auto simp: wp_simps intro: failed assms(2,3) split: failure.splits)
qed

lemma delete_sockets_audited:
  assumes "\<And>es s'. ctx (thr s') = ctx (thr s) \<Longrightarrow> tr s' = tr s @ es \<Longrightarrow> client_chunks es = [] \<Longrightarrow> queries es = [] \<Longrightarrow> Q () s'"
  shows "wp (delete_sockets env c t) Q E s"
  unfolding delete_sockets_def by (intro vcg) (auto intro!: assms)

end
