(* ===== verification/MySQL_Audit.thy ===== *)
theory MySQL_Audit
  imports Packet_Stream Query_Audit
begin

unbundle bit_operations_syntax

text \<open>
  \<open>MySQLPipeline\<close> with \<open>CMySQLHandler\<close>, the two parts together: which queries of a session end up
  in the query log. What was asked is read off the chunks by the reference splitting of
  \<open>Packet_Stream\<close>, without the code.
\<close>

section \<open>What was asked and what was logged\<close>

text \<open>The SQL text of a packet: after the header and the command byte, up to a NUL.\<close>

definition packet_queries :: "string \<Rightarrow> string list" where
  "packet_queries p =
     (if 4 < length p \<and> (p ! 4 = COM_QUERY \<or> p ! 4 = COM_STMT_PREPARE)
      then [takeWhile (\<lambda>c. c \<noteq> nul) (drop 5 p)] else [])"

definition chunk_queries :: "string \<Rightarrow> string list" where
  "chunk_queries b = concat (map packet_queries (split_packets b))"

text \<open>A chunk of whole packets: no packet of the stream is spread over two reads.\<close>

definition chunk_ok :: "string \<Rightarrow> bool" where
  "chunk_ok b \<longleftrightarrow> list_all whole_packet (split_packets b) \<and> length b + 2 ^ 24 + 4 < 2 ^ 31"

lemma chunk_ok_headers: "chunk_ok b \<Longrightarrow> list_all (\<lambda>p. 4 \<le> length p) (split_packets b)"
  by (auto simp: chunk_ok_def whole_packet_def elim: list.pred_mono_strong)

text \<open>
  The log against the stream the client sent, cut into packets as a whole: nothing but its queries,
  in order; complete up to the last read, and including it while the session goes on.
\<close>

definition stream_audited :: "bool \<Rightarrow> event list \<Rightarrow> bool" where
  "stream_audited complete es \<longleftrightarrow> list_all chunk_ok (client_chunks es) \<longrightarrow>
     prefix (chunk_queries (concat (butlast (client_chunks es)))) (queries es)
     \<and> prefix (queries es) (chunk_queries (concat (client_chunks es)))
     \<and> (complete \<longrightarrow> queries es = chunk_queries (concat (client_chunks es)))"

lemma chunk_queries_concat: "list_all chunk_ok cs \<Longrightarrow> chunk_queries (concat cs) = concat (map chunk_queries cs)"
proof (induction cs)
  case (Cons b cs)
  then have "split_packets (b @ concat cs) = split_packets b @ split_packets (concat cs)"
    by (intro split_packets_append) (simp add: chunk_ok_def)
  with Cons show ?case by (simp add: chunk_queries_def)
qed (simp add: chunk_queries_def)

lemma audited_stream: "audited chunk_ok chunk_queries c es \<Longrightarrow> stream_audited c es"
proof -
  have "list_all chunk_ok cs \<Longrightarrow> list_all chunk_ok (butlast cs)" for cs
    by (auto simp: list_all_iff dest: in_set_butlastD)
  then show "audited chunk_ok chunk_queries c es \<Longrightarrow> stream_audited c es"
    by (simp add: audited_def stream_audited_def chunk_queries_concat)
qed

text \<open>A session in which the client did not negotiate query attributes.\<close>

definition plain_session :: "'w session \<Rightarrow> bool" where
  "plain_session s \<longleftrightarrow> (case ctx (thr s) ''capabilities'' of
      Some (AnyU32 caps) \<Rightarrow> caps AND CLIENT_QUERY_ATTRIBUTES = 0 | _ \<Rightarrow> False)"

section \<open>The handler on one packet\<close>

lemma mysql_packet:
  assumes "mysql_session t caps cid" and "caps AND CLIENT_QUERY_ATTRIBUTES = 0" and "cstring_reader R"
    and "4 \<le> length p"
  shows "CMySQLHandler_HandleUpstreamData R p n t
    = (Inr p, t\<lparr>trace := trace t @ map (LogQuery cid) (packet_queries p)\<rparr>)"
proof -
  have at: "std_index p 4 = Inr (if 4 < length p then p ! 4 else nul)"
    using assms(4) by (auto simp: std_index_def)
  have content: "readCString R p 5 = Inr (takeWhile (\<lambda>c. c \<noteq> nul) (drop 5 p))" if "4 < length p"
    using cstring_reader_at [OF assms(3), of 5 p] that by simp
  have differ: "nul \<noteq> COM_QUERY" "nul \<noteq> COM_STMT_PREPARE" "COM_STMT_PREPARE \<noteq> COM_QUERY"
    by (simp_all add: COM_QUERY_def COM_STMT_PREPARE_def)
  show ?thesis
    using assms(1,2) differ
    by (auto simp: CMySQLHandler_HandleUpstreamData_def mysql_session_def cmd_defs ctx_at_present at content
        extract_query_from_query_command_def extract_query_from_prepare_command_def int_add_def
        packet_queries_def log_query_def emit_def)
qed

text \<open>On any packet: the context stays, and only queries are logged.\<close>

lemma mysql_any_packet:
  assumes "mysql_session t caps cid"
  shows "wp (CMySQLHandler_HandleUpstreamData R p n)
     (\<lambda>_ t'. ctx t' = ctx t \<and> (\<exists>es. trace t' = trace t @ es \<and> client_chunks es = []))
     (\<lambda>_ t'. ctx t' = ctx t \<and> (\<exists>es. trace t' = trace t @ es \<and> client_chunks es = [])) t"
  using assms unfolding CMySQLHandler_HandleUpstreamData_def log_query_def
  by (intro vcg) (auto simp: mysql_session_def)

lemma mysql_up_method: "HandleUpstreamData (CMySQLHandler R) = CMySQLHandler_HandleUpstreamData R"
  by (simp add: CMySQLHandler_def)

section \<open>The packets of a chunk\<close>

definition packets_ok :: "32 word \<Rightarrow> string list \<Rightarrow> bool" where
  "packets_ok caps ps \<longleftrightarrow> caps AND CLIENT_QUERY_ATTRIBUTES = 0 \<and> list_all (\<lambda>p. 4 \<le> length p) ps"

lemma send_packets_audit:
  fixes env :: "'w env"
  assumes "mysql_session t caps cid" and R: "cstring_reader R"
    and "\<And>t' es. trace t' = trace t @ es \<Longrightarrow> ctx t' = ctx t \<Longrightarrow> client_chunks es = [] \<Longrightarrow>
      (packets_ok caps ps \<Longrightarrow> queries es = concat (map packet_queries ps)) \<Longrightarrow> Q () t'"
    and "\<And>f t' es. trace t' = trace t @ es \<Longrightarrow> ctx t' = ctx t \<Longrightarrow> client_chunks es = [] \<Longrightarrow>
      (packets_ok caps ps \<Longrightarrow> prefix (queries es) (concat (map packet_queries ps))) \<Longrightarrow> E f t'"
  shows "wp (send_packets env (CMySQLHandler R) k ps) Q E t"
  using assms(1,3,4)
proof (induction ps arbitrary: t)
  case Nil
  from Nil(2) [of t "[]"] show ?case by (simp add: send_packets_def wp_ret)
next
  case (Cons p ps)
  define logged where "logged es \<longleftrightarrow> client_chunks es = [] \<and> (packets_ok caps (p # ps) \<longrightarrow> queries es = packet_queries p)" for es
  have handler: "wp (CMySQLHandler_HandleUpstreamData R p n)
      (\<lambda>_ t'. ctx t' = ctx t \<and> (\<exists>es. trace t' = trace t @ es \<and> logged es))
      (\<lambda>_ t'. ctx t' = ctx t \<and> (\<exists>es. trace t' = trace t @ es \<and> client_chunks es = []) \<and> \<not> packets_ok caps (p # ps)) t" for n
  proof (cases "packets_ok caps (p # ps)")
    case True
    have "client_chunks (map (LogQuery cid) qs) = []" "queries (map (LogQuery cid) qs) = qs" for qs
      by (induction qs) auto
    with True mysql_packet [OF Cons.prems(1) _ R, of p n] show ?thesis
      by (auto simp: wp_def packets_ok_def logged_def)
  qed (use mysql_any_packet [OF Cons.prems(1), of R p n] in \<open>simp add: logged_def\<close>)
  have rest: "wp (send_packets env (CMySQLHandler R) k ps) Q E u"
    if u: "trace u = trace t @ es @ [Sent k b]" "ctx u = ctx t" "logged es" for u es b
  proof (rule Cons.IH)
    show "mysql_session u caps cid" using Cons.prems(1) u(2) by (simp add: mysql_session_def)
  next
    fix t' :: "'w thread" and fs
    assume "trace t' = trace u @ fs" "ctx t' = ctx u" "client_chunks fs = []"
      and "packets_ok caps ps \<Longrightarrow> queries fs = concat (map packet_queries ps)"
    then show "Q () t'"
      using u by (intro Cons.prems(2) [of t' "es @ [Sent k b] @ fs"]) (auto simp: logged_def packets_ok_def)
  next
    fix f and t' :: "'w thread" and fs
    assume "trace t' = trace u @ fs" "ctx t' = ctx u" "client_chunks fs = []"
      and "packets_ok caps ps \<Longrightarrow> prefix (queries fs) (concat (map packet_queries ps))"
    then show "E f t'"
      using u by (intro Cons.prems(3) [of t' "es @ [Sent k b] @ fs"]) (auto simp: logged_def packets_ok_def)
  qed
  have stop: "E f u" if "trace u = trace t @ es @ fs" "ctx u = ctx t" "fs = [] \<or> fs = [SendFailed k b]"
      "client_chunks es = []" "packets_ok caps (p # ps) \<Longrightarrow> queries es = packet_queries p" for f u es fs b
    using that by (intro Cons.prems(3) [of u "es @ fs"]) auto
  note stop_first = stop [where fs = "[]", simplified]
  show ?case
    unfolding send_packets_simps send_bytes_def mysql_up_method wp_seq wp_bind
    by (rule wp_mono [OF handler])
      (auto simp: logged_def [symmetric] intro!: vcg_extern rest stop stop_first dest: logged_def [THEN iffD1])
qed

lemma send_packets_audited:
  fixes env :: "'w env"
  assumes "ctx t ''capabilities'' = Some (AnyU32 caps)" and "\<exists>cid. ctx t ''correlation_id'' = Some (AnyString cid)"
    and "cstring_reader R"
    and "\<And>t' es. trace t' = trace t @ es \<Longrightarrow> ctx t' = ctx t \<Longrightarrow> client_chunks es = [] \<Longrightarrow>
      (packets_ok caps ps \<Longrightarrow> queries es = concat (map packet_queries ps)) \<Longrightarrow> Q () t'"
    and "\<And>f t' es. trace t' = trace t @ es \<Longrightarrow> ctx t' = ctx t \<Longrightarrow> client_chunks es = [] \<Longrightarrow>
      (packets_ok caps ps \<Longrightarrow> prefix (queries es) (concat (map packet_queries ps))) \<Longrightarrow> E f t'"
  shows "wp (send_packets env (CMySQLHandler R) k ps) Q E t"
proof -
  from assms(1,2) obtain cid where "mysql_session t caps cid" by (auto simp: mysql_session_def)
  then show ?thesis by (rule send_packets_audit) (fact assms)+
qed

section \<open>A round\<close>

lemma chunk_ok_split:
  "le_readers R \<Longrightarrow> chunk_ok b \<Longrightarrow> extract_packets R b (int (length b)) = Inr (split_packets b)"
  by (rule extract_packets_split) (auto simp: chunk_ok_def whole_packet_def lengths_whole_def elim: list.pred_mono_strong)

abbreviation mysql_audited :: "bool \<Rightarrow> event list \<Rightarrow> bool" where
  "mysql_audited \<equiv> audited chunk_ok chunk_queries"

definition auditing :: "readers \<Rightarrow> 32 word \<Rightarrow> bool \<Rightarrow> 'w session \<Rightarrow> bool" where
  "auditing R caps complete s \<longleftrightarrow> le_readers R \<and> cstring_reader R
     \<and> side_of (client_socket s) = Client \<and> side_of (target_socket s) = Target
     \<and> ctx (thr s) ''capabilities'' = Some (AnyU32 caps)
     \<and> (\<not> latency_logged s \<longrightarrow> (\<exists>cid. ctx (thr s) ''correlation_id'' = Some (AnyString cid)))
     \<and> (caps AND CLIENT_QUERY_ATTRIBUTES = 0 \<longrightarrow> mysql_audited complete (tr s))"

lemma up_audited:
  assumes "auditing R caps True s" and "\<not> has_error s"
  shows "wp (MySQLPipeline_upstream env R (CMySQLHandler R))
     (\<lambda>_ s'. auditing R caps (\<not> has_error s') s') (\<lambda>f s'. escapes f \<and> auditing R caps False s') s"
proof -
  have R: "le_readers R" "cstring_reader R" using assms(1) by (simp_all add: auditing_def)
  have quiet: "mysql_audited c (a @ es)" if "mysql_audited True a" "client_chunks es = []" "queries es = []" for a es c
    using audited_quiet audited_weaken that by blast
  have empty: "mysql_audited c (a @ [Recv k []])" if "mysql_audited True a" "side_of k = Client" for a k c
    using that by (intro audited_chunk [where b = "[]"]) (auto simp: chunk_queries_def)
  have unread: "mysql_audited False (a @ Recv k b # es)"
    if "mysql_audited True a" "side_of k = Client" "client_chunks es = []" "queries es = []" for a k b es
    using that by (intro audited_chunk [where b = b]) auto
  have read: "mysql_audited c (a @ Recv k b # es)"
    if "mysql_audited True a" "side_of k = Client" "client_chunks es = []" "extract_packets R b (int (length b)) = Inr ps"
      "packets_ok caps ps \<Longrightarrow> prefix (queries es) (concat (map packet_queries ps))"
      "c \<Longrightarrow> packets_ok caps ps \<Longrightarrow> queries es = concat (map packet_queries ps)"
      "caps AND CLIENT_QUERY_ATTRIBUTES = 0" for a k b es ps c
  proof (intro audited_chunk [where b = b])
    have "ps = split_packets b \<and> packets_ok caps ps" if "chunk_ok b"
      using chunk_ok_split [OF R(1) that] \<open>extract_packets R b _ = _\<close> \<open>caps AND _ = 0\<close> that
      by (auto simp: packets_ok_def dest: chunk_ok_headers)
    then show "chunk_ok b \<Longrightarrow> prefix (queries (Recv k b # es)) (chunk_queries b)"
      "c \<Longrightarrow> chunk_ok b \<Longrightarrow> queries (Recv k b # es) = chunk_queries b"
      using that(5,6) by (auto simp: chunk_queries_def)
  qed (use that in auto)
  show ?thesis
    using assms unfolding MySQLPipeline_upstream_def session_effects
    by (intro vcg send_packets_audited [where caps = caps])
      (auto simp: auditing_def intro: quiet empty unread read audited_weaken)
qed

lemma down_audited:
  assumes "auditing R caps (\<not> has_error s) s"
  shows "wp (MySQLPipeline_downstream env (CMySQLHandler R))
     (\<lambda>_ s'. auditing R caps (\<not> has_error s') s') (\<lambda>f s'. escapes f \<and> auditing R caps False s') s"
proof -
  have quiet: "mysql_audited c (a @ es)" "mysql_audited False (a @ es)"
    if "mysql_audited c a" "client_chunks es = []" "queries es = []" for a es c
    using that by (auto simp: audited_def)
  have down: "HandleDownStreamData (CMySQLHandler R) b n = retM b" for b n
    by (intro ext) (simp add: CMySQLHandler_def CMySQLHandler_HandleDownStreamData_def)
  show ?thesis
    using assms unfolding MySQLPipeline_downstream_def session_effects down
    by (intro vcg) (auto simp: auditing_def intro: quiet audited_weaken)
qed

interpretation mysql_audit: auditor "session_select env" "MySQLPipeline_upstream env R (CMySQLHandler R)"
    "MySQLPipeline_downstream env (CMySQLHandler R)" "\<lambda>s. \<not> has_error s" "auditing R caps" for env R caps
proof
  fix s :: "'a session"
  show "auditing R caps c s \<Longrightarrow> auditing R caps False s" for c
    by (auto simp: auditing_def intro: audited_weaken)
  show "auditing R caps True s \<Longrightarrow> \<not> has_error s \<Longrightarrow>
      wp (session_select env) (\<lambda>_ s'. auditing R caps True s' \<and> \<not> has_error s')
        (\<lambda>_ s'. auditing R caps True s' \<and> \<not> has_error s') s"
    unfolding session_select_def select_def by (intro vcg) (auto simp: auditing_def)
qed (rule up_audited down_audited; assumption)+

section \<open>The whole session\<close>

lemma handshake_audited:
  assumes "unheard s"
  shows "wp (MySQLHandshake env R)
     (\<lambda>status s'. unheard s' \<and> (status = 0 \<longrightarrow> (\<exists>caps. ctx (thr s') ''capabilities'' = Some (AnyU32 caps))))
     (\<lambda>_. unheard) s"
  using assms unfolding MySQLHandshake_def handshake_effects
  by (intro vcg) (simp_all add: unheard_def)

lemma loop_audit_rule:
  assumes R: "le_readers R" "cstring_reader R" and "unheard s" and "\<not> has_error s"
    and "\<exists>caps. ctx (thr s) ''capabilities'' = Some (AnyU32 caps)"
    and Q: "\<And>running s'. (plain_session s' \<longrightarrow> mysql_audited running (tr s')) \<Longrightarrow> Q running s'"
    and E: "\<And>f s'. (plain_session s' \<longrightarrow> mysql_audited False (tr s')) \<Longrightarrow> E f s'"
  shows "wp (run_loop n (relay_round (session_select env) (MySQLPipeline_upstream env R (CMySQLHandler R))
       (MySQLPipeline_downstream env (CMySQLHandler R)) (\<lambda>s. \<not> has_error s))) Q E s"
proof -
  from assms(5) obtain caps where caps: "ctx (thr s) ''capabilities'' = Some (AnyU32 caps)" by blast
  have "auditing R caps True s" using R assms(3) caps by (auto simp: auditing_def unheard_def intro: audited_unheard)
  then show ?thesis
    by (rule mysql_audit.loop_audited)
      (auto simp: assms(4) auditing_def plain_session_def intro: Q E)
qed

lemma mysql_chunks_audited:
  assumes "le_readers R" and "cstring_reader R"
  shows "wp (MySQLPipeline env R (Some (CMySQLHandler R)) rounds)
     (\<lambda>running s. plain_session s \<longrightarrow> audited chunk_ok chunk_queries running (tr s))
     (\<lambda>_ s. plain_session s \<longrightarrow> audited chunk_ok chunk_queries False (tr s))
     (initial_session (Raw Client) (Raw Target) w)"
  unfolding MySQLPipeline_def option.case initial_session_def initial_thread_def resolve_target_def
    open_target_def put_target_host_def stamp_start_def configure_sockets_def thread_effects
  by (intro vcg shaken_rule [OF handshake_audited] loop_audit_rule [OF assms] delete_sockets_audited)
    (auto simp: unheard_def plain_session_def intro: audited_unheard audited_quiet)

text \<open>C4: A whole MySQL session with query logging, in every environment, provided that the client
  negotiated no query attributes and that every read returned whole packets (the code drops nothing
  of a packet spread over two reads, but takes its parts for packets). Then the query log holds,
  in order and each once, the text (up to a NUL) of the queries and the prepared statements in the
  stream the client sent, and nothing else; it is complete for all but the last read, and for
  the last one too while the session is still open.\<close>

theorem mysql_session_audited:
  assumes "le_readers R" and "cstring_reader R"
  shows "wp (MySQLPipeline env R (Some (CMySQLHandler R)) rounds)
     (\<lambda>running s. plain_session s \<longrightarrow> stream_audited running (tr s))
     (\<lambda>_ s. plain_session s \<longrightarrow> stream_audited False (tr s))
     (initial_session (Raw Client) (Raw Target) w)"
  by (rule wp_mono [OF mysql_chunks_audited [OF assms]]) (auto intro: audited_stream)

section \<open>A session, for examples\<close>

text \<open>A client that negotiates protocol 4.1 and nothing else, and sends one query.\<close>

definition plain_client :: "script env" where
  "plain_client = scripted\<lparr>x_recv_blocking := (\<lambda>k n w.
     (Inr (\<lambda>i. if n = 4 then (if i = 0 then CHR 0x02 else nul) else if i = 1 then CHR 0x02 else nul), w))\<rparr>"

definition select_1 :: string where
  "select_1 = [CHR 0x09, nul, nul, nul, COM_QUERY] @ ''SELECT 1''"

abbreviation audit_start :: "script session" where
  "audit_start \<equiv> initial_session (Raw Client) (Raw Target) ([select_1], [])"

lemma select_1_split: "extract_packets sample_readers select_1 (int (length select_1)) = Inr [select_1]"
proof -
  have "split_packets select_1 = [select_1]"
    by (simp add: split_packets.simps packet_size_def byte_def numeral_3_eq_3 select_1_def)
  then show ?thesis using chunk_ok_split [OF sample_le_readers, of select_1]
    by (simp add: chunk_ok_def whole_packet_def packet_size_def byte_def numeral_3_eq_3 select_1_def)
qed

lemma plain_query: assumes "mysql_session t 512 cid" shows "CMySQLHandler_HandleUpstreamData sample_readers select_1 n t = (Inr select_1, t\<lparr>trace := trace t @ [LogQuery cid ''SELECT 1'']\<rparr>)"
  using mysql_packet [OF assms _ sample_cstring_reader, of select_1 n]
  by (simp add: CLIENT_QUERY_ATTRIBUTES_def select_1_def packet_queries_def COM_QUERY_def)

lemma plain_handler: "ctx t ''capabilities'' = Some (AnyU32 512) \<Longrightarrow> ctx t ''correlation_id'' = Some (AnyString cid) \<Longrightarrow>
  HandleUpstreamData (CMySQLHandler sample_readers) select_1 n t = (Inr select_1, t\<lparr>trace := trace t @ [LogQuery cid ''SELECT 1'']\<rparr>)"
  using plain_query [of t cid] by (simp add: mysql_session_def mysql_up_method)

lemma select_1_packets: "extract_packets sample_readers select_1 13 = Inr [select_1]"
  using select_1_split by (simp add: select_1_def)

lemma select_1_size: "select_1 \<noteq> []" "length select_1 = 13" by (simp_all add: select_1_def)

lemma plain_env: "x_request_server plain_client w = (Inr \<lparr>ipaddress = ''db'', port = 9000\<rparr>, w)"
  "x_connect plain_client k ep w = (Inr (), w)"
     "x_set_read_timeout plain_client k w = (Inr (), w)"
     "x_set_keep_alive plain_client k w = (Inr (), w)"
     "x_select plain_client k t w = (Inr (), w)"
     "x_readable plain_client k w = (Inr (side_of k = Client \<or> snd w \<noteq> []), w)"
     "x_receive plain_client = scripted_receive"
     "x_recv_blocking plain_client k n w = (Inr (\<lambda>i. if n = 4 then (if i = 0 then CHR 0x02 else nul) else if i = 1 then CHR 0x02 else nul), w)"
     "x_send plain_client k b w = (Inr (), w)"
     "x_delete plain_client k w = w"
     "x_uuid plain_client w = (Inr ''u'', w)"
     "x_now plain_client w = (0, w)" by (simp_all add: plain_client_def scripted_def)

lemma plain_bytes: "map (\<lambda>i. if i = 0 then CHR 0x02 else nul) [0..<4] = [CHR 0x02, nul, nul, nul]" "map (\<lambda>i. if i = Suc 0 then CHR 0x02 else nul) [0..<2] = [nul, CHR 0x02]"
  by (simp_all add: upt_rec)

lemma plain_readers: "readLEInt24 sample_readers [CHR 0x02, nul, nul, nul] 0 = Inr 2" "readInt32 sample_readers [CHR 0x02, nul, nul, nul, nul, CHR 0x02] 4 = Inr 512"
  by (simp_all add: sample_readers_def byte_def)

lemma plain_caps: "512 AND CLIENT_PROTOCOL_41 \<noteq> 0" "512 AND CLIENT_SSL = 0"  "512 AND CLIENT_QUERY_ATTRIBUTES = 0"
  by (simp_all add: CLIENT_PROTOCOL_41_def CLIENT_SSL_def CLIENT_QUERY_ATTRIBUTES_def)

definition shaken_events :: "event list" where
  "shaken_events = [RecvBlocked (Raw Target) [CHR 0x02, nul, nul, nul], RecvBlocked (Raw Target) [nul, CHR 0x02],
     Sent (Raw Client) [CHR 0x02, nul, nul, nul, nul, CHR 0x02], RecvBlocked (Raw Client) [CHR 0x02, nul, nul, nul],
     RecvBlocked (Raw Client) [nul, CHR 0x02], Sent (Raw Target) [CHR 0x02, nul, nul, nul, nul, CHR 0x02],
     RecvBlocked (Raw Target) [CHR 0x02, nul, nul, nul], RecvBlocked (Raw Target) [nul, CHR 0x02],
     Sent (Raw Client) [CHR 0x02, nul, nul, nul, nul, CHR 0x02]]"

lemma plain_shake:
  assumes "client_socket s = Raw Client" "target_socket s = Raw Target"
  shows "MySQLHandshake plain_client sample_readers s = (Inr 0, s\<lparr>thr := thr s\<lparr>ctx := (ctx (thr s))(''capabilities'' \<mapsto> AnyU32 512),
     trace := tr s @ shaken_events\<rparr>\<rparr>)"
  using assms by (simp add: MySQLHandshake_def handshake_effects recv_blocking_def cmd_defs on_thread_def
      effect_run_defs plain_env plain_bytes plain_readers plain_caps shaken_events_def)

lemma plain_select: "session_select plain_client s = (Inr (), s)"
  by (simp add: session_select_def cmd_defs on_thread_def effect_run_defs plain_env)

lemma plain_up:
  assumes "client_socket s = Raw Client" "target_socket s = Raw Target" "world (thr s) = ([select_1], [])"
   "ctx (thr s) ''capabilities'' = Some (AnyU32 512)" "latency_logged s"
  shows "MySQLPipeline_upstream plain_client sample_readers (CMySQLHandler sample_readers) s
    = (Inr (), s\<lparr>correlation_id := ''u'', latency_logged := False, start_time := 0,
       thr := thr s\<lparr>world := ([], []), ctx := (ctx (thr s))(''correlation_id'' \<mapsto> AnyString ''u''),
         trace := tr s @ [Recv (Raw Client) select_1, Uuid ''u'', LogQuery ''u'' ''SELECT 1'', Sent (Raw Target) select_1]\<rparr>\<rparr>)"
  using assms by (simp add: MySQLPipeline_upstream_def session_effects cmd_defs on_thread_def
      effect_run_defs plain_env select_1_size select_1_packets send_packets_def plain_handler)

lemma plain_down:
  assumes "target_socket s = Raw Target" "world (thr s) = ([], [])"
  shows "MySQLPipeline_downstream plain_client h s = (Inr (), s)"
  using assms by (simp add: MySQLPipeline_downstream_def session_effects cmd_defs on_thread_def effect_run_defs plain_env)

lemma plain_relay: 
  assumes "client_socket s = Raw Client" "target_socket s = Raw Target" "world (thr s) = ([select_1], [])"
   "ctx (thr s) ''capabilities'' = Some (AnyU32 512)" "latency_logged s" "\<not> has_error s"
  shows "run_loop (Suc 0) (relay_round (session_select plain_client) (MySQLPipeline_upstream plain_client sample_readers (CMySQLHandler sample_readers))
    (MySQLPipeline_downstream plain_client (CMySQLHandler sample_readers)) (\<lambda>s. \<not> has_error s)) s
    = (Inr True, s\<lparr>correlation_id := ''u'', latency_logged := False, start_time := 0,
       thr := thr s\<lparr>world := ([], []), ctx := (ctx (thr s))(''correlation_id'' \<mapsto> AnyString ''u''),
         trace := tr s @ [Recv (Raw Client) select_1, Uuid ''u'', LogQuery ''u'' ''SELECT 1'', Sent (Raw Target) select_1]\<rparr>\<rparr>)"
  using assms by (simp add: relay_round_def cmd_defs plain_select plain_up plain_down)

lemma plain_run: "\<exists>s. MySQLPipeline plain_client sample_readers (Some (CMySQLHandler sample_readers)) (Suc 0) audit_start = (Inr True, s)
   \<and> client_chunks (tr s) = [select_1] \<and> queries (tr s) = [''SELECT 1''] \<and> plain_session s"
  by (simp add: MySQLPipeline_def session_prologue_defs cmd_defs on_thread_def effect_run_defs plain_env
      plain_shake plain_relay initial_session_def initial_thread_def plain_session_def plain_caps shaken_events_def del: run_loop.simps)

lemma mysql_session_audited_witness:
  "\<exists>s. MySQLPipeline plain_client sample_readers (Some (CMySQLHandler sample_readers)) (Suc 0) audit_start = (Inr True, s)
     \<and> client_chunks (tr s) = [select_1] \<and> queries (tr s) = [''SELECT 1''] \<and> plain_session s
     \<and> stream_audited True (tr s)"
proof -
  obtain s where s: "MySQLPipeline plain_client sample_readers (Some (CMySQLHandler sample_readers)) (Suc 0) audit_start = (Inr True, s)"
    and rest: "client_chunks (tr s) = [select_1]" "queries (tr s) = [''SELECT 1'']" "plain_session s"
    using plain_run by blast
  have "plain_session s \<longrightarrow> stream_audited True (tr s)"
    using mysql_session_audited [OF sample_le_readers sample_cstring_reader, of plain_client "Suc 0" "([select_1], [])"] s
    by (simp add: wp_def)
  with s rest show ?thesis by blast
qed

end
