(* ===== verification/PostgreSQL_Audit.thy ===== *)
theory PostgreSQL_Audit
  imports Query_Audit Handler_Family Scripted_World
begin

text \<open>
  \<open>PostgreSQLPipeline\<close> with \<open>CPostgreSQLHandler\<close>: which queries of a session end up in the query
  log. This pipeline hands every chunk to the handler as it comes, and the handler looks at the
  first message of it only.
\<close>

section \<open>What a chunk asks for\<close>

definition be_value :: "string \<Rightarrow> nat" where
  "be_value cs = le_value (rev cs)"

text \<open>The query of the first message: of a simple query, or the second string of a \<open>Parse\<close>.\<close>

definition first_query :: "string \<Rightarrow> string list" where
  "first_query b =
     (if b = [] then []
      else if hd b = MsgTypeQuery then [takeWhile (\<lambda>c. c \<noteq> nul) (drop 5 b)]
      else if hd b = MsgTypeParse then [takeWhile (\<lambda>c. c \<noteq> nul) (tl (dropWhile (\<lambda>c. c \<noteq> nul) (drop 5 b)))]
      else [])"

text \<open>
  The code looks for the end of the statement name of a \<open>Parse\<close> from the last byte of the length
  field on: when this byte is zero, it takes the name for the query.
\<close>

definition misread :: "string \<Rightarrow> bool" where
  "misread b \<longleftrightarrow> b \<noteq> [] \<and> hd b = MsgTypeParse \<and> b ! 4 = nul"

definition first_logged :: "string \<Rightarrow> string list" where
  "first_logged b = (if misread b then [takeWhile (\<lambda>c. c \<noteq> nul) (drop 5 b)] else first_query b)"

text \<open>The first message is whole as far as its strings, and its length field tells the truth.\<close>

definition first_message_ok :: "string \<Rightarrow> bool" where
  "first_message_ok b \<longleftrightarrow> length b < 2 ^ 32 \<and>
     (b \<noteq> [] \<and> hd b = MsgTypeQuery \<longrightarrow> 5 \<le> length b \<and>
        be_value (take 4 (drop 1 b)) = length (takeWhile (\<lambda>c. c \<noteq> nul) (drop 5 b)) + 5) \<and>
     (b \<noteq> [] \<and> hd b = MsgTypeParse \<longrightarrow> 5 \<le> length b \<and> nul \<in> set (drop 5 b) \<and>
        nul \<in> set (tl (dropWhile (\<lambda>c. c \<noteq> nul) (drop 5 b))))"

lemma misread_differs: "hd b = MsgTypeQuery \<Longrightarrow> \<not> misread b"
  by (simp add: misread_def MsgTypeQuery_def MsgTypeParse_def)

lemma be_value_less: "length cs = 4 \<Longrightarrow> be_value cs < 2 ^ 32"
  using le_value_bound [of "rev cs"] by (simp add: be_value_def)

lemma body_length:
  assumes "be_reader R" and "5 \<le> length b" and v: "v = be_value (take 4 (drop 1 b))" "4 \<le> v"
  shows "getMessageBodyLength R b = Inr (of_nat (v - 4))"
proof -
  have "v < 2 ^ 32" using v(1) be_value_less assms(2) by simp
  moreover have "(of_nat v - 4 :: 32 word) = of_nat (v - 4)" using v(2) by (simp add: of_nat_diff)
  moreover have "readBEInt32 R b 1 = Inr (of_nat v)" using assms by (simp add: be_reader_def be_value_def)
  ultimately show ?thesis
    by (simp add: getMessageBodyLength_def unsigned_of_nat take_bit_nat_eq_self)
qed

lemma body_length_any: "be_reader R \<Longrightarrow> 5 \<le> length b \<Longrightarrow> \<exists>l. getMessageBodyLength R b = Inr l"
  by (simp add: getMessageBodyLength_def be_reader_def)

lemma simple_text:
  assumes R: "be_reader R" and b: "5 \<le> length b"
    and v: "be_value (take 4 (drop 1 b)) = length (takeWhile (\<lambda>c. c \<noteq> nul) (drop 5 b)) + 5"
  shows "simple_query_text R b = Inr (takeWhile (\<lambda>c. c \<noteq> nul) (drop 5 b))"
proof -
  let ?t = "takeWhile (\<lambda>c. c \<noteq> nul) (drop 5 b)"
  have small: "length ?t + 5 < 2 ^ 32" using v be_value_less [of "take 4 (drop 1 b)"] b by simp
  have "getMessageBodyLength R b = Inr (of_nat (Suc (length ?t)))"
    using body_length [OF R b v [symmetric]] by simp
  moreover have "take (length ?t) (drop 5 b) = ?t" by (metis takeWhile_eq_take)
  ultimately show ?thesis
    using b small by (simp add: simple_query_text_def std_substr_def unat_of_nat take_bit_nat_eq_self)
qed

lemma at_nul: "nul \<in> set s \<Longrightarrow> s = takeWhile (\<lambda>c. c \<noteq> nul) s @ nul # tl (dropWhile (\<lambda>c. c \<noteq> nul) s)"
proof (induction s)
  case (Cons c s)
  then show ?case by (cases "c = nul") auto
qed simp

lemma parse_text:
  assumes R: "be_reader R" and b: "5 \<le> length b" "b ! 4 \<noteq> nul" "length b < 2 ^ 32"
    and strings: "nul \<in> set (drop 5 b)" "nul \<in> set (tl (dropWhile (\<lambda>c. c \<noteq> nul) (drop 5 b)))"
  shows "parse_query_text R b = Inr (takeWhile (\<lambda>c. c \<noteq> nul) (tl (dropWhile (\<lambda>c. c \<noteq> nul) (drop 5 b))))"
proof -
  let ?name = "takeWhile (\<lambda>c. c \<noteq> nul) (drop 5 b)" and ?rest = "tl (dropWhile (\<lambda>c. c \<noteq> nul) (drop 5 b))"
  let ?sql = "takeWhile (\<lambda>c. c \<noteq> nul) ?rest"
  have "b = take 4 b @ drop 4 b" by simp
  also have "drop 4 b = b ! 4 # drop 5 b" using b(1) Cons_nth_drop_Suc [of 4 b] by simp
  also have "drop 5 b = ?name @ nul # ?rest" by (rule at_nul [OF strings(1)])
  also have "?rest = ?sql @ nul # tl (dropWhile (\<lambda>c. c \<noteq> nul) ?rest)" by (rule at_nul [OF strings(2)])
  finally have split: "b = take 4 b @ (b ! 4 # ?name) @ nul # ?sql @ nul # tl (dropWhile (\<lambda>c. c \<noteq> nul) ?rest)" by simp
  obtain l where "getMessageBodyLength R b = Inr l" using body_length_any [OF R b(1)] by blast
  then show ?thesis
    by (rule parse_text_between [OF _ split]) (use b in \<open>auto dest: set_takeWhileD\<close>)
qed

lemma misread_text:
  assumes R: "be_reader R" and b: "5 \<le> length b" "b ! 4 = nul" "length b < 2 ^ 32" and string: "nul \<in> set (drop 5 b)"
  shows "parse_query_text R b = Inr (takeWhile (\<lambda>c. c \<noteq> nul) (drop 5 b))"
proof -
  let ?name = "takeWhile (\<lambda>c. c \<noteq> nul) (drop 5 b)"
  have "b = take 4 b @ drop 4 b" by simp
  also have "drop 4 b = b ! 4 # drop 5 b" using b(1) Cons_nth_drop_Suc [of 4 b] by simp
  also have "drop 5 b = ?name @ nul # tl (dropWhile (\<lambda>c. c \<noteq> nul) (drop 5 b))" by (rule at_nul [OF string])
  finally have split: "b = take 4 b @ [] @ nul # ?name @ nul # tl (dropWhile (\<lambda>c. c \<noteq> nul) (drop 5 b))" using b(2) by simp
  obtain l where "getMessageBodyLength R b = Inr l" using body_length_any [OF R b(1)] by blast
  then show ?thesis
    by (rule parse_text_between [OF _ split]) (use b in \<open>auto dest: set_takeWhileD\<close>)
qed

section \<open>The handler on a chunk\<close>

lemma postgresql_chunk:
  assumes R: "be_reader R" and cid: "ctx t ''correlation_id'' = Some (AnyString cid)" and ok: "first_message_ok b"
  shows "CPostgreSQLHandler_HandleUpstreamData R b n t = (Inr b, t\<lparr>trace := trace t @ map (LogQuery cid) (first_logged b)\<rparr>)"
proof -
  have differ: "MsgTypeQuery \<noteq> MsgTypeParse" "MsgTypeQuery \<noteq> nul" "MsgTypeParse \<noteq> nul"
    by (simp_all add: MsgTypeQuery_def MsgTypeParse_def)
  have at: "std_index b 0 = Inr (if b = [] then nul else hd b)" by (simp add: std_index_def hd_conv_nth)
  consider (query) "b \<noteq> []" "hd b = MsgTypeQuery" | (parse) "b \<noteq> []" "hd b = MsgTypeParse"
    | (other) "b = [] \<or> hd b \<noteq> MsgTypeQuery \<and> hd b \<noteq> MsgTypeParse" by blast
  then show ?thesis
  proof cases
    case query
    with ok simple_text [OF R, of b] at misread_differs [of b] show ?thesis
      by (subst postgresql_up_log [OF cid, where q = "hd (first_logged b)"])
        (simp_all add: first_logged_def first_query_def first_message_ok_def)
  next
    case parse
    with ok parse_text [OF R, of b] misread_text [OF R, of b] at differ show ?thesis
      by (subst postgresql_up_log [OF cid, where q = "hd (first_logged b)"])
        (simp_all add: first_logged_def misread_def first_query_def first_message_ok_def)
  next
    case other
    with differ show ?thesis
      by (auto simp: CPostgreSQLHandler_HandleUpstreamData_def at first_logged_def misread_def first_query_def cmd_defs)
  qed
qed

text \<open>On any chunk: the context stays, and only queries are logged.\<close>

lemma postgresql_any_chunk:
  assumes "ctx t ''correlation_id'' = Some (AnyString cid)"
  shows "wp (CPostgreSQLHandler_HandleUpstreamData R b n)
     (\<lambda>r t'. r = b \<and> ctx t' = ctx t \<and> (\<exists>es. trace t' = trace t @ es \<and> client_chunks es = []))
     (\<lambda>_ t'. ctx t' = ctx t \<and> (\<exists>es. trace t' = trace t @ es \<and> client_chunks es = [] \<and> queries es = [])) t"
  using assms unfolding CPostgreSQLHandler_HandleUpstreamData_def log_query_def
  by (intro vcg) auto

section \<open>The halves of the loop\<close>

abbreviation postgresql_audited :: "bool \<Rightarrow> event list \<Rightarrow> bool" where
  "postgresql_audited \<equiv> audited first_message_ok first_logged"

definition pg_auditing :: "readers \<Rightarrow> bool \<Rightarrow> 'w session \<Rightarrow> bool" where
  "pg_auditing R complete s \<longleftrightarrow> be_reader R \<and> side_of (client_socket s) = Client \<and> side_of (target_socket s) = Target
     \<and> (\<not> latency_logged s \<longrightarrow> (\<exists>cid. ctx (thr s) ''correlation_id'' = Some (AnyString cid)))
     \<and> postgresql_audited complete (tr s)"

text \<open>The handler as a rule: what it logs of a chunk is what the chunk asks for, if it is whole.\<close>

lemma vcg_postgresql:
  assumes "be_reader R" and cid: "\<exists>cid. ctx t ''correlation_id'' = Some (AnyString cid)"
    and Q: "\<And>t' es. trace t' = trace t @ es \<Longrightarrow> ctx t' = ctx t \<Longrightarrow> client_chunks es = [] \<Longrightarrow>
      (first_message_ok b \<Longrightarrow> queries es = first_logged b) \<Longrightarrow> Q b t'"
    and E: "\<And>f t' es. trace t' = trace t @ es \<Longrightarrow> ctx t' = ctx t \<Longrightarrow> client_chunks es = [] \<Longrightarrow> queries es = [] \<Longrightarrow> E f t'"
  shows "wp (HandleUpstreamData (CPostgreSQLHandler R) b n) Q E t"
proof -
  from cid obtain c where c: "ctx t ''correlation_id'' = Some (AnyString c)" by blast
  have up: "HandleUpstreamData (CPostgreSQLHandler R) = CPostgreSQLHandler_HandleUpstreamData R"
    by (simp add: CPostgreSQLHandler_def)
  show ?thesis
  proof (cases "first_message_ok b")
    case True
    have "client_chunks (map (LogQuery c) qs) = []" "queries (map (LogQuery c) qs) = qs" for qs
      by (induction qs) auto
    with postgresql_chunk [OF assms(1) c True, of n] Q show ?thesis by (simp add: up wp_def)
  next
    case False
    then show ?thesis
      unfolding up by (intro wp_mono [OF postgresql_any_chunk [OF c]]) (auto intro: Q E)
  qed
qed

lemma pg_up_audited:
  assumes "pg_auditing R True s" and "\<not> has_error s"
  shows "wp (PostgreSQLPipeline_upstream env (CPostgreSQLHandler R))
     (\<lambda>_ s'. pg_auditing R (\<not> has_error s') s') (\<lambda>f s'. escapes f \<and> pg_auditing R False s') s"
proof -
  have R: "be_reader R" using assms(1) by (simp add: pg_auditing_def)
  have quiet: "postgresql_audited c (a @ es)"
    if "postgresql_audited True a" "client_chunks es = []" "queries es = []" for a es c
    using audited_quiet audited_weaken that by blast
  have empty: "postgresql_audited c (a @ [Recv k []])" if "postgresql_audited True a" "side_of k = Client" for a k c
    using that by (intro audited_chunk [where b = "[]"]) (auto simp: first_logged_def misread_def first_query_def)
  have unread: "postgresql_audited False (a @ Recv k b # es)"
    if "postgresql_audited True a" "side_of k = Client" "client_chunks es = []" "queries es = []" for a k b es
    using that by (intro audited_chunk [where b = b]) auto
  have read: "postgresql_audited c (a @ Recv k b # es)"
    if "postgresql_audited True a" "side_of k = Client" "client_chunks es = []"
      "first_message_ok b \<Longrightarrow> queries es = first_logged b" for a k b es c
    using that by (intro audited_chunk [where b = b]) auto
  show ?thesis
    using assms unfolding PostgreSQLPipeline_upstream_def session_effects
    by (intro vcg vcg_postgresql [OF R]) (auto simp: pg_auditing_def intro: quiet empty unread read audited_weaken)
qed

lemma pg_down_audited:
  assumes "pg_auditing R (\<not> has_error s) s"
  shows "wp (PostgreSQLPipeline_downstream env (CPostgreSQLHandler R))
     (\<lambda>_ s'. pg_auditing R (\<not> has_error s') s') (\<lambda>f s'. escapes f \<and> pg_auditing R False s') s"
proof -
  have quiet: "postgresql_audited c (a @ es)" "postgresql_audited False (a @ es)"
    if "postgresql_audited c a" "client_chunks es = []" "queries es = []" for a es c
    using that by (auto simp: audited_def)
  have down: "HandleDownStreamData (CPostgreSQLHandler R) b n = retM b" for b n
    by (intro ext) (simp add: CPostgreSQLHandler_def CPostgreSQLHandler_HandleDownStreamData_def)
  show ?thesis
    using assms unfolding PostgreSQLPipeline_downstream_def session_effects down
    by (intro vcg) (auto simp: pg_auditing_def intro: quiet audited_weaken)
qed

interpretation postgresql_audit: auditor "session_select env" "PostgreSQLPipeline_upstream env (CPostgreSQLHandler R)"
    "PostgreSQLPipeline_downstream env (CPostgreSQLHandler R)" "\<lambda>s. \<not> has_error s" "pg_auditing R" for env R
proof
  fix s :: "'a session"
  show "pg_auditing R c s \<Longrightarrow> pg_auditing R False s" for c
    by (auto simp: pg_auditing_def intro: audited_weaken)
  show "pg_auditing R True s \<Longrightarrow> \<not> has_error s \<Longrightarrow>
      wp (session_select env) (\<lambda>_ s'. pg_auditing R True s' \<and> \<not> has_error s')
        (\<lambda>_ s'. pg_auditing R True s' \<and> \<not> has_error s') s"
    unfolding session_select_def select_def by (intro vcg) (auto simp: pg_auditing_def)
qed (rule pg_up_audited pg_down_audited; assumption)+

section \<open>The whole session\<close>

lemma pg_handshake_audited:
  assumes "unheard s"
  shows "wp (PostgreSQLHandshake env R) (\<lambda>status s'. unheard s' \<and> (status = 0 \<longrightarrow> True)) (\<lambda>_. unheard) s"
  using assms unfolding PostgreSQLHandshake_def handshake_effects Let_def
  by (intro vcg) (simp_all add: unheard_def)

lemma pg_loop_rule:
  assumes "be_reader R" and "unheard s" and "\<not> has_error s"
    and Q: "\<And>running s'. postgresql_audited running (tr s') \<Longrightarrow> Q running s'"
    and E: "\<And>f s'. postgresql_audited False (tr s') \<Longrightarrow> E f s'"
  shows "wp (run_loop n (relay_round (session_select env) (PostgreSQLPipeline_upstream env (CPostgreSQLHandler R))
       (PostgreSQLPipeline_downstream env (CPostgreSQLHandler R)) (\<lambda>s. \<not> has_error s))) Q E s"
proof -
  have "pg_auditing R True s" using assms(1,2) by (auto simp: pg_auditing_def unheard_def intro: audited_unheard)
  then show ?thesis
    by (rule postgresql_audit.loop_audited) (auto simp: assms(3) pg_auditing_def intro: Q E)
qed

text \<open>C5: A whole PostgreSQL session with query logging, in every environment, provided that the
  first message in every read is whole, with a true length field. Then the query log holds one
  entry for each read whose first message is a simple query or a \<open>Parse\<close>, in order, and nothing of
  any later message of a read: the text of the query; but of a \<open>Parse\<close> whose length has a zero low
  byte the name of the statement, which the code takes for the query. The log is complete for all
  but the last read, and for the last one too while the session is still open.\<close>

theorem postgresql_session_audited:
  assumes "be_reader R"
  shows "wp (PostgreSQLPipeline env R (Some (CPostgreSQLHandler R)) rounds)
     (\<lambda>running s. audited first_message_ok first_logged running (tr s))
     (\<lambda>_ s. audited first_message_ok first_logged False (tr s)) (initial_session (Raw Client) (Raw Target) w)"
  unfolding PostgreSQLPipeline_def option.case initial_session_def initial_thread_def resolve_target_def
    open_target_def put_target_host_def stamp_start_def configure_sockets_def thread_effects
  by (intro vcg shaken_rule [OF pg_handshake_audited] pg_loop_rule [OF assms] delete_sockets_audited)
    (auto simp: unheard_def intro: audited_unheard audited_quiet)

lemma postgresql_session_audited_witness:
  "wp (PostgreSQLPipeline scripted sample_readers (Some (CPostgreSQLHandler sample_readers)) 2)
     (\<lambda>running s. audited first_message_ok first_logged running (tr s))
     (\<lambda>_ s. audited first_message_ok first_logged False (tr s))
     (initial_session (Raw Client) (Raw Target) ([MsgTypeQuery # be_bytes 4 13 @ ''SELECT 1'' @ [nul]], []))"
  by (rule postgresql_session_audited [OF sample_be_reader])

end
