(* ===== verification/Delivery.thy ===== *)
theory Delivery
  imports Network_View Hang_Up
begin

text \<open>
  What the safety theorems leave open: that anything arrives. In a world where nothing fails and
  the target stays up, the client's stream reaches the target whole before the pipeline returns.
\<close>

section \<open>A world where nothing fails\<close>

text \<open>An operation that succeeds and leaves the chunks alone that the client is still to send.\<close>

definition smooth :: "('w \<Rightarrow> string list) \<Rightarrow> ('w \<Rightarrow> (exn + 'a) \<times> 'w) \<Rightarrow> bool" where
  "smooth rest f \<longleftrightarrow> (\<forall>w. \<not> isl (fst (f w)) \<and> rest (snd (f w)) = rest w)"

text \<open>
  \<open>rest w\<close> is what the client sends before it hangs up, chunk by chunk; the target delivers what
  it likes, but does not hang up.
\<close>

definition reliable :: "'w env \<Rightarrow> ('w \<Rightarrow> string list) \<Rightarrow> bool" where
  "reliable env rest \<longleftrightarrow>
     smooth rest (x_request_server env) \<and> (\<forall>k ep. smooth rest (x_connect env k ep)) \<and>
     (\<forall>k. smooth rest (x_set_read_timeout env k)) \<and> (\<forall>k. smooth rest (x_set_keep_alive env k)) \<and>
     (\<forall>k t. smooth rest (x_select env k t)) \<and> (\<forall>k. smooth rest (x_readable env k)) \<and>
     (\<forall>k b. smooth rest (x_send env k b)) \<and> smooth rest (x_uuid env) \<and>
     (\<forall>w. rest (snd (x_now env w)) = rest w) \<and> (\<forall>k w. rest (x_delete env k w) = rest w) \<and>
     (\<forall>k w. side_of k = Client \<longrightarrow> fst (x_readable env k w) = Inr True) \<and>
     (\<forall>k w. side_of k = Client \<longrightarrow> fst (x_receive env k w) = Inr (case rest w of [] \<Rightarrow> [] | b # _ \<Rightarrow> b)
        \<and> rest (snd (x_receive env k w)) = tl (rest w)) \<and>
     (\<forall>k. side_of k = Target \<longrightarrow> smooth rest (x_receive env k)) \<and>
     (\<forall>k w. side_of k = Target \<longrightarrow> fst (x_receive env k w) \<noteq> Inr [])"

lemma smooth_steps:
  assumes "reliable env rest"
  shows "smooth rest (x_request_server env)" "smooth rest (x_connect env k ep)"
    "smooth rest (x_set_read_timeout env k)" "smooth rest (x_set_keep_alive env k)"
    "smooth rest (x_select env k t)" "smooth rest (x_send env k b)" "smooth rest (x_uuid env)"
  using assms by (simp_all add: reliable_def)

lemma smooth_sockets:
  assumes "reliable env rest"
  shows "smooth rest (x_readable env k)" "side_of k = Target \<Longrightarrow> smooth rest (x_receive env k)"
  using assms by (simp_all add: reliable_def)

lemma reliable_client:
  assumes "reliable env rest" and "side_of k = Client"
  shows "fst (x_readable env k w) = Inr True"
    and "fst (x_receive env k w) = Inr (case rest w of [] \<Rightarrow> [] | b # _ \<Rightarrow> b)"
    and "rest (snd (x_receive env k w)) = tl (rest w)"
  using assms by (simp_all add: reliable_def)

lemma reliable_target: "reliable env rest \<Longrightarrow> side_of k = Target \<Longrightarrow> fst (x_receive env k w) \<noteq> Inr []"
  by (simp add: reliable_def)

lemma smooth_run:
  assumes "smooth rest f"
  obtains a w' where "f w = (Inr a, w')" "rest w' = rest w"
  using assms unfolding smooth_def by (metis isl_def obj_sumE prod.collapse)

text \<open>The rules: one outcome per operation, with trace, context and the chunks still to come.\<close>

lemma sure_extern:
  assumes "smooth rest f"
    and "\<And>a t'. trace t' = trace t @ ok a \<Longrightarrow> ctx t' = ctx t \<Longrightarrow> rest (world t') = rest (world t) \<Longrightarrow> Q a t'"
  shows "wp (extern f ok bad) Q E t"
proof -
  obtain a w' where "f (world t) = (Inr a, w')" "rest w' = rest (world t)" using smooth_run [OF assms(1)] .
  then show ?thesis using assms(2) by (simp add: wp_extern)
qed

lemmas sure_steps = smooth_steps [THEN sure_extern]

lemma sure_readable:
  assumes "reliable env rest"
    and "\<And>r t'. (side_of k = Client \<Longrightarrow> r) \<Longrightarrow> trace t' = trace t \<Longrightarrow> ctx t' = ctx t \<Longrightarrow>
      rest (world t') = rest (world t) \<Longrightarrow> Q r t'"
  shows "wp (extern (x_readable env k) (\<lambda>_. []) []) Q E t"
proof -
  obtain a w' where a: "x_readable env k (world t) = (Inr a, w')" "rest w' = rest (world t)"
    using smooth_run [OF smooth_sockets(1) [OF assms(1)]] .
  moreover have "a" if "side_of k = Client"
    using reliable_client(1) [OF assms(1) that, of "world t"] a(1) by simp
  ultimately show ?thesis using assms(2) by (simp add: wp_extern)
qed

lemma sure_receive_client:
  assumes "reliable env rest" and "side_of k = Client"
    and "\<And>t'. rest (world t) = [] \<Longrightarrow> trace t' = trace t @ ok [] \<Longrightarrow> ctx t' = ctx t \<Longrightarrow> rest (world t') = [] \<Longrightarrow> Q [] t'"
    and "\<And>b bs t'. rest (world t) = b # bs \<Longrightarrow> trace t' = trace t @ ok b \<Longrightarrow> ctx t' = ctx t \<Longrightarrow>
      rest (world t') = bs \<Longrightarrow> Q b t'"
  shows "wp (extern (x_receive env k) ok bad) Q E t"
proof -
  obtain w' where "x_receive env k (world t) = (Inr (case rest (world t) of [] \<Rightarrow> [] | b # _ \<Rightarrow> b), w')"
    "rest w' = tl (rest (world t))"
    using reliable_client(2,3) [OF assms(1,2), of "world t"] by (cases "x_receive env k (world t)") auto
  then show ?thesis using assms(3,4) by (auto simp: wp_extern split: list.split)
qed

lemma sure_receive_target:
  assumes "reliable env rest" and "side_of k = Target"
    and "\<And>b t'. b \<noteq> [] \<Longrightarrow> trace t' = trace t @ ok b \<Longrightarrow> ctx t' = ctx t \<Longrightarrow> rest (world t') = rest (world t) \<Longrightarrow> Q b t'"
  shows "wp (extern (x_receive env k) ok bad) Q E t"
proof -
  obtain a w' where a: "x_receive env k (world t) = (Inr a, w')" "rest w' = rest (world t)"
    using smooth_run [OF smooth_sockets(2) [OF assms(1,2)]] .
  moreover have "a \<noteq> []" using reliable_target [OF assms(1,2), of "world t"] a(1) by auto
  ultimately show ?thesis using assms(3) by (simp add: wp_extern)
qed

lemma sure_now:
  assumes "reliable env rest"
    and "\<And>i t'. trace t' = trace t \<Longrightarrow> ctx t' = ctx t \<Longrightarrow> rest (world t') = rest (world t) \<Longrightarrow> Q i t'"
  shows "wp (now env) Q E t"
proof -
  have "rest (snd (x_now env (world t))) = rest (world t)" using assms(1) by (simp add: reliable_def)
  then show ?thesis by (cases "x_now env (world t)") (simp add: wp_now assms(2))
qed

lemma sure_delete:
  assumes "reliable env rest"
    and "\<And>t'. trace t' = trace t @ [Deleted k] \<Longrightarrow> ctx t' = ctx t \<Longrightarrow> rest (world t') = rest (world t) \<Longrightarrow> Q () t'"
  shows "wp (delete_socket env k) Q E t"
proof -
  have "rest (x_delete env k (world t)) = rest (world t)" using assms(1) by (simp add: reliable_def)
  then show ?thesis using assms(2) by (simp add: delete_socket_def wp_upd)
qed

lemma sure_ctx_put:
  assumes "\<And>t'. trace t' = trace t \<Longrightarrow> ctx t' = (ctx t)(k \<mapsto> v) \<Longrightarrow> world t' = world t \<Longrightarrow> Q () t'"
  shows "wp (ctx_put k v) Q E t"
  using assms by (simp add: ctx_put_def wp_upd)

lemma sure_emit:
  assumes "\<And>t'. trace t' = trace t @ [e] \<Longrightarrow> ctx t' = ctx t \<Longrightarrow> world t' = world t \<Longrightarrow> Q () t'"
  shows "wp (emit e) Q E t"
  using assms by (simp add: emit_def wp_upd)

section \<open>Loops without faults\<close>

text \<open>The halves of a loop that never fail, keep an invariant and bring the end nearer.\<close>

locale faultless =
  fixes sel up down :: "('s, unit) cmd"
    and alive :: "'s \<Rightarrow> bool" and inv :: "'s \<Rightarrow> bool" and left_over :: "'s \<Rightarrow> nat"
  assumes sel_sure: "inv s \<Longrightarrow> alive s \<Longrightarrow>
      wp sel (\<lambda>_ s'. inv s' \<and> alive s' \<and> left_over s' \<le> left_over s) (\<lambda>_ _. False) s"
    and up_sure: "inv s \<Longrightarrow> alive s \<Longrightarrow>
      wp up (\<lambda>_ s'. inv s' \<and> (alive s' \<longrightarrow> left_over s' < left_over s)) (\<lambda>_ _. False) s"
    and down_sure: "inv s \<Longrightarrow>
      wp down (\<lambda>_ s'. inv s' \<and> (alive s' \<longrightarrow> alive s \<and> left_over s' \<le> left_over s)) (\<lambda>_ _. False) s"

sublocale faultless \<subseteq> draining
  by unfold_locales (rule wp_mono, rule sel_sure up_sure down_sure; assumption?; blast)+

context faultless
begin

lemma round_sure:
  assumes "inv s" and "alive s"
  shows "wp (relay_round sel up down alive) (\<lambda>again s'. inv s' \<and> again = alive s') (\<lambda>_ _. False) s"
proof -
  have down: "wp (seqM down (getM alive)) (\<lambda>again s'. inv s' \<and> again = alive s') (\<lambda>_ _. False) u"
    if "inv u" for u
    unfolding wp_seq wp_get by (rule wp_mono [OF down_sure [OF that]]) auto
  have up: "wp (seqM up (seqM down (getM alive))) (\<lambda>again s'. inv s' \<and> again = alive s') (\<lambda>_ _. False) u"
    if "inv u" "alive u" for u
    unfolding wp_seq [of up] by (rule wp_mono [OF up_sure [OF that]]) (auto intro!: down)
  show ?thesis
    unfolding relay_round_def wp_try wp_seq [of sel]
    by (rule wp_mono [OF sel_sure [OF assms]]) (auto intro!: wp_mono [OF up])
qed

lemma loop_sure:
  assumes "inv s" and "alive s" and "left_over s < n" and Q: "\<And>s'. inv s' \<Longrightarrow> \<not> alive s' \<Longrightarrow> Q False s'"
  shows "wp (run_loop n (relay_round sel up down alive)) Q E s"
proof -
  have inv: "wp (run_loop n (relay_round sel up down alive))
      (\<lambda>running s'. if running then inv s' \<and> alive s' else inv s' \<and> \<not> alive s') (\<lambda>_ _. False) s"
    by (rule wp_run_loop) (use assms(1,2) in \<open>auto intro!: wp_mono [OF round_sure] split: if_splits\<close>)
  have ends: "wp (run_loop n (relay_round sel up down alive)) (\<lambda>running _. \<not> running) (\<lambda>_ _. True) s"
    by (rule loop_returns) (use assms in auto)
  show ?thesis by (rule wp_mono [OF wp_conj [OF inv ends]]) (auto split: if_splits intro: Q)
qed

end

section \<open>The proxies\<close>

text \<open>What was sent on and what is still to come are the client's stream, also at the end.\<close>

definition delivering ::
    "'w env \<Rightarrow> 'w proxy_handler \<Rightarrow> ('w \<Rightarrow> string list) \<Rightarrow> string \<Rightarrow> 'w proxy \<Rightarrow> bool" where
  "delivering env h rest stream s \<longleftrightarrow> reliable env rest \<and> monitor h
     \<and> client_socket s = Raw Client \<and> target_socket s = Raw Target
     \<and> (data_sent s \<longrightarrow> correlation_of (ctx (thr s)) \<noteq> None)
     \<and> sent Target (tr s) @ concat (rest (world (thr s))) = stream
     \<and> sent Client (tr s) = received Target (tr s)
     \<and> list_all (\<lambda>b. b \<noteq> [] \<and> passes h b) (rest (world (thr s)))
     \<and> (\<not> still_connected s \<longrightarrow> rest (world (thr s)) = [])"

lemma deliveringD: "delivering env h rest stream s \<Longrightarrow> reliable env rest" "delivering env h rest stream s \<Longrightarrow> monitor h"
  by (simp_all add: delivering_def)

abbreviation still_to_come :: "('w \<Rightarrow> string list) \<Rightarrow> 'w proxy \<Rightarrow> nat" where
  "still_to_come rest s \<equiv> length (rest (world (thr s)))"

interpretation base_monitor: monitor BaseProxyHandler
  by unfold_locales (simp add: BaseProxyHandler_def BaseProxyHandler_HandleDownStreamData_def retM_def)

lemmas sure_rules = vcg_control sure_ctx_put sure_emit

lemma proxy_select_sure:
  assumes "delivering env h rest stream s" and "still_connected s"
  shows "wp (proxy_select env) (\<lambda>_ s'. delivering env h rest stream s' \<and> still_connected s' \<and>
     still_to_come rest s' \<le> still_to_come rest s) (\<lambda>_ _. False) s"
  using assms unfolding proxy_select_def select_def
  by (intro sure_rules sure_steps [OF deliveringD(1) [OF assms(1)]]) (auto simp: delivering_def)

context monitor
begin

lemma up_sure:
  assumes "passes h b" and "n = int (length b)" and "correlation_of (ctx t) \<noteq> None"
    and Q: "\<And>t' es. trace t' = trace t @ es \<Longrightarrow> quiet (correlation_of (ctx t)) es \<Longrightarrow>
      correlation_of (ctx t') = correlation_of (ctx t) \<Longrightarrow> world t' = world t \<Longrightarrow> Q b t'"
  shows "wp (HandleUpstreamData h b n) Q E t"
proof -
  obtain r u where u: "HandleUpstreamData h b n t = (Inr r, u)" "world u = world t"
    using assms(1-3) unfolding passes_def by blast
  have "wp (HandleUpstreamData h b n) (\<lambda>r t'. world t' = world t) (\<lambda>_ _. False) t"
    using u by (simp add: wp_def)
  note wp_conj [OF this up_forward [where Q = "\<lambda>r t'. r = b \<and> (\<exists>es. trace t' = trace t @ es \<and>
      quiet (correlation_of (ctx t)) es \<and> correlation_of (ctx t') = correlation_of (ctx t))" and E = "\<lambda>_ _. True"]]
  then show ?thesis by (rule wp_mono) (auto intro: Q)
qed

lemma down_sure: "Q b t \<Longrightarrow> wp (HandleDownStreamData h b n) Q E t"
  by (simp add: wp_def down_idle)

end

lemma default_up_sure:
  assumes "delivering env h rest stream s" and "still_connected s"
  shows "wp (DefaultProxyPipeline_upstream env h) (\<lambda>_ s'. delivering env h rest stream s' \<and>
     (still_connected s' \<longrightarrow> still_to_come rest s' < still_to_come rest s)) (\<lambda>_ _. False) s"
proof -
  note R = deliveringD(1) [OF assms(1)] and h = deliveringD(2) [OF assms(1)]
  show ?thesis
    using assms unfolding DefaultProxyPipeline_upstream_def half_effects
    by (intro sure_rules monitor.up_sure [OF h] sure_readable [OF R] sure_receive_client [OF R] sure_now [OF R] sure_steps [OF R])
      (auto simp: delivering_def quiet_def)
qed

lemma default_down_sure:
  assumes "delivering env h rest stream s"
  shows "wp (DefaultProxyPipeline_downstream env h) (\<lambda>_ s'. delivering env h rest stream s' \<and>
     (still_connected s' \<longrightarrow> still_connected s \<and> still_to_come rest s' \<le> still_to_come rest s)) (\<lambda>_ _. False) s"
proof -
  note R = deliveringD(1) [OF assms(1)] and h = deliveringD(2) [OF assms(1)]
  show ?thesis
    using assms unfolding DefaultProxyPipeline_downstream_def half_effects
    by (intro sure_rules monitor.down_sure [OF h] sure_readable [OF R] sure_receive_target [OF R] sure_now [OF R] sure_steps [OF R])
      (auto simp: delivering_def quiet_def)
qed

lemma passthrough_up_sure:
  assumes "delivering env h rest stream s" and "still_connected s"
  shows "wp (PassthroughPipeline_upstream env) (\<lambda>_ s'. delivering env h rest stream s' \<and>
     (still_connected s' \<longrightarrow> still_to_come rest s' < still_to_come rest s)) (\<lambda>_ _. False) s"
proof -
  note R = deliveringD(1) [OF assms(1)]
  show ?thesis
    using assms unfolding PassthroughPipeline_upstream_def half_effects
    by (intro sure_rules sure_readable [OF R] sure_receive_client [OF R] sure_steps [OF R]) (auto simp: delivering_def)
qed

lemma passthrough_down_sure:
  assumes "delivering env h rest stream s"
  shows "wp (PassthroughPipeline_downstream env) (\<lambda>_ s'. delivering env h rest stream s' \<and>
     (still_connected s' \<longrightarrow> still_connected s \<and> still_to_come rest s' \<le> still_to_come rest s)) (\<lambda>_ _. False) s"
proof -
  note R = deliveringD(1) [OF assms(1)]
  show ?thesis
    using assms unfolding PassthroughPipeline_downstream_def half_effects
    by (intro sure_rules sure_readable [OF R] sure_receive_target [OF R] sure_steps [OF R]) (auto simp: delivering_def)
qed

interpretation default_sure: faultless "proxy_select env" "DefaultProxyPipeline_upstream env h"
    "DefaultProxyPipeline_downstream env h" still_connected "delivering env h rest stream" "still_to_come rest"
  for env h rest stream
  by unfold_locales (rule proxy_select_sure default_up_sure default_down_sure; assumption)+

interpretation passthrough_sure: faultless "proxy_select env" "PassthroughPipeline_upstream env"
    "PassthroughPipeline_downstream env" still_connected "delivering env h rest stream" "still_to_come rest"
  for env h rest stream
  by unfold_locales (rule proxy_select_sure passthrough_up_sure passthrough_down_sure; assumption)+

section \<open>Everything arrives\<close>

definition attentive :: "'j json \<Rightarrow> readers \<Rightarrow> 'q http \<Rightarrow> 'w proxy_handler set" where
  "attentive J R H = insert BaseProxyHandler (insert (CMySQLHandler R) (onlookers J R H))"

lemma attentive_monitor: "h \<in> attentive J R H \<Longrightarrow> monitor h"
  using onlooker_monitor base_monitor.monitor_axioms mysql_monitor.monitor_axioms unfolding attentive_def by blast

text \<open>The thread returned, the target was sent \<open>stream\<close>, and the client all that was answered.\<close>

definition delivered :: "string \<Rightarrow> bool \<Rightarrow> ('w, 'z) conn_scheme \<Rightarrow> bool" where
  "delivered stream running s \<longleftrightarrow>
     \<not> running \<and> sent Target (tr s) = stream \<and> sent Client (tr s) = received Target (tr s)"

lemmas proxy_prologue = resolve_target_def open_target_or_close_def open_target_def configure_sockets_def
  stamp_start_def delete_client_def delete_target_def initial_proxy_def initial_thread_def thread_effects

text \<open>C9: When nothing fails, the target stays up and the handler takes every chunk, the default, the
  ClickHouse and the passthrough pipeline deliver: within one round more than the client sends
  chunks they return, not by an exception, and by then the target was sent the client's whole
  stream and the client everything the target answered.\<close>

theorem proxies_deliver_everything:
  assumes "reliable env rest" and "h \<in> attentive J R H" and "list_all (\<lambda>b. b \<noteq> [] \<and> passes h b) (rest w)"
    and "length (rest w) < rounds"
  shows "wp (DefaultProxyPipeline env (Some h) rounds) (delivered (concat (rest w))) (\<lambda>_ _. False)
       (initial_proxy (Raw Client) (Raw Target) w)
     \<and> wp (ClickHousePipeline env (Some h) rounds) (delivered (concat (rest w))) (\<lambda>_ _. False)
       (initial_proxy (Raw Client) (Raw Target) w)
     \<and> wp (PassthroughPipeline env (Some h) rounds) (delivered (concat (rest w))) (\<lambda>_ _. False)
       (initial_proxy (Raw Client) (Raw Target) w)"
proof -
  note R = assms(1) and sure = sure_now [OF assms(1)] sure_delete [OF assms(1)] sure_steps [OF assms(1)]
  note loops = default_sure.loop_sure [where env = env and h = h and rest = rest and stream = "concat (rest w)"]
    passthrough_sure.loop_sure [where env = env and h = h and rest = rest and stream = "concat (rest w)"]
  show ?thesis
    unfolding clickhouse_is_default DefaultProxyPipeline_def PassthroughPipeline_def option.case proxy_prologue
    by (intro conjI sure_rules loops sure)
      (use assms(3,4) R attentive_monitor [OF assms(2)] in \<open>auto simp: delivering_def delivered_def\<close>)
qed

text \<open>An example: a target that answers every time it is asked.\<close>

definition talkative :: "script env" where
  "talkative = scripted\<lparr>x_receive := (\<lambda>k w. case side_of k of
      Client \<Rightarrow> (Inr (case fst w of [] \<Rightarrow> [] | b # _ \<Rightarrow> b), (tl (fst w), snd w)) | Target \<Rightarrow> (Inr ''ok'', w))\<rparr>"

lemma talkative_reliable: "reliable talkative fst"
  by (auto simp: reliable_def smooth_def talkative_def scripted_def)

lemma base_passes: "passes BaseProxyHandler b"
  by (simp add: passes_def BaseProxyHandler_def BaseProxyHandler_HandleUpstreamData_def retM_def)

lemma proxies_deliver_everything_witness:
  "wp (DefaultProxyPipeline talkative (Some BaseProxyHandler) 3) (delivered ''askagain'') (\<lambda>_ _. False)
     (initial_proxy (Raw Client) (Raw Target) ([''ask'', ''again''], []))"
  using proxies_deliver_everything [OF talkative_reliable, of BaseProxyHandler sample_json sample_readers sample_http
      "([''ask'', ''again''], [])" 3]
  by (simp add: attentive_def base_passes)

end
