(* ===== verification/Session_Delivery.thy ===== *)
theory Session_Delivery
  imports Delivery MySQL_Audit PostgreSQL_Audit
begin

unbundle bit_operations_syntax

text \<open>
  The session pipelines in a world where nothing fails: once the handshake is done, the whole
  stream of the client reaches the server, and all its queries are in the log.
\<close>

section \<open>A reliable world, with a handshake\<close>

definition session_reliable :: "'w env \<Rightarrow> ('w \<Rightarrow> string list) \<Rightarrow> bool" where
  "session_reliable env rest \<longleftrightarrow> reliable env rest
     \<and> (\<forall>k n. smooth rest (x_recv_blocking env k n)) \<and> (\<forall>k. smooth rest (x_wrap_tls env k))"

lemma session_reliableD:
  assumes "session_reliable env rest"
  shows "reliable env rest" "smooth rest (x_recv_blocking env k n)" "smooth rest (x_wrap_tls env k)"
  using assms by (simp_all add: session_reliable_def)

lemmas sure_wrap = session_reliableD(3) [THEN sure_extern]

lemma sure_recv_blocking:
  assumes "session_reliable env rest"
    and "\<And>b t'. trace t' = trace t @ [RecvBlocked k b] \<Longrightarrow> ctx t' = ctx t \<Longrightarrow> rest (world t') = rest (world t) \<Longrightarrow> Q b t'"
  shows "wp (recv_blocking env k n) Q E t"
  unfolding recv_blocking_def wp_bind wp_ret
  by (rule sure_extern [OF session_reliableD(2) [OF assms(1)]]) (auto intro: assms(2))

lemma log_events_quiet [simp]:
  "client_chunks (map (LogQuery c) qs) = []" "queries (map (LogQuery c) qs) = qs"
  "received d (map (LogQuery c) qs) = []" "sent d (map (LogQuery c) qs) = []"
  by (induction qs) auto

section \<open>The loops\<close>

text \<open>
  Of the stream \<open>cs\<close>, what was taken and what is still to come; the log holds what was asked for
  in the chunks taken (the empty read of the hang-up asks for nothing).
\<close>

definition taking :: "(string \<Rightarrow> bool) \<Rightarrow> (string \<Rightarrow> string list) \<Rightarrow> 'w env \<Rightarrow> ('w \<Rightarrow> string list) \<Rightarrow>
    string list \<Rightarrow> 'w session \<Rightarrow> bool" where
  "taking ok asks env rest cs s \<longleftrightarrow> session_reliable env rest
     \<and> side_of (client_socket s) = Client \<and> side_of (target_socket s) = Target
     \<and> (\<not> latency_logged s \<longrightarrow> (\<exists>cid. ctx (thr s) ''correlation_id'' = Some (AnyString cid)))
     \<and> list_all (\<lambda>b. b \<noteq> [] \<and> ok b) (rest (world (thr s)))
     \<and> (if has_error s then rest (world (thr s)) = [] \<and> client_chunks (tr s) = cs @ [[]]
        else client_chunks (tr s) @ rest (world (thr s)) = cs)
     \<and> queries (tr s) = concat (map asks (client_chunks (tr s)))
     \<and> balanced (tr s)"

lemma takingD: "taking ok asks env rest cs s \<Longrightarrow> session_reliable env rest"
  by (simp add: taking_def)

abbreviation session_left :: "('w \<Rightarrow> string list) \<Rightarrow> 'w session \<Rightarrow> nat" where
  "session_left rest s \<equiv> length (rest (world (thr s)))"

lemma session_select_sure:
  assumes "taking ok asks env rest cs s" and "\<not> has_error s"
  shows "wp (session_select env) (\<lambda>_ s'. taking ok asks env rest cs s' \<and> \<not> has_error s' \<and>
     ctx (thr s') = ctx (thr s) \<and> session_left rest s' \<le> session_left rest s) (\<lambda>_ _. False) s"
  using assms unfolding session_select_def select_def
  by (intro sure_rules sure_steps [OF session_reliableD(1) [OF takingD [OF assms(1)]]]) (auto simp: taking_def)

lemma session_down_sure:
  assumes "taking ok asks env rest cs s" and "\<And>b n. HandleDownStreamData h b n = retM b"
  shows "wp (MySQLPipeline_downstream env h) (\<lambda>_ s'. taking ok asks env rest cs s' \<and>
     ctx (thr s') = ctx (thr s) \<and>
     (\<not> has_error s' \<longrightarrow> \<not> has_error s \<and> session_left rest s' \<le> session_left rest s)) (\<lambda>_ _. False) s"
proof -
  note R = session_reliableD(1) [OF takingD [OF assms(1)]]
  show ?thesis
    using assms(1) unfolding MySQLPipeline_downstream_def session_effects assms(2)
    by (intro sure_rules sure_readable [OF R] sure_receive_target [OF R] sure_now [OF R] sure_steps [OF R])
      (auto simp: taking_def balanced_def)
qed

subsection \<open>PostgreSQL\<close>

text \<open>What the PostgreSQL handler passes, whatever the context: any chunk that begins with a whole message.\<close>

lemma postgresql_passes:
  assumes "be_reader R" and "first_message_ok b"
  shows "passes (CPostgreSQLHandler R :: 'w proxy_handler) b"
  unfolding passes_def
proof (intro allI impI)
  fix t :: "'w thread" assume "correlation_of (ctx t) \<noteq> None"
  then obtain cid where "ctx t ''correlation_id'' = Some (AnyString cid)"
    by (auto simp: correlation_of_def split: option.splits any.splits)
  from postgresql_chunk [OF assms(1) this assms(2), of "int (length b)"]
  show "\<exists>r u. HandleUpstreamData (CPostgreSQLHandler R) b (int (length b)) t = (Inr r, u) \<and> world u = world t"
    by (simp add: CPostgreSQLHandler_def)
qed

lemma sure_postgresql:
  assumes "be_reader R" and "\<exists>cid. ctx t ''correlation_id'' = Some (AnyString cid)" and "first_message_ok b"
    and Q: "\<And>c t'. trace t' = trace t @ map (LogQuery c) (first_logged b) \<Longrightarrow> ctx t' = ctx t \<Longrightarrow> world t' = world t \<Longrightarrow> Q b t'"
  shows "wp (HandleUpstreamData (CPostgreSQLHandler R) b n) Q E t"
proof -
  obtain c where "ctx t ''correlation_id'' = Some (AnyString c)" using assms(2) by blast
  note postgresql_chunk [OF assms(1) this assms(3), of n]
  moreover have "Q b (t\<lparr>trace := trace t @ map (LogQuery c) (first_logged b)\<rparr>)" by (rule Q [where c = c]) simp_all
  ultimately show ?thesis by (simp add: wp_def CPostgreSQLHandler_def)
qed

lemma postgresql_up_sure:
  assumes "be_reader R" and "taking first_message_ok first_logged env rest cs s" and "\<not> has_error s"
  shows "wp (PostgreSQLPipeline_upstream env (CPostgreSQLHandler R))
     (\<lambda>_ s'. taking first_message_ok first_logged env rest cs s' \<and> (\<not> has_error s' \<longrightarrow> session_left rest s' < session_left rest s))
     (\<lambda>_ _. False) s"
proof -
  note R = session_reliableD(1) [OF takingD [OF assms(2)]]
  show ?thesis
    using assms(2,3) unfolding PostgreSQLPipeline_upstream_def session_effects
    by (intro sure_rules sure_postgresql [OF assms(1)] sure_readable [OF R] sure_receive_client [OF R] sure_now [OF R] sure_steps [OF R])
      (auto simp: taking_def balanced_def first_logged_def misread_def first_query_def)
qed

lemma postgresql_down_idle: "HandleDownStreamData (CPostgreSQLHandler R) b n = retM b"
  by (intro ext) (simp add: CPostgreSQLHandler_def CPostgreSQLHandler_HandleDownStreamData_def)

definition pg_taking :: "readers \<Rightarrow> 'w env \<Rightarrow> ('w \<Rightarrow> string list) \<Rightarrow> string list \<Rightarrow> 'w session \<Rightarrow> bool" where
  "pg_taking R env rest cs s \<longleftrightarrow> be_reader R \<and> taking first_message_ok first_logged env rest cs s"

interpretation postgresql_sure: faultless "session_select env" "PostgreSQLPipeline_upstream env (CPostgreSQLHandler R)"
    "PostgreSQLPipeline_downstream env (CPostgreSQLHandler R)" "\<lambda>s. \<not> has_error s" "pg_taking R env rest cs"
    "session_left rest" for env R rest cs
proof
  fix s :: "'a session" assume s: "pg_taking R env rest cs s"
  show "wp (PostgreSQLPipeline_downstream env (CPostgreSQLHandler R)) (\<lambda>_ s'. pg_taking R env rest cs s' \<and>
      (\<not> has_error s' \<longrightarrow> \<not> has_error s \<and> session_left rest s' \<le> session_left rest s)) (\<lambda>_ _. False) s"
    unfolding session_downstream_halves
    by (rule wp_mono [OF session_down_sure]) (use s postgresql_down_idle in \<open>auto simp: pg_taking_def\<close>)
  assume alive: "\<not> has_error s"
  show "wp (session_select env) (\<lambda>_ s'. pg_taking R env rest cs s' \<and> \<not> has_error s' \<and>
      session_left rest s' \<le> session_left rest s) (\<lambda>_ _. False) s"
    by (rule wp_mono [OF session_select_sure]) (use s alive in \<open>auto simp: pg_taking_def\<close>)
  show "wp (PostgreSQLPipeline_upstream env (CPostgreSQLHandler R)) (\<lambda>_ s'. pg_taking R env rest cs s' \<and>
      (\<not> has_error s' \<longrightarrow> session_left rest s' < session_left rest s)) (\<lambda>_ _. False) s"
    by (rule wp_mono [OF postgresql_up_sure]) (use s alive in \<open>auto simp: pg_taking_def\<close>)
qed

subsection \<open>MySQL\<close>

text \<open>A session whose client negotiated no query attributes.\<close>

definition plain_context :: "exec_context \<Rightarrow> bool" where
  "plain_context m \<longleftrightarrow>
     (\<exists>caps. m ''capabilities'' = Some (AnyU32 caps) \<and> caps AND CLIENT_QUERY_ATTRIBUTES = 0)"

lemma sure_mysql:
  assumes "cstring_reader R" and "plain_context (ctx t)"
    and "\<exists>cid. ctx t ''correlation_id'' = Some (AnyString cid)" and "4 \<le> length p"
    and Q: "\<And>c t'. trace t' = trace t @ map (LogQuery c) (packet_queries p) \<Longrightarrow> ctx t' = ctx t \<Longrightarrow> world t' = world t \<Longrightarrow> Q p t'"
  shows "wp (HandleUpstreamData (CMySQLHandler R) p n) Q E t"
proof -
  obtain caps cid where "mysql_session t caps cid" "caps AND CLIENT_QUERY_ATTRIBUTES = 0"
    using assms(2,3) by (auto simp: plain_context_def mysql_session_def)
  note mysql_packet [OF this assms(1,4), of n]
  moreover have "Q p (t\<lparr>trace := trace t @ map (LogQuery cid) (packet_queries p)\<rparr>)" by (rule Q [where c = cid]) simp_all
  ultimately show ?thesis by (simp add: wp_def mysql_up_method)
qed

lemma sure_send_packets:
  fixes env :: "'w env"
  assumes R: "reliable env rest" and "cstring_reader R"
    and "plain_context (ctx t)" and "\<exists>cid. ctx t ''correlation_id'' = Some (AnyString cid)"
    and "list_all (\<lambda>p. 4 \<le> length p) ps"
    and "\<And>t' es. trace t' = trace t @ es \<Longrightarrow> ctx t' = ctx t \<Longrightarrow> rest (world t') = rest (world t) \<Longrightarrow>
      client_chunks es = [] \<Longrightarrow> queries es = concat (map packet_queries ps) \<Longrightarrow> (\<And>d. received d es = []) \<Longrightarrow>
      (\<And>d. sent d es = (if d = side_of k then concat ps else [])) \<Longrightarrow> Q () t'"
  shows "wp (send_packets env (CMySQLHandler R) k ps) Q E t"
  using assms(3-6)
proof (induction ps arbitrary: t)
  case Nil
  from Nil(4) [of t "[]"] show ?case by (simp add: send_packets_def wp_ret)
next
  case (Cons p ps)
  have rest: "wp (send_packets env (CMySQLHandler R) k ps) Q E u"
    if u: "trace u = trace t @ map (LogQuery c) (packet_queries p) @ [Sent k p]" "ctx u = ctx t"
      "rest (world u) = rest (world t)" for u c
  proof (rule Cons.IH)
    fix t' :: "'w thread" and es
    assume "trace t' = trace u @ es" "ctx t' = ctx u" "rest (world t') = rest (world u)" "client_chunks es = []"
      "queries es = concat (map packet_queries ps)" "\<And>d. received d es = []"
      "\<And>d. sent d es = (if d = side_of k then concat ps else [])"
    then show "Q () t'"
      using u by (intro Cons.prems(4) [of t' "map (LogQuery c) (packet_queries p) @ [Sent k p] @ es"]) auto
  qed (use u Cons.prems in auto)
  show ?case
    unfolding send_packets_simps send_bytes_def wp_seq wp_bind
    by (rule sure_mysql [OF assms(2)]; (rule sure_steps(6) [OF R])?) (use Cons.prems in \<open>auto intro!: rest\<close>)
qed

lemma concat_split_packets [simp]: "concat (split_packets b) = b"
  by (induction b rule: split_packets.induct) (simp add: split_packets.simps [of b for b] append_take_drop_id)

definition my_taking :: "readers \<Rightarrow> 'w env \<Rightarrow> ('w \<Rightarrow> string list) \<Rightarrow> string list \<Rightarrow> 'w session \<Rightarrow> bool" where
  "my_taking R env rest cs s \<longleftrightarrow> le_readers R \<and> cstring_reader R \<and> plain_context (ctx (thr s))
     \<and> taking chunk_ok chunk_queries env rest cs s"

lemma mysql_up_sure:
  assumes "my_taking R env rest cs s" and "\<not> has_error s"
  shows "wp (MySQLPipeline_upstream env R (CMySQLHandler R))
     (\<lambda>_ s'. my_taking R env rest cs s' \<and> (\<not> has_error s' \<longrightarrow> session_left rest s' < session_left rest s))
     (\<lambda>_ _. False) s"
proof -
  have inv: "le_readers R" "cstring_reader R" and R: "reliable env rest"
    using assms(1) session_reliableD(1) takingD unfolding my_taking_def by blast+
  show ?thesis
    using assms unfolding MySQLPipeline_upstream_def session_effects
    by (intro sure_rules sure_send_packets [OF R inv(2)] sure_readable [OF R] sure_receive_client [OF R] sure_now [OF R]
        sure_steps [OF R])
      (auto simp: my_taking_def taking_def balanced_def chunk_queries_def plain_context_def chunk_ok_split [OF inv(1)]
        concat_split_packets chunk_ok_headers)
qed

lemma mysql_down_idle: "HandleDownStreamData (CMySQLHandler R) b n = retM b"
  by (intro ext) (simp add: CMySQLHandler_def CMySQLHandler_HandleDownStreamData_def)

interpretation mysql_sure: faultless "session_select env" "MySQLPipeline_upstream env R (CMySQLHandler R)"
    "MySQLPipeline_downstream env (CMySQLHandler R)" "\<lambda>s. \<not> has_error s" "my_taking R env rest cs"
    "session_left rest" for env R rest cs
proof
  fix s :: "'a session" assume s: "my_taking R env rest cs s"
  show "wp (MySQLPipeline_downstream env (CMySQLHandler R)) (\<lambda>_ s'. my_taking R env rest cs s' \<and>
      (\<not> has_error s' \<longrightarrow> \<not> has_error s \<and> session_left rest s' \<le> session_left rest s)) (\<lambda>_ _. False) s"
    by (rule wp_mono [OF session_down_sure]) (use s mysql_down_idle in \<open>auto simp: my_taking_def\<close>)
  assume alive: "\<not> has_error s"
  show "wp (session_select env) (\<lambda>_ s'. my_taking R env rest cs s' \<and> \<not> has_error s' \<and>
      session_left rest s' \<le> session_left rest s) (\<lambda>_ _. False) s"
    by (rule wp_mono [OF session_select_sure]) (use s alive in \<open>auto simp: my_taking_def\<close>)
  show "wp (MySQLPipeline_upstream env R (CMySQLHandler R)) (\<lambda>_ s'. my_taking R env rest cs s' \<and>
      (\<not> has_error s' \<longrightarrow> session_left rest s' < session_left rest s)) (\<lambda>_ _. False) s"
    by (rule mysql_up_sure [OF s alive])
qed

section \<open>Around the loops\<close>

text \<open>
  A session that was served to the end: every chunk of the client was taken, and then its hang-up;
  everything was passed on in both directions, and the log holds what was asked for.
\<close>

definition served :: "string list \<Rightarrow> string list \<Rightarrow> event list \<Rightarrow> bool" where
  "served asked cs es \<longleftrightarrow> client_chunks es = cs @ [[]] \<and> balanced es \<and> queries es = asked"

lemma served_quiet:
  "client_chunks es = [] \<Longrightarrow> queries es = [] \<Longrightarrow> (\<And>d. received d es = []) \<Longrightarrow> (\<And>d. sent d es = []) \<Longrightarrow>
    served asked cs (a @ es) = served asked cs a"
  by (simp add: served_def balanced_def)

lemma taking_served:
  "taking ok asks env rest cs s \<Longrightarrow> has_error s \<Longrightarrow> asks [] = [] \<Longrightarrow> served (concat (map asks cs)) cs (tr s)"
  by (simp add: taking_def served_def)

text \<open>Ready for the handshake, or for the loop: nothing of the client's stream was taken yet.\<close>

definition prepared :: "('w \<Rightarrow> string list) \<Rightarrow> string list \<Rightarrow> 'w session \<Rightarrow> bool" where
  "prepared rest cs s \<longleftrightarrow> unheard s \<and> balanced (tr s) \<and> rest (world (thr s)) = cs \<and> \<not> has_error s"

lemma prepared_taking:
  assumes "prepared rest cs s" and "session_reliable env rest" and "list_all (\<lambda>b. b \<noteq> [] \<and> ok b) cs"
  shows "taking ok asks env rest cs s"
  using assms by (simp add: prepared_def unheard_def taking_def)

lemma delete_sockets_sure:
  assumes "\<And>es s'. tr s' = tr s @ es \<Longrightarrow> client_chunks es = [] \<Longrightarrow> queries es = [] \<Longrightarrow>
    (\<And>d. received d es = []) \<Longrightarrow> (\<And>d. sent d es = []) \<Longrightarrow> Q () s'"
  shows "wp (delete_sockets env c t) Q E s"
  unfolding delete_sockets_def by (intro vcg) (auto intro!: assms)

subsection \<open>The opening of a session\<close>

text \<open>What both pipelines do before the handshake, and the state in which it finds the session.\<close>

definition prologue :: "'w env \<Rightarrow> ('w session, unit) cmd" where
  "prologue env = seqM (resolve_target env) (seqM (open_target env) (seqM put_target_host
     (seqM (stamp_start env) (configure_sockets env))))"

definition before_handshake :: "'w env \<Rightarrow> 'w \<Rightarrow> 'w session" where
  "before_handshake env w = snd (prologue env (initial_session (Raw Client) (Raw Target) w))"

text \<open>What they do then.\<close>

definition close_up :: "'w env \<Rightarrow> bool \<Rightarrow> ('w session, bool) cmd" where
  "close_up env running = (if running then retM True
     else seqM (delete_sockets env (Raw Client) (Raw Target)) (retM False))"

definition serving :: "'w env \<Rightarrow> ('w session, int) cmd \<Rightarrow> ('w session, bool) cmd \<Rightarrow> ('w session, bool) cmd" where
  "serving env handshake loop =
     seqM (tryM (bindM handshake (\<lambda>status. whenM (status \<noteq> 0) give_up)) (\<lambda>_. give_up))
     (bindM (getM has_error) (\<lambda>failed. bindM (if failed then retM False else loop) (close_up env)))"

lemma resolve_keeps: "resolve_target env s = (r, u) \<Longrightarrow> client_socket u = client_socket s \<and> target_socket u = target_socket s"
  by (auto simp: resolve_target_def on_thread_def cmd_defs split: prod.splits sum.splits)

lemma split_at_handshake:
  fixes s :: "'w session"
  assumes "client_socket s = Raw Client" and "target_socket s = Raw Target"
  shows "seqM (resolve_target env)
       (bindM (getM client_socket) (\<lambda>c. bindM (getM target_socket) (\<lambda>t.
        seqM (open_target env) (seqM put_target_host (seqM (stamp_start env) (seqM (configure_sockets env) (m c t))))))) s
    = seqM (prologue env) (m (Raw Client) (Raw Target)) s"
proof (cases "resolve_target env s")
  case (Pair r u)
  with resolve_keeps [OF Pair] assms show ?thesis
    by (cases r) (simp_all add: prologue_def seqM_def bindM_def getM_def split: prod.splits sum.splits)
qed

lemma mysql_opens:
  "MySQLPipeline env R (Some h) n (initial_session (Raw Client) (Raw Target) w) =
     seqM (prologue env) (serving env (MySQLHandshake env R)
       (run_loop n (relay_round (session_select env) (MySQLPipeline_upstream env R h)
          (MySQLPipeline_downstream env h) (\<lambda>s. \<not> has_error s)))) (initial_session (Raw Client) (Raw Target) w)"
  unfolding MySQLPipeline_def option.case serving_def close_up_def
  by (subst split_at_handshake) (simp_all add: initial_session_def)

lemma postgresql_opens:
  "PostgreSQLPipeline env R (Some h) n (initial_session (Raw Client) (Raw Target) w) =
     seqM (prologue env) (serving env (PostgreSQLHandshake env R)
       (run_loop n (relay_round (session_select env) (PostgreSQLPipeline_upstream env h)
          (PostgreSQLPipeline_downstream env h) (\<lambda>s. \<not> has_error s)))) (initial_session (Raw Client) (Raw Target) w)"
  unfolding PostgreSQLPipeline_def option.case serving_def close_up_def
  by (subst split_at_handshake) (simp_all add: initial_session_def)

lemma prologue_sure:
  assumes "session_reliable env rest"
  shows "prologue env (initial_session (Raw Client) (Raw Target) w) = (Inr (), before_handshake env w)
    \<and> prepared rest (rest w) (before_handshake env w)"
proof -
  note sure = sure_now [OF session_reliableD(1) [OF assms]] sure_steps [OF session_reliableD(1) [OF assms]]
  have "wp (prologue env) (\<lambda>_. prepared rest (rest w)) (\<lambda>_ _. False) (initial_session (Raw Client) (Raw Target) w)"
    unfolding prologue_def initial_session_def initial_thread_def resolve_target_def
      open_target_def put_target_host_def stamp_start_def configure_sockets_def thread_effects
    by (intro sure_rules sure) (simp_all add: prepared_def unheard_def balanced_def)
  then show ?thesis
    by (cases "prologue env (initial_session (Raw Client) (Raw Target) w)")
      (auto simp: wp_def before_handshake_def split: sum.splits)
qed

lemma after_prologue:
  assumes "m (initial_session (Raw Client) (Raw Target) w) = seqM (prologue env) k (initial_session (Raw Client) (Raw Target) w)"
    and "session_reliable env rest" and "wp k Q E (before_handshake env w)"
  shows "wp m Q E (initial_session (Raw Client) (Raw Target) w)"
  using prologue_sure [OF assms(2), of w] assms(1,3) by (simp add: wp_def seqM_def bindM_def)

text \<open>
  The rest of the session, by what the handshake does: the loop starts in the state in which a
  successful handshake leaves it, and a failed one leaves nothing to do but to clean up.
\<close>

lemma serving_rule:
  assumes hs: "wp handshake (\<lambda>status u. unheard u \<and> (status = 0 \<longrightarrow> P u \<and> \<not> has_error u)) (\<lambda>_. unheard) s"
    and success: "\<And>u. handshake s = (Inr 0, u) \<Longrightarrow> P u \<Longrightarrow> wp loop (\<lambda>running. wp (close_up env running) Q E) E u"
    and failure: "\<And>u. fst (handshake s) \<noteq> Inr 0 \<Longrightarrow> unheard u \<Longrightarrow> wp (close_up env False) Q E u"
    and escaped: "\<And>f u. fst (handshake s) \<noteq> Inr 0 \<Longrightarrow> unheard u \<Longrightarrow> E f u"
  shows "wp (serving env handshake loop) Q E s"
proof -
  obtain r u where run: "handshake s = (r, u)" by fastforce
  have gave_up: "unheard u \<Longrightarrow> unheard (u\<lparr>has_error := True\<rparr>)" by (simp add: unheard_def)
  show ?thesis
  proof (cases r)
    case (Inl f)
    with hs run have "unheard u" by (simp add: wp_def)
    with Inl run gave_up failure escaped show ?thesis
      by (auto simp: serving_def wp_simps wp_def [of handshake] give_up_def split: failure.split)
  next
    case (Inr status)
    with hs run have "unheard u" "status = 0 \<Longrightarrow> P u \<and> \<not> has_error u" by (simp_all add: wp_def)
    with Inr run gave_up failure success show ?thesis
      by (cases "status = 0") (auto simp: serving_def wp_simps wp_def [of handshake] give_up_def)
  qed
qed

lemma closed_up:
  assumes "\<not> running \<Longrightarrow> (\<And>es s'. tr s' = tr s @ es \<Longrightarrow> client_chunks es = [] \<Longrightarrow> queries es = [] \<Longrightarrow>
    (\<And>d. received d es = []) \<Longrightarrow> (\<And>d. sent d es = []) \<Longrightarrow> Q False s')"
    and "running \<Longrightarrow> Q True s"
  shows "wp (close_up env running) Q E s"
  unfolding close_up_def by (cases running) (auto simp: wp_simps assms intro!: delete_sockets_sure)

subsection \<open>Handshake and loop\<close>

text \<open>A handshake takes nothing of the client's stream and hands over all it reads.\<close>

lemma postgresql_handshake_sure:
  assumes R: "session_reliable env rest" and "prepared rest cs s"
  shows "wp (PostgreSQLHandshake env R')
     (\<lambda>status u. unheard u \<and> (status = 0 \<longrightarrow> prepared rest cs u \<and> \<not> has_error u)) (\<lambda>_. unheard) s"
  using assms(2) unfolding PostgreSQLHandshake_def handshake_effects Let_def
  by (intro sure_rules sure_recv_blocking [OF R] sure_wrap [OF R] sure_steps [OF session_reliableD(1) [OF R]])
    (simp_all add: unheard_def prepared_def balanced_def)

lemma mysql_handshake_sure:
  assumes R: "session_reliable env rest" and "prepared rest cs s"
  shows "wp (MySQLHandshake env R')
     (\<lambda>status u. unheard u \<and> (status = 0 \<longrightarrow> prepared rest cs u \<and> \<not> has_error u)) (\<lambda>_. unheard) s"
  using assms(2) unfolding MySQLHandshake_def handshake_effects
  by (intro sure_rules sure_recv_blocking [OF R] sure_wrap [OF R] sure_steps [OF session_reliableD(1) [OF R]])
    (simp_all add: unheard_def prepared_def balanced_def)

lemma postgresql_loop_sure:
  assumes "be_reader R" and "session_reliable env rest" and "prepared rest cs s"
    and "list_all (\<lambda>b. b \<noteq> [] \<and> first_message_ok b) cs" and "length cs < n"
    and Q: "\<And>s'. served (concat (map first_logged cs)) cs (tr s') \<Longrightarrow> Q False s'"
  shows "wp (run_loop n (relay_round (session_select env) (PostgreSQLPipeline_upstream env (CPostgreSQLHandler R))
       (PostgreSQLPipeline_downstream env (CPostgreSQLHandler R)) (\<lambda>s. \<not> has_error s))) Q E s"
proof -
  have "pg_taking R env rest cs s"
    using assms(1-4) by (auto simp: pg_taking_def intro!: prepared_taking)
  moreover have "first_logged [] = []" by (simp add: first_logged_def misread_def first_query_def)
  ultimately show ?thesis
    by (elim postgresql_sure.loop_sure)
      (use assms(3,5) in \<open>auto simp: pg_taking_def prepared_def intro!: Q taking_served\<close>)
qed

lemma mysql_loop_sure:
  assumes "le_readers R" "cstring_reader R" and "session_reliable env rest" and "prepared rest cs s"
    and "plain_context (ctx (thr s))"
    and cs: "list_all (\<lambda>b. b \<noteq> [] \<and> chunk_ok b) cs" "length cs < n"
    and Q: "\<And>s'. served (concat (map chunk_queries cs)) cs (tr s') \<Longrightarrow> Q False s'"
  shows "wp (run_loop n (relay_round (session_select env) (MySQLPipeline_upstream env R (CMySQLHandler R))
       (MySQLPipeline_downstream env (CMySQLHandler R)) (\<lambda>s. \<not> has_error s))) Q E s"
proof -
  have "my_taking R env rest cs s"
    using assms(1-6) by (auto simp: my_taking_def intro!: prepared_taking)
  then show ?thesis
    by (rule mysql_sure.loop_sure)
      (use assms(4) cs(2) in \<open>auto simp: my_taking_def prepared_def chunk_queries_def intro!: Q taking_served\<close>)
qed

section \<open>Sessions are served to the end\<close>

text \<open>C7: A PostgreSQL session with query logging when nothing fails: no socket operation, no id, no clock
  throws, the server stays up, the client sends its chunks and hangs up, and the first message of
  every chunk is whole, with a true length field. If the handshake succeeds, the session is served
  to the end: the pipeline returns within one round more than the client sends chunks, and by then
  it has taken all of them, passed on everything in both directions, and logged what the first
  message of each asks for (or, of a misread \<open>Parse\<close>, the statement name). If the handshake fails, no
  chunk is read. An exception leaves the pipeline only from a handshake that fails.\<close>

theorem postgresql_session_served:
  assumes "session_reliable env rest" and "be_reader R"
    and "list_all (\<lambda>b. b \<noteq> [] \<and> first_message_ok b) (rest w)" and "length (rest w) < rounds"
  shows "wp (PostgreSQLPipeline env R (Some (CPostgreSQLHandler R)) rounds)
     (\<lambda>running s. \<not> running \<and>
        (if fst (PostgreSQLHandshake env R (before_handshake env w)) = Inr 0
         then served (concat (map first_logged (rest w))) (rest w) (tr s) else client_chunks (tr s) = []))
     (\<lambda>_ s. fst (PostgreSQLHandshake env R (before_handshake env w)) \<noteq> Inr 0 \<and> client_chunks (tr s) = [])
     (initial_session (Raw Client) (Raw Target) w)"
proof -
  note start = prologue_sure [OF assms(1), of w]
  show ?thesis
    by (rule after_prologue, rule postgresql_opens, rule assms(1),
        rule serving_rule [OF postgresql_handshake_sure [OF assms(1) start [THEN conjunct2]]])
      (use assms(3,4) in \<open>auto simp: served_quiet unheard_def
         intro!: postgresql_loop_sure [OF assms(2,1)] closed_up\<close>)
qed

text \<open>C6: A MySQL session with query logging when nothing fails, as C7: no operation throws, the server
  stays up, the client sends chunks of whole packets and hangs up. If the handshake succeeds, without
  query attributes, the session is served to the end: the pipeline returns within one round more
  than the client sends chunks, and by then it has taken all of them, passed on everything in both
  directions, and logged the text (up to a NUL) of every query and every prepared statement in the
  stream. If the handshake fails, no chunk is read.\<close>

theorem mysql_session_served:
  assumes "session_reliable env rest" and "le_readers R" and "cstring_reader R"
    and "list_all (\<lambda>b. b \<noteq> [] \<and> chunk_ok b) (rest w)" and "length (rest w) < rounds"
  shows "wp (MySQLPipeline env R (Some (CMySQLHandler R)) rounds)
     (\<lambda>running s.
        if fst (MySQLHandshake env R (before_handshake env w)) = Inr 0
        then plain_context (ctx (thr (snd (MySQLHandshake env R (before_handshake env w))))) \<longrightarrow>
          \<not> running \<and> served (chunk_queries (concat (rest w))) (rest w) (tr s)
        else \<not> running \<and> client_chunks (tr s) = [])
     (\<lambda>_ s.
        if fst (MySQLHandshake env R (before_handshake env w)) = Inr 0
        then \<not> plain_context (ctx (thr (snd (MySQLHandshake env R (before_handshake env w)))))
        else client_chunks (tr s) = [])
     (initial_session (Raw Client) (Raw Target) w)" (is "wp _ ?Q ?E _")
proof -
  note start = prologue_sure [OF assms(1), of w]
  have any: "wp m (\<lambda>_ _. True) (\<lambda>_ _. True) s" for m :: "('b, 'c) cmd" and s
    by (simp add: wp_def split: prod.split sum.split)
  have asked: "concat (map chunk_queries (rest w)) = chunk_queries (concat (rest w))"
    using assms(4) by (intro chunk_queries_concat [symmetric]) (auto elim: list.pred_mono_strong)
  show ?thesis
  proof (rule after_prologue, rule mysql_opens, rule assms(1),
      rule serving_rule [OF mysql_handshake_sure [OF assms(1) start [THEN conjunct2]]])
    fix u assume hs: "MySQLHandshake env R (before_handshake env w) = (Inr 0, u)" "prepared rest (rest w) u"
    let ?loop = "run_loop rounds (relay_round (session_select env) (MySQLPipeline_upstream env R (CMySQLHandler R))
       (MySQLPipeline_downstream env (CMySQLHandler R)) (\<lambda>s. \<not> has_error s))"
    show "wp ?loop (\<lambda>running. wp (close_up env running) ?Q ?E) ?E u"
    proof (cases "plain_context (ctx (thr u))")
      case True
      with hs assms(4,5) show ?thesis
        by (intro mysql_loop_sure [OF assms(2,3,1)] closed_up) (auto simp: asked served_quiet)
    next
      case False
      with hs show ?thesis
        by (intro wp_mono [OF any]) (auto intro: wp_mono [OF any])
    qed
  qed (auto simp: unheard_def intro!: closed_up)
qed

section \<open>Sessions, for examples\<close>

text \<open>The client that negotiates protocol 4.1 and nothing else, before a server that stays up.\<close>

definition plain_talk :: "script env" where
  "plain_talk = plain_client\<lparr>x_receive := x_receive talkative\<rparr>"

lemma plain_talk_reliable: "session_reliable plain_talk fst"
  by (auto simp: session_reliable_def reliable_def smooth_def plain_talk_def plain_client_def talkative_def scripted_def)

definition query_message :: string where
  "query_message = MsgTypeQuery # be_bytes 4 13 @ ''SELECT 1'' @ [nul]"

lemma query_message_ok: "first_message_ok query_message"
  by (simp add: first_message_ok_def query_message_def be_value_def MsgTypeQuery_def MsgTypeParse_def
    be_bytes_def le_value_bytes)

text \<open>Its handshakes succeed.\<close>

lemma talk_env: "x_recv_blocking plain_talk k n w = (Inr (\<lambda>i. if n = 4 then (if i = 0 then CHR 0x02 else nul) else if i = 1 then CHR 0x02 else nul), w)"
  "x_send plain_talk k b w = (Inr (), w)"
  by (simp_all add: plain_talk_def plain_client_def scripted_def)

lemma talk_shakes:
  assumes "client_socket s = Raw Client" "target_socket s = Raw Target"
  shows "fst (MySQLHandshake plain_talk sample_readers s) = Inr 0
    \<and> plain_context (ctx (thr (snd (MySQLHandshake plain_talk sample_readers s))))"
    "fst (PostgreSQLHandshake plain_talk sample_readers s) = Inr 0"
  using assms
  by (simp_all add: MySQLHandshake_def PostgreSQLHandshake_def handshake_effects recv_blocking_def cmd_defs on_thread_def
      effect_run_defs talk_env plain_bytes plain_readers plain_caps plain_context_def Let_def sample_readers_def byte_def)

lemma prologue_sockets:
  "client_socket (before_handshake plain_talk w) = Raw Client" "target_socket (before_handshake plain_talk w) = Raw Target"
  by (simp_all add: before_handshake_def prologue_def session_prologue_defs cmd_defs on_thread_def effect_run_defs
      plain_talk_def plain_client_def scripted_def)

lemma postgresql_session_served_witness:
  "wp (PostgreSQLPipeline plain_talk sample_readers (Some (CPostgreSQLHandler sample_readers)) 3)
     (\<lambda>running s. \<not> running \<and> served [''SELECT 1'', ''SELECT 1''] [query_message, query_message] (tr s))
     (\<lambda>_ _. False) (initial_session (Raw Client) (Raw Target) ([query_message, query_message], []))"
proof -
  have "first_logged query_message = [''SELECT 1'']"
    by (simp add: first_logged_def misread_def first_query_def query_message_def MsgTypeQuery_def MsgTypeParse_def be_bytes_def)
  then show ?thesis
    using postgresql_session_served [OF plain_talk_reliable sample_be_reader, of "([query_message, query_message], [])" 3]
    by (simp add: query_message_ok talk_shakes(2) [OF prologue_sockets]) (simp add: query_message_def)
qed

lemma select_1_ok: "chunk_ok select_1"
  by (simp add: chunk_ok_def whole_packet_def split_packets.simps packet_size_def byte_def numeral_3_eq_3 select_1_def)

lemma mysql_session_served_witness:
  "wp (MySQLPipeline plain_talk sample_readers (Some (CMySQLHandler sample_readers)) 3)
     (\<lambda>running s. \<not> running \<and> served (chunk_queries (select_1 @ select_1)) [select_1, select_1] (tr s))
     (\<lambda>_ _. False) (initial_session (Raw Client) (Raw Target) ([select_1, select_1], []))"
  using mysql_session_served [OF plain_talk_reliable sample_le_readers sample_cstring_reader, of "([select_1, select_1], [])" 3]
  by (simp add: select_1_ok select_1_size talk_shakes(1) [OF prologue_sockets])

end
