(* ===== verification/Protocol_Constants.thy ===== *)
theory Protocol_Constants
  imports Session_Pipelines Other_Handlers MySQL_Handler
begin

unbundle bit_operations_syntax

text \<open>
  The enumerations of \<open>src/CMySQLHandler.h\<close> and \<open>src/CMongoDBHandler.h\<close> with their values.
  Capability flags are one bit each: a 32-bit word of capabilities is a set of flags and
  nothing else, and the constants that the pipelines define a second time agree with them.
  (Enumerators that other theories model as constants, or whose names are taken, carry the suffix
  \<open>_flag\<close>, \<open>_code\<close> or \<open>_type\<close>.)
\<close>

section \<open>Capabilities of a MySQL client\<close>

datatype MySQLCapabalities =
    CLIENT_LONG_PASSWORD | CLIENT_FOUND_ROWS | CLIENT_LONG_FLAG | CLIENT_CONNECT_WITH_DB
    | CLIENT_NO_SCHEMA | CLIENT_COMPRESS | CLIENT_ODBC | CLIENT_LOCAL_FILES
    | CLIENT_IGNORE_SPACE | CLIENT_PROTOCOL_41_flag | CLIENT_INTERACTIVE | CLIENT_SSL_flag
    | CLIENT_IGNORE_SIGPIPE | CLIENT_TRANSACTIONS | CLIENT_RESERVED | CLIENT_RESERVED2
    | CLIENT_MULTI_STATEMENTS | CLIENT_MULTI_RESULTS | CLIENT_PS_MULTI_RESULTS
    | CLIENT_PLUGIN_AUTH | CLIENT_CONNECT_ATTRS | CLIENT_PLUGIN_AUTH_LENENC_CLIENT_DATA
    | CLIENT_CAN_HANDLE_EXPIRED_PASSWORDS | CLIENT_SESSION_TRACK | CLIENT_DEPRECATE_EOF
    | CLIENT_OPTIONAL_RESULTSET_METADATA | CLIENT_ZSTD_COMPRESSION_ALGORITHM
    | CLIENT_QUERY_ATTRIBUTES_flag | MULTI_FACTOR_AUTHENTICATION | CLIENT_CAPABILITY_EXTENSION
    | CLIENT_SSL_VERIFY_SERVER_CERT | CLIENT_REMEMBER_OPTIONS

text \<open>The \<open>n\<close> of \<open>1 << n\<close>.\<close>

primrec flag_position :: "MySQLCapabalities \<Rightarrow> nat" where
  "flag_position CLIENT_LONG_PASSWORD = 0"
| "flag_position CLIENT_FOUND_ROWS = 1"
| "flag_position CLIENT_LONG_FLAG = 2"
| "flag_position CLIENT_CONNECT_WITH_DB = 3"
| "flag_position CLIENT_NO_SCHEMA = 4"
| "flag_position CLIENT_COMPRESS = 5"
| "flag_position CLIENT_ODBC = 6"
| "flag_position CLIENT_LOCAL_FILES = 7"
| "flag_position CLIENT_IGNORE_SPACE = 8"
| "flag_position CLIENT_PROTOCOL_41_flag = 9"
| "flag_position CLIENT_INTERACTIVE = 10"
| "flag_position CLIENT_SSL_flag = 11"
| "flag_position CLIENT_IGNORE_SIGPIPE = 12"
| "flag_position CLIENT_TRANSACTIONS = 13"
| "flag_position CLIENT_RESERVED = 14"
| "flag_position CLIENT_RESERVED2 = 15"
| "flag_position CLIENT_MULTI_STATEMENTS = 16"
| "flag_position CLIENT_MULTI_RESULTS = 17"
| "flag_position CLIENT_PS_MULTI_RESULTS = 18"
| "flag_position CLIENT_PLUGIN_AUTH = 19"
| "flag_position CLIENT_CONNECT_ATTRS = 20"
| "flag_position CLIENT_PLUGIN_AUTH_LENENC_CLIENT_DATA = 21"
| "flag_position CLIENT_CAN_HANDLE_EXPIRED_PASSWORDS = 22"
| "flag_position CLIENT_SESSION_TRACK = 23"
| "flag_position CLIENT_DEPRECATE_EOF = 24"
| "flag_position CLIENT_OPTIONAL_RESULTSET_METADATA = 25"
| "flag_position CLIENT_ZSTD_COMPRESSION_ALGORITHM = 26"
| "flag_position CLIENT_QUERY_ATTRIBUTES_flag = 27"
| "flag_position MULTI_FACTOR_AUTHENTICATION = 28"
| "flag_position CLIENT_CAPABILITY_EXTENSION = 29"
| "flag_position CLIENT_SSL_VERIFY_SERVER_CERT = 30"
| "flag_position CLIENT_REMEMBER_OPTIONS = 31"

definition flag_value :: "MySQLCapabalities \<Rightarrow> 32 word" where
  "flag_value c = push_bit (flag_position c) 1"

text \<open>\<open>capabilities & flag\<close>, the test of the code, and the words a client can send.\<close>

definition has_capability :: "32 word \<Rightarrow> MySQLCapabalities \<Rightarrow> bool" where
  "has_capability capabilities c \<longleftrightarrow> capabilities AND flag_value c \<noteq> 0"

definition all_flags :: "MySQLCapabalities list" where
  "all_flags =
     [CLIENT_LONG_PASSWORD, CLIENT_FOUND_ROWS, CLIENT_LONG_FLAG, CLIENT_CONNECT_WITH_DB
      , CLIENT_NO_SCHEMA, CLIENT_COMPRESS, CLIENT_ODBC, CLIENT_LOCAL_FILES, CLIENT_IGNORE_SPACE
      , CLIENT_PROTOCOL_41_flag, CLIENT_INTERACTIVE, CLIENT_SSL_flag, CLIENT_IGNORE_SIGPIPE
      , CLIENT_TRANSACTIONS, CLIENT_RESERVED, CLIENT_RESERVED2, CLIENT_MULTI_STATEMENTS
      , CLIENT_MULTI_RESULTS, CLIENT_PS_MULTI_RESULTS, CLIENT_PLUGIN_AUTH, CLIENT_CONNECT_ATTRS
      , CLIENT_PLUGIN_AUTH_LENENC_CLIENT_DATA, CLIENT_CAN_HANDLE_EXPIRED_PASSWORDS
      , CLIENT_SESSION_TRACK, CLIENT_DEPRECATE_EOF, CLIENT_OPTIONAL_RESULTSET_METADATA
      , CLIENT_ZSTD_COMPRESSION_ALGORITHM, CLIENT_QUERY_ATTRIBUTES_flag
      , MULTI_FACTOR_AUTHENTICATION, CLIENT_CAPABILITY_EXTENSION, CLIENT_SSL_VERIFY_SERVER_CERT
      , CLIENT_REMEMBER_OPTIONS]"

definition capabilities_of :: "MySQLCapabalities list \<Rightarrow> 32 word" where
  "capabilities_of cs = foldr (\<lambda>c v. flag_value c OR v) cs 0"

definition flags_in :: "32 word \<Rightarrow> MySQLCapabalities list" where
  "flags_in v = List.filter (has_capability v) all_flags"

lemma flag_at: "flag_position c < 32" "all_flags ! flag_position c = c"
  by (cases c; simp add: all_flags_def)+

lemma flag_position_eq [simp]: "flag_position c = flag_position d \<longleftrightarrow> c = d"
  using flag_at(2) by metis

lemma flag_of_position: "n < 32 \<Longrightarrow> \<exists>c. flag_position c = n"
proof -
  have "map flag_position all_flags = [0..<32]" by (simp add: all_flags_def upt_rec)
  moreover assume "n < 32"
  ultimately have "n \<in> set (map flag_position all_flags)" by simp
  then show ?thesis by auto
qed

lemma all_flags_complete: "c \<in> set all_flags"
  by (cases c; simp add: all_flags_def)

lemma all_flags_distinct: "distinct all_flags"
  by (simp add: all_flags_def)

text \<open>The library's class for types that can be listed: quantifiers over flags compute.\<close>

instantiation MySQLCapabalities :: enum
begin

definition enum_MySQLCapabalities :: "MySQLCapabalities list" where
  "enum_MySQLCapabalities = all_flags"

definition enum_all_MySQLCapabalities :: "(MySQLCapabalities \<Rightarrow> bool) \<Rightarrow> bool" where
  "enum_all_MySQLCapabalities P = list_all P all_flags"

definition enum_ex_MySQLCapabalities :: "(MySQLCapabalities \<Rightarrow> bool) \<Rightarrow> bool" where
  "enum_ex_MySQLCapabalities P = list_ex P all_flags"

instance
  by standard
    (auto simp: enum_MySQLCapabalities_def enum_all_MySQLCapabalities_def enum_ex_MySQLCapabalities_def
      list_all_iff list_ex_iff all_flags_complete all_flags_distinct)

end

lemma bit_flag_value: "bit (flag_value c) n \<longleftrightarrow> n = flag_position c"
  using flag_at(1) [of c] by (auto simp: flag_value_def bit_simps)

lemma has_capability_bit: "has_capability v c \<longleftrightarrow> bit v (flag_position c)"
  unfolding has_capability_def bit_eq_iff [of "v AND flag_value c"]
  using flag_at(1) [of c] by (auto simp: bit_simps bit_flag_value)

lemma bit_capabilities_of: "bit (capabilities_of cs) n \<longleftrightarrow> (\<exists>c \<in> set cs. n = flag_position c)"
  by (induction cs) (auto simp: capabilities_of_def bit_simps bit_flag_value)

text \<open>The test of the code finds exactly the flags that were set, and no other bit is in the word.\<close>

lemma capabilities_roundtrip:
  "set (flags_in (capabilities_of cs)) = set cs" "capabilities_of (flags_in v) = v"
proof -
  show "set (flags_in (capabilities_of cs)) = set cs"
    by (auto simp: flags_in_def has_capability_bit bit_capabilities_of all_flags_complete)
  show "capabilities_of (flags_in v) = v"
  proof (rule bit_word_eqI)
    fix n assume "n < LENGTH(32)"
    then obtain c where "flag_position c = n" using flag_of_position [of n] by auto
    then show "bit (capabilities_of (flags_in v)) n \<longleftrightarrow> bit v n"
      by (auto simp: bit_capabilities_of flags_in_def has_capability_bit all_flags_complete)
  qed
qed

text \<open>The constants of the other files.\<close>

lemma capability_constants:
  "CLIENT_PROTOCOL_41 = flag_value CLIENT_PROTOCOL_41_flag" "CLIENT_SSL = flag_value CLIENT_SSL_flag"
  "CLIENT_QUERY_ATTRIBUTES = flag_value CLIENT_QUERY_ATTRIBUTES_flag"
  by (simp_all add: flag_value_def CLIENT_PROTOCOL_41_def CLIENT_SSL_def CLIENT_QUERY_ATTRIBUTES_def)

section \<open>Operations and types of MongoDB\<close>

datatype MongoDbOpCode =
    OP_REPLY | DB_MSG | OP_UPDATE | OP_INSERT | RESERVED | OP_QUERY | OP_GET_MORE | OP_DELETE
    | OP_KILL_CURSORS | OP_COMMAND | OP_COMMANDREPLY | OP_COMPRESSED | OP_MSG_code

primrec op_code :: "MongoDbOpCode \<Rightarrow> int" where
  "op_code OP_REPLY = 1"
| "op_code DB_MSG = 1000"
| "op_code OP_UPDATE = 2001"
| "op_code OP_INSERT = 2002"
| "op_code RESERVED = 2003"
| "op_code OP_QUERY = 2004"
| "op_code OP_GET_MORE = 2005"
| "op_code OP_DELETE = 2006"
| "op_code OP_KILL_CURSORS = 2007"
| "op_code OP_COMMAND = 2010"
| "op_code OP_COMMANDREPLY = 2011"
| "op_code OP_COMPRESSED = 2012"
| "op_code OP_MSG_code = 2013"

lemma op_code_eq: "op_code c = op_code d \<longleftrightarrow> c = d"
  by (cases c; cases d; simp)

lemma op_msg_code: "OP_MSG = of_int (op_code OP_MSG_code)"
  by (simp add: OP_MSG_def)

datatype BSONType =
    MinKey | EOO | NumberDouble | String_type | Object_type | Array_type | BinData
    | Undefined_type | jstOID | Bool_type | Date_type | jstNULL | RegEx | DBRef | Code_type
    | Symbol_type | CodeWScope | NumberInt | bsonTimestamp | NumberLong | NumberDecimal
    | JSTypeMax | MaxKey

primrec bson_code :: "BSONType \<Rightarrow> int" where
  "bson_code MinKey = - 1"
| "bson_code EOO = 0"
| "bson_code NumberDouble = 1"
| "bson_code String_type = 2"
| "bson_code Object_type = 3"
| "bson_code Array_type = 4"
| "bson_code BinData = 5"
| "bson_code Undefined_type = 6"
| "bson_code jstOID = 7"
| "bson_code Bool_type = 8"
| "bson_code Date_type = 9"
| "bson_code jstNULL = 10"
| "bson_code RegEx = 11"
| "bson_code DBRef = 12"
| "bson_code Code_type = 13"
| "bson_code Symbol_type = 14"
| "bson_code CodeWScope = 15"
| "bson_code NumberInt = 16"
| "bson_code bsonTimestamp = 17"
| "bson_code NumberLong = 18"
| "bson_code NumberDecimal = 19"
| "bson_code JSTypeMax = 19"
| "bson_code MaxKey = 127"

text \<open>The order of the values is that of the types, with \<open>JSTypeMax\<close> a second name of the last one.\<close>

lemma bson_code_bounds: "bson_code MinKey \<le> bson_code t \<and> bson_code t \<le> bson_code MaxKey"
  by (cases t; simp)

lemma bson_code_max: "t \<noteq> MaxKey \<Longrightarrow> bson_code t \<le> bson_code JSTypeMax"
  by (cases t; simp)

end
