(* ===== verification/Spec2Isabelle.thy ===== *)
theory Spec2Isabelle
  imports Session_Safety Session_Termination Proxy_Termination Http_Redirect_Termination Protocol_Safety Request_Safety Stream_Safety Libuv_Safety Response_Log Context_Types Network_View MySQL_Audit PostgreSQL_Audit Delivery Session_Delivery Protocol_Constants
begin

text \<open>
  \<^bold>\<open>A verification library for asabru-handlers.\<close>

  The repository holds the plug-ins of a database proxy: \<^emph>\<open>handlers\<close>, which look into the
  bytes a client sends to a database server and log the queries they find, and \<^emph>\<open>pipelines\<close>,
  the functions the engine runs on a thread per connection, which open the target, relay both
  directions through a handler and release the sockets. The engine itself (sockets,
  \<open>SocketSelect\<close>, load balancer, HTTP message class, JSON, gzip, packet parser, clock, UUIDs)
  is another repository: it is the parameter of every definition that calls it.

  \<^bold>\<open>Parts and theories.\<close> Paths are relative to \<open>src/\<close> of the repository.

  \<^item> \<open>Cxx_Prelude\<close>: outcomes of C++ code (a value, a thrown exception, undefined behaviour),
    computations over a mutable state (\<open>bindM\<close>, \<open>tryM\<close> for \<open>catch (std::exception &)\<close>,
    \<open>run_loop\<close> for \<open>while (true)\<close>), weakest preconditions with the rule collections
    \<open>wp_simps\<close> and \<open>vcg\<close>, the rules for loops (invariant and measure), the operations of
    \<open>std::string\<close> and of fixed-width integers.
  \<^item> \<open>Byte_Readers\<close>: the interface of \<open>ProtocolHelper\<close>'s integer readers, with the laws the
    protocol handlers rely on.
  \<^item> \<open>Proxy_Runtime\<close>: the environment \<open>'w env\<close> of a thread, the trace of what it does to the
    outside, the execution context, and the interface \<open>CProxyHandler\<close> as the locales
    \<open>proxy_contract\<close> (a handler touches no socket and logs under the current correlation id)
    and \<open>transparent_handler\<close> (it also forwards verbatim).
  \<^item> \<open>MySQL_Handler\<close>, \<open>PostgreSQL_Handler\<close>, \<open>Other_Handlers\<close>: the handlers of
    \<open>CMySQLHandler.cpp\<close>, \<open>CPostgreSQLHandler.cpp\<close>, and \<open>BaseProxyHandler.h\<close>,
    \<open>CMongoDBHandler.cpp\<close>, \<open>CHttpHandler.cpp\<close>, \<open>CHttpsHandler.cpp\<close>,
    \<open>CSnowflakeHttpHandler.cpp\<close>, \<open>GzipHandler.cpp\<close>, \<open>CHWirePTHandler.cpp\<close>; each
    interprets one of the two locales.
  \<^item> \<open>Relay\<close>: the shape of a relay round and the contracts of its halves as locales
    (\<open>tunnel\<close>, \<open>lossy_relay\<close>, \<open>relay\<close>, \<open>draining\<close>), with the theorems about the loop.
  \<^item> \<open>Proxy_Pipelines\<close>: \<open>DefaultProxyPipeline.cpp\<close>, \<open>ClickHousePipeline.cpp\<close>,
    \<open>PassthroughPipeline.cpp\<close> and the three \<open>ClickHouseTLS*Pipeline.cpp\<close>; \<open>Proxy_Flow\<close>
    derives the relay locales from the handler locales, \<open>Proxy_Safety\<close> and
    \<open>Proxy_Termination\<close> hold the theorems about whole threads.
  \<^item> \<open>Session_Pipelines\<close>, \<open>Session_Flow\<close>, \<open>Session_Safety\<close>, \<open>Session_Termination\<close>:
    \<open>MySQLPipeline.cpp\<close> and \<open>PostgreSQLPipeline.cpp\<close>, with their handshakes, TLS upgrade and packet splitting.
  \<^item> \<open>Http_Redirect\<close>, \<open>Http_Redirect_Safety\<close>, \<open>Http_Redirect_Termination\<close>:
    \<open>HttpRedirectPipeline.cpp\<close>, the gateway that picks a target per request.
  \<^item> \<open>Handler_Family\<close>: the handlers together, with the contract each keeps.
  \<^item> \<open>Protocol_Server\<close>, \<open>Protocol_Safety\<close>: connections the engine answers itself:
    \<open>CHttpProtocolHandler.cpp\<close>, \<open>PingHandler.cpp\<close>, \<open>CProtocolPipeline.cpp\<close>; the locale
    \<open>answering_handler\<close> is what the pipeline relies on.
  \<^item> \<open>Text_Streams\<close>, \<open>Request_Commands\<close>, \<open>Request_Safety\<close>: the computation commands of
    \<open>request-handlers\<close>, with the parts of the standard library they use on strings and files.
  \<^item> \<open>Stream_Pipeline\<close>, \<open>Stream_Safety\<close>: the file transfer of \<open>CStreamPipeline.cpp\<close>, with the
    buffer of its \<open>FILE\<close>, against a specification by the layout of the packets.
  \<^item> \<open>Libuv_Pipeline\<close>, \<open>Libuv_Safety\<close>: \<open>ClickHouseLibuvPipeline.cpp\<close>, its callbacks as
    functions with what they allocate, free and leave to libuv on the stack, and libuv's loop as
    an inductive step relation that calls them.
  \<^item> \<open>Response_Log\<close>: \<open>BaseProxyHandler::LogResponse\<close>, as a function to what it prints.
  \<^item> \<open>Packet_Stream\<close>: a reference for the splitting of MySQL packets, and its equivalence with the code.
  \<^item> \<open>Query_Audit\<close>, \<open>MySQL_Audit\<close>, \<open>PostgreSQL_Audit\<close>: session pipeline and handler together:
    the query log against what the client asked. \<open>Query_Audit\<close> holds the locale \<open>auditor\<close>, which
    \<open>MySQL_Audit\<close> and \<open>PostgreSQL_Audit\<close> interpret on the two pipelines.
  \<^item> \<open>Stable_Rules\<close>, \<open>Context_Types\<close>: rules for facts that no effect destroys, and the types of
    the entries of the execution context, kept by all pipelines and handlers.
  \<^item> \<open>Two_Runs\<close>, \<open>Network_View\<close>: a relational weakest precondition for two runs side by side;
    the locale \<open>monitor\<close> of the handlers that only look, interpreted on the MongoDB, HTTPS,
    MySQL and PostgreSQL handlers: the
    network cannot tell them from \<open>BaseProxyHandler\<close> while they do not fail (the MySQL handler
    always fails outside its own pipeline).
  \<^item> \<open>Delivery\<close>: worlds where nothing fails, and the locale \<open>faultless\<close> of loops in them,
    interpreted on the default and the passthrough pipeline: everything arrives.
    \<open>Session_Delivery\<close> interprets it on the MySQL and the PostgreSQL pipeline with their
    handlers: a session whose handshake succeeds is served to the end and logged completely.
  \<^item> \<open>Protocol_Constants\<close>: the enumerations of \<open>CMySQLHandler.h\<close> and \<open>CMongoDBHandler.h\<close>;
    a word of capabilities is a set of flags.
  \<^item> \<open>World_Rules\<close>, \<open>Hang_Up\<close>, \<open>Scripted_World\<close>: rules for proofs that follow a measure of
    the outside world, clients that hang up, and a concrete world for examples.

  \<^bold>\<open>State and operations.\<close> A pipeline is one definition of the name of its C++ function; the
  local variables of that function are the fields of a record (\<open>conn\<close> and its extensions
  \<open>proxy\<close>, \<open>session\<close>, \<open>redirect\<close>), the two \<open>if (sel.Readable(...))\<close> blocks of the loop
  body are its \<open>_upstream\<close> and \<open>_downstream\<close> halves. A handler's methods carry the name
  \<open>Class_Method\<close>. Every effect appends to the trace of the thread, so that what a client or a
  target was sent, which sockets were opened and deleted, and what was logged are functions of
  the trace, and a theorem about the trace holds in every environment.

  \<^bold>\<open>What the lemmas show.\<close> Streams are passed on in order and without loss by the pipelines
  that stop at a failed send, and without forgery by those that drop; sockets are used only
  while alive and released exactly once (or which of them leak); every log line carries the
  correlation id of its request and each id is measured once; queries are extracted exactly
  (or what is logged instead is stated);
  packets are split without loss, as by the reference; over whole sessions the query log holds what
  was asked, once and in order; entries of the execution context keep their types; a handler that
  only looks is not seen by the network; loops end once the client hangs up, and
  when nothing fails, everything has arrived by then. Where the code departs
  from this, the departure itself is a theorem (loops that spin, exceptions that escape with
  the sockets open, queries misread, packets indexed past their end).

  \<^bold>\<open>Budgets.\<close> A \<open>while (true)\<close> loop is run for a number of rounds that is an argument of the
  definition; its result says whether it was still running then. Safety theorems hold for every
  budget. Termination theorems give the budget that is enough: one round more than the chunks
  the client still sends, and 5002 polls for an answer of the gateway. Skipping query attributes
  and splitting packets are total functions with a measure, hence need no budget.

  \<^bold>\<open>Not modelled.\<close> Writes to the information log and to \<open>std::cout\<close>; the factory functions
  (\<open>extern "C" create...\<close>, \<open>destroy...\<close>); memory exhaustion, but for the allocations of the libuv pipeline; the lifetime of the TLS wrappers'
  inner state. Regular expression matching is a parameter, although it is part
  of the standard library; so is what the operating system makes of a path. Of libuv, the run of \<open>uv_close\<close> callbacks
  is not modelled: the pipeline passes none.
\<close>

end
